(* ===== verification/Prelude.thy ===== *)
theory Prelude
  imports Main "HOL-Library.AList"
begin

text \<open>
  Shared material of the development: the lemma collections, the C++ integer conversions the
  sources rely on, facts on lists and sums used by more than one component, and the interface of
  a component whose behaviour is given by steps and an invariant.
\<close>

named_theorems db_defs \<open>unfolding rules of the database operations\<close>
named_theorems tx_simps \<open>how each operation acts on an idle database\<close>
named_theorems ledger_intros \<open>steps that keep the goods ledger\<close>

section \<open>Integer conversions\<close>

text \<open>
  \<open>static_cast<int>\<close> of a 64-bit value keeps the low 32 bits as a two's complement number;
  the conversion of a negative \<open>int\<close> to \<open>uint64_t\<close> adds \<open>2^64\<close>.
\<close>

definition to_int32 :: "int \<Rightarrow> int" where
  "to_int32 x = (x + 2 ^ 31) mod 2 ^ 32 - 2 ^ 31"

definition to_uint64 :: "int \<Rightarrow> int" where
  "to_uint64 x = x mod 2 ^ 64"

definition to_int64 :: "int \<Rightarrow> int" where
  "to_int64 x = (x + 2 ^ 63) mod 2 ^ 64 - 2 ^ 63"

lemma to_int32_id [simp]: "- (2 ^ 31) \<le> x \<Longrightarrow> x < 2 ^ 31 \<Longrightarrow> to_int32 x = x"
  by (simp add: to_int32_def)

lemma to_int32_bounds: "- (2 ^ 31) \<le> to_int32 x" "to_int32 x < 2 ^ 31"
  by (simp_all add: to_int32_def)

lemma to_int32_fixpoint: "to_int32 x = x \<longleftrightarrow> - (2 ^ 31) \<le> x \<and> x < 2 ^ 31"
  using to_int32_bounds [of x] by (metis to_int32_id)

lemma to_uint64_id [simp]: "0 \<le> x \<Longrightarrow> x < 2 ^ 64 \<Longrightarrow> to_uint64 x = x"
  by (simp add: to_uint64_def)

lemma to_int64_id [simp]: "- (2 ^ 63) \<le> x \<Longrightarrow> x < 2 ^ 63 \<Longrightarrow> to_int64 x = x"
  by (simp add: to_int64_def)

text \<open>\<open>std::to_string\<close> of an integer.\<close>

fun digits :: "nat \<Rightarrow> string" where
  "digits n = (if n < 10 then [char_of (48 + n)] else digits (n div 10) @ [char_of (48 + n mod 10)])"

declare digits.simps [simp del]

definition to_string :: "int \<Rightarrow> string" where
  "to_string x = (if x < 0 then CHR ''-'' # digits (nat (- x)) else digits (nat x))"

section \<open>Lists and sums\<close>

lemma sum_list_nonneg_weight:
  fixes w :: "'a \<Rightarrow> int"
  shows "\<forall>x\<in>set xs. 0 \<le> w x \<Longrightarrow> 0 \<le> (\<Sum>x\<leftarrow>xs. w x)"
  by (induction xs) auto

lemma sum_list_ge_member:
  fixes w :: "'a \<Rightarrow> int"
  assumes "\<forall>x\<in>set xs. 0 \<le> w x" and "a \<in> set xs"
  shows "w a \<le> (\<Sum>x\<leftarrow>xs. w x)"
  using assms
proof (induction xs)
  case Nil
  then show ?case by simp
next
  case (Cons x xs)
  have tl: "0 \<le> (\<Sum>x\<leftarrow>xs. w x)"
    using Cons.prems(1) by (intro sum_list_nonneg_weight) simp
  show ?case
  proof (cases "a = x")
    case True
    with tl show ?thesis by simp
  next
    case False
    with Cons have "w a \<le> (\<Sum>x\<leftarrow>xs. w x)" by simp
    with Cons.prems(1) show ?thesis by simp
  qed
qed

text \<open>Updating the one element with a given key changes a sum by that element's weights only.\<close>

lemma sum_list_update_unique:
  fixes w :: "'a \<Rightarrow> int"
  assumes "distinct (map key xs)" and "a \<in> set xs"
  shows "(\<Sum>x\<leftarrow>map (\<lambda>x. if key x = key a then f x else x) xs. w x)
       = (\<Sum>x\<leftarrow>xs. w x) - w a + w (f a)"
  using assms
proof (induction xs)
  case Nil
  then show ?case by simp
next
  case (Cons x xs)
  show ?case
  proof (cases "a = x")
    case True
    have "map (\<lambda>y. if key y = key a then f y else y) xs = xs"
      using Cons.prems(1) True by (intro map_idI) (auto simp: image_iff)
    with True show ?thesis by simp
  next
    case False
    with Cons.prems have "a \<in> set xs" and "key x \<noteq> key a" by (auto simp: image_iff)
    with Cons show ?thesis by simp
  qed
qed

lemma distinct_map_inj_on_member:
  "distinct (map key xs) \<Longrightarrow> x \<in> set xs \<Longrightarrow> y \<in> set xs \<Longrightarrow> key x = key y \<Longrightarrow> x = y"
  by (auto simp: distinct_map dest: inj_onD)

lemma map_key_if:
  "(\<And>x. key (f x) = key x) \<Longrightarrow> map key (map (\<lambda>x. if P x then f x else x) xs) = map key xs"
  by (simp add: comp_def)

lemma find_map_same:
  "(\<And>x. P (f x) = P x) \<Longrightarrow> find P (map f xs) = map_option f (find P xs)"
  by (induction xs) auto

lemma find_cong_key: "find P xs = Some x \<Longrightarrow> P x"
  by (auto simp: find_Some_iff)

lemma find_Some_member: "find P xs = Some x \<Longrightarrow> x \<in> set xs \<and> P x"
  by (auto simp: find_Some_iff)

section \<open>Systems of steps with an invariant\<close>

text \<open>
  The contract of a component that evolves by steps: the start states satisfy the invariant and
  every step keeps it. The client's lemma is that every state reached satisfies it.
\<close>

locale stepping =
  fixes init :: "'s \<Rightarrow> bool"
    and step :: "'s \<Rightarrow> 's \<Rightarrow> bool"
    and inv :: "'s \<Rightarrow> bool"
  assumes inv_init: "init s \<Longrightarrow> inv s"
    and inv_step: "inv s \<Longrightarrow> step s t \<Longrightarrow> inv t"
begin

lemma run_keeps: "step\<^sup>*\<^sup>* s t \<Longrightarrow> inv s \<Longrightarrow> inv t"
  by (induction rule: rtranclp_induct) (auto intro: inv_step)

lemma reached: "init s \<Longrightarrow> step\<^sup>*\<^sup>* s t \<Longrightarrow> inv t"
  by (blast intro: run_keeps inv_init)

end

end
