(* ===== verification/Json.thy ===== *)
theory Json
  imports Complex_Main Prelude
begin

text \<open>
  JSON documents as the nlohmann library presents them to the sources. A payload is carried as
  the document it holds; text that \<open>json::parse\<close> rejects is \<open>None\<close>. Exceptions of the accessors
  (\<open>type_error\<close>, \<open>parse_error\<close>) are \<open>Inl\<close>, and a handler's \<open>try\<close>/\<open>catch\<close> is a case split on the
  result. Doubles are mathematical reals: the sources only copy and compare them.
\<close>

datatype json =
    JNull
  | JBool bool
  | JInt int
  | JReal real
  | JStr string
  | JArr "json list"
  | JObj "(string \<times> json) list"

datatype json_error = ParseError | TypeError

type_synonym 'a result = "json_error + 'a"

definition bind_result :: "'a result \<Rightarrow> ('a \<Rightarrow> 'b result) \<Rightarrow> 'b result" where
  "bind_result r f = (case r of Inl e \<Rightarrow> Inl e | Inr x \<Rightarrow> f x)"

lemma bind_result_simps [simp]:
  "bind_result (Inl e) f = Inl e"
  "bind_result (Inr x) f = f x"
  by (simp_all add: bind_result_def)

lemma bind_result_Inr_iff:
  "bind_result r f = Inr y \<longleftrightarrow> (\<exists>x. r = Inr x \<and> f x = Inr y)"
  by (cases r) auto

section \<open>Accessors of the library\<close>

text \<open>\<open>json::parse\<close>, \<open>contains(key)\<close> and \<open>is_array()\<close>.\<close>

definition parse :: "json option \<Rightarrow> json result" where
  "parse payload = (case payload of None \<Rightarrow> Inl ParseError | Some j \<Rightarrow> Inr j)"

definition member :: "json \<Rightarrow> string \<Rightarrow> json option" where
  "member j key = (case j of JObj kvs \<Rightarrow> map_of kvs key | _ \<Rightarrow> None)"

definition contains :: "json \<Rightarrow> string \<Rightarrow> bool" where
  "contains j key \<longleftrightarrow> member j key \<noteq> None"

text \<open>
  \<open>j["key"]\<close> on a document that is not constant: a missing key of an object is created as null,
  and so is one of null itself, which turns into an object; on any other kind it throws.
\<close>

definition subscript :: "json \<Rightarrow> string \<Rightarrow> json result" where
  "subscript j key =
     (case j of
        JObj kvs \<Rightarrow> Inr (case map_of kvs key of None \<Rightarrow> JNull | Some v \<Rightarrow> v)
      | JNull \<Rightarrow> Inr JNull
      | _ \<Rightarrow> Inl TypeError)"

text \<open>The conversions \<open>get<T>()\<close>: \<open>int\<close> also reads a boolean, the others do not.\<close>

definition trunc_real :: "real \<Rightarrow> int" where
  "trunc_real r = (if r < 0 then \<lceil>r\<rceil> else \<lfloor>r\<rfloor>)"

definition get_string :: "json \<Rightarrow> string result" where
  "get_string j = (case j of JStr s \<Rightarrow> Inr s | _ \<Rightarrow> Inl TypeError)"

definition get_bool :: "json \<Rightarrow> bool result" where
  "get_bool j = (case j of JBool b \<Rightarrow> Inr b | _ \<Rightarrow> Inl TypeError)"

definition get_int :: "json \<Rightarrow> int result" where
  "get_int j = (case j of JInt n \<Rightarrow> Inr (to_int32 n) | JReal r \<Rightarrow> Inr (to_int32 (trunc_real r))
     | JBool b \<Rightarrow> Inr (if b then 1 else 0) | _ \<Rightarrow> Inl TypeError)"

definition get_uint64 :: "json \<Rightarrow> int result" where
  "get_uint64 j = (case j of JInt n \<Rightarrow> Inr (to_uint64 n) | JReal r \<Rightarrow> Inr (to_uint64 (trunc_real r))
     | _ \<Rightarrow> Inl TypeError)"

definition get_double :: "json \<Rightarrow> real result" where
  "get_double j = (case j of JInt n \<Rightarrow> Inr (of_int n) | JReal r \<Rightarrow> Inr r | _ \<Rightarrow> Inl TypeError)"

text \<open>
  \<open>value(key, default)\<close> throws unless the document is an object; a missing key gives the default,
  a present one is converted.
\<close>

definition value_of :: "(json \<Rightarrow> 'a result) \<Rightarrow> json \<Rightarrow> string \<Rightarrow> 'a \<Rightarrow> 'a result" where
  "value_of get j key dflt =
     (case j of
        JObj kvs \<Rightarrow> (case map_of kvs key of None \<Rightarrow> Inr dflt | Some v \<Rightarrow> get v)
      | _ \<Rightarrow> Inl TypeError)"

abbreviation value_string :: "json \<Rightarrow> string \<Rightarrow> string \<Rightarrow> string result" where
  "value_string \<equiv> value_of get_string"

abbreviation value_int :: "json \<Rightarrow> string \<Rightarrow> int \<Rightarrow> int result" where
  "value_int \<equiv> value_of get_int"

abbreviation value_bool :: "json \<Rightarrow> string \<Rightarrow> bool \<Rightarrow> bool result" where
  "value_bool \<equiv> value_of get_bool"

abbreviation value_double :: "json \<Rightarrow> string \<Rightarrow> real \<Rightarrow> real result" where
  "value_double \<equiv> value_of get_double"

text \<open>The loop \<open>for(item : j)\<close> with a body that may throw, over an array.\<close>

fun map_result :: "('a \<Rightarrow> 'b result) \<Rightarrow> 'a list \<Rightarrow> 'b list result" where
  "map_result f [] = Inr []"
| "map_result f (x # xs) =
     bind_result (f x) (\<lambda>y. bind_result (map_result f xs) (\<lambda>ys. Inr (y # ys)))"

text \<open>\<open>if(j.contains(key) && j[key].is_array()) for(item : j[key]) \<dots>\<close>\<close>

definition array_items :: "json \<Rightarrow> string \<Rightarrow> json list" where
  "array_items j key = (case member j key of Some (JArr xs) \<Rightarrow> xs | _ \<Rightarrow> [])"

lemma map_result_map [simp]:
  "(\<And>x. x \<in> set xs \<Longrightarrow> f (g x) = Inr (h x)) \<Longrightarrow> map_result f (map g xs) = Inr (map h xs)"
  by (induction xs) auto

lemma get_simps [simp]:
  "get_string (JStr s) = Inr s"
  "get_bool (JBool b) = Inr b"
  "get_int (JInt n) = Inr (to_int32 n)"
  "get_uint64 (JInt n) = Inr (to_uint64 n)"
  "get_double (JReal r) = Inr r"
  by (simp_all add: get_string_def get_bool_def get_int_def get_uint64_def get_double_def)

lemma json_access [simp]:
  "value_of get (JObj kvs) key d = (case map_of kvs key of None \<Rightarrow> Inr d | Some v \<Rightarrow> get v)"
  "member (JObj kvs) key = map_of kvs key"
  "contains (JObj kvs) key \<longleftrightarrow> map_of kvs key \<noteq> None"
  "subscript (JObj kvs) key = Inr (case map_of kvs key of None \<Rightarrow> JNull | Some v \<Rightarrow> v)"
  "parse (Some j) = Inr j"
  "parse None = Inl ParseError"
  by (simp_all add: value_of_def member_def contains_def subscript_def parse_def)

end
