(* ===== verification/Edge_Types.thy ===== *)
theory Edge_Types
  imports Json
begin

text \<open>
  The data of \<open>edge_server/src/types.h\<close>. Structs are records (the field names carry a prefix
  because record fields are global names), \<open>uint64_t\<close> and \<open>int\<close> members are integers.
\<close>

section \<open>Robots\<close>

datatype robot_state = OFFLINE | INITIALIZING | IDLE | WORKING | CHARGING | PAUSED | ERROR

definition RobotStateFromString :: "string \<Rightarrow> robot_state" where
  "RobotStateFromString str =
     (if str = ''OFFLINE'' then OFFLINE
      else if str = ''INITIALIZING'' then INITIALIZING
      else if str = ''IDLE'' then IDLE
      else if str = ''WORKING'' then WORKING
      else if str = ''CHARGING'' then CHARGING
      else if str = ''PAUSED'' then PAUSED
      else if str = ''ERROR'' then ERROR
      else OFFLINE)"

fun RobotStateToString :: "robot_state \<Rightarrow> string" where
  "RobotStateToString OFFLINE = ''OFFLINE''"
| "RobotStateToString INITIALIZING = ''INITIALIZING''"
| "RobotStateToString IDLE = ''IDLE''"
| "RobotStateToString WORKING = ''WORKING''"
| "RobotStateToString CHARGING = ''CHARGING''"
| "RobotStateToString PAUSED = ''PAUSED''"
| "RobotStateToString ERROR = ''ERROR''"

lemma RobotState_roundtrip [simp]: "RobotStateFromString (RobotStateToString s) = s"
  by (cases s) (simp_all add: RobotStateFromString_def)

record pose2d =
  pose_x :: real
  pose_y :: real
  pose_yaw :: real

definition zero_pose :: pose2d where
  "zero_pose = \<lparr>pose_x = 0, pose_y = 0, pose_yaw = 0\<rparr>"

record robot_base_info =
  rb_robot_id :: string
  rb_instance_id :: string
  rb_warehouse_id :: string
  rb_map_version :: string
  rb_register_timestamp :: int
  rb_initial_pose :: pose2d

record robot_running_status =
  rs_robot_id :: string
  rs_state :: robot_state
  rs_online :: bool
  rs_timestamp :: int
  rs_battery :: real
  rs_pose :: pose2d
  rs_task_id :: string

record robot_instance_info =
  ri_robot_id :: string
  ri_instance_id :: string
  ri_pose :: pose2d

record robot_register_request =
  rq_robot_id :: string
  rq_instance_id :: string
  rq_warehouse_id :: string
  rq_map_version :: string
  rq_request_id :: string
  rq_register_timestamp :: int

record robot_register_response =
  rp_code :: int
  rp_message :: string
  rp_robot_id :: string
  rp_request_id :: string
  rp_map_version :: string
  rp_map_download_url :: string
  rp_map_update :: bool
  rp_initial_pose :: pose2d
  rp_has_initial_pose :: bool

record robot_reg_will_push =
  wp_robot_id :: string

section \<open>Maps\<close>

record map_package =
  mp_id :: int
  mp_warehouse_id :: string
  mp_version :: string
  mp_package_name :: string
  mp_package_path :: string
  mp_package_size :: int
  mp_upload_time :: string
  mp_activate :: bool

record map_upload_request =
  mu_warehouse_id :: string
  mu_version :: string
  mu_package_name :: string
  mu_activate :: bool
  mu_upload_file_path :: string

record map_update_info =
  mi_need_update :: bool
  mi_version :: string
  mi_download_url :: string

section \<open>Tasks\<close>

record task_goods =
  g_goods_id :: string
  g_goods_name :: string
  g_total_quantity :: int

record transport_task =
  t_task_id :: string
  t_warehouse_id :: string
  t_task_type :: string
  t_robot_ids :: "string list"
  t_goods :: "task_goods list"
  t_state :: string
  t_goal :: string
  t_reason :: string
  t_created_at :: string
  t_updated_at :: string

record task_goods_status =
  s_goods_id :: string
  s_total_quantity :: int
  s_in_progress_quantity :: int
  s_completed_quantity :: int
  s_pending_quantity :: int
  s_updated_at :: string

record amr_task_status_event =
  e_message_id :: string
  e_warehouse_id :: string
  e_task_id :: string
  e_robot_id :: string
  e_event_type :: string
  e_task_state :: string
  e_request_id :: string
  e_goods_json :: "json option"
  e_reason :: string
  e_timestamp :: string

record goods_apply_request =
  ga_request_id :: string
  ga_warehouse_id :: string
  ga_task_id :: string
  ga_robot_id :: string
  ga_goods :: "task_goods list"

record goods_apply_result =
  gr_accepted :: bool
  gr_reason :: string
  gr_goods :: "task_goods list"

end
