(* ===== verification/Db_Core.thy ===== *)
theory Db_Core
  imports Edge_Types
begin

text \<open>
  The database of \<open>edge_server/src/database/sqlite_db.cpp\<close>: its tables, the constraints its DDL
  declares, statements and transactions. A table is the list of its rows in insertion order.

  SQLite is the engine below: a call of it (\<open>sqlite3_prepare_v2\<close>, \<open>sqlite3_step\<close>) may fail for
  reasons of its own, so every operation takes an \<open>engine\<close> that says of its \<open>n\<close>-th engine call
  whether it works. What a working statement does is SQLite's documented semantics: a violated
  UNIQUE or CHECK constraint fails the statement and leaves the table as it was, \<open>INSERT OR IGNORE\<close>
  skips the row and reports success, \<open>ROLLBACK\<close> restores the tables that \<open>BEGIN\<close> found. \<open>BEGIN\<close>,
  \<open>COMMIT\<close> and \<open>ROLLBACK\<close> are taken to work, as the code does when it ignores their result codes.
\<close>

section \<open>Tables\<close>

record active_map_row =
  am_warehouse_id :: string
  am_package_id :: int
  am_version :: string
  am_update_time :: string

record robot_row =
  rr_robot_id :: string
  rr_warehouse_id :: string
  rr_robot_name :: string
  rr_register_timestamp :: int
  rr_updated_at :: int
  rr_initial_pose :: "pose2d option"

record robot_instance_row =
  in_id :: int
  in_robot_id :: string
  in_instance_id :: string
  in_model_name :: string
  in_lifecycle_state :: string
  in_created_at :: int
  in_updated_at :: int

record robot_status_row =
  st_robot_id :: string
  st_state :: string
  st_online :: bool
  st_battery :: real
  st_pose :: "pose2d option"
  st_current_task_id :: string
  st_updated_at :: int

record task_row =
  tk_task_id :: string
  tk_warehouse_id :: string
  tk_task_type :: string
  tk_state :: string
  tk_robot_ids :: "string list"
  tk_goal :: string
  tk_reason :: string
  tk_created_at :: string
  tk_updated_at :: string

record task_goods_row =
  tg_task_id :: string
  tg_goods_id :: string
  tg_goods_name :: string
  tg_total_quantity :: int

record task_goods_status_row =
  gs_task_id :: string
  gs_goods_id :: string
  gs_total_quantity :: int
  gs_in_progress_quantity :: int
  gs_completed_quantity :: int
  gs_pending_quantity :: int
  gs_updated_at :: string

record task_goods_allocation_row =
  al_request_id :: string
  al_task_id :: string
  al_goods_id :: string
  al_robot_id :: string
  al_quantity :: int
  al_state :: string
  al_allocated_at :: string
  al_settled_at :: "string option"

record task_event_row =
  ev_task_id :: string
  ev_state :: string
  ev_reason :: string
  ev_source :: string
  ev_timestamp :: string

record amr_event_row =
  ae_message_id :: string
  ae_task_id :: string
  ae_robot_id :: string
  ae_event_type :: string
  ae_task_state :: string
  ae_goods_json :: "json option"
  ae_reason :: string
  ae_timestamp :: string
  ae_received_at :: string

record db_tables =
  tbl_map_package :: "map_package list"
  tbl_active_map :: "active_map_row list"
  tbl_robot :: "robot_row list"
  tbl_robot_instance :: "robot_instance_row list"
  tbl_robot_status :: "robot_status_row list"
  tbl_task :: "task_row list"
  tbl_task_goods :: "task_goods_row list"
  tbl_task_goods_status :: "task_goods_status_row list"
  tbl_task_goods_allocation :: "task_goods_allocation_row list"
  tbl_task_event :: "task_event_row list"
  tbl_amr_task_status_event :: "amr_event_row list"
  seq_map_package :: int
  seq_robot_instance :: int

definition empty_tables :: db_tables where
  "empty_tables = \<lparr>tbl_map_package = [], tbl_active_map = [], tbl_robot = [],
     tbl_robot_instance = [], tbl_robot_status = [], tbl_task = [], tbl_task_goods = [],
     tbl_task_goods_status = [], tbl_task_goods_allocation = [], tbl_task_event = [],
     tbl_amr_task_status_event = [], seq_map_package = 0, seq_robot_instance = 0\<rparr>"

lemma empty_tables_simps [simp]:
  "tbl_map_package empty_tables = []" "tbl_active_map empty_tables = []"
  "tbl_robot empty_tables = []" "tbl_robot_instance empty_tables = []"
  "tbl_robot_status empty_tables = []" "tbl_task empty_tables = []"
  "tbl_task_goods empty_tables = []" "tbl_task_goods_status empty_tables = []"
  "tbl_task_goods_allocation empty_tables = []" "tbl_task_event empty_tables = []"
  "tbl_amr_task_status_event empty_tables = []" "seq_map_package empty_tables = 0"
  "seq_robot_instance empty_tables = 0"
  by (simp_all add: empty_tables_def)

section \<open>Constraints of the DDL\<close>

text \<open>PRIMARY KEY and UNIQUE columns, and the CHECK clauses of \<open>InitTaskTables\<close>.\<close>

definition map_package_key :: "map_package \<Rightarrow> string \<times> string" where
  "map_package_key r = (mp_warehouse_id r, mp_version r)"

definition robot_instance_key :: "robot_instance_row \<Rightarrow> string \<times> string" where
  "robot_instance_key r = (in_robot_id r, in_instance_id r)"

definition task_goods_key :: "task_goods_row \<Rightarrow> string \<times> string" where
  "task_goods_key r = (tg_task_id r, tg_goods_id r)"

definition goods_status_key :: "task_goods_status_row \<Rightarrow> string \<times> string" where
  "goods_status_key r = (gs_task_id r, gs_goods_id r)"

definition allocation_key :: "task_goods_allocation_row \<Rightarrow> string \<times> string" where
  "allocation_key r = (al_request_id r, al_robot_id r)"

definition amr_event_key :: "amr_event_row \<Rightarrow> string \<times> string \<times> string \<times> string" where
  "amr_event_key r = (ae_message_id r, ae_task_id r, ae_robot_id r, ae_event_type r)"

definition task_check :: "task_row \<Rightarrow> bool" where
  "task_check r \<longleftrightarrow> tk_task_type r \<in> {''LOAD'', ''UNLOAD''}"

definition task_goods_check :: "task_goods_row \<Rightarrow> bool" where
  "task_goods_check r \<longleftrightarrow> 0 \<le> tg_total_quantity r"

definition goods_status_check :: "task_goods_status_row \<Rightarrow> bool" where
  "goods_status_check r \<longleftrightarrow>
     0 \<le> gs_total_quantity r \<and> 0 \<le> gs_in_progress_quantity r \<and> 0 \<le> gs_completed_quantity r \<and>
     0 \<le> gs_pending_quantity r \<and>
     gs_total_quantity r =
       gs_in_progress_quantity r + gs_completed_quantity r + gs_pending_quantity r"

definition allocation_check :: "task_goods_allocation_row \<Rightarrow> bool" where
  "allocation_check r \<longleftrightarrow>
     0 < al_quantity r \<and> al_state r \<in> {''IN_PROGRESS'', ''COMPLETED'', ''ABORTED''}"

definition amr_event_check :: "amr_event_row \<Rightarrow> bool" where
  "amr_event_check r \<longleftrightarrow> ae_event_type r \<in> {''STATUS'', ''CARRY_COMPLETED'', ''CARRY_ABORTED''}"

section \<open>Statements\<close>

definition sql_insert :: "('r \<Rightarrow> bool) \<Rightarrow> ('r \<Rightarrow> 'k) \<Rightarrow> 'r \<Rightarrow> 'r list \<Rightarrow> 'r list option" where
  "sql_insert chk key r rows =
     (if chk r \<and> key r \<notin> set (map key rows) then Some (rows @ [r]) else None)"

definition sql_insert_or_ignore :: "('r \<Rightarrow> bool) \<Rightarrow> ('r \<Rightarrow> 'k) \<Rightarrow> 'r \<Rightarrow> 'r list \<Rightarrow> 'r list" where
  "sql_insert_or_ignore chk key r rows =
     (if chk r \<and> key r \<notin> set (map key rows) then rows @ [r] else rows)"

text \<open>\<open>UPDATE \<dots> WHERE\<close>: the new rows and the number of rows changed (\<open>sqlite3_changes\<close>).\<close>

definition sql_update ::
  "('r \<Rightarrow> bool) \<Rightarrow> ('r \<Rightarrow> bool) \<Rightarrow> ('r \<Rightarrow> 'r) \<Rightarrow> 'r list \<Rightarrow> ('r list \<times> nat) option" where
  "sql_update chk whr f rows =
     (if list_all (\<lambda>r. whr r \<longrightarrow> chk (f r)) rows
      then Some (map (\<lambda>r. if whr r then f r else r) rows, length (filter whr rows)) else None)"

text \<open>\<open>INSERT \<dots> ON CONFLICT(key) DO UPDATE SET \<dots>\<close>: \<open>merge\<close> combines the old row with the new one.\<close>

definition sql_upsert :: "('r \<Rightarrow> 'k) \<Rightarrow> ('r \<Rightarrow> 'r \<Rightarrow> 'r) \<Rightarrow> 'r \<Rightarrow> 'r list \<Rightarrow> 'r list" where
  "sql_upsert key merge r rows =
     (if key r \<in> set (map key rows)
      then map (\<lambda>x. if key x = key r then merge x r else x) rows else rows @ [r])"

lemma sql_insert_Some:
  "sql_insert chk key r rows = Some rows' \<longleftrightarrow>
     chk r \<and> key r \<notin> key ` set rows \<and> rows' = rows @ [r]"
  by (auto simp: sql_insert_def)

lemma sql_update_Some:
  "sql_update chk whr f rows = Some (rows', c) \<longleftrightarrow>
     (\<forall>r\<in>set rows. whr r \<longrightarrow> chk (f r)) \<and>
     rows' = map (\<lambda>r. if whr r then f r else r) rows \<and> c = length (filter whr rows)"
  by (auto simp: sql_update_def list_all_iff)

lemma sql_updateD:
  assumes "sql_update chk whr f rows = Some (rows', c)"
  shows "r \<in> set rows \<Longrightarrow> whr r \<Longrightarrow> chk (f r)"
    and "rows' = map (\<lambda>r. if whr r then f r else r) rows"
    and "c = length (filter whr rows)"
  using assms unfolding sql_update_Some by simp_all

lemma map_option_update_Some:
  "map_option (\<lambda>(rows, c). (g rows, c)) x = Some (t, n) \<longleftrightarrow> (\<exists>rows. x = Some (rows, n) \<and> t = g rows)"
  by (cases x) auto

lemma sql_update_unchecked [simp]:
  "sql_update (\<lambda>_. True) whr f rows =
     Some (map (\<lambda>r. if whr r then f r else r) rows, length (filter whr rows))"
  by (simp add: sql_update_def list_all_iff)

section \<open>The connection and its transactions\<close>

text \<open>
  \<open>journal\<close> holds the tables that \<open>ROLLBACK\<close> restores while a transaction is open. \<open>BEGIN\<close>
  inside a transaction, and \<open>COMMIT\<close> or \<open>ROLLBACK\<close> outside one, are errors of SQLite that change
  nothing and that the code ignores.
\<close>

record sqlite =
  opened :: bool
  tables :: db_tables
  journal :: "db_tables option"

definition fresh_db :: sqlite where
  "fresh_db = \<lparr>opened = True, tables = empty_tables, journal = None\<rparr>"

definition BeginTransaction :: "sqlite \<Rightarrow> sqlite" where
  "BeginTransaction db = (if journal db = None then db\<lparr>journal := Some (tables db)\<rparr> else db)"

definition Commit :: "sqlite \<Rightarrow> sqlite" where
  "Commit db = db\<lparr>journal := None\<rparr>"

definition Rollback :: "sqlite \<Rightarrow> sqlite" where
  "Rollback db = (case journal db of None \<Rightarrow> db | Some old \<Rightarrow> db\<lparr>tables := old, journal := None\<rparr>)"

type_synonym engine = "nat \<Rightarrow> bool"

definition working :: engine where
  "working = (\<lambda>_. True)"

lemma working_simp [simp]: "working 0" "working (Suc n)" "working (numeral k)"
  by (simp_all add: working_def)

text \<open>
  Prepare (call \<open>n\<close>), bind and step (call \<open>n + 1\<close>) one statement. \<open>None\<close> is a failed prepare or
  a step that is not \<open>SQLITE_DONE\<close>, which every caller treats alike.
\<close>

definition exec_stmt :: "engine \<Rightarrow> nat \<Rightarrow> (db_tables \<Rightarrow> db_tables option) \<Rightarrow> sqlite \<Rightarrow> sqlite option" where
  "exec_stmt eng n stmt db =
     (if eng n \<and> eng (Suc n) then map_option (\<lambda>t. db\<lparr>tables := t\<rparr>) (stmt (tables db)) else None)"

definition exec_update ::
  "engine \<Rightarrow> nat \<Rightarrow> (db_tables \<Rightarrow> (db_tables \<times> nat) option) \<Rightarrow> sqlite \<Rightarrow> (sqlite \<times> nat) option" where
  "exec_update eng n stmt db =
     (if eng n \<and> eng (Suc n)
      then map_option (\<lambda>(t, c). (db\<lparr>tables := t\<rparr>, c)) (stmt (tables db)) else None)"

text \<open>
  Reading rows: the loop \<open>while(sqlite3_step(stmt) == SQLITE_ROW)\<close> ends at the last row or at the
  first failing step, whichever comes first.
\<close>

fun read_rows :: "engine \<Rightarrow> nat \<Rightarrow> 'r list \<Rightarrow> 'r list" where
  "read_rows eng n [] = []"
| "read_rows eng n (r # rs) = (if eng n then r # read_rows eng (Suc n) rs else [])"

lemma read_rows_working [simp]: "read_rows working n rs = rs"
  by (induction rs arbitrary: n) (auto simp: working_def)

lemma read_rows_subset: "set (read_rows eng n rs) \<subseteq> set rs"
  by (induction rs arbitrary: n) auto

section \<open>The contract of a database operation\<close>

text \<open>
  What the services may rely on for every writing operation, whatever the engine does: called on
  an idle connection it leaves the connection idle, and if it reports failure the tables are as
  they were.
\<close>

definition idle :: "sqlite \<Rightarrow> bool" where
  "idle db \<longleftrightarrow> journal db = None"

locale atomic_operation =
  fixes run :: "sqlite \<Rightarrow> bool \<times> sqlite"
  assumes keeps_idle: "idle db \<Longrightarrow> run db = (ok, db') \<Longrightarrow> idle db'"
    and keeps_opened: "idle db \<Longrightarrow> run db = (ok, db') \<Longrightarrow> opened db' = opened db"
    and failure_unchanged: "idle db \<Longrightarrow> run db = (False, db') \<Longrightarrow> tables db' = tables db"
begin

text \<open>A property of the tables that successful runs keep is kept by all runs.\<close>

lemma keeps_property:
  assumes "idle db" and "run db = (ok, db')" and "P (tables db)"
    and "run db = (True, db') \<Longrightarrow> P (tables db')"
  shows "P (tables db')"
  using assms failure_unchanged by (cases ok) auto

lemma failure_is_noop:
  assumes "idle db" and "run db = (False, db')"
  shows "db' = db"
  using assms keeps_idle [OF assms] keeps_opened [OF assms] failure_unchanged [OF assms]
  by (simp add: idle_def)

lemma noop_unless:
  assumes "idle db" and "run db = (ok, db')" and "\<not> ok"
  shows "db' = db"
  using failure_is_noop assms by simp

lemma repeat_until_success:
  assumes "idle db" and "run db = (False, db')"
  shows "run db' = run db"
  using failure_is_noop [OF assms] by simp

end

lemmas transaction_defs = BeginTransaction_def Commit_def Rollback_def idle_def

lemma begin_idle [simp]: "idle db \<Longrightarrow> BeginTransaction db = db\<lparr>journal := Some (tables db)\<rparr>"
  by (simp add: BeginTransaction_def idle_def)

lemma rollback_after_begin [simp]:
  "journal db' = Some (tables db) \<Longrightarrow> opened db' = opened db \<Longrightarrow> idle db \<Longrightarrow> Rollback db' = db"
  by (simp add: Rollback_def idle_def)

lemma commit_simps [simp]:
  "tables (Commit db) = tables db" "opened (Commit db) = opened db" "idle (Commit db)"
  by (simp_all add: Commit_def idle_def)

lemma exec_stmt_frame:
  "exec_stmt eng n stmt db = Some db' \<Longrightarrow>
     journal db' = journal db \<and> opened db' = opened db \<and> stmt (tables db) = Some (tables db')"
  by (auto simp: exec_stmt_def split: if_splits)

lemma exec_update_frame:
  "exec_update eng n stmt db = Some (db', c) \<Longrightarrow>
     journal db' = journal db \<and> opened db' = opened db \<and> stmt (tables db) = Some (tables db', c)"
  by (auto simp: exec_update_def split: if_splits)

lemma exec_stmt_working [simp]:
  "exec_stmt working n stmt db = map_option (\<lambda>t. db\<lparr>tables := t\<rparr>) (stmt (tables db))"
  by (simp add: exec_stmt_def working_def)

lemma exec_update_working [simp]:
  "exec_update working n stmt db = map_option (\<lambda>(t, c). (db\<lparr>tables := t\<rparr>, c)) (stmt (tables db))"
  by (simp add: exec_update_def working_def)

end
