(* ===== verification/Db_Tasks.thy ===== *)
theory Db_Tasks
  imports Db_Core "HOL-Library.Monad_Syntax"
begin

text \<open>
  The task operations of \<open>SQLiteDB\<close> (\<open>sqlite_db.cpp\<close>). A writing operation that opens a
  transaction is \<open>transaction\<close> of its statements: each early return of the code after
  \<open>BeginTransaction\<close> is \<open>Rollback(); return false\<close>, which forgets what the statements before it
  did, and the last lines are \<open>Commit(); return true\<close>. Statement \<open>k\<close> of an operation uses the
  engine calls \<open>2 k\<close> (prepare) and \<open>2 k + 1\<close> (step).

  Quantities are bound with \<open>sqlite3_bind_int\<close>, so every number stored is a C \<open>int\<close>; the CHECK of
  the status table keeps its parts between 0 and the total, so \<open>sqlite3_column_int\<close> reads them back
  as they are.
\<close>

definition transaction :: "(sqlite \<Rightarrow> sqlite option) \<Rightarrow> sqlite \<Rightarrow> bool \<times> sqlite" where
  "transaction body db =
     (case body (BeginTransaction db) of
        None \<Rightarrow> (False, Rollback (BeginTransaction db))
      | Some db' \<Rightarrow> (True, Commit db'))"

definition frame :: "(sqlite \<Rightarrow> sqlite option) \<Rightarrow> bool" where
  "frame body \<longleftrightarrow>
     (\<forall>db db'. body db = Some db' \<longrightarrow> journal db' = journal db \<and> opened db' = opened db)"

lemma frameD:
  "frame body \<Longrightarrow> body db = Some db' \<Longrightarrow> journal db' = journal db \<and> opened db' = opened db"
  by (simp add: frame_def)

lemma frame_exec [simp]: "frame (exec_stmt eng n stmt)"
  by (auto simp: frame_def dest: exec_stmt_frame)

lemma frame_bind [simp]: "frame f \<Longrightarrow> frame g \<Longrightarrow> frame (\<lambda>db. Option.bind (f db) g)"
  by (fastforce simp: frame_def bind_eq_Some_conv)

lemma frame_Some [simp]: "frame Some"
  by (simp add: frame_def)

lemma transaction_idle:
  "idle db \<Longrightarrow> transaction body db =
     (case body (db\<lparr>journal := Some (tables db)\<rparr>) of
        None \<Rightarrow> (False, db) | Some db' \<Rightarrow> (True, Commit db'))"
  by (simp add: transaction_def split: option.splits)

lemma transaction_success:
  "idle db \<Longrightarrow> transaction body db = (True, db') \<Longrightarrow>
     \<exists>db1. body (db\<lparr>journal := Some (tables db)\<rparr>) = Some db1 \<and> tables db1 = tables db'"
  by (auto simp: transaction_idle split: option.splits)

text \<open>Whatever its statements do, a transaction on an idle connection is an atomic operation.\<close>

lemma transaction_atomic:
  assumes "frame body"
  shows "atomic_operation (transaction body)"
proof
  fix db ok db'
  assume idle: "idle db" and run: "transaction body db = (ok, db')"
  show "idle db'"
    using idle run by (auto simp: transaction_idle split: option.splits)
  show "opened db' = opened db"
    using idle run frameD [OF assms] by (fastforce simp: transaction_idle split: option.splits)
next
  fix db db'
  assume "idle db" and "transaction body db = (False, db')"
  then show "tables db' = tables db"
    by (auto simp: transaction_idle split: option.splits)
qed

text \<open>The guard \<open>if(!m_pDB) return false\<close> in front of every operation.\<close>

definition guarded :: "(sqlite \<Rightarrow> bool \<times> sqlite) \<Rightarrow> sqlite \<Rightarrow> bool \<times> sqlite" where
  "guarded run db = (if \<not> opened db then (False, db) else run db)"

lemma guarded_atomic: "atomic_operation run \<Longrightarrow> atomic_operation (guarded run)"
proof -
  assume run: "atomic_operation run"
  have cases: "(opened db \<and> run db = (ok, db')) \<or> (\<not> opened db \<and> db' = db)"
    if "guarded run db = (ok, db')" for db db' ok
    using that by (simp add: guarded_def split: if_splits)
  show "atomic_operation (guarded run)"
  proof
    fix db db' ok
    assume idle: "idle db" and g: "guarded run db = (ok, db')"
    show "idle db'" "opened db' = opened db"
      using cases [OF g] idle atomic_operation.keeps_idle [OF run idle, of ok db']
        atomic_operation.keeps_opened [OF run idle, of ok db'] by metis+
  next
    fix db db'
    assume idle: "idle db" and g: "guarded run db = (False, db')"
    show "tables db' = tables db"
      using cases [OF g] atomic_operation.failure_unchanged [OF run idle, of db'] by metis
  qed
qed

lemma guarded_closed [simp]: "\<not> opened db \<Longrightarrow> guarded run db = (False, db)"
  by (simp add: guarded_def)

lemma guarded_open [simp]: "opened db \<Longrightarrow> guarded run db = run db"
  by (simp add: guarded_def)

lemma guarded_success: "guarded run db = (True, db') \<Longrightarrow> opened db \<and> run db = (True, db')"
  by (simp add: guarded_def split: if_splits)

section \<open>Creating a task\<close>

definition task_row_of :: "transport_task \<Rightarrow> task_row" where
  "task_row_of task =
     \<lparr>tk_task_id = t_task_id task, tk_warehouse_id = t_warehouse_id task,
       tk_task_type = t_task_type task, tk_state = t_state task,
       tk_robot_ids = t_robot_ids task, tk_goal = t_goal task, tk_reason = t_reason task,
       tk_created_at = t_created_at task, tk_updated_at = t_updated_at task\<rparr>"

definition goods_row_of :: "transport_task \<Rightarrow> task_goods \<Rightarrow> task_goods_row" where
  "goods_row_of task goods =
     \<lparr>tg_task_id = t_task_id task, tg_goods_id = g_goods_id goods,
       tg_goods_name = g_goods_name goods, tg_total_quantity = g_total_quantity goods\<rparr>"

definition insert_task :: "transport_task \<Rightarrow> db_tables \<Rightarrow> db_tables option" where
  "insert_task task t =
     map_option (\<lambda>rows. t\<lparr>tbl_task := rows\<rparr>)
       (sql_insert task_check tk_task_id (task_row_of task) (tbl_task t))"

definition insert_task_goods :: "transport_task \<Rightarrow> task_goods \<Rightarrow> db_tables \<Rightarrow> db_tables option" where
  "insert_task_goods task goods t =
     map_option (\<lambda>rows. t\<lparr>tbl_task_goods := rows\<rparr>)
       (sql_insert task_goods_check task_goods_key (goods_row_of task goods) (tbl_task_goods t))"

definition initial_status :: "transport_task \<Rightarrow> task_goods \<Rightarrow> task_goods_status_row" where
  "initial_status task goods =
     \<lparr>gs_task_id = t_task_id task, gs_goods_id = g_goods_id goods,
       gs_total_quantity = g_total_quantity goods, gs_in_progress_quantity = 0,
       gs_completed_quantity = 0, gs_pending_quantity = g_total_quantity goods,
       gs_updated_at = t_updated_at task\<rparr>"

definition insert_task_goods_status ::
  "transport_task \<Rightarrow> task_goods \<Rightarrow> db_tables \<Rightarrow> db_tables option" where
  "insert_task_goods_status task goods t =
     map_option (\<lambda>rows. t\<lparr>tbl_task_goods_status := rows\<rparr>)
       (sql_insert goods_status_check goods_status_key (initial_status task goods)
          (tbl_task_goods_status t))"

definition insert_task_event ::
  "string \<Rightarrow> string \<Rightarrow> string \<Rightarrow> string \<Rightarrow> string \<Rightarrow> db_tables \<Rightarrow> db_tables option" where
  "insert_task_event task_id state reason source timestamp t =
     Some (t\<lparr>tbl_task_event := tbl_task_event t @
       [\<lparr>ev_task_id = task_id, ev_state = state, ev_reason = reason, ev_source = source,
          ev_timestamp = timestamp\<rparr>]\<rparr>)"

text \<open>The loop over \<open>task.goods\<close>, two statements an item.\<close>

fun insert_goods ::
  "engine \<Rightarrow> nat \<Rightarrow> transport_task \<Rightarrow> task_goods list \<Rightarrow> sqlite \<Rightarrow> sqlite option" where
  "insert_goods eng n task [] db = Some db"
| "insert_goods eng n task (goods # rest) db =
     do {
       db1 \<leftarrow> exec_stmt eng n (insert_task_goods task goods) db;
       db2 \<leftarrow> exec_stmt eng (n + 2) (insert_task_goods_status task goods) db1;
       insert_goods eng (n + 4) task rest db2
     }"

definition create_statements :: "engine \<Rightarrow> transport_task \<Rightarrow> sqlite \<Rightarrow> sqlite option" where
  "create_statements eng task db =
     do {
       db1 \<leftarrow> exec_stmt eng 0 (insert_task task) db;
       db2 \<leftarrow> insert_goods eng 2 task (t_goods task) db1;
       exec_stmt eng (2 + 4 * length (t_goods task))
         (insert_task_event (t_task_id task) (t_state task) (t_reason task) ''HTTP''
            (t_updated_at task)) db2
     }"

definition CreateTask :: "engine \<Rightarrow> transport_task \<Rightarrow> sqlite \<Rightarrow> bool \<times> sqlite" where
  "CreateTask eng task = guarded (transaction (create_statements eng task))"

lemma frame_insert_goods [simp]: "frame (insert_goods eng n task goods)"
proof (induction goods arbitrary: n)
  case Nil
  then show ?case by (simp add: frame_def)
next
  case (Cons g gs)
  show ?case
    unfolding frame_def insert_goods.simps
    using frameD [OF Cons.IH] by (fastforce simp: bind_eq_Some_conv dest: exec_stmt_frame)
qed

lemma frame_create [simp]: "frame (create_statements eng task)"
  unfolding frame_def create_statements_def
  using frameD [OF frame_insert_goods] by (fastforce simp: bind_eq_Some_conv dest: exec_stmt_frame)

interpretation create: atomic_operation "CreateTask eng task" for eng task
  unfolding CreateTask_def by (intro guarded_atomic transaction_atomic frame_create)

section \<open>Reading tasks\<close>

definition TaskExists :: "engine \<Rightarrow> string \<Rightarrow> sqlite \<Rightarrow> bool" where
  "TaskExists eng task_id db \<longleftrightarrow>
     opened db \<and> eng 0 \<and> eng 1 \<and> (\<exists>r\<in>set (tbl_task (tables db)). tk_task_id r = task_id)"

definition goods_of_row :: "task_goods_row \<Rightarrow> task_goods" where
  "goods_of_row r = \<lparr>g_goods_id = tg_goods_id r, g_goods_name = tg_goods_name r,
     g_total_quantity = tg_total_quantity r\<rparr>"

definition GetTask :: "engine \<Rightarrow> string \<Rightarrow> sqlite \<Rightarrow> transport_task option" where
  "GetTask eng task_id db =
     (if \<not> opened db \<or> \<not> eng 0 \<or> \<not> eng 1 then None
      else case find (\<lambda>r. tk_task_id r = task_id) (tbl_task (tables db)) of
        None \<Rightarrow> None
      | Some r \<Rightarrow>
          Some \<lparr>t_task_id = tk_task_id r, t_warehouse_id = tk_warehouse_id r,
            t_task_type = tk_task_type r, t_robot_ids = tk_robot_ids r,
            t_goods =
              (if eng 2
               then map goods_of_row (read_rows eng 3
                 (filter (\<lambda>g. tg_task_id g = task_id) (tbl_task_goods (tables db))))
               else []),
            t_state = tk_state r, t_goal = tk_goal r, t_reason = tk_reason r,
            t_created_at = tk_created_at r, t_updated_at = tk_updated_at r\<rparr>)"

text \<open>\<open>GetActiveTasks\<close> fills only the first five members of each task it pushes.\<close>

definition active_state :: "string \<Rightarrow> bool" where
  "active_state state \<longleftrightarrow> state \<in> {''PENDING'', ''ACCEPTED'', ''RUNNING''}"

definition active_task_of_row :: "task_row \<Rightarrow> transport_task" where
  "active_task_of_row r =
     \<lparr>t_task_id = tk_task_id r, t_warehouse_id = tk_warehouse_id r,
       t_task_type = tk_task_type r, t_robot_ids = tk_robot_ids r, t_goods = [],
       t_state = tk_state r, t_goal = '''', t_reason = '''', t_created_at = '''',
       t_updated_at = ''''\<rparr>"

definition GetActiveTasks :: "engine \<Rightarrow> sqlite \<Rightarrow> bool \<times> transport_task list" where
  "GetActiveTasks eng db =
     (if \<not> opened db \<or> \<not> eng 0 then (False, [])
      else (True, map active_task_of_row
        (read_rows eng 1 (filter (\<lambda>r. active_state (tk_state r)) (tbl_task (tables db))))))"

definition status_of_row :: "task_goods_status_row \<Rightarrow> task_goods_status" where
  "status_of_row r = \<lparr>s_goods_id = gs_goods_id r, s_total_quantity = gs_total_quantity r,
     s_in_progress_quantity = gs_in_progress_quantity r,
     s_completed_quantity = gs_completed_quantity r,
     s_pending_quantity = gs_pending_quantity r, s_updated_at = gs_updated_at r\<rparr>"

definition GetTaskGoodsStatus :: "engine \<Rightarrow> string \<Rightarrow> sqlite \<Rightarrow> bool \<times> task_goods_status list" where
  "GetTaskGoodsStatus eng task_id db =
     (if \<not> opened db \<or> \<not> eng 0 then (False, [])
      else let statusList = map status_of_row
             (read_rows eng 1 (filter (\<lambda>r. gs_task_id r = task_id) (tbl_task_goods_status (tables db))))
           in (statusList \<noteq> [], statusList))"

section \<open>Changing the state of a task\<close>

text \<open>The statement sets no column with a constraint, so it cannot fail on one.\<close>

definition update_task_state ::
  "string \<Rightarrow> string \<Rightarrow> string \<Rightarrow> string \<Rightarrow> db_tables \<Rightarrow> db_tables option" where
  "update_task_state now task_id state reason t =
     map_option (\<lambda>(rows, _). t\<lparr>tbl_task := rows\<rparr>)
       (sql_update (\<lambda>_. True) (\<lambda>r. tk_task_id r = task_id)
          (\<lambda>r. r\<lparr>tk_state := state, tk_reason := reason, tk_updated_at := now\<rparr>) (tbl_task t))"

definition UpdateTaskState ::
  "engine \<Rightarrow> string \<Rightarrow> string \<Rightarrow> string \<Rightarrow> string \<Rightarrow> sqlite \<Rightarrow> bool \<times> sqlite" where
  "UpdateTaskState eng now task_id state reason = guarded (\<lambda>db.
     case exec_stmt eng 0 (update_task_state now task_id state reason) db of
       None \<Rightarrow> (False, db)
     | Some db' \<Rightarrow> (True, db'))"

definition state_event_statements ::
  "engine \<Rightarrow> string \<Rightarrow> string \<Rightarrow> string \<Rightarrow> string \<Rightarrow> string \<Rightarrow> sqlite \<Rightarrow> sqlite option" where
  "state_event_statements eng now task_id state reason source db =
     do {
       db1 \<leftarrow> exec_stmt eng 0 (update_task_state now task_id state reason) db;
       exec_stmt eng 2 (insert_task_event task_id state reason source now) db1
     }"

definition UpdateTaskStateWithEvent ::
  "engine \<Rightarrow> string \<Rightarrow> string \<Rightarrow> string \<Rightarrow> string \<Rightarrow> string \<Rightarrow> sqlite \<Rightarrow> bool \<times> sqlite" where
  "UpdateTaskStateWithEvent eng now task_id state reason source =
     guarded (transaction (state_event_statements eng now task_id state reason source))"

lemma single_statement_atomic:
  "atomic_operation (guarded (\<lambda>db.
     case exec_stmt eng n stmt db of None \<Rightarrow> (False, db) | Some db' \<Rightarrow> (True, db')))"
proof (intro guarded_atomic, unfold_locales)
qed (auto simp: idle_def dest: exec_stmt_frame split: option.splits)

interpretation update_state: atomic_operation "UpdateTaskState eng now task_id state reason"
  for eng now task_id state reason
  unfolding UpdateTaskState_def by (rule single_statement_atomic)

lemma frame_state_event [simp]: "frame (state_event_statements eng now task_id state reason source)"
  unfolding frame_def state_event_statements_def
  by (fastforce simp: bind_eq_Some_conv dest: exec_stmt_frame)

interpretation state_event:
  atomic_operation "UpdateTaskStateWithEvent eng now task_id state reason source"
  for eng now task_id state reason source
  unfolding UpdateTaskStateWithEvent_def
  by (intro guarded_atomic transaction_atomic frame_state_event)

section \<open>AMR events\<close>

definition amr_event_row_of :: "string \<Rightarrow> amr_task_status_event \<Rightarrow> amr_event_row" where
  "amr_event_row_of now ev =
     \<lparr>ae_message_id = e_message_id ev, ae_task_id = e_task_id ev, ae_robot_id = e_robot_id ev,
       ae_event_type = e_event_type ev, ae_task_state = e_task_state ev,
       ae_goods_json = e_goods_json ev, ae_reason = e_reason ev,
       ae_timestamp = e_timestamp ev, ae_received_at = now\<rparr>"

definition insert_amr_event :: "string \<Rightarrow> amr_task_status_event \<Rightarrow> db_tables \<Rightarrow> db_tables option" where
  "insert_amr_event now ev t =
     Some (t\<lparr>tbl_amr_task_status_event :=
       sql_insert_or_ignore amr_event_check amr_event_key (amr_event_row_of now ev)
         (tbl_amr_task_status_event t)\<rparr>)"

definition InsertAmrTaskStatusEvent ::
  "engine \<Rightarrow> string \<Rightarrow> amr_task_status_event \<Rightarrow> sqlite \<Rightarrow> bool \<times> sqlite" where
  "InsertAmrTaskStatusEvent eng now ev = guarded (\<lambda>db.
     case exec_stmt eng 0 (insert_amr_event now ev) db of
       None \<Rightarrow> (False, db)
     | Some db' \<Rightarrow> (True, db'))"

interpretation amr_event: atomic_operation "InsertAmrTaskStatusEvent eng now ev" for eng now ev
  unfolding InsertAmrTaskStatusEvent_def by (rule single_statement_atomic)

section \<open>Goods allocations\<close>

text \<open>A step that must succeed and change at least one row (\<open>sqlite3_changes(m_pDB) > 0\<close>).\<close>

definition exec_changing ::
  "engine \<Rightarrow> nat \<Rightarrow> (db_tables \<Rightarrow> (db_tables \<times> nat) option) \<Rightarrow> sqlite \<Rightarrow> sqlite option" where
  "exec_changing eng n stmt db =
     (case exec_update eng n stmt db of
        None \<Rightarrow> None
      | Some (db', changes) \<Rightarrow> if changes > 0 then Some db' else None)"

lemma exec_changing_frame:
  "exec_changing eng n stmt db = Some db' \<Longrightarrow>
     journal db' = journal db \<and> opened db' = opened db \<and>
     (\<exists>c>0. stmt (tables db) = Some (tables db', c))"
  by (auto simp: exec_changing_def dest: exec_update_frame split: option.splits if_splits)

definition reserve_status ::
  "string \<Rightarrow> string \<Rightarrow> int \<Rightarrow> string \<Rightarrow> db_tables \<Rightarrow> (db_tables \<times> nat) option" where
  "reserve_status task_id goods_id quantity allocated_at t =
     map_option (\<lambda>(rows, c). (t\<lparr>tbl_task_goods_status := rows\<rparr>, c))
       (sql_update goods_status_check
          (\<lambda>r. gs_task_id r = task_id \<and> gs_goods_id r = goods_id \<and>
               quantity \<le> gs_pending_quantity r)
          (\<lambda>r. r\<lparr>gs_in_progress_quantity := gs_in_progress_quantity r + quantity,
                 gs_pending_quantity := gs_pending_quantity r - quantity,
                 gs_updated_at := allocated_at\<rparr>)
          (tbl_task_goods_status t))"

definition insert_allocation ::
  "string \<Rightarrow> string \<Rightarrow> string \<Rightarrow> string \<Rightarrow> int \<Rightarrow> string \<Rightarrow> db_tables \<Rightarrow> db_tables option" where
  "insert_allocation request_id task_id goods_id robot_id quantity allocated_at t =
     map_option (\<lambda>rows. t\<lparr>tbl_task_goods_allocation := rows\<rparr>)
       (sql_insert allocation_check allocation_key
          \<lparr>al_request_id = request_id, al_task_id = task_id, al_goods_id = goods_id,
            al_robot_id = robot_id, al_quantity = quantity, al_state = ''IN_PROGRESS'',
            al_allocated_at = allocated_at, al_settled_at = None\<rparr>
          (tbl_task_goods_allocation t))"

definition approve_statements ::
  "engine \<Rightarrow> string \<Rightarrow> string \<Rightarrow> string \<Rightarrow> string \<Rightarrow> int \<Rightarrow> string \<Rightarrow> sqlite \<Rightarrow> sqlite option" where
  "approve_statements eng request_id task_id goods_id robot_id quantity allocated_at db =
     do {
       db1 \<leftarrow> exec_changing eng 0 (reserve_status task_id goods_id quantity allocated_at) db;
       exec_stmt eng 2
         (insert_allocation request_id task_id goods_id robot_id quantity allocated_at) db1
     }"

definition ApproveGoodsAllocation ::
  "engine \<Rightarrow> string \<Rightarrow> string \<Rightarrow> string \<Rightarrow> string \<Rightarrow> int \<Rightarrow> string \<Rightarrow> sqlite \<Rightarrow> bool \<times> sqlite" where
  "ApproveGoodsAllocation eng request_id task_id goods_id robot_id quantity allocated_at =
     guarded (transaction
       (approve_statements eng request_id task_id goods_id robot_id quantity allocated_at))"

lemma frame_approve [simp]: "frame (approve_statements eng rid tid gid rob q tm)"
  unfolding frame_def approve_statements_def
  by (fastforce simp: bind_eq_Some_conv dest: exec_stmt_frame exec_changing_frame)

interpretation approve: atomic_operation "ApproveGoodsAllocation eng rid tid gid rob q tm"
  for eng rid tid gid rob q tm
  unfolding ApproveGoodsAllocation_def by (intro guarded_atomic transaction_atomic frame_approve)

text \<open>Settling reads the allocation before the transaction begins (engine calls 0 and 1).\<close>

definition open_allocation :: "string \<Rightarrow> string \<Rightarrow> task_goods_allocation_row \<Rightarrow> bool" where
  "open_allocation request_id robot_id a \<longleftrightarrow>
     al_request_id a = request_id \<and> al_robot_id a = robot_id \<and> al_state a = ''IN_PROGRESS''"

definition close_allocation ::
  "string \<Rightarrow> string \<Rightarrow> string \<Rightarrow> string \<Rightarrow> db_tables \<Rightarrow> (db_tables \<times> nat) option" where
  "close_allocation request_id robot_id state settled_at t =
     map_option (\<lambda>(rows, c). (t\<lparr>tbl_task_goods_allocation := rows\<rparr>, c))
       (sql_update allocation_check (open_allocation request_id robot_id)
          (\<lambda>a. a\<lparr>al_state := state, al_settled_at := Some settled_at\<rparr>)
          (tbl_task_goods_allocation t))"

definition settled_row :: "string \<Rightarrow> int \<Rightarrow> string \<Rightarrow> task_goods_status_row \<Rightarrow> task_goods_status_row" where
  "settled_row state quantity settled_at r =
     (if state = ''COMPLETED''
      then r\<lparr>gs_in_progress_quantity := gs_in_progress_quantity r - quantity,
             gs_completed_quantity := gs_completed_quantity r + quantity,
             gs_updated_at := settled_at\<rparr>
      else r\<lparr>gs_in_progress_quantity := gs_in_progress_quantity r - quantity,
             gs_pending_quantity := gs_pending_quantity r + quantity,
             gs_updated_at := settled_at\<rparr>)"

definition settle_status ::
  "string \<Rightarrow> string \<Rightarrow> string \<Rightarrow> int \<Rightarrow> string \<Rightarrow> db_tables \<Rightarrow> (db_tables \<times> nat) option" where
  "settle_status state task_id goods_id quantity settled_at t =
     map_option (\<lambda>(rows, c). (t\<lparr>tbl_task_goods_status := rows\<rparr>, c))
       (sql_update goods_status_check
          (\<lambda>r. gs_task_id r = task_id \<and> gs_goods_id r = goods_id)
          (settled_row state quantity settled_at) (tbl_task_goods_status t))"

definition settle_statements ::
  "engine \<Rightarrow> string \<Rightarrow> string \<Rightarrow> string \<Rightarrow> string \<Rightarrow> string \<Rightarrow> string \<Rightarrow> int \<Rightarrow> sqlite \<Rightarrow> sqlite option" where
  "settle_statements eng request_id robot_id state settled_at task_id goods_id quantity db =
     do {
       db1 \<leftarrow> exec_changing eng 2 (close_allocation request_id robot_id state settled_at) db;
       exec_changing eng 4 (settle_status state task_id goods_id quantity settled_at) db1
     }"

definition SettleGoodsAllocation ::
  "engine \<Rightarrow> string \<Rightarrow> string \<Rightarrow> string \<Rightarrow> string \<Rightarrow> sqlite \<Rightarrow> bool \<times> sqlite" where
  "SettleGoodsAllocation eng request_id robot_id state settled_at = guarded (\<lambda>db.
     if state \<noteq> ''COMPLETED'' \<and> state \<noteq> ''ABORTED'' then (False, db)
     else if \<not> eng 0 \<or> \<not> eng 1 then (False, db)
     else case find (open_allocation request_id robot_id) (tbl_task_goods_allocation (tables db)) of
       None \<Rightarrow> (False, db)
     | Some a \<Rightarrow>
         transaction (settle_statements eng request_id robot_id state settled_at
           (al_task_id a) (al_goods_id a) (al_quantity a)) db)"

lemma frame_settle [simp]: "frame (settle_statements eng rid rob st tm tid gid q)"
  unfolding frame_def settle_statements_def
  by (fastforce simp: bind_eq_Some_conv dest: exec_changing_frame)

interpretation settle: atomic_operation "SettleGoodsAllocation eng rid rob st tm"
  for eng rid rob st tm
proof -
  have trans: "atomic_operation (transaction (settle_statements eng rid rob st tm tid gid q))"
    for tid gid q
    by (intro transaction_atomic frame_settle)
  show "atomic_operation (SettleGoodsAllocation eng rid rob st tm)"
    unfolding SettleGoodsAllocation_def
  proof (intro guarded_atomic, unfold_locales)
  qed (auto split: if_splits option.splits
      dest: atomic_operation.keeps_idle [OF trans] atomic_operation.keeps_opened [OF trans]
        atomic_operation.failure_unchanged [OF trans])
qed

end
