(* ===== verification/Task_Ledger.thy ===== *)
theory Task_Ledger
  imports Db_Tasks
begin

text \<open>
  The goods ledger: what the task tables mean together. For every goods of every task the status
  row counts the quantities of the allocations in each state, each goods row has its status row,
  keys are unique and no allocation is without a status row. The section on operations shows that
  every task operation of the database keeps the ledger, whatever the engine does.
\<close>

section \<open>The invariant\<close>

definition alloc_goods_key :: "task_goods_allocation_row \<Rightarrow> string \<times> string" where
  "alloc_goods_key a = (al_task_id a, al_goods_id a)"

definition alloc_weight :: "string \<Rightarrow> string \<times> string \<Rightarrow> task_goods_allocation_row \<Rightarrow> int" where
  "alloc_weight state k a = (if al_state a = state \<and> alloc_goods_key a = k then al_quantity a else 0)"

definition allocated :: "string \<Rightarrow> string \<times> string \<Rightarrow> task_goods_allocation_row list \<Rightarrow> int" where
  "allocated state k allocs = (\<Sum>a\<leftarrow>allocs. alloc_weight state k a)"

definition status_balanced :: "task_goods_allocation_row list \<Rightarrow> task_goods_status_row \<Rightarrow> bool" where
  "status_balanced allocs r \<longleftrightarrow>
     gs_in_progress_quantity r = allocated ''IN_PROGRESS'' (goods_status_key r) allocs \<and>
     gs_completed_quantity r = allocated ''COMPLETED'' (goods_status_key r) allocs"

definition goods_total :: "task_goods_row \<Rightarrow> (string \<times> string) \<times> int" where
  "goods_total g = (task_goods_key g, tg_total_quantity g)"

definition status_total :: "task_goods_status_row \<Rightarrow> (string \<times> string) \<times> int" where
  "status_total r = (goods_status_key r, gs_total_quantity r)"

definition ledger_ok :: "db_tables \<Rightarrow> bool" where
  "ledger_ok t \<longleftrightarrow>
     distinct (map tk_task_id (tbl_task t)) \<and>
     distinct (map goods_status_key (tbl_task_goods_status t)) \<and>
     distinct (map allocation_key (tbl_task_goods_allocation t)) \<and>
     list_all goods_status_check (tbl_task_goods_status t) \<and>
     list_all allocation_check (tbl_task_goods_allocation t) \<and>
     list_all (status_balanced (tbl_task_goods_allocation t)) (tbl_task_goods_status t) \<and>
     list_all (\<lambda>a. alloc_goods_key a \<in> set (map goods_status_key (tbl_task_goods_status t)))
       (tbl_task_goods_allocation t) \<and>
     map goods_total (tbl_task_goods t) = map status_total (tbl_task_goods_status t) \<and>
     list_all (\<lambda>g. tg_task_id g \<in> set (map tk_task_id (tbl_task t))) (tbl_task_goods t)"

lemma ledger_empty [simp]: "ledger_ok empty_tables"
  by (simp add: ledger_ok_def empty_tables_def)

lemma ledgerD:
  assumes "ledger_ok t"
  shows "distinct (map tk_task_id (tbl_task t))"
    and "distinct (map goods_status_key (tbl_task_goods_status t))"
    and "distinct (map allocation_key (tbl_task_goods_allocation t))"
    and "r \<in> set (tbl_task_goods_status t) \<Longrightarrow> goods_status_check r"
    and "a \<in> set (tbl_task_goods_allocation t) \<Longrightarrow> allocation_check a"
    and "r \<in> set (tbl_task_goods_status t) \<Longrightarrow> status_balanced (tbl_task_goods_allocation t) r"
    and "a \<in> set (tbl_task_goods_allocation t) \<Longrightarrow>
           alloc_goods_key a \<in> goods_status_key ` set (tbl_task_goods_status t)"
    and "map goods_total (tbl_task_goods t) = map status_total (tbl_task_goods_status t)"
    and "g \<in> set (tbl_task_goods t) \<Longrightarrow> tg_task_id g \<in> tk_task_id ` set (tbl_task t)"
  using assms unfolding ledger_ok_def by (simp_all add: list_all_iff)

text \<open>The ledger reads four tables only.\<close>

lemma ledger_cong:
  assumes "map tk_task_id (tbl_task t') = map tk_task_id (tbl_task t)"
    and "tbl_task_goods t' = tbl_task_goods t"
    and "tbl_task_goods_status t' = tbl_task_goods_status t"
    and "tbl_task_goods_allocation t' = tbl_task_goods_allocation t"
  shows "ledger_ok t' = ledger_ok t"
  unfolding ledger_ok_def by (simp only: assms)

section \<open>Sums over allocations\<close>

lemma allocated_Nil [simp]: "allocated state k [] = 0"
  by (simp add: allocated_def)

lemma allocated_append [simp]:
  "allocated state k (xs @ [a]) = allocated state k xs + alloc_weight state k a"
  by (simp add: allocated_def)

lemma allocated_absent:
  "\<forall>a\<in>set allocs. alloc_goods_key a \<noteq> k \<Longrightarrow> allocated state k allocs = 0"
  unfolding allocated_def by (induction allocs) (auto simp: alloc_weight_def)

lemma allocated_replace:
  assumes "distinct (map allocation_key allocs)" and "a \<in> set allocs"
  shows "allocated state k (map (\<lambda>x. if allocation_key x = allocation_key a then f x else x) allocs)
       = allocated state k allocs - alloc_weight state k a + alloc_weight state k (f a)"
  unfolding allocated_def by (rule sum_list_update_unique [OF assms])

text \<open>An update that changes something and whose condition implies a key touches one row.\<close>

lemma single_update:
  assumes upd: "sql_update chk P f xs = Some (xs', c)" and c: "0 < c"
    and dist: "distinct (map key xs)" and P: "\<And>x. P x \<Longrightarrow> key x = k"
  shows "xs' = map (\<lambda>x. if key x = k then f x else x) xs"
    and "\<exists>x\<in>set xs. key x = k \<and> P x"
    and "x \<in> set xs \<Longrightarrow> key x = k \<Longrightarrow> chk (f x)"
proof -
  obtain r where r: "r \<in> set xs" "P r"
    using c sql_updateD(3) [OF upd] by (auto simp: filter_empty_conv)
  have iff: "P x \<longleftrightarrow> key x = k" if "x \<in> set xs" for x
    using P P [OF r(2)] r distinct_map_inj_on_member [OF dist that r(1)] by metis
  show "xs' = map (\<lambda>x. if key x = k then f x else x) xs"
    unfolding sql_updateD(2) [OF upd] using iff by simp
  show "\<exists>x\<in>set xs. key x = k \<and> P x" using r P by blast
  show "chk (f x)" if "x \<in> set xs" "key x = k"
    using sql_updateD(1) [OF upd that(1)] iff [OF that(1)] that(2) by simp
qed

section \<open>Statements that keep the ledger\<close>

lemma insert_task_ledger:
  assumes "ledger_ok t" and "insert_task task t = Some t'"
  shows "ledger_ok t' \<and> t_task_id task \<in> tk_task_id ` set (tbl_task t')"
  using assms unfolding insert_task_def
  by (auto simp: sql_insert_Some ledger_ok_def list_all_iff task_row_of_def)

lemma insert_event_ledger [simp]:
  "insert_task_event tid st rs src tm t = Some t' \<Longrightarrow> ledger_ok t' = ledger_ok t"
  by (intro ledger_cong) (auto simp: insert_task_event_def)

lemma insert_amr_event_ledger [simp]:
  "insert_amr_event now ev t = Some t' \<Longrightarrow> ledger_ok t' = ledger_ok t"
  by (intro ledger_cong) (auto simp: insert_amr_event_def)

lemma update_task_state_ledger [simp]:
  "update_task_state now tid st rs t = Some t' \<Longrightarrow> ledger_ok t' = ledger_ok t"
  by (intro ledger_cong) (auto simp: update_task_state_def)

lemma insert_goods_pair_ledger:
  assumes ok: "ledger_ok t" and known: "t_task_id task \<in> tk_task_id ` set (tbl_task t)"
    and g: "insert_task_goods task g t = Some t1" and s: "insert_task_goods_status task g t1 = Some t2"
  shows "ledger_ok t2 \<and> tbl_task t2 = tbl_task t"
proof -
  let ?row = "initial_status task g"
  have keys: "goods_status_key ?row \<notin> goods_status_key ` set (tbl_task_goods_status t)"
    and t2: "t2 = t\<lparr>tbl_task_goods := tbl_task_goods t @ [goods_row_of task g],
              tbl_task_goods_status := tbl_task_goods_status t @ [?row]\<rparr>"
    and check: "goods_status_check ?row"
    using g s unfolding insert_task_goods_def insert_task_goods_status_def
    by (auto simp: sql_insert_Some)
  have "\<forall>a\<in>set (tbl_task_goods_allocation t). alloc_goods_key a \<noteq> goods_status_key ?row"
    using keys ledgerD(7) [OF ok] by metis
  then have "status_balanced (tbl_task_goods_allocation t) ?row"
    by (simp add: status_balanced_def allocated_absent) (simp add: initial_status_def)
  moreover have "goods_total (goods_row_of task g) = status_total ?row"
    "tg_task_id (goods_row_of task g) = t_task_id task"
    by (simp_all add: goods_total_def status_total_def task_goods_key_def goods_status_key_def
        initial_status_def goods_row_of_def)
  ultimately show ?thesis
    using ok keys check known unfolding ledger_ok_def t2 by (auto simp: list_all_iff)
qed

lemma insert_goods_ledger:
  assumes "ledger_ok (tables db)" and "t_task_id task \<in> tk_task_id ` set (tbl_task (tables db))"
    and "insert_goods eng n task goods db = Some db'"
  shows "ledger_ok (tables db')"
  using assms
proof (induction goods arbitrary: n db)
  case Nil
  then show ?case by simp
next
  case (Cons g gs)
  then obtain db1 db2 where 1: "exec_stmt eng n (insert_task_goods task g) db = Some db1"
    and 2: "exec_stmt eng (n + 2) (insert_task_goods_status task g) db1 = Some db2"
    and 3: "insert_goods eng (n + 4) task gs db2 = Some db'"
    by (auto simp: bind_eq_Some_conv)
  have "ledger_ok (tables db2) \<and> tbl_task (tables db2) = tbl_task (tables db)"
    using insert_goods_pair_ledger [OF Cons.prems(1,2)] exec_stmt_frame [OF 1] exec_stmt_frame [OF 2]
    by blast
  with Cons.IH [OF _ _ 3] Cons.prems(2) show ?case by simp
qed

text \<open>
  One status row changes and the allocations change: the ledger is kept if the row's new counters
  follow the sums of its goods and the sums of all other goods stay.
\<close>

lemma ledger_change:
  assumes ok: "ledger_ok t"
    and same: "tbl_task t' = tbl_task t" "tbl_task_goods t' = tbl_task_goods t"
    and ss: "tbl_task_goods_status t' =
      map (\<lambda>r. if goods_status_key r = k then f r else r) (tbl_task_goods_status t)"
    and fkeep: "\<And>r. goods_status_key (f r) = goods_status_key r"
      "\<And>r. gs_total_quantity (f r) = gs_total_quantity r"
    and fchk: "\<And>r. r \<in> set (tbl_task_goods_status t) \<Longrightarrow> goods_status_key r = k \<Longrightarrow>
      goods_status_check (f r)"
    and ip: "\<And>r. gs_in_progress_quantity (f r) = gs_in_progress_quantity r +
      allocated ''IN_PROGRESS'' k (tbl_task_goods_allocation t') -
      allocated ''IN_PROGRESS'' k (tbl_task_goods_allocation t)"
    and cp: "\<And>r. gs_completed_quantity (f r) = gs_completed_quantity r +
      allocated ''COMPLETED'' k (tbl_task_goods_allocation t') -
      allocated ''COMPLETED'' k (tbl_task_goods_allocation t)"
    and rest: "\<And>k' state. k' \<noteq> k \<Longrightarrow> allocated state k' (tbl_task_goods_allocation t') =
      allocated state k' (tbl_task_goods_allocation t)"
    and as: "distinct (map allocation_key (tbl_task_goods_allocation t'))"
      "list_all allocation_check (tbl_task_goods_allocation t')"
      "\<And>a. a \<in> set (tbl_task_goods_allocation t') \<Longrightarrow>
        alloc_goods_key a \<in> goods_status_key ` set (tbl_task_goods_status t)"
  shows "ledger_ok t'"
proof -
  have keys: "map goods_status_key (tbl_task_goods_status t') =
      map goods_status_key (tbl_task_goods_status t)"
    and totals: "map status_total (tbl_task_goods_status t') =
      map status_total (tbl_task_goods_status t)"
    unfolding ss by (simp_all add: fkeep status_total_def)
  have row: "goods_status_check r' \<and> status_balanced (tbl_task_goods_allocation t') r'"
    if r': "r' \<in> set (tbl_task_goods_status t')" for r'
  proof -
    from r' obtain r where r: "r \<in> set (tbl_task_goods_status t)"
      and r'_def: "r' = (if goods_status_key r = k then f r else r)"
      unfolding ss by auto
    show ?thesis
      using ledgerD(4,6) [OF ok r] fchk [OF r] ip [of r] cp [of r] rest [of "goods_status_key r"]
      by (cases "goods_status_key r = k") (simp_all add: r'_def status_balanced_def fkeep)
  qed
  have mem: "\<forall>a\<in>set (tbl_task_goods_allocation t').
      alloc_goods_key a \<in> set (map goods_status_key (tbl_task_goods_status t))"
    using as(3) by simp
  show ?thesis
    unfolding ledger_ok_def same keys totals list_all_iff
    using ledgerD(1,2,8,9) [OF ok] as(1) as(2) [unfolded list_all_iff] row mem by simp
qed

lemma alloc_weight_other [simp]: "alloc_goods_key a \<noteq> k \<Longrightarrow> alloc_weight state k a = 0"
  by (simp add: alloc_weight_def)

lemma reserve_ledger:
  assumes ok: "ledger_ok t" and r: "reserve_status tid gid q tm t = Some (t1, c)" and c: "0 < c"
    and ins: "insert_allocation rid tid gid rob q tm t1 = Some t2"
  shows "ledger_ok t2"
proof -
  from r obtain rows where upd: "sql_update goods_status_check
        (\<lambda>r. gs_task_id r = tid \<and> gs_goods_id r = gid \<and> q \<le> gs_pending_quantity r)
        (\<lambda>r. r\<lparr>gs_in_progress_quantity := gs_in_progress_quantity r + q,
               gs_pending_quantity := gs_pending_quantity r - q, gs_updated_at := tm\<rparr>)
        (tbl_task_goods_status t) = Some (rows, c)"
    and t1: "t1 = t\<lparr>tbl_task_goods_status := rows\<rparr>"
    unfolding reserve_status_def map_option_update_Some by blast
  have key: "gs_task_id r = tid \<and> gs_goods_id r = gid \<and> q \<le> gs_pending_quantity r \<Longrightarrow>
      goods_status_key r = (tid, gid)" for r
    by (simp add: goods_status_key_def)
  note one = single_update [OF upd c ledgerD(2) [OF ok] key]
  from ins obtain new where new: "tbl_task_goods_allocation t2 = tbl_task_goods_allocation t @ [new]"
    and t2: "t2 = t1\<lparr>tbl_task_goods_allocation := tbl_task_goods_allocation t @ [new]\<rparr>"
    and fresh: "allocation_key new \<notin> allocation_key ` set (tbl_task_goods_allocation t)"
    and chk: "allocation_check new"
    and fields: "alloc_goods_key new = (tid, gid)" "al_quantity new = q" "al_state new = ''IN_PROGRESS''"
    unfolding insert_allocation_def t1 by (auto simp: sql_insert_Some alloc_goods_key_def)
  show ?thesis
  proof (rule ledger_change [OF ok])
    show "tbl_task_goods_status t2 = map (\<lambda>r. if goods_status_key r = (tid, gid) then
        r\<lparr>gs_in_progress_quantity := gs_in_progress_quantity r + q,
          gs_pending_quantity := gs_pending_quantity r - q, gs_updated_at := tm\<rparr> else r)
        (tbl_task_goods_status t)"
      using one(1) by (simp add: t2 t1)
    show "\<And>r. r \<in> set (tbl_task_goods_status t) \<Longrightarrow> goods_status_key r = (tid, gid) \<Longrightarrow>
        goods_status_check (r\<lparr>gs_in_progress_quantity := gs_in_progress_quantity r + q,
          gs_pending_quantity := gs_pending_quantity r - q, gs_updated_at := tm\<rparr>)"
      by (rule one(3))
    show "alloc_goods_key a \<in> goods_status_key ` set (tbl_task_goods_status t)"
      if "a \<in> set (tbl_task_goods_allocation t2)" for a
      using that one(2) ledgerD(7) [OF ok] fields(1) unfolding new by force
    show "list_all allocation_check (tbl_task_goods_allocation t2)"
      using chk ledgerD(5) [OF ok] by (simp add: new list_all_iff)
  qed (use fresh ledgerD(3) [OF ok] in
      \<open>simp_all add: t2 t1 goods_status_key_def fields alloc_weight_def\<close>)
qed

lemma settle_ledger:
  assumes ok: "ledger_ok t"
    and find: "find (open_allocation rid rob) (tbl_task_goods_allocation t) = Some a"
    and st: "st = ''COMPLETED'' \<or> st = ''ABORTED''"
    and close: "close_allocation rid rob st tm t = Some (t1, c1)" "0 < c1"
    and settle: "settle_status st (al_task_id a) (al_goods_id a) (al_quantity a) tm t1 = Some (t2, c2)"
      "0 < c2"
  shows "ledger_ok t2"
proof -
  let ?as = "tbl_task_goods_allocation t"
  let ?g = "\<lambda>a. a\<lparr>al_state := st, al_settled_at := Some tm\<rparr>"
  have a: "a \<in> set ?as" "open_allocation rid rob a" using find_Some_member [OF find] by simp_all
  from close(1) obtain allocs
    where updA: "sql_update allocation_check (open_allocation rid rob) ?g ?as = Some (allocs, c1)"
    and t1: "t1 = t\<lparr>tbl_task_goods_allocation := allocs\<rparr>"
    unfolding close_allocation_def map_option_update_Some by blast
  have keyA: "open_allocation rid rob x \<Longrightarrow> allocation_key x = allocation_key a" for x
    using a(2) by (simp add: open_allocation_def allocation_key_def)
  note oneA = single_update [OF updA close(2) ledgerD(3) [OF ok] keyA]
  let ?k = "alloc_goods_key a" and ?q = "al_quantity a"
  let ?f = "settled_row st ?q tm"
  from settle(1) obtain rows where updS: "sql_update goods_status_check
      (\<lambda>r. gs_task_id r = al_task_id a \<and> gs_goods_id r = al_goods_id a) ?f
      (tbl_task_goods_status t) = Some (rows, c2)"
    and t2: "t2 = t1\<lparr>tbl_task_goods_status := rows\<rparr>"
    unfolding settle_status_def map_option_update_Some t1 by auto
  have keyS: "gs_task_id r = al_task_id a \<and> gs_goods_id r = al_goods_id a \<Longrightarrow>
      goods_status_key r = ?k" for r
    by (simp add: goods_status_key_def alloc_goods_key_def)
  note oneS = single_update [OF updS settle(2) ledgerD(2) [OF ok] keyS]
  have allocs: "tbl_task_goods_allocation t2 =
      map (\<lambda>x. if allocation_key x = allocation_key a then ?g x else x) ?as"
    using oneA(1) by (simp add: t2 t1)
  have sums: "allocated state k (tbl_task_goods_allocation t2) =
      allocated state k ?as - alloc_weight state k a + alloc_weight state k (?g a)" for state k
    unfolding allocs by (rule allocated_replace [OF ledgerD(3) [OF ok] a(1)])
  have st_a: "al_state a = ''IN_PROGRESS''" using a(2) by (simp add: open_allocation_def)
  have gkey: "alloc_goods_key (?g x) = alloc_goods_key x" "allocation_key (?g x) = allocation_key x" for x
    by (simp_all add: alloc_goods_key_def allocation_key_def)
  show ?thesis
  proof (rule ledger_change [OF ok])
    show "tbl_task_goods_status t2 =
        map (\<lambda>r. if goods_status_key r = ?k then ?f r else r) (tbl_task_goods_status t)"
      using oneS(1) by (simp add: t2)
    show "goods_status_check (?f r)"
      if "r \<in> set (tbl_task_goods_status t)" "goods_status_key r = ?k" for r
      by (rule oneS(3)) (use that in simp_all)
    show "alloc_goods_key x \<in> goods_status_key ` set (tbl_task_goods_status t)"
      if "x \<in> set (tbl_task_goods_allocation t2)" for x
      using that ledgerD(7) [OF ok] unfolding allocs by (auto simp: gkey)
    show "list_all allocation_check (tbl_task_goods_allocation t2)"
      using ledgerD(5) [OF ok] oneA(3) unfolding allocs list_all_iff by auto
    show "distinct (map allocation_key (tbl_task_goods_allocation t2))"
      unfolding allocs by (subst map_key_if) (simp_all add: gkey ledgerD(3) [OF ok])
    show "allocated state k' (tbl_task_goods_allocation t2) = allocated state k' ?as"
      if "k' \<noteq> ?k" for k' state
      using that by (simp add: sums gkey alloc_weight_def)
    show "gs_in_progress_quantity (?f r) = gs_in_progress_quantity r +
        allocated ''IN_PROGRESS'' ?k (tbl_task_goods_allocation t2) - allocated ''IN_PROGRESS'' ?k ?as" for r
      using st by (auto simp: sums gkey alloc_weight_def st_a settled_row_def)
    show "gs_completed_quantity (?f r) = gs_completed_quantity r +
        allocated ''COMPLETED'' ?k (tbl_task_goods_allocation t2) - allocated ''COMPLETED'' ?k ?as" for r
      using st by (auto simp: sums gkey alloc_weight_def st_a settled_row_def)
  qed (simp_all add: t2 t1 goods_status_key_def settled_row_def)
qed

section \<open>Operations that keep the ledger\<close>

text \<open>
  A successful run of an operation is the statements applied to the tables (any engine); an
  unsuccessful one leaves the tables alone, by the contract \<open>atomic_operation\<close>.
\<close>

lemma CreateTask_success:
  assumes "idle db" and "CreateTask eng task db = (True, db')"
  obtains t1 db1 db2 where "insert_task task (tables db) = Some t1" and "tables db1 = t1"
    and "insert_goods eng 2 task (t_goods task) db1 = Some db2"
    and "insert_task_event (t_task_id task) (t_state task) (t_reason task) ''HTTP''
      (t_updated_at task) (tables db2) = Some (tables db')"
proof -
  obtain db3 where "create_statements eng task (db\<lparr>journal := Some (tables db)\<rparr>) = Some db3"
    and "tables db3 = tables db'"
    using transaction_success [OF assms(1)] guarded_success assms(2) unfolding CreateTask_def by blast
  then show ?thesis
    unfolding create_statements_def
    by (auto simp: bind_eq_Some_conv dest!: exec_stmt_frame intro: that)
qed

lemma CreateTask_ledger:
  assumes idle: "idle db" and ok: "ledger_ok (tables db)"
    and run: "CreateTask eng task db = (r, db')"
  shows "ledger_ok (tables db')"
proof (rule create.keeps_property [OF idle run, of ledger_ok])
  assume "CreateTask eng task db = (True, db')"
  from CreateTask_success [OF idle this] obtain t1 db1 db2
    where "insert_task task (tables db) = Some t1" and "tables db1 = t1"
    and "insert_goods eng 2 task (t_goods task) db1 = Some db2"
    and "insert_task_event (t_task_id task) (t_state task) (t_reason task) ''HTTP''
      (t_updated_at task) (tables db2) = Some (tables db')" .
  then show "ledger_ok (tables db')"
    using insert_task_ledger [OF ok] insert_goods_ledger insert_event_ledger by metis
qed (rule ok)

lemma UpdateTaskState_success:
  "UpdateTaskState eng now tid st rs db = (True, db') \<Longrightarrow>
     update_task_state now tid st rs (tables db) = Some (tables db')"
  unfolding UpdateTaskState_def
  by (auto dest!: guarded_success exec_stmt_frame split: option.splits)

lemma UpdateTaskState_ledger:
  assumes "idle db" and "ledger_ok (tables db)" and "UpdateTaskState eng now tid st rs db = (r, db')"
  shows "ledger_ok (tables db')"
  by (rule update_state.keeps_property [OF assms(1,3), of ledger_ok])
    (use assms(2) in \<open>auto dest: UpdateTaskState_success\<close>)

lemma UpdateTaskStateWithEvent_success:
  assumes "idle db" and "UpdateTaskStateWithEvent eng now tid st rs src db = (True, db')"
  obtains t1 where "update_task_state now tid st rs (tables db) = Some t1"
    and "insert_task_event tid st rs src now t1 = Some (tables db')"
proof -
  obtain db3 where "state_event_statements eng now tid st rs src (db\<lparr>journal := Some (tables db)\<rparr>) = Some db3"
    and "tables db3 = tables db'"
    using transaction_success [OF assms(1)] guarded_success assms(2)
    unfolding UpdateTaskStateWithEvent_def by blast
  then show ?thesis
    unfolding state_event_statements_def
    by (auto simp: bind_eq_Some_conv dest!: exec_stmt_frame intro: that)
qed

lemma UpdateTaskStateWithEvent_ledger:
  assumes "idle db" and "ledger_ok (tables db)"
    and "UpdateTaskStateWithEvent eng now tid st rs src db = (r, db')"
  shows "ledger_ok (tables db')"
  by (rule state_event.keeps_property [OF assms(1,3), of ledger_ok])
    (use assms(1,2) in \<open>auto elim: UpdateTaskStateWithEvent_success\<close>)

lemma InsertAmrTaskStatusEvent_success:
  "InsertAmrTaskStatusEvent eng now ev db = (True, db') \<Longrightarrow>
     insert_amr_event now ev (tables db) = Some (tables db')"
  unfolding InsertAmrTaskStatusEvent_def
  by (auto dest!: guarded_success exec_stmt_frame split: option.splits)

lemma InsertAmrTaskStatusEvent_ledger:
  assumes "idle db" and "ledger_ok (tables db)"
    and "InsertAmrTaskStatusEvent eng now ev db = (r, db')"
  shows "ledger_ok (tables db')"
  by (rule amr_event.keeps_property [OF assms(1,3), of ledger_ok])
    (use assms(2) in \<open>auto dest: InsertAmrTaskStatusEvent_success\<close>)

lemma ApproveGoodsAllocation_success:
  assumes "idle db" and "ApproveGoodsAllocation eng rid tid gid rob q tm db = (True, db')"
  obtains t1 c where "reserve_status tid gid q tm (tables db) = Some (t1, c)" and "0 < c"
    and "insert_allocation rid tid gid rob q tm t1 = Some (tables db')"
proof -
  obtain db3 where "approve_statements eng rid tid gid rob q tm (db\<lparr>journal := Some (tables db)\<rparr>) = Some db3"
    and "tables db3 = tables db'"
    using transaction_success [OF assms(1)] guarded_success assms(2)
    unfolding ApproveGoodsAllocation_def by blast
  then show ?thesis
    unfolding approve_statements_def
    by (auto simp: bind_eq_Some_conv dest!: exec_stmt_frame exec_changing_frame intro: that)
qed

lemma ApproveGoodsAllocation_ledger:
  assumes "idle db" and "ledger_ok (tables db)"
    and "ApproveGoodsAllocation eng rid tid gid rob q tm db = (r, db')"
  shows "ledger_ok (tables db')"
  by (rule approve.keeps_property [OF assms(1,3), of ledger_ok])
    (use assms(1,2) in \<open>auto elim: ApproveGoodsAllocation_success intro: reserve_ledger\<close>)

lemma SettleGoodsAllocation_success:
  assumes "idle db" and "SettleGoodsAllocation eng rid rob st tm db = (True, db')"
  obtains a t1 c1 c2 where "st = ''COMPLETED'' \<or> st = ''ABORTED''"
    and "find (open_allocation rid rob) (tbl_task_goods_allocation (tables db)) = Some a"
    and "close_allocation rid rob st tm (tables db) = Some (t1, c1)" and "0 < c1"
    and "settle_status st (al_task_id a) (al_goods_id a) (al_quantity a) tm t1 = Some (tables db', c2)"
    and "0 < c2"
proof -
  obtain a where st: "st = ''COMPLETED'' \<or> st = ''ABORTED''"
    and a: "find (open_allocation rid rob) (tbl_task_goods_allocation (tables db)) = Some a"
    and run: "transaction (settle_statements eng rid rob st tm (al_task_id a) (al_goods_id a)
      (al_quantity a)) db = (True, db')"
    using assms(2) unfolding SettleGoodsAllocation_def
    by (auto dest!: guarded_success split: if_splits option.splits)
  obtain db3 where "settle_statements eng rid rob st tm (al_task_id a) (al_goods_id a)
      (al_quantity a) (db\<lparr>journal := Some (tables db)\<rparr>) = Some db3" and "tables db3 = tables db'"
    using transaction_success [OF assms(1) run] by blast
  with st a show ?thesis
    unfolding settle_statements_def
    by (auto simp: bind_eq_Some_conv dest!: exec_changing_frame intro: that)
qed

lemma SettleGoodsAllocation_ledger:
  assumes "idle db" and "ledger_ok (tables db)"
    and "SettleGoodsAllocation eng rid rob st tm db = (r, db')"
  shows "ledger_ok (tables db')"
  by (rule settle.keeps_property [OF assms(1,3), of ledger_ok])
    (use assms(1,2) in \<open>auto elim!: SettleGoodsAllocation_success intro: settle_ledger\<close>)

end
