(* ===== verification/Task_Ops.thy ===== *)
theory Task_Ops
  imports Task_Ledger
begin

text \<open>
  What the task operations of the database do: exactly when they succeed on a working engine, what
  a successful run on any engine changes, and what is read back.
\<close>

section \<open>Creating and reading back\<close>

lemma insert_goods_tables:
  "insert_goods eng n task gs db = Some db' \<Longrightarrow>
     tables db' = (tables db)
       \<lparr>tbl_task_goods := tbl_task_goods (tables db) @ map (goods_row_of task) gs,
        tbl_task_goods_status := tbl_task_goods_status (tables db) @ map (initial_status task) gs\<rparr>"
proof (induction gs arbitrary: n db)
  case Nil
  then show ?case by simp
next
  case (Cons g gs)
  then obtain db1 db2 where 1: "exec_stmt eng n (insert_task_goods task g) db = Some db1"
    and 2: "exec_stmt eng (n + 2) (insert_task_goods_status task g) db1 = Some db2"
    and 3: "insert_goods eng (n + 4) task gs db2 = Some db'"
    by (auto simp: bind_eq_Some_conv)
  have "tables db2 = (tables db)
      \<lparr>tbl_task_goods := tbl_task_goods (tables db) @ [goods_row_of task g],
       tbl_task_goods_status := tbl_task_goods_status (tables db) @ [initial_status task g]\<rparr>"
  proof -
    have "tables db1 = (tables db)
        \<lparr>tbl_task_goods := tbl_task_goods (tables db) @ [goods_row_of task g]\<rparr>"
      using exec_stmt_frame [OF 1] by (auto simp: insert_task_goods_def sql_insert_Some)
    moreover have "tables db2 = (tables db1)
        \<lparr>tbl_task_goods_status := tbl_task_goods_status (tables db1) @ [initial_status task g]\<rparr>"
      using exec_stmt_frame [OF 2] by (auto simp: insert_task_goods_status_def sql_insert_Some)
    ultimately show ?thesis by simp
  qed
  with Cons.IH [OF 3] show ?case by simp
qed

definition created_tables :: "transport_task \<Rightarrow> db_tables \<Rightarrow> db_tables" where
  "created_tables task t = t
     \<lparr>tbl_task := tbl_task t @ [task_row_of task],
      tbl_task_goods := tbl_task_goods t @ map (goods_row_of task) (t_goods task),
      tbl_task_goods_status := tbl_task_goods_status t @ map (initial_status task) (t_goods task),
      tbl_task_event := tbl_task_event t @
        [\<lparr>ev_task_id = t_task_id task, ev_state = t_state task, ev_reason = t_reason task,
           ev_source = ''HTTP'', ev_timestamp = t_updated_at task\<rparr>]\<rparr>"

lemma CreateTask_tables:
  assumes "idle db" and "CreateTask eng task db = (True, db')"
  shows "tables db' = created_tables task (tables db)"
    and "t_task_id task \<notin> tk_task_id ` set (tbl_task (tables db))"
    and "task_check (task_row_of task)"
proof -
  obtain t1 db1 db2 where t1: "insert_task task (tables db) = Some t1" and db1: "tables db1 = t1"
    and db2: "insert_goods eng 2 task (t_goods task) db1 = Some db2"
    and ev: "insert_task_event (t_task_id task) (t_state task) (t_reason task) ''HTTP''
      (t_updated_at task) (tables db2) = Some (tables db')"
    by (rule CreateTask_success [OF assms])
  show "tables db' = created_tables task (tables db)"
    using t1 ev insert_goods_tables [OF db2]
    by (auto simp: insert_task_def sql_insert_Some insert_task_event_def created_tables_def db1)
  show "t_task_id task \<notin> tk_task_id ` set (tbl_task (tables db))" "task_check (task_row_of task)"
    using t1 by (auto simp: insert_task_def sql_insert_Some task_row_of_def)
qed

lemma find_append_miss:
  "\<forall>x\<in>set xs. \<not> P x \<Longrightarrow> find P (xs @ ys) = find P ys"
  by (induction xs) auto

lemma find_append_other:
  "\<not> P y \<Longrightarrow> find P (xs @ [y]) = find P xs"
  by (induction xs) auto

lemma goods_of_row_of [simp]: "goods_of_row (goods_row_of task g) = g"
  by (simp add: goods_of_row_def goods_row_of_def)

text \<open>
  What \<open>CreateTask\<close> stores, \<open>GetTask\<close> reads back. When a creation reports success (whatever
  the engine did before), reading the task on a working engine returns the very task that was
  given, goods included, and every other task reads as before.
\<close>

theorem create_then_get:
  assumes "idle db" and "ledger_ok (tables db)" and "CreateTask eng task db = (True, db')"
  shows "GetTask working task_id db' =
     (if task_id = t_task_id task then Some task else GetTask working task_id db)"
proof -
  have op: "opened db'" "opened db"
    using assms(1,3) create.keeps_opened guarded_success unfolding CreateTask_def by metis+
  note tabs = CreateTask_tables [OF assms(1,3)]
  have nogoods: "\<forall>g\<in>set (tbl_task_goods (tables db)). tg_task_id g \<noteq> t_task_id task"
    using ledgerD(9) [OF assms(2)] tabs(2) by force
  show ?thesis
  proof (cases "task_id = t_task_id task")
    case True
    have "\<forall>r\<in>set (tbl_task (tables db)). \<not> tk_task_id r = t_task_id task" using tabs(2) by force
    then have "find (\<lambda>r. tk_task_id r = t_task_id task) (tbl_task (tables db')) = Some (task_row_of task)"
      by (subst tabs(1)) (simp add: created_tables_def find_append_miss, simp add: task_row_of_def)
    moreover have "filter (\<lambda>g. tg_task_id g = t_task_id task) (tbl_task_goods (tables db'))
        = map (goods_row_of task) (t_goods task)"
      using nogoods by (simp add: tabs(1) created_tables_def goods_row_of_def filter_empty_conv)
    ultimately show ?thesis
      using op True by (simp add: GetTask_def task_row_of_def comp_def)
  next
    case False
    then have "find (\<lambda>r. tk_task_id r = task_id) (tbl_task (tables db'))
        = find (\<lambda>r. tk_task_id r = task_id) (tbl_task (tables db))"
      by (simp add: tabs(1) created_tables_def find_append_other task_row_of_def)
    moreover have "filter (\<lambda>g. tg_task_id g = task_id) (tbl_task_goods (tables db'))
        = filter (\<lambda>g. tg_task_id g = task_id) (tbl_task_goods (tables db))"
      using False by (simp add: tabs(1) created_tables_def goods_row_of_def filter_empty_conv)
    ultimately show ?thesis
      using op False by (simp add: GetTask_def split: option.split)
  qed
qed

section \<open>When a creation succeeds\<close>

lemma initial_status_check [simp]:
  "goods_status_check (initial_status task g) \<longleftrightarrow> 0 \<le> g_total_quantity g"
  "task_goods_check (goods_row_of task g) \<longleftrightarrow> 0 \<le> g_total_quantity g"
  by (simp_all add: goods_status_check_def initial_status_def task_goods_check_def goods_row_of_def)

lemma goods_keys [simp]:
  "task_goods_key (goods_row_of task g) = (t_task_id task, g_goods_id g)"
  "goods_status_key (initial_status task g) = (t_task_id task, g_goods_id g)"
  by (simp_all add: task_goods_key_def goods_row_of_def goods_status_key_def initial_status_def)

definition goods_ids_used :: "string \<Rightarrow> db_tables \<Rightarrow> string set" where
  "goods_ids_used tid t = {gid. (tid, gid) \<in> task_goods_key ` set (tbl_task_goods t)}"

definition goods_insertable :: "transport_task \<Rightarrow> task_goods list \<Rightarrow> db_tables \<Rightarrow> bool" where
  "goods_insertable task gs t \<longleftrightarrow>
     distinct (map g_goods_id gs) \<and> (\<forall>g\<in>set gs. 0 \<le> g_total_quantity g) \<and>
     (\<forall>g\<in>set gs. g_goods_id g \<notin> goods_ids_used (t_task_id task) t)"

lemma insert_goods_working:
  assumes "map task_goods_key (tbl_task_goods (tables db)) =
    map goods_status_key (tbl_task_goods_status (tables db))"
  shows "insert_goods working n task gs db \<noteq> None \<longleftrightarrow> goods_insertable task gs (tables db)"
  using assms
proof (induction gs arbitrary: n db)
  case Nil
  then show ?case by (simp add: goods_insertable_def)
next
  case (Cons g gs)
  let ?t = "tables db"
  let ?t2 = "?t\<lparr>tbl_task_goods := tbl_task_goods ?t @ [goods_row_of task g],
                 tbl_task_goods_status := tbl_task_goods_status ?t @ [initial_status task g]\<rparr>"
  let ?free = "0 \<le> g_total_quantity g \<and> g_goods_id g \<notin> goods_ids_used (t_task_id task) ?t"
  have keys: "set (map task_goods_key (tbl_task_goods ?t)) = set (map goods_status_key (tbl_task_goods_status ?t))"
    by (simp only: Cons.prems)
  then have mem: "(t_task_id task, g_goods_id g) \<in> goods_status_key ` set (tbl_task_goods_status ?t) \<longleftrightarrow>
      g_goods_id g \<in> goods_ids_used (t_task_id task) ?t"
    by (simp add: goods_ids_used_def)
  have used: "goods_ids_used (t_task_id task) ?t2 =
      insert (g_goods_id g) (goods_ids_used (t_task_id task) ?t)"
    by (auto simp: goods_ids_used_def)
  show ?case
  proof (cases ?free)
    case True
    then have "insert_goods working n task (g # gs) db = insert_goods working (n + 4) task gs (db\<lparr>tables := ?t2\<rparr>)"
      using mem by (simp add: insert_task_goods_def insert_task_goods_status_def sql_insert_def
          goods_ids_used_def)
    moreover have "insert_goods working (n + 4) task gs (db\<lparr>tables := ?t2\<rparr>) \<noteq> None \<longleftrightarrow>
        goods_insertable task gs (tables (db\<lparr>tables := ?t2\<rparr>))"
      by (rule Cons.IH) (simp add: Cons.prems)
    moreover have "goods_insertable task gs (tables (db\<lparr>tables := ?t2\<rparr>)) \<longleftrightarrow>
        goods_insertable task (g # gs) ?t"
      using True used by (auto simp: goods_insertable_def image_iff)
    ultimately show ?thesis by metis
  next
    case False
    then have "insert_goods working n task (g # gs) db = None"
      by (auto simp: insert_task_goods_def sql_insert_def goods_ids_used_def)
    moreover have "\<not> goods_insertable task (g # gs) ?t" using False by (auto simp: goods_insertable_def)
    ultimately show ?thesis by simp
  qed
qed

lemma CreateTask_working:
  assumes "idle db" and "opened db" and "ledger_ok (tables db)"
  shows "CreateTask working task db =
    (if t_task_type task \<in> {''LOAD'', ''UNLOAD''} \<and>
        t_task_id task \<notin> tk_task_id ` set (tbl_task (tables db)) \<and>
        distinct (map g_goods_id (t_goods task)) \<and> (\<forall>g\<in>set (t_goods task). 0 \<le> g_total_quantity g)
     then (True, db\<lparr>tables := created_tables task (tables db)\<rparr>) else (False, db))"
    (is "_ = (if ?good then _ else _)")
proof -
  let ?t = "tables db" and ?db0 = "db\<lparr>journal := Some (tables db)\<rparr>"
  let ?t1 = "?t\<lparr>tbl_task := tbl_task ?t @ [task_row_of task]\<rparr>"
  have keys: "map task_goods_key (tbl_task_goods ?t) = map goods_status_key (tbl_task_goods_status ?t)"
    using arg_cong [OF ledgerD(8) [OF assms(3)], of "map fst"]
    by (simp add: goods_total_def status_total_def comp_def)
  have row: "tk_task_id (task_row_of task) = t_task_id task"
    "task_check (task_row_of task) \<longleftrightarrow> t_task_type task \<in> {''LOAD'', ''UNLOAD''}"
    by (simp_all add: task_row_of_def task_check_def)
  have free: "goods_ids_used (t_task_id task) ?t1 = {}"
    if "t_task_id task \<notin> tk_task_id ` set (tbl_task ?t)"
    using that ledgerD(9) [OF assms(3)] by (force simp: goods_ids_used_def task_goods_key_def)
  have ok: "(\<exists>db'. create_statements working task ?db0 = Some db') \<longleftrightarrow> ?good"
    using insert_goods_working [of "?db0\<lparr>tables := ?t1\<rparr>" 2 task "t_goods task"] keys free
    by (auto simp: create_statements_def insert_task_def sql_insert_def row bind_eq_Some_conv
        insert_task_event_def goods_insertable_def)
  show ?thesis
  proof (cases ?good)
    case True
    then obtain db' where db': "create_statements working task ?db0 = Some db'" using ok by blast
    then have run: "CreateTask working task db = (True, Commit db')"
      using assms(1,2) by (simp add: CreateTask_def transaction_idle)
    have "tables (Commit db') = created_tables task ?t" "opened (Commit db') = opened db"
      "journal (Commit db') = journal db"
      using CreateTask_tables(1) [OF assms(1) run] create.keeps_opened [OF assms(1) run] assms(1)
      by (simp_all add: idle_def Commit_def)
    then have "Commit db' = db\<lparr>tables := created_tables task ?t\<rparr>" by simp
    with run True show ?thesis by simp
  next
    case False
    then have "create_statements working task ?db0 = None" using ok by auto
    with assms(1,2) False show ?thesis by (simp add: CreateTask_def transaction_idle)
  qed
qed

text \<open>
  On a working engine and a ledger in order, a creation succeeds exactly for a task of a known
  type with a fresh id, no goods listed twice and no negative quantity; otherwise the database is
  exactly as it was.
\<close>

theorem create_succeeds_iff:
  assumes "idle db" and "opened db" and "ledger_ok (tables db)"
  shows "CreateTask working task db =
    (if t_task_type task \<in> {''LOAD'', ''UNLOAD''} \<and>
        t_task_id task \<notin> tk_task_id ` set (tbl_task (tables db)) \<and>
        distinct (map g_goods_id (t_goods task)) \<and> (\<forall>g\<in>set (t_goods task). 0 \<le> g_total_quantity g)
     then (True, db\<lparr>tables := created_tables task (tables db)\<rparr>) else (False, db))"
  by (rule CreateTask_working [OF assms])

section \<open>A database with one task\<close>

text \<open>Sample data on which the theorems are instantiated: one task with two kinds of goods.\<close>

definition sample_task :: transport_task where
  "sample_task = \<lparr>t_task_id = ''T1'', t_warehouse_id = ''W1'', t_task_type = ''LOAD'',
     t_robot_ids = [''amr-1'', ''amr-2''],
     t_goods = [\<lparr>g_goods_id = ''G1'', g_goods_name = ''box'', g_total_quantity = 10\<rparr>,
                \<lparr>g_goods_id = ''G2'', g_goods_name = ''crate'', g_total_quantity = 4\<rparr>],
     t_state = ''PENDING'', t_goal = '''', t_reason = '''', t_created_at = ''t0'',
     t_updated_at = ''t0''\<rparr>"

definition sample_db :: sqlite where
  "sample_db = fresh_db\<lparr>tables := created_tables sample_task empty_tables\<rparr>"

lemma fresh_db_ok [simp]: "idle fresh_db" "opened fresh_db" "tables fresh_db = empty_tables"
  by (simp_all add: fresh_db_def idle_def)

lemma sample_created: "CreateTask working sample_task fresh_db = (True, sample_db)"
  by (subst CreateTask_working) (simp_all add: sample_task_def sample_db_def)

lemma sample_db_ok [simp]: "idle sample_db" "opened sample_db" "ledger_ok (tables sample_db)"
  using CreateTask_ledger [OF _ _ sample_created] create.keeps_opened [OF _ sample_created]
    create.keeps_idle [OF _ sample_created] by simp_all

lemma create_then_get_witness:
  "GetTask working ''T1'' sample_db = Some sample_task"
  using create_then_get [OF _ _ sample_created, of "''T1''"] by (simp add: sample_task_def)

lemma create_succeeds_iff_witness:
  "CreateTask working (sample_task\<lparr>t_task_type := ''MOVE''\<rparr>) fresh_db = (False, fresh_db)"
  using create_succeeds_iff [of fresh_db "sample_task\<lparr>t_task_type := ''MOVE''\<rparr>"]
  by (simp add: sample_task_def)

section \<open>When an allocation is approved and settled\<close>

definition pending_of :: "string \<times> string \<Rightarrow> db_tables \<Rightarrow> int" where
  "pending_of k t =
     (case find (\<lambda>r. goods_status_key r = k) (tbl_task_goods_status t) of
        None \<Rightarrow> 0 | Some r \<Rightarrow> gs_pending_quantity r)"

lemma find_key_unique:
  "distinct (map key xs) \<Longrightarrow> x \<in> set xs \<Longrightarrow> key x = k \<Longrightarrow> find (\<lambda>y. key y = k) xs = Some x"
  by (induction xs) (auto simp: image_iff)

lemma pending_of_row:
  "ledger_ok t \<Longrightarrow> r \<in> set (tbl_task_goods_status t) \<Longrightarrow> pending_of (goods_status_key r) t = gs_pending_quantity r"
  using find_key_unique [OF ledgerD(2)] by (simp add: pending_of_def)

lemma pending_of_pos_row:
  "0 < pending_of k t \<Longrightarrow> \<exists>r\<in>set (tbl_task_goods_status t). goods_status_key r = k \<and> gs_pending_quantity r = pending_of k t"
  by (auto simp: pending_of_def dest: find_Some_member split: option.splits)

text \<open>The tables after a reservation.\<close>

definition reserved_tables ::
  "string \<Rightarrow> string \<Rightarrow> string \<Rightarrow> string \<Rightarrow> int \<Rightarrow> string \<Rightarrow> db_tables \<Rightarrow> db_tables" where
  "reserved_tables rid tid gid rob q tm t = t
     \<lparr>tbl_task_goods_status := map (\<lambda>r. if goods_status_key r = (tid, gid)
        then r\<lparr>gs_in_progress_quantity := gs_in_progress_quantity r + q,
               gs_pending_quantity := gs_pending_quantity r - q, gs_updated_at := tm\<rparr> else r)
        (tbl_task_goods_status t),
      tbl_task_goods_allocation := tbl_task_goods_allocation t @
        [\<lparr>al_request_id = rid, al_task_id = tid, al_goods_id = gid, al_robot_id = rob,
           al_quantity = q, al_state = ''IN_PROGRESS'', al_allocated_at = tm,
           al_settled_at = None\<rparr>]\<rparr>"

lemma approve_tables:
  assumes idle: "idle db" and ok: "ledger_ok (tables db)"
    and run: "ApproveGoodsAllocation eng rid tid gid rob q tm db = (True, db')"
  shows "tables db' = reserved_tables rid tid gid rob q tm (tables db)"
    and "0 < q" and "q \<le> pending_of (tid, gid) (tables db)"
    and "(rid, rob) \<notin> allocation_key ` set (tbl_task_goods_allocation (tables db))"
proof -
  let ?t = "tables db"
  obtain t1 c where res: "reserve_status tid gid q tm ?t = Some (t1, c)" "0 < c"
    and ins: "insert_allocation rid tid gid rob q tm t1 = Some (tables db')"
    by (rule ApproveGoodsAllocation_success [OF idle run])
  from res(1) obtain rows where upd: "sql_update goods_status_check
        (\<lambda>r. gs_task_id r = tid \<and> gs_goods_id r = gid \<and> q \<le> gs_pending_quantity r)
        (\<lambda>r. r\<lparr>gs_in_progress_quantity := gs_in_progress_quantity r + q,
               gs_pending_quantity := gs_pending_quantity r - q, gs_updated_at := tm\<rparr>)
        (tbl_task_goods_status ?t) = Some (rows, c)"
    and t1: "t1 = ?t\<lparr>tbl_task_goods_status := rows\<rparr>"
    unfolding reserve_status_def map_option_update_Some by blast
  have key: "gs_task_id r = tid \<and> gs_goods_id r = gid \<and> q \<le> gs_pending_quantity r \<Longrightarrow>
      goods_status_key r = (tid, gid)" for r
    by (simp add: goods_status_key_def)
  note one = single_update [OF upd res(2) ledgerD(2) [OF ok] key]
  show "tables db' = reserved_tables rid tid gid rob q tm ?t"
    using ins one(1) unfolding insert_allocation_def t1 by (auto simp: sql_insert_Some reserved_tables_def)
  show "0 < q" "(rid, rob) \<notin> allocation_key ` set (tbl_task_goods_allocation ?t)"
    using ins unfolding insert_allocation_def t1
    by (auto simp: sql_insert_Some allocation_check_def allocation_key_def)
  show "q \<le> pending_of (tid, gid) ?t"
    using one(2) pending_of_row [OF ok] by metis
qed

lemma ApproveGoodsAllocation_working:
  assumes "idle db" and "opened db" and "ledger_ok (tables db)"
  shows "ApproveGoodsAllocation working rid tid gid rob q tm db =
    (if 0 < q \<and> q \<le> pending_of (tid, gid) (tables db) \<and>
        (rid, rob) \<notin> allocation_key ` set (tbl_task_goods_allocation (tables db))
     then (True, db\<lparr>tables := reserved_tables rid tid gid rob q tm (tables db)\<rparr>) else (False, db))"
    (is "?run = (if ?good then _ else _)")
proof (cases "fst ?run")
  case True
  then obtain db' where run: "?run = (True, db')" by (cases ?run) auto
  have "journal db' = journal db" "opened db' = opened db"
    using approve.keeps_idle [OF assms(1) run] approve.keeps_opened [OF assms(1) run] assms(1)
    by (simp_all add: idle_def)
  moreover note approve_tables [OF assms(1,3) run]
  ultimately show ?thesis using run by simp
next
  case False
  then obtain db' where run: "?run = (False, db')" by (cases ?run) auto
  have "\<not> ?good"
  proof
    assume good: ?good
    let ?t = "tables db"
    obtain r where r: "r \<in> set (tbl_task_goods_status ?t)" "goods_status_key r = (tid, gid)"
      "gs_pending_quantity r = pending_of (tid, gid) ?t"
      using pending_of_pos_row good by force
    let ?P = "\<lambda>r. gs_task_id r = tid \<and> gs_goods_id r = gid \<and> q \<le> gs_pending_quantity r"
    have chk: "goods_status_check (x\<lparr>gs_in_progress_quantity := gs_in_progress_quantity x + q,
        gs_pending_quantity := gs_pending_quantity x - q, gs_updated_at := tm\<rparr>)"
      if "x \<in> set (tbl_task_goods_status ?t)" "?P x" for x
      using ledgerD(4) [OF assms(3) that(1)] that(2) good by (simp add: goods_status_check_def)
    have "r \<in> set (filter ?P (tbl_task_goods_status ?t))" using r good by (simp add: goods_status_key_def)
    then have "0 < length (filter ?P (tbl_task_goods_status ?t))" by (rule length_pos_if_in_set)
    then have "fst ?run"
      using assms(1,2) good chk
      by (simp add: ApproveGoodsAllocation_def transaction_idle approve_statements_def
          exec_changing_def reserve_status_def sql_update_def list_all_iff insert_allocation_def
          sql_insert_def allocation_check_def allocation_key_def)
    with False show False by simp
  qed
  with run approve.failure_is_noop [OF assms(1) run] show ?thesis by simp
qed

text \<open>
  C5: goods are approved exactly when the request is for a positive quantity that is still pending,
  and no allocation of this request and robot is on record. The quantity moves from pending to in
  progress and one allocation row is added; any other request leaves the database as it was. So
  never more than the total of a goods is handed out, and a request sent twice reserves once.
\<close>

theorem approve_succeeds_iff:
  assumes "idle db" and "opened db" and "ledger_ok (tables db)"
  shows "ApproveGoodsAllocation working rid tid gid rob q tm db =
    (if 0 < q \<and> q \<le> pending_of (tid, gid) (tables db) \<and>
        (rid, rob) \<notin> allocation_key ` set (tbl_task_goods_allocation (tables db))
     then (True, db\<lparr>tables := reserved_tables rid tid gid rob q tm (tables db)\<rparr>) else (False, db))"
  by (rule ApproveGoodsAllocation_working [OF assms])

lemma sample_pending:
  "pending_of (''T1'', ''G1'') (tables sample_db) = 10"
  "tbl_task_goods_allocation (tables sample_db) = []"
  by (simp_all add: sample_db_def created_tables_def sample_task_def pending_of_def)
    (simp add: initial_status_def)

lemma approve_succeeds_iff_witness:
  "ApproveGoodsAllocation working ''r1'' ''T1'' ''G1'' ''amr-1'' 11 ''t1'' sample_db = (False, sample_db) \<and>
   fst (ApproveGoodsAllocation working ''r1'' ''T1'' ''G1'' ''amr-1'' 7 ''t1'' sample_db)"
  by (simp add: approve_succeeds_iff sample_pending)

definition settled_tables ::
  "string \<Rightarrow> string \<Rightarrow> task_goods_allocation_row \<Rightarrow> db_tables \<Rightarrow> db_tables" where
  "settled_tables st tm a t = t
     \<lparr>tbl_task_goods_allocation := map (\<lambda>x. if allocation_key x = allocation_key a
        then x\<lparr>al_state := st, al_settled_at := Some tm\<rparr> else x) (tbl_task_goods_allocation t),
      tbl_task_goods_status := map (\<lambda>r. if goods_status_key r = alloc_goods_key a
        then settled_row st (al_quantity a) tm r else r) (tbl_task_goods_status t)\<rparr>"

lemma settle_tables:
  assumes idle: "idle db" and ok: "ledger_ok (tables db)"
    and run: "SettleGoodsAllocation eng rid rob st tm db = (True, db')"
  shows "\<exists>a. find (open_allocation rid rob) (tbl_task_goods_allocation (tables db)) = Some a \<and>
    tables db' = settled_tables st tm a (tables db)"
proof -
  let ?t = "tables db"
  obtain a t1 c1 c2 where find: "find (open_allocation rid rob) (tbl_task_goods_allocation ?t) = Some a"
    and close: "close_allocation rid rob st tm ?t = Some (t1, c1)" "0 < c1"
    and settle: "settle_status st (al_task_id a) (al_goods_id a) (al_quantity a) tm t1 = Some (tables db', c2)" "0 < c2"
    by (rule SettleGoodsAllocation_success [OF idle run])
  from close(1) obtain allocs where updA: "sql_update allocation_check (open_allocation rid rob)
      (\<lambda>a. a\<lparr>al_state := st, al_settled_at := Some tm\<rparr>) (tbl_task_goods_allocation ?t) = Some (allocs, c1)"
    and t1: "t1 = ?t\<lparr>tbl_task_goods_allocation := allocs\<rparr>"
    unfolding close_allocation_def map_option_update_Some by blast
  have keyA: "open_allocation rid rob x \<Longrightarrow> allocation_key x = allocation_key a" for x
    using find_Some_member [OF find] by (simp add: open_allocation_def allocation_key_def)
  note oneA = single_update(1) [OF updA close(2) ledgerD(3) [OF ok] keyA]
  from settle(1) obtain rows where updS: "sql_update goods_status_check
      (\<lambda>r. gs_task_id r = al_task_id a \<and> gs_goods_id r = al_goods_id a)
      (settled_row st (al_quantity a) tm) (tbl_task_goods_status ?t) = Some (rows, c2)"
    and t2: "tables db' = t1\<lparr>tbl_task_goods_status := rows\<rparr>"
    unfolding settle_status_def map_option_update_Some t1 by auto
  have keyS: "gs_task_id r = al_task_id a \<and> gs_goods_id r = al_goods_id a \<Longrightarrow>
      goods_status_key r = alloc_goods_key a" for r
    by (simp add: goods_status_key_def alloc_goods_key_def)
  note oneS = single_update(1) [OF updS settle(2) ledgerD(2) [OF ok] keyS]
  show ?thesis using find oneA oneS by (auto simp: t2 t1 settled_tables_def)
qed

lemma open_allocation_covered:
  assumes ok: "ledger_ok t" and a: "a \<in> set (tbl_task_goods_allocation t)" "al_state a = ''IN_PROGRESS''"
    and r: "r \<in> set (tbl_task_goods_status t)" "goods_status_key r = alloc_goods_key a"
  shows "al_quantity a \<le> gs_in_progress_quantity r"
proof -
  have "\<forall>x\<in>set (tbl_task_goods_allocation t). 0 \<le> alloc_weight ''IN_PROGRESS'' (alloc_goods_key a) x"
    using ledgerD(5) [OF ok] by (force simp: alloc_weight_def allocation_check_def)
  then have "alloc_weight ''IN_PROGRESS'' (alloc_goods_key a) a
      \<le> allocated ''IN_PROGRESS'' (alloc_goods_key a) (tbl_task_goods_allocation t)"
    unfolding allocated_def by (rule sum_list_ge_member) (rule a(1))
  then show ?thesis
    using ledgerD(6) [OF ok r(1)] r(2) a(2) by (simp add: status_balanced_def alloc_weight_def)
qed

lemma SettleGoodsAllocation_working:
  assumes "idle db" and "opened db" and "ledger_ok (tables db)"
  shows "SettleGoodsAllocation working rid rob st tm db =
    (case find (open_allocation rid rob) (tbl_task_goods_allocation (tables db)) of
       None \<Rightarrow> (False, db)
     | Some a \<Rightarrow> if st \<in> {''COMPLETED'', ''ABORTED''}
         then (True, db\<lparr>tables := settled_tables st tm a (tables db)\<rparr>) else (False, db))"
    (is "?run = _")
proof (cases "fst ?run")
  case True
  then obtain db' where run: "?run = (True, db')" by (cases ?run) auto
  have "journal db' = journal db" "opened db' = opened db"
    using settle.keeps_idle [OF assms(1) run] settle.keeps_opened [OF assms(1) run] assms(1)
    by (simp_all add: idle_def)
  moreover have "st \<in> {''COMPLETED'', ''ABORTED''}"
    by (rule SettleGoodsAllocation_success [OF assms(1) run]) auto
  ultimately show ?thesis using run settle_tables [OF assms(1,3) run] by auto
next
  case False
  then obtain db' where run: "?run = (False, db')" by (cases ?run) auto
  have False if st: "st \<in> {''COMPLETED'', ''ABORTED''}"
    and find: "find (open_allocation rid rob) (tbl_task_goods_allocation (tables db)) = Some a" for a
  proof -
    let ?t = "tables db"
    have a: "a \<in> set (tbl_task_goods_allocation ?t)" "open_allocation rid rob a"
      using find_Some_member [OF find] by simp_all
    have "0 < length (filter (open_allocation rid rob) (tbl_task_goods_allocation ?t))"
      using a by (intro length_pos_if_in_set [of a]) simp
    moreover have "allocation_check (x\<lparr>al_state := st, al_settled_at := Some tm\<rparr>)"
      if "x \<in> set (tbl_task_goods_allocation ?t)" for x
      using ledgerD(5) [OF assms(3) that] st by (auto simp: allocation_check_def)
    moreover obtain r where r: "r \<in> set (tbl_task_goods_status ?t)" "goods_status_key r = alloc_goods_key a"
      using ledgerD(7) [OF assms(3) a(1)] by force
    then have "0 < length (filter (\<lambda>r. gs_task_id r = al_task_id a \<and> gs_goods_id r = al_goods_id a)
        (tbl_task_goods_status ?t))"
      by (intro length_pos_if_in_set [of r]) (simp add: goods_status_key_def alloc_goods_key_def)
    moreover have "goods_status_check (settled_row st (al_quantity a) tm x)"
      if x: "x \<in> set (tbl_task_goods_status ?t)" "gs_task_id x = al_task_id a" "gs_goods_id x = al_goods_id a" for x
    proof -
      have "al_quantity a \<le> gs_in_progress_quantity x"
        using x a by (intro open_allocation_covered [OF assms(3)])
          (auto simp: open_allocation_def goods_status_key_def alloc_goods_key_def)
      then show ?thesis
        using ledgerD(4) [OF assms(3) x(1)] ledgerD(5) [OF assms(3) a(1)]
        by (simp add: settled_row_def goods_status_check_def allocation_check_def)
    qed
    ultimately have "fst ?run"
      using assms(1,2) st find
      by (simp add: SettleGoodsAllocation_def transaction_idle settle_statements_def exec_changing_def
          close_allocation_def settle_status_def sql_update_def list_all_iff)
    with \<open>\<not> fst ?run\<close> show False by simp
  qed
  with run settle.failure_is_noop [OF assms(1) run] show ?thesis by (auto split: option.split)
qed

text \<open>
  C6: an allocation can always be settled, and once. Settling succeeds exactly when the new state is
  COMPLETED or ABORTED and the robot's request has an open allocation: the status row then gives up
  the quantity and completes it or returns it to pending. Since the allocation is no longer open, a
  second delivery of the same report fails and changes nothing.
\<close>

theorem settle_succeeds_iff:
  assumes "idle db" and "opened db" and "ledger_ok (tables db)"
  shows "SettleGoodsAllocation working rid rob st tm db =
    (case find (open_allocation rid rob) (tbl_task_goods_allocation (tables db)) of
       None \<Rightarrow> (False, db)
     | Some a \<Rightarrow> if st \<in> {''COMPLETED'', ''ABORTED''}
         then (True, db\<lparr>tables := settled_tables st tm a (tables db)\<rparr>) else (False, db))"
  by (rule SettleGoodsAllocation_working [OF assms])

text \<open>The sample database after robot \<open>amr-1\<close> took seven boxes.\<close>

definition sample_db_allocated :: sqlite where
  "sample_db_allocated =
     sample_db\<lparr>tables := reserved_tables ''r1'' ''T1'' ''G1'' ''amr-1'' 7 ''t1'' (tables sample_db)\<rparr>"

lemma sample_approved:
  "ApproveGoodsAllocation working ''r1'' ''T1'' ''G1'' ''amr-1'' 7 ''t1'' sample_db = (True, sample_db_allocated)"
  by (subst ApproveGoodsAllocation_working) (simp_all add: sample_pending sample_db_allocated_def)

lemma sample_db_allocated_ok [simp]:
  "idle sample_db_allocated" "opened sample_db_allocated" "ledger_ok (tables sample_db_allocated)"
  using ApproveGoodsAllocation_ledger [OF _ _ sample_approved] approve.keeps_opened [OF _ sample_approved]
    approve.keeps_idle [OF _ sample_approved] by simp_all

lemma settle_succeeds_iff_witness:
  "fst (SettleGoodsAllocation working ''r1'' ''amr-1'' ''COMPLETED'' ''t2'' sample_db_allocated) \<and>
   SettleGoodsAllocation working ''r2'' ''amr-1'' ''COMPLETED'' ''t2'' sample_db_allocated =
     (False, sample_db_allocated)"
  by (simp add: settle_succeeds_iff)
    (simp add: sample_db_allocated_def reserved_tables_def sample_pending open_allocation_def)

end
