(* ===== verification/Topics.thy ===== *)
theory Topics
  imports Prelude
begin

text \<open>
  The MQTT topics of \<open>common/mqtt/mqtt_topic.h\<close> and the address helper of
  \<open>common/utils/CommonFunc.h\<close>. \<open>fmt::format\<close> on these constants replaces each pair of braces
  by its argument.
\<close>

definition EDGE_SERVER_STATUS :: string where
  "EDGE_SERVER_STATUS = ''edge_server/status''"

definition ROBOT_REGISTER_REQ :: string where
  "ROBOT_REGISTER_REQ = ''amr/register/request''"

definition ROBOT_REGISTER_RSP_PREFIX :: string where
  "ROBOT_REGISTER_RSP_PREFIX = ''amr/register/response/''"

definition makeRobotWillTopic :: "string \<Rightarrow> string" where
  "makeRobotWillTopic robot_id = ''amr/'' @ robot_id @ ''/will''"

definition makeRobotStatusTopic :: "string \<Rightarrow> string" where
  "makeRobotStatusTopic robot_id = ''amr/'' @ robot_id @ ''/status''"

definition makeWarehouseTaskTopic :: "string \<Rightarrow> string" where
  "makeWarehouseTaskTopic warehouse_id = ''warehouse/'' @ warehouse_id @ ''/task''"

definition makeWarehouseTaskStatusTopic :: "string \<Rightarrow> string" where
  "makeWarehouseTaskStatusTopic warehouse_id = ''warehouse/'' @ warehouse_id @ ''/task/status''"

definition makeAmrTaskTopic :: "string \<Rightarrow> string" where
  "makeAmrTaskTopic robot_id = ''amr/'' @ robot_id @ ''/task''"

definition makeWarehouseTaskStateTopic :: "string \<Rightarrow> string \<Rightarrow> string" where
  "makeWarehouseTaskStateTopic warehouse_id task_id =
     ''warehouse/'' @ warehouse_id @ ''/task/'' @ task_id @ ''/state''"

definition makeAmrTaskGoodsRequestTopic :: "string \<Rightarrow> string" where
  "makeAmrTaskGoodsRequestTopic robot_id = ''amr/'' @ robot_id @ ''/task/goods/request''"

definition makeAmrTaskGoodsResponseTopic :: "string \<Rightarrow> string" where
  "makeAmrTaskGoodsResponseTopic robot_id = ''amr/'' @ robot_id @ ''/task/goods/response''"

definition makeAmrTaskStatusTopic :: "string \<Rightarrow> string" where
  "makeAmrTaskStatusTopic robot_id = ''amr/'' @ robot_id @ ''/task/status''"

definition makeAmrTaskStatusAckTopic :: "string \<Rightarrow> string" where
  "makeAmrTaskStatusAckTopic robot_id = ''amr/'' @ robot_id @ ''/task/status/ack''"

lemmas topic_defs =
  makeRobotWillTopic_def makeRobotStatusTopic_def makeWarehouseTaskTopic_def
  makeWarehouseTaskStatusTopic_def makeAmrTaskTopic_def makeWarehouseTaskStateTopic_def
  makeAmrTaskGoodsRequestTopic_def makeAmrTaskGoodsResponseTopic_def makeAmrTaskStatusTopic_def
  makeAmrTaskStatusAckTopic_def ROBOT_REGISTER_REQ_def

definition stripIpv4MappedPrefix :: "string \<Rightarrow> string" where
  "stripIpv4MappedPrefix peer =
     (let prefix = ''::ffff:'' in
      if length peer > length prefix \<and> take (length prefix) peer = prefix
      then drop (length prefix) peer else peer)"

end
