(* ===== verification/Task_Service.thy ===== *)
theory Task_Service
  imports Task_Ops Topics
begin

text \<open>
  \<open>edge_server/src/service/task_service.cpp\<close>: creating and cancelling tasks, approving goods for
  a robot and taking the robots' reports. Every handler is a function of what it is given, of the
  database and of the environment below, and returns what it reports, the MQTT messages it hands
  to the publish callback (in order) and the database it leaves.
\<close>

section \<open>Environment and results\<close>

text \<open>
  The \<open>k\<close>-th database call of a handler meets the engine \<open>faults k\<close> and the SQL clock
  \<open>current_timestamp k\<close>; \<open>nowIso8601 k\<close> is the \<open>k\<close>-th reading of the clock of the process.
\<close>

record environment =
  faults :: "nat \<Rightarrow> engine"
  current_timestamp :: "nat \<Rightarrow> string"
  nowIso8601 :: "nat \<Rightarrow> string"

definition healthy :: "environment \<Rightarrow> bool" where
  "healthy env \<longleftrightarrow> faults env = (\<lambda>_. working)"

lemma healthy_faults [simp]: "healthy env \<Longrightarrow> faults env k = working"
  by (simp add: healthy_def)

definition calm :: environment where
  "calm = \<lparr>faults = (\<lambda>_. working), current_timestamp = (\<lambda>_. ''now''), nowIso8601 = (\<lambda>_. ''now'')\<rparr>"

lemma calm_healthy [simp]: "healthy calm"
  by (simp add: healthy_def calm_def)

text \<open>\<open>m_warehouse_id\<close> and whether \<open>m_publish_callback\<close> is set.\<close>

record task_service =
  m_warehouse_id :: string
  m_publish_callback :: bool

type_synonym message = "string \<times> json"

text \<open>The boolean returned and the out parameters \<open>code\<close> and \<open>message\<close>.\<close>

record reply =
  success :: bool
  code :: int
  message_text :: string

definition reply_failure :: "int \<Rightarrow> string \<Rightarrow> reply" where
  "reply_failure c m = \<lparr>success = False, code = c, message_text = m\<rparr>"

section \<open>Creating a task\<close>

definition invalid_goods :: "task_goods \<Rightarrow> bool" where
  "invalid_goods g \<longleftrightarrow> g_goods_id g = [] \<or> g_total_quantity g \<le> 0"

definition goods_json :: "task_goods \<Rightarrow> json" where
  "goods_json g = JObj [(''goods_id'', JStr (g_goods_id g)), (''goods_name'', JStr (g_goods_name g)),
     (''quantity'', JInt (g_total_quantity g))]"

definition task_assign_message :: "transport_task \<Rightarrow> json" where
  "task_assign_message task = JObj
     [(''command_type'', JStr ''TASK_ASSIGN''), (''task_id'', JStr (t_task_id task)),
      (''warehouse_id'', JStr (t_warehouse_id task)), (''task_type'', JStr (t_task_type task)),
      (''robot_ids'', JArr (map JStr (t_robot_ids task))), (''state'', JStr (t_state task)),
      (''reason'', JStr (t_reason task)), (''goods'', JArr (map goods_json (t_goods task)))]"

definition prepared_task :: "task_service \<Rightarrow> string \<Rightarrow> transport_task \<Rightarrow> transport_task" where
  "prepared_task svc now task = task\<lparr>t_warehouse_id := m_warehouse_id svc, t_state := ''PENDING'',
     t_created_at := now, t_updated_at := now\<rparr>"

definition createTask ::
  "task_service \<Rightarrow> environment \<Rightarrow> transport_task \<Rightarrow> sqlite \<Rightarrow> reply \<times> message list \<times> sqlite" where
  "createTask svc env task db =
     (if t_task_id task = [] then (reply_failure 40001 ''task_id empty'', [], db)
      else if t_task_type task \<noteq> ''LOAD'' \<and> t_task_type task \<noteq> ''UNLOAD''
      then (reply_failure 40002 ''task_type invalid'', [], db)
      else if t_robot_ids task = [] then (reply_failure 41003 ''robot_ids empty'', [], db)
      else if t_goods task = [] then (reply_failure 40002 ''goods empty'', [], db)
      else if list_ex invalid_goods (t_goods task) then (reply_failure 40002 ''goods invalid'', [], db)
      else if TaskExists (faults env 0) (t_task_id task) db
      then (reply_failure 41002 ''task already exists'', [], db)
      else
        let insertTask = prepared_task svc (nowIso8601 env 0) task in
        case CreateTask (faults env 1) insertTask db of
          (False, db') \<Rightarrow> (reply_failure 50001 ''create task failed'', [], db')
        | (True, db') \<Rightarrow>
            (\<lparr>success = True, code = 0, message_text = ''success''\<rparr>,
             (if m_publish_callback svc
              then map (\<lambda>robot_id. (makeAmrTaskTopic robot_id, task_assign_message insertTask))
                     (t_robot_ids insertTask)
              else []),
             db'))"

definition getTask :: "environment \<Rightarrow> string \<Rightarrow> sqlite \<Rightarrow> transport_task option" where
  "getTask env task_id db = GetTask (faults env 0) task_id db"

section \<open>Cancelling a task\<close>

definition terminal_state :: "string \<Rightarrow> bool" where
  "terminal_state state \<longleftrightarrow>
     state = ''SUCCEEDED'' \<or> state = ''FAILED'' \<or> state = ''CANCELLED'' \<or> state = ''INTERRUPTED''"

definition task_cancel_message :: "string \<Rightarrow> transport_task \<Rightarrow> json" where
  "task_cancel_message task_id task = JObj
     [(''command_type'', JStr ''TASK_CANCEL''), (''task_id'', JStr task_id),
      (''warehouse_id'', JStr (t_warehouse_id task)), (''reason'', JStr ''canceled by API'')]"

definition cancelTask ::
  "task_service \<Rightarrow> environment \<Rightarrow> string \<Rightarrow> sqlite \<Rightarrow> reply \<times> message list \<times> sqlite" where
  "cancelTask svc env task_id db =
     (case getTask env task_id db of
        None \<Rightarrow> (reply_failure 41005 ''task not found'', [], db)
      | Some task \<Rightarrow>
          if terminal_state (t_state task)
          then (reply_failure 41006 ''task already in terminal state'', [], db)
          else
            case UpdateTaskState (faults env 1) (current_timestamp env 1) task_id ''CANCELLED''
                   ''canceled by API'' db of
              (False, db') \<Rightarrow> (reply_failure 50001 ''update task failed'', [], db')
            | (True, db') \<Rightarrow>
                (\<lparr>success = True, code = 0, message_text = ''cancel requested''\<rparr>,
                 (if m_publish_callback svc
                  then map (\<lambda>robot_id. (makeAmrTaskTopic robot_id, task_cancel_message task_id task))
                         (t_robot_ids task)
                  else []),
                 db'))"

section \<open>Approving goods\<close>

definition rejected :: "string \<Rightarrow> goods_apply_result" where
  "rejected reason = \<lparr>gr_accepted = False, gr_reason = reason, gr_goods = []\<rparr>"

text \<open>
  The loop over \<open>request.goods\<close>, from the \<open>k\<close>-th goods on. It stops at the first approval that
  fails; the approvals before it stay.
\<close>

fun approve_all ::
  "environment \<Rightarrow> goods_apply_request \<Rightarrow> nat \<Rightarrow> task_goods list \<Rightarrow> sqlite \<Rightarrow> bool \<times> sqlite" where
  "approve_all env request k [] db = (True, db)"
| "approve_all env request k (goods # rest) db =
     (case ApproveGoodsAllocation (faults env (Suc k)) (ga_request_id request) (ga_task_id request)
             (g_goods_id goods) (ga_robot_id request) (g_total_quantity goods) (nowIso8601 env k) db of
        (False, db') \<Rightarrow> (False, db')
      | (True, db') \<Rightarrow> approve_all env request (Suc k) rest db')"

text \<open>The boolean the code returns is the member \<open>accepted\<close> of the result.\<close>

definition handleGoodsApply ::
  "environment \<Rightarrow> goods_apply_request \<Rightarrow> sqlite \<Rightarrow> goods_apply_result \<times> sqlite" where
  "handleGoodsApply env request db =
     (if ga_task_id request = [] \<or> ga_robot_id request = [] \<or> ga_goods request = []
      then (rejected ''invalid request'', db)
      else if list_ex invalid_goods (ga_goods request) then (rejected ''invalid goods'', db)
      else
        case GetTask (faults env 0) (ga_task_id request) db of
          None \<Rightarrow> (rejected ''task not found'', db)
        | Some task \<Rightarrow>
            if ga_robot_id request \<notin> set (t_robot_ids task) then (rejected ''robot not in task'', db)
            else
              case approve_all env request 0 (ga_goods request) db of
                (False, db') \<Rightarrow> (rejected ''approve failed'', db')
              | (True, db') \<Rightarrow>
                  (\<lparr>gr_accepted = True, gr_reason = [], gr_goods = ga_goods request\<rparr>,
                   if t_state task = ''PENDING'' \<or> t_state task = ''ACCEPTED''
                   then let k = Suc (length (ga_goods request)) in
                     snd (UpdateTaskStateWithEvent (faults env k) (current_timestamp env k)
                       (ga_task_id request) ''RUNNING'' ''first goods approved'' ''EDGE'' db')
                   else db'))"

section \<open>Reports of the robots\<close>

definition is_carry :: "string \<Rightarrow> bool" where
  "is_carry event_type \<longleftrightarrow> event_type = ''CARRY_COMPLETED'' \<or> event_type = ''CARRY_ABORTED''"

definition goods_unfinished :: "task_goods_status \<Rightarrow> bool" where
  "goods_unfinished status \<longleftrightarrow> s_pending_quantity status > 0 \<or> s_in_progress_quantity status > 0"

text \<open>The part after the settlement: acceptance by the first robot, completion by the last report.\<close>

definition advance_task :: "environment \<Rightarrow> amr_task_status_event \<Rightarrow> sqlite \<Rightarrow> sqlite" where
  "advance_task env ev db =
     (let db1 =
        (if e_event_type ev = ''STATUS'' \<and> e_task_state ev = ''ACCEPTED''
         then case GetTask (faults env 2) (e_task_id ev) db of
                Some task \<Rightarrow>
                  if t_state task = ''PENDING''
                  then snd (UpdateTaskStateWithEvent (faults env 3) (current_timestamp env 3)
                         (e_task_id ev) ''ACCEPTED'' ''first AMR accepted'' ''AMR'' db)
                  else db
              | None \<Rightarrow> db
         else db)
      in
        if e_event_type ev = ''CARRY_COMPLETED''
        then case GetTask (faults env 4) (e_task_id ev) db1 of
               None \<Rightarrow> db1
             | Some task \<Rightarrow>
                 (case GetTaskGoodsStatus (faults env 5) (e_task_id ev) db1 of
                    (False, _) \<Rightarrow> db1
                  | (True, statusList) \<Rightarrow>
                      if \<not> list_ex goods_unfinished statusList
                      then snd (UpdateTaskStateWithEvent (faults env 6) (current_timestamp env 6)
                             (e_task_id ev) ''SUCCEEDED'' ''all goods completed'' ''AMR'' db1)
                      else db1)
        else db1)"

definition handleAmrTaskStatus ::
  "environment \<Rightarrow> amr_task_status_event \<Rightarrow> sqlite \<Rightarrow> bool \<times> sqlite" where
  "handleAmrTaskStatus env ev db =
     (case InsertAmrTaskStatusEvent (faults env 0) (current_timestamp env 0) ev db of
        (False, db1) \<Rightarrow> (False, db1)
      | (True, db1) \<Rightarrow>
          if is_carry (e_event_type ev)
          then
            if e_request_id ev = [] then (False, db1)
            else
              (case SettleGoodsAllocation (faults env 1) (e_request_id ev) (e_robot_id ev)
                      (if e_event_type ev = ''CARRY_COMPLETED'' then ''COMPLETED'' else ''ABORTED'')
                      (e_timestamp ev) db1 of
                 (False, db2) \<Rightarrow> (False, db2)
               | (True, db2) \<Rightarrow> (True, advance_task env ev db2))
          else (True, advance_task env ev db1))"

section \<open>Reading and interrupting\<close>

definition goods_status_json :: "task_goods_status \<Rightarrow> json" where
  "goods_status_json status = JObj
     [(''goods_id'', JStr (s_goods_id status)), (''goods_name'', JStr []),
      (''total_quantity'', JInt (s_total_quantity status)),
      (''in_progress_quantity'', JInt (s_in_progress_quantity status)),
      (''completed_quantity'', JInt (s_completed_quantity status)),
      (''pending_quantity'', JInt (s_pending_quantity status))]"

text \<open>The \<open>int\<close> accumulators wrap around at 32 bits.\<close>

definition sum_int32 :: "int list \<Rightarrow> int" where
  "sum_int32 xs = fold (\<lambda>x acc. to_int32 (acc + x)) xs 0"

text \<open>The empty string the code returns on failure is \<open>None\<close>.\<close>

definition buildTaskStateMessage :: "environment \<Rightarrow> string \<Rightarrow> sqlite \<Rightarrow> json option" where
  "buildTaskStateMessage env task_id db =
     (case GetTask (faults env 0) task_id db of
        None \<Rightarrow> None
      | Some task \<Rightarrow>
          (case GetTaskGoodsStatus (faults env 1) task_id db of
             (False, _) \<Rightarrow> None
           | (True, statusList) \<Rightarrow> Some (JObj
               [(''warehouse_id'', JStr (t_warehouse_id task)), (''task_id'', JStr (t_task_id task)),
                (''state'', JStr (t_state task)),
                (''total_quantity'', JInt (sum_int32 (map s_total_quantity statusList))),
                (''in_progress_quantity'', JInt (sum_int32 (map s_in_progress_quantity statusList))),
                (''completed_quantity'', JInt (sum_int32 (map s_completed_quantity statusList))),
                (''pending_quantity'', JInt (sum_int32 (map s_pending_quantity statusList))),
                (''goods_status'', JArr (map goods_status_json statusList)),
                (''updated_at'', JStr (t_updated_at task))])))"

definition getActiveTasks :: "environment \<Rightarrow> sqlite \<Rightarrow> bool \<times> transport_task list" where
  "getActiveTasks env db = GetActiveTasks (faults env 0) db"

definition markTaskInterrupted :: "environment \<Rightarrow> string \<Rightarrow> string \<Rightarrow> sqlite \<Rightarrow> bool \<times> sqlite" where
  "markTaskInterrupted env task_id reason =
     UpdateTaskStateWithEvent (faults env 0) (current_timestamp env 0) task_id ''INTERRUPTED'' reason
       ''TIMEOUT''"

end
