(* ===== verification/Task_Workflow.thy ===== *)
theory Task_Workflow
  imports Task_Service
begin

text \<open>
  The task service as a system: the database operations as the steps that threads interleave, the
  handlers as sequences of such steps, the ledger as their invariant, and the states a task may go
  through. The last sections say what each handler does.
\<close>

section \<open>Database steps and handler steps\<close>

text \<open>
  Every database operation takes the mutex of \<open>SQLiteDB\<close>, so MQTT callbacks, HTTP requests and the
  heartbeat timer interleave operation by operation; \<open>db_step\<close> is one of them.
\<close>

inductive db_step :: "sqlite \<Rightarrow> sqlite \<Rightarrow> bool" where
  create: "CreateTask eng task db = (r, db') \<Longrightarrow> db_step db db'"
| set_state: "UpdateTaskState eng now tid st rs db = (r, db') \<Longrightarrow> db_step db db'"
| set_state_event: "UpdateTaskStateWithEvent eng now tid st rs src db = (r, db') \<Longrightarrow> db_step db db'"
| record_event: "InsertAmrTaskStatusEvent eng now ev db = (r, db') \<Longrightarrow> db_step db db'"
| approve_goods: "ApproveGoodsAllocation eng rid tid gid rob q tm db = (r, db') \<Longrightarrow> db_step db db'"
| settle_goods: "SettleGoodsAllocation eng rid rob st tm db = (r, db') \<Longrightarrow> db_step db db'"

definition store_ok :: "sqlite \<Rightarrow> bool" where
  "store_ok db \<longleftrightarrow> idle db \<and> ledger_ok (tables db)"

lemma store_okD [dest]: "store_ok db \<Longrightarrow> idle db \<and> ledger_ok (tables db)"
  by (simp add: store_ok_def)

lemmas operation_ledgers =
  CreateTask_ledger UpdateTaskState_ledger UpdateTaskStateWithEvent_ledger
  InsertAmrTaskStatusEvent_ledger ApproveGoodsAllocation_ledger SettleGoodsAllocation_ledger

lemmas operation_idle =
  create.keeps_idle update_state.keeps_idle state_event.keeps_idle amr_event.keeps_idle
  approve.keeps_idle settle.keeps_idle

lemma db_step_store_ok: "store_ok db \<Longrightarrow> db_step db db' \<Longrightarrow> store_ok db'"
  unfolding store_ok_def
  by (erule db_step.cases) (auto dest: operation_ledgers operation_idle)

interpretation store: stepping "\<lambda>db. db = fresh_db" db_step store_ok
  by unfold_locales (simp add: store_ok_def, rule db_step_store_ok)

inductive service_step :: "task_service \<Rightarrow> sqlite \<Rightarrow> sqlite \<Rightarrow> bool" for svc where
  create_task: "createTask svc env task db = (r, ms, db') \<Longrightarrow> service_step svc db db'"
| cancel_task: "cancelTask svc env tid db = (r, ms, db') \<Longrightarrow> service_step svc db db'"
| goods_apply: "handleGoodsApply env req db = (res, db') \<Longrightarrow> service_step svc db db'"
| amr_status: "handleAmrTaskStatus env ev db = (r, db') \<Longrightarrow> service_step svc db db'"
| interrupt: "markTaskInterrupted env tid rs db = (r, db') \<Longrightarrow> service_step svc db db'"

inductive_cases service_stepE: "service_step svc db db'"

text \<open>A handler is a sequence of database steps, so what the steps keep the handlers keep.\<close>

abbreviation db_steps :: "sqlite \<Rightarrow> sqlite \<Rightarrow> bool" where
  "db_steps \<equiv> db_step\<^sup>*\<^sup>*"

lemma db_step_snd:
  "db_step db (snd (CreateTask eng task db))"
  "db_step db (snd (UpdateTaskState eng now tid st rs db))"
  "db_step db (snd (UpdateTaskStateWithEvent eng now tid st rs src db))"
  "db_step db (snd (InsertAmrTaskStatusEvent eng now ev db))"
  "db_step db (snd (ApproveGoodsAllocation eng rid tid gid rob q tm db))"
  "db_step db (snd (SettleGoodsAllocation eng rid rob st tm db))"
  by (metis db_step.intros prod.collapse)+

lemma approve_all_steps: "approve_all env req k gs db = (r, db') \<Longrightarrow> db_steps db db'"
proof (induction gs arbitrary: k db)
  case Nil
  then show ?case by simp
next
  case (Cons g gs)
  then show ?case
    by (auto split: prod.splits bool.splits
        intro: approve_goods converse_rtranclp_into_rtranclp)
qed

lemma advance_task_steps: "db_steps db (advance_task env ev db)"
  unfolding advance_task_def Let_def
  by (auto split: option.splits prod.splits bool.splits
      intro: db_step_snd converse_rtranclp_into_rtranclp)

lemma createTask_steps: "createTask svc env task db = (r, ms, db') \<Longrightarrow> db_steps db db'"
  unfolding createTask_def Let_def
  by (auto split: if_splits prod.splits bool.splits intro: db_step.intros)

lemma cancelTask_steps: "cancelTask svc env tid db = (r, ms, db') \<Longrightarrow> db_steps db db'"
  unfolding cancelTask_def
  by (auto split: if_splits option.splits prod.splits bool.splits intro: db_step.intros)

lemma handleGoodsApply_steps:
  assumes "handleGoodsApply env req db = (res, db')"
  shows "db_steps db db'"
proof (cases "approve_all env req 0 (ga_goods req) db")
  case (Pair r db1)
  then have "db_steps db db1" by (rule approve_all_steps)
  then show ?thesis
    using assms Pair unfolding handleGoodsApply_def Let_def
    by (auto split: if_splits option.splits bool.splits
        intro: db_step_snd rtranclp.rtrancl_into_rtrancl)
qed

lemma handleAmrTaskStatus_steps:
  assumes "handleAmrTaskStatus env ev db = (r, db')"
  shows "db_steps db db'"
proof -
  obtain r1 db1 where 1: "InsertAmrTaskStatusEvent (faults env 0) (current_timestamp env 0) ev db = (r1, db1)"
    by fastforce
  obtain r2 db2 where 2: "SettleGoodsAllocation (faults env 1) (e_request_id ev) (e_robot_id ev)
      (if e_event_type ev = ''CARRY_COMPLETED'' then ''COMPLETED'' else ''ABORTED'') (e_timestamp ev) db1 = (r2, db2)"
    by fastforce
  have "db_steps db db1" "db_steps db db2"
    using record_event [OF 1] settle_goods [OF 2] by auto
  then have "db_steps db (advance_task env ev db1)" "db_steps db (advance_task env ev db2)"
    by (blast intro: advance_task_steps rtranclp_trans)+
  then show ?thesis
    using assms 1 2 \<open>db_steps db db1\<close> \<open>db_steps db db2\<close> unfolding handleAmrTaskStatus_def
    by (auto split: if_splits bool.splits)
qed

lemma service_step_db_steps: "service_step svc db db' \<Longrightarrow> db_steps db db'"
  by (erule service_stepE)
    (auto intro: createTask_steps cancelTask_steps handleGoodsApply_steps handleAmrTaskStatus_steps
      simp: markTaskInterrupted_def dest: set_state_event)

lemma service_step_store_ok: "store_ok db \<Longrightarrow> service_step svc db db' \<Longrightarrow> store_ok db'"
  by (rule store.run_keeps [OF service_step_db_steps])

interpretation service: stepping "\<lambda>db. db = fresh_db" "service_step svc" store_ok for svc
  by unfold_locales (simp add: store_ok_def, rule service_step_store_ok)

section \<open>The ledger is always in order\<close>

text \<open>
  C2: at every moment, whatever requests and reports arrive in whatever order, however the threads
  interleave and whichever database calls fail, each status row of the goods of a task splits its
  total into what is in progress, completed and pending, none negative; the first two are exactly
  the quantities of the open and of the completed allocations of these goods, and the total is the
  one the task was created with. Nothing is lost, counted twice or handed out beyond the total.
\<close>

theorem ledger_always_balanced:
  assumes "db_steps fresh_db db" and "r \<in> set (tbl_task_goods_status (tables db))"
  shows "gs_total_quantity r =
      gs_in_progress_quantity r + gs_completed_quantity r + gs_pending_quantity r \<and>
    0 \<le> gs_in_progress_quantity r \<and> 0 \<le> gs_completed_quantity r \<and> 0 \<le> gs_pending_quantity r \<and>
    gs_in_progress_quantity r =
      (\<Sum>a\<leftarrow>tbl_task_goods_allocation (tables db).
         if al_state a = ''IN_PROGRESS'' \<and> (al_task_id a, al_goods_id a) = (gs_task_id r, gs_goods_id r)
         then al_quantity a else 0) \<and>
    gs_completed_quantity r =
      (\<Sum>a\<leftarrow>tbl_task_goods_allocation (tables db).
         if al_state a = ''COMPLETED'' \<and> (al_task_id a, al_goods_id a) = (gs_task_id r, gs_goods_id r)
         then al_quantity a else 0) \<and>
    (\<exists>g\<in>set (tbl_task_goods (tables db)).
      tg_task_id g = gs_task_id r \<and> tg_goods_id g = gs_goods_id r \<and> tg_total_quantity g = gs_total_quantity r)"
proof -
  have ok: "ledger_ok (tables db)" using store.reached [OF refl assms(1)] by (simp add: store_ok_def)
  have "status_total r \<in> set (map status_total (tbl_task_goods_status (tables db)))"
    using assms(2) by simp
  then have "status_total r \<in> goods_total ` set (tbl_task_goods (tables db))"
    using ledgerD(8) [OF ok] by (metis set_map)
  then have "\<exists>g\<in>set (tbl_task_goods (tables db)).
      tg_task_id g = gs_task_id r \<and> tg_goods_id g = gs_goods_id r \<and> tg_total_quantity g = gs_total_quantity r"
    by (auto simp: status_total_def goods_total_def task_goods_key_def goods_status_key_def)
  then show ?thesis
    using ledgerD(4,6) [OF ok assms(2)]
    by (simp add: goods_status_check_def status_balanced_def allocated_def alloc_weight_def
        alloc_goods_key_def goods_status_key_def)
qed

lemma sample_db_reached: "db_steps fresh_db sample_db" "db_steps fresh_db sample_db_allocated"
  using create [OF sample_created] approve_goods [OF sample_approved]
  by (auto intro: rtranclp.rtrancl_into_rtrancl)

lemma ledger_always_balanced_witness:
  "\<exists>r\<in>set (tbl_task_goods_status (tables sample_db_allocated)).
     gs_goods_id r = ''G1'' \<and> gs_in_progress_quantity r = 7 \<and> gs_pending_quantity r = 3 \<and>
     gs_total_quantity r = gs_in_progress_quantity r + gs_completed_quantity r + gs_pending_quantity r"
proof -
  let ?r = "\<lparr>gs_task_id = ''T1'', gs_goods_id = ''G1'', gs_total_quantity = 10,
      gs_in_progress_quantity = 7, gs_completed_quantity = 0, gs_pending_quantity = 3,
      gs_updated_at = ''t1''\<rparr>"
  have "?r \<in> set (tbl_task_goods_status (tables sample_db_allocated))"
    by (simp add: sample_db_allocated_def reserved_tables_def sample_db_def created_tables_def sample_task_def)
      (simp add: initial_status_def)
  then show ?thesis
    using ledger_always_balanced [OF sample_db_reached(2), of ?r] by (intro bexI [of _ ?r]) simp_all
qed

text \<open>
  A handler is made of atomic database operations only, so what every operation of the database
  keeps is kept across any run of the service: after any number of handlers from a fresh database
  no transaction is left open and the tables satisfy the ledger invariant.
\<close>

theorem service_keeps_store:
  assumes "(service_step svc)\<^sup>*\<^sup>* fresh_db db"
  shows "journal db = None \<and> ledger_ok (tables db) \<and> db_steps fresh_db db"
proof -
  have "db_steps fresh_db db"
    using assms by (induction rule: rtranclp_induct) (auto intro: service_step_db_steps rtranclp_trans)
  then show ?thesis
    using service.reached [OF refl assms] by (simp add: store_ok_def idle_def)
qed

lemma sample_service_reached: "(service_step \<lparr>m_warehouse_id = ''W1'', m_publish_callback = True\<rparr>)\<^sup>*\<^sup>* fresh_db
    (snd (snd (createTask \<lparr>m_warehouse_id = ''W1'', m_publish_callback = True\<rparr> calm sample_task fresh_db)))"
  by (metis create_task prod.collapse r_into_rtranclp)

lemma service_keeps_store_witness:
  "journal (snd (snd (createTask \<lparr>m_warehouse_id = ''W1'', m_publish_callback = True\<rparr> calm sample_task fresh_db))) = None"
  using service_keeps_store [OF sample_service_reached] by simp

end
