(* ===== verification/Task_States.thy ===== *)
theory Task_States
  imports Task_Workflow
begin

text \<open>
  The states of a task: which transitions the handlers of the task service make, on any engine, and
  when a task is declared complete.
\<close>

section \<open>The state of each task\<close>

definition task_states :: "db_tables \<Rightarrow> string \<Rightarrow> string option" where
  "task_states t task_id = map_option tk_state (find (\<lambda>r. tk_task_id r = task_id) (tbl_task t))"

lemma update_task_state_states:
  assumes "update_task_state now tid st rs t = Some t'"
  shows "task_states t' i = (if i = tid then map_option (\<lambda>_. st) (task_states t tid) else task_states t i)"
proof -
  let ?f = "\<lambda>r. if tk_task_id r = tid then r\<lparr>tk_state := st, tk_reason := rs, tk_updated_at := now\<rparr> else r"
  have "tbl_task t' = map ?f (tbl_task t)"
    using assms unfolding update_task_state_def by auto
  then have "task_states t' i = map_option (tk_state \<circ> ?f) (find (\<lambda>r. tk_task_id r = i) (tbl_task t))"
    unfolding task_states_def by (simp add: find_map_same option.map_comp)
  then show ?thesis
    by (cases "find (\<lambda>r. tk_task_id r = i) (tbl_task t)") (auto simp: task_states_def dest: find_cong_key)
qed

lemma task_states_cong: "tbl_task t' = tbl_task t \<Longrightarrow> task_states t' = task_states t"
  by (simp add: task_states_def fun_eq_iff)

lemma statements_keep_states:
  "insert_task_event tid st rs src tm t = Some t' \<Longrightarrow> tbl_task t' = tbl_task t"
  "insert_amr_event now ev t = Some t' \<Longrightarrow> tbl_task t' = tbl_task t"
  "insert_allocation rid tid gid rob q tm t = Some t' \<Longrightarrow> tbl_task t' = tbl_task t"
  "reserve_status tid gid q tm t = Some (t', c) \<Longrightarrow> tbl_task t' = tbl_task t"
  "close_allocation rid rob st tm t = Some (t', c) \<Longrightarrow> tbl_task t' = tbl_task t"
  "settle_status st tid gid q tm t = Some (t', c) \<Longrightarrow> tbl_task t' = tbl_task t"
  by (auto simp: insert_task_event_def insert_amr_event_def insert_allocation_def
      reserve_status_def close_allocation_def settle_status_def)

lemma CreateTask_states:
  assumes "idle db" and "CreateTask eng task db = (r, db')"
  shows "task_states (tables db') = (if r then (task_states (tables db))(t_task_id task \<mapsto> t_state task) else task_states (tables db))
    \<and> (r \<longrightarrow> task_states (tables db) (t_task_id task) = None)"
proof (cases r)
  case True
  then have run: "CreateTask eng task db = (True, db')" using assms(2) by simp
  note tabs = CreateTask_tables(1) [OF assms(1) run] and fresh = CreateTask_tables(2) [OF assms(1) run]
  have miss: "find (\<lambda>r. tk_task_id r = t_task_id task) (tbl_task (tables db)) = None"
    using fresh by (force simp: find_None_iff)
  have "\<forall>r\<in>set (tbl_task (tables db)). \<not> tk_task_id r = t_task_id task" using fresh by force
  then have "task_states (tables db') i = ((task_states (tables db))(t_task_id task \<mapsto> t_state task)) i" for i
    by (cases "i = t_task_id task")
      (simp_all add: task_states_def tabs created_tables_def find_append_miss find_append_other task_row_of_def)
  with True miss show ?thesis by (auto simp: task_states_def)
next
  case False
  with create.noop_unless [OF assms] show ?thesis by simp
qed

lemma UpdateTaskState_states:
  assumes "idle db" and "UpdateTaskState eng now tid st rs db = (r, db')"
  shows "task_states (tables db') i =
    (if r \<and> i = tid then map_option (\<lambda>_. st) (task_states (tables db) tid) else task_states (tables db) i)"
proof (cases r)
  case True
  then have "UpdateTaskState eng now tid st rs db = (True, db')" using assms(2) by simp
  then show ?thesis using True update_task_state_states [OF UpdateTaskState_success] by simp
next
  case False
  with update_state.noop_unless [OF assms] show ?thesis by simp
qed

lemma UpdateTaskStateWithEvent_states:
  assumes "idle db" and "UpdateTaskStateWithEvent eng now tid st rs src db = (r, db')"
  shows "task_states (tables db') i =
    (if r \<and> i = tid then map_option (\<lambda>_. st) (task_states (tables db) tid) else task_states (tables db) i)"
proof (cases r)
  case True
  then have run: "UpdateTaskStateWithEvent eng now tid st rs src db = (True, db')"
    using assms(2) by simp
  obtain t1 where "update_task_state now tid st rs (tables db) = Some t1"
    and "insert_task_event tid st rs src now t1 = Some (tables db')"
    by (rule UpdateTaskStateWithEvent_success [OF assms(1) run])
  then show ?thesis
    using True update_task_state_states statements_keep_states(1) task_states_cong by metis
next
  case False
  with state_event.noop_unless [OF assms] show ?thesis by simp
qed

lemma InsertAmrTaskStatusEvent_states:
  assumes "idle db" and "InsertAmrTaskStatusEvent eng now ev db = (r, db')"
  shows "tbl_task (tables db') = tbl_task (tables db)"
proof (cases r)
  case True
  with assms(2) have "insert_amr_event now ev (tables db) = Some (tables db')"
    by (intro InsertAmrTaskStatusEvent_success) simp
  then show ?thesis by (rule statements_keep_states(2))
next
  case False
  with amr_event.noop_unless [OF assms] show ?thesis by simp
qed

lemma ApproveGoodsAllocation_states:
  assumes "idle db" and "ApproveGoodsAllocation eng rid tid gid rob q tm db = (r, db')"
  shows "tbl_task (tables db') = tbl_task (tables db)"
proof (cases r)
  case True
  then have run: "ApproveGoodsAllocation eng rid tid gid rob q tm db = (True, db')"
    using assms(2) by simp
  show ?thesis
    by (rule ApproveGoodsAllocation_success [OF assms(1) run]) (simp add: statements_keep_states)
next
  case False
  with approve.noop_unless [OF assms] show ?thesis by simp
qed

lemma SettleGoodsAllocation_states:
  assumes "idle db" and "SettleGoodsAllocation eng rid rob st tm db = (r, db')"
  shows "tbl_task (tables db') = tbl_task (tables db)"
proof (cases r)
  case True
  then have run: "SettleGoodsAllocation eng rid rob st tm db = (True, db')"
    using assms(2) by simp
  show ?thesis
    by (rule SettleGoodsAllocation_success [OF assms(1) run]) (simp add: statements_keep_states)
next
  case False
  with settle.noop_unless [OF assms] show ?thesis by simp
qed

lemma GetTask_state:
  "GetTask eng tid db = Some task \<Longrightarrow> task_states (tables db) tid = Some (t_state task) \<and> t_task_id task = tid"
  by (auto simp: GetTask_def task_states_def dest: find_cong_key split: if_splits option.splits)

section \<open>Transitions\<close>

inductive task_transition :: "string option \<Rightarrow> string option \<Rightarrow> bool" where
  unchanged: "task_transition s s"
| created: "task_transition None (Some ''PENDING'')"
| accepted: "task_transition (Some ''PENDING'') (Some ''ACCEPTED'')"
| started: "s = ''PENDING'' \<or> s = ''ACCEPTED'' \<Longrightarrow> task_transition (Some s) (Some ''RUNNING'')"
| succeeded: "task_transition (Some s) (Some ''SUCCEEDED'')"
| cancelled: "\<not> terminal_state s \<Longrightarrow> task_transition (Some s) (Some ''CANCELLED'')"
| interrupted: "task_transition (Some s) (Some ''INTERRUPTED'')"

inductive_simps task_transition_None: "task_transition None t"
inductive_simps task_transition_Some: "task_transition (Some s) t"

lemma approve_all_states:
  "idle db \<Longrightarrow> approve_all env req k gs db = (r, db') \<Longrightarrow> idle db' \<and> tbl_task (tables db') = tbl_task (tables db)"
proof (induction gs arbitrary: k db)
  case Nil
  then show ?case by simp
next
  case (Cons g gs)
  obtain r1 db1 where 1: "ApproveGoodsAllocation (faults env (Suc k)) (ga_request_id req) (ga_task_id req)
      (g_goods_id g) (ga_robot_id req) (g_total_quantity g) (nowIso8601 env k) db = (r1, db1)"
    by fastforce
  note keep = ApproveGoodsAllocation_states [OF Cons.prems(1) 1] approve.keeps_idle [OF Cons.prems(1) 1]
  show ?case
  proof (cases r1)
    case True
    then have "approve_all env req (Suc k) gs db1 = (r, db')" using Cons.prems(2) 1 by simp
    from Cons.IH [OF keep(2) this] keep(1) show ?thesis by simp
  next
    case False
    then show ?thesis using Cons.prems(2) 1 keep by simp
  qed
qed

lemma state_event_transition:
  assumes "idle db" and "task_states (tables db) tid = Some s" and "task_transition (Some s) (Some st)"
  shows "task_transition (task_states (tables db) i)
    (task_states (tables (snd (UpdateTaskStateWithEvent eng now tid st rs src db))) i)"
  using UpdateTaskStateWithEvent_states [OF assms(1) prod.collapse [symmetric], of eng now tid st rs src i] assms
  by (auto intro: task_transition.intros)

lemma advance_task_transition:
  assumes "idle db"
  shows "task_transition (task_states (tables db) i) (task_states (tables (advance_task env ev db)) i)"
proof (cases "e_event_type ev = ''CARRY_COMPLETED''")
  case True
  then show ?thesis
    unfolding advance_task_def Let_def
    by (auto split: option.splits prod.splits bool.splits dest!: GetTask_state
        intro: unchanged state_event_transition [OF assms _ succeeded])
next
  case False
  have "task_transition (Some s) (Some ''ACCEPTED'')" if "s = ''PENDING''" for s
    using that by (simp add: accepted)
  with False show ?thesis
    unfolding advance_task_def Let_def
    by (auto split: option.splits dest!: GetTask_state
        intro: unchanged state_event_transition [OF assms])
qed

lemma createTask_transition:
  assumes idle: "idle db" and run: "createTask svc env task db = (r, ms, db')"
  shows "task_transition (task_states (tables db) i) (task_states (tables db') i)"
proof -
  obtain c db1 where 1: "CreateTask (faults env 1) (prepared_task svc (nowIso8601 env 0) task) db = (c, db1)"
    by fastforce
  have "t_state (prepared_task svc (nowIso8601 env 0) task) = ''PENDING''" by (simp add: prepared_task_def)
  then have "task_transition (task_states (tables db) i) (task_states (tables db1) i)"
    using CreateTask_states [OF idle 1] by (auto intro: unchanged created)
  then show ?thesis
    using run 1 unfolding createTask_def Let_def by (auto split: if_splits bool.splits intro: unchanged)
qed

lemma cancelTask_transition:
  assumes idle: "idle db" and run: "cancelTask svc env tid db = (r, ms, db')"
  shows "task_transition (task_states (tables db) i) (task_states (tables db') i)"
proof -
  obtain c db1 where 1: "UpdateTaskState (faults env 1) (current_timestamp env 1) tid ''CANCELLED''
      ''canceled by API'' db = (c, db1)"
    by fastforce
  note st = UpdateTaskState_states [OF idle 1, of i]
  show ?thesis
  proof (cases "getTask env tid db")
    case None
    then show ?thesis using run unfolding cancelTask_def by (auto intro: unchanged)
  next
    case (Some task)
    then have "task_states (tables db) tid = Some (t_state task)"
      using GetTask_state unfolding getTask_def by blast
    then show ?thesis
      using run Some st 1 unfolding cancelTask_def
      by (auto split: if_splits bool.splits intro: unchanged cancelled)
  qed
qed

lemma handleGoodsApply_transition:
  assumes idle: "idle db" and run: "handleGoodsApply env req db = (res, db')"
  shows "task_transition (task_states (tables db) i) (task_states (tables db') i)"
proof (cases "approve_all env req 0 (ga_goods req) db")
  case (Pair c db1)
  have idle1: "idle db1" and same: "task_states (tables db1) = task_states (tables db)"
    using approve_all_states [OF idle Pair] task_states_cong by blast+
  show ?thesis
  proof (cases "GetTask (faults env 0) (ga_task_id req) db")
    case None
    then show ?thesis using run unfolding handleGoodsApply_def by (auto split: if_splits intro: unchanged)
  next
    case (Some task)
    then have st: "task_states (tables db1) (ga_task_id req) = Some (t_state task)"
      using GetTask_state same by metis
    let ?started = "snd (UpdateTaskStateWithEvent (faults env (Suc (length (ga_goods req))))
      (current_timestamp env (Suc (length (ga_goods req)))) (ga_task_id req) ''RUNNING''
      ''first goods approved'' ''EDGE'' db1)"
    have "db' = db \<or> db' = db1 \<or>
        db' = ?started \<and> (t_state task = ''PENDING'' \<or> t_state task = ''ACCEPTED'')"
      using run Some Pair unfolding handleGoodsApply_def Let_def by (auto split: if_splits bool.splits)
    moreover have "task_transition (task_states (tables db1) i) (task_states (tables ?started) i)"
      if "t_state task = ''PENDING'' \<or> t_state task = ''ACCEPTED''"
      by (rule state_event_transition [OF idle1 st started [OF that]])
    ultimately show ?thesis using same by (auto intro: unchanged)
  qed
qed

lemma handleAmrTaskStatus_transition:
  assumes idle: "idle db" and run: "handleAmrTaskStatus env ev db = (r, db')"
  shows "task_transition (task_states (tables db) i) (task_states (tables db') i)"
proof -
  obtain r1 db1 where 1: "InsertAmrTaskStatusEvent (faults env 0) (current_timestamp env 0) ev db = (r1, db1)"
    by fastforce
  obtain r2 db2 where 2: "SettleGoodsAllocation (faults env 1) (e_request_id ev) (e_robot_id ev)
      (if e_event_type ev = ''CARRY_COMPLETED'' then ''COMPLETED'' else ''ABORTED'') (e_timestamp ev) db1 = (r2, db2)"
    by fastforce
  have idle1: "idle db1" by (rule amr_event.keeps_idle [OF idle 1])
  have idle2: "idle db2" by (rule settle.keeps_idle [OF idle1 2])
  have same1: "task_states (tables db1) = task_states (tables db)"
    by (rule task_states_cong) (rule InsertAmrTaskStatusEvent_states [OF idle 1])
  have same2: "task_states (tables db2) = task_states (tables db)"
    unfolding same1 [symmetric]
    by (rule task_states_cong) (rule SettleGoodsAllocation_states [OF idle1 2])
  have "db' \<in> {db1, db2, advance_task env ev db1, advance_task env ev db2}"
    using run 1 2 unfolding handleAmrTaskStatus_def by (auto split: if_splits bool.splits)
  then show ?thesis
    using advance_task_transition [OF idle1, of i env ev] advance_task_transition [OF idle2, of i env ev]
    by (auto simp: same1 same2 intro: unchanged)
qed

text \<open>
  C7: the life of a task. Whatever handler runs and whatever engine call fails, a task that exists
  goes on existing and its state stays or moves along one of these edges: PENDING to ACCEPTED,
  PENDING or ACCEPTED to RUNNING, any state to SUCCEEDED or INTERRUPTED, any non-terminal state to
  CANCELLED; a new task starts as PENDING. No handler enters FAILED.
\<close>

theorem task_lifecycle:
  assumes "journal db = None" and "service_step svc db db'"
  shows "task_transition (task_states (tables db) task_id) (task_states (tables db') task_id)"
  using assms(2,1) unfolding idle_def [symmetric]
proof (induction rule: service_step.induct)
  case (interrupt env tid rs db r db')
  then show ?case
    using UpdateTaskStateWithEvent_states [OF interrupt.prems interrupt.hyps [unfolded markTaskInterrupted_def], of task_id]
    by (cases "task_states (tables db) tid") (auto intro: unchanged interrupted)
qed (blast intro: createTask_transition cancelTask_transition handleGoodsApply_transition
    handleAmrTaskStatus_transition)+

lemma task_lifecycle_witness:
  "task_transition (task_states (tables sample_db) ''T1'')
     (task_states (tables (snd (markTaskInterrupted calm ''T1'' ''lost'' sample_db))) ''T1'')"
  by (rule task_lifecycle [of sample_db "\<lparr>m_warehouse_id = ''W1'', m_publish_callback = True\<rparr>"])
    (use sample_db_ok(1) in \<open>auto simp: idle_def intro: service_step.interrupt [OF prod.collapse [symmetric]]\<close>)

end
