(* ===== verification/Task_Rules.thy ===== *)
theory Task_Rules
  imports Task_States
begin

text \<open>
  The business rules of the task service on a working database: what creating a task answers, when
  a report completes a task, what a request for several goods does, and that reports may be
  delivered twice.
\<close>

section \<open>State changes on a working engine\<close>

definition event_tables :: "string \<Rightarrow> string \<Rightarrow> string \<Rightarrow> string \<Rightarrow> string \<Rightarrow> db_tables \<Rightarrow> db_tables" where
  "event_tables now tid st rs src t = t
     \<lparr>tbl_task := map (\<lambda>r. if tk_task_id r = tid
        then r\<lparr>tk_state := st, tk_reason := rs, tk_updated_at := now\<rparr> else r) (tbl_task t),
      tbl_task_event := tbl_task_event t @
        [\<lparr>ev_task_id = tid, ev_state = st, ev_reason = rs, ev_source = src, ev_timestamp = now\<rparr>]\<rparr>"

lemma UpdateTaskStateWithEvent_working:
  assumes "idle db" and "opened db"
  shows "UpdateTaskStateWithEvent working now tid st rs src db =
    (True, db\<lparr>tables := event_tables now tid st rs src (tables db)\<rparr>)"
  using assms unfolding UpdateTaskStateWithEvent_def
  by (simp add: transaction_idle state_event_statements_def update_task_state_def
      insert_task_event_def event_tables_def Commit_def idle_def)

lemma UpdateTaskState_working:
  assumes "opened db"
  shows "UpdateTaskState working now tid st rs db = (True, db\<lparr>tables := (tables db)
    \<lparr>tbl_task := map (\<lambda>r. if tk_task_id r = tid
        then r\<lparr>tk_state := st, tk_reason := rs, tk_updated_at := now\<rparr> else r) (tbl_task (tables db))\<rparr>\<rparr>)"
  using assms unfolding UpdateTaskState_def by (simp add: update_task_state_def)

lemma InsertAmrTaskStatusEvent_working:
  assumes "opened db"
  shows "InsertAmrTaskStatusEvent working now ev db = (True, db\<lparr>tables := (tables db)
    \<lparr>tbl_amr_task_status_event := sql_insert_or_ignore amr_event_check amr_event_key
        (amr_event_row_of now ev) (tbl_amr_task_status_event (tables db))\<rparr>\<rparr>)"
  using assms unfolding InsertAmrTaskStatusEvent_def by (simp add: insert_amr_event_def)

lemma GetTask_working:
  "opened db \<Longrightarrow> GetTask working tid db =
     map_option (\<lambda>r. \<lparr>t_task_id = tk_task_id r, t_warehouse_id = tk_warehouse_id r,
        t_task_type = tk_task_type r, t_robot_ids = tk_robot_ids r,
        t_goods = map goods_of_row (filter (\<lambda>g. tg_task_id g = tid) (tbl_task_goods (tables db))),
        t_state = tk_state r, t_goal = tk_goal r, t_reason = tk_reason r,
        t_created_at = tk_created_at r, t_updated_at = tk_updated_at r\<rparr>)
      (find (\<lambda>r. tk_task_id r = tid) (tbl_task (tables db)))"
  by (simp add: GetTask_def split: option.split)

lemma GetTask_None_iff: "opened db \<Longrightarrow> GetTask working tid db = None \<longleftrightarrow> task_states (tables db) tid = None"
  by (simp add: GetTask_working task_states_def)

lemma GetTaskGoodsStatus_working:
  "opened db \<Longrightarrow> GetTaskGoodsStatus working tid db =
     (let rows = filter (\<lambda>r. gs_task_id r = tid) (tbl_task_goods_status (tables db))
      in (rows \<noteq> [], map status_of_row rows))"
  by (simp add: GetTaskGoodsStatus_def Let_def)

lemma TaskExists_working:
  "opened db \<Longrightarrow> TaskExists working tid db \<longleftrightarrow> tid \<in> tk_task_id ` set (tbl_task (tables db))"
  by (auto simp: TaskExists_def)

section \<open>Completion\<close>

definition all_goods_done :: "string \<Rightarrow> db_tables \<Rightarrow> bool" where
  "all_goods_done tid t \<longleftrightarrow>
     (\<exists>r\<in>set (tbl_task_goods_status t). gs_task_id r = tid) \<and>
     (\<forall>r\<in>set (tbl_task_goods_status t). gs_task_id r = tid \<longrightarrow> gs_completed_quantity r = gs_total_quantity r)"

lemma unfinished_iff:
  assumes "ledger_ok t"
  shows "list_ex goods_unfinished (map status_of_row (filter (\<lambda>r. gs_task_id r = tid) (tbl_task_goods_status t)))
    \<longleftrightarrow> \<not> (\<forall>r\<in>set (tbl_task_goods_status t). gs_task_id r = tid \<longrightarrow> gs_completed_quantity r = gs_total_quantity r)"
proof -
  have "goods_unfinished (status_of_row r) \<longleftrightarrow> gs_completed_quantity r \<noteq> gs_total_quantity r"
    if "r \<in> set (tbl_task_goods_status t)" for r
    using ledgerD(4) [OF assms that]
    by (auto simp: goods_unfinished_def status_of_row_def goods_status_check_def)
  then show ?thesis by (auto simp: list_ex_iff)
qed

lemma all_goods_done_cong:
  "tbl_task_goods_status t' = tbl_task_goods_status t \<Longrightarrow> all_goods_done tid t' = all_goods_done tid t"
  by (simp add: all_goods_done_def)

lemma advance_completed:
  assumes env: "healthy env" and idle: "idle db" and op: "opened db" and ok: "ledger_ok (tables db)"
    and ev: "e_event_type ev = ''CARRY_COMPLETED''"
  shows "advance_task env ev db =
    (if task_states (tables db) (e_task_id ev) \<noteq> None \<and> all_goods_done (e_task_id ev) (tables db)
     then db\<lparr>tables := event_tables (current_timestamp env 6) (e_task_id ev) ''SUCCEEDED''
                        ''all goods completed'' ''AMR'' (tables db)\<rparr>
     else db)"
proof (cases "GetTask working (e_task_id ev) db")
  case None
  moreover have "task_states (tables db) (e_task_id ev) = None" using None GetTask_None_iff [OF op] by simp
  ultimately show ?thesis using env ev by (simp add: advance_task_def)
next
  case (Some task)
  then have "task_states (tables db) (e_task_id ev) \<noteq> None" using GetTask_None_iff [OF op] by force
  then show ?thesis
    using env ev Some unfinished_iff [OF ok] UpdateTaskStateWithEvent_working [OF idle op]
    by (auto simp: advance_task_def GetTaskGoodsStatus_working [OF op] Let_def all_goods_done_def
        filter_empty_conv split: bool.split)
qed

lemma event_tables_states:
  "task_states (event_tables now tid st rs src t) i =
     (if i = tid then map_option (\<lambda>_. st) (task_states t tid) else task_states t i)"
proof -
  have "update_task_state now tid st rs t = Some (t\<lparr>tbl_task := map (\<lambda>r. if tk_task_id r = tid
        then r\<lparr>tk_state := st, tk_reason := rs, tk_updated_at := now\<rparr> else r) (tbl_task t)\<rparr>)" (is "_ = Some ?t1")
    by (simp add: update_task_state_def)
  from update_task_state_states [OF this] show ?thesis
    by (simp add: task_states_def event_tables_def)
qed

text \<open>
  C8: a task is declared SUCCEEDED exactly when its goods are all delivered. On a working database a
  report CARRY_COMPLETED that is taken sets the task it names to SUCCEEDED if the task has goods and
  every one of them is completed up to its total, and changes no task state otherwise.
\<close>

theorem completed_report_finishes_task:
  assumes "healthy env" and "journal db = None" and "opened db" and "ledger_ok (tables db)"
    and "e_event_type ev = ''CARRY_COMPLETED''" and "handleAmrTaskStatus env ev db = (True, db')"
  shows "task_states (tables db') task_id =
    (if task_id = e_task_id ev \<and> all_goods_done task_id (tables db')
     then map_option (\<lambda>_. ''SUCCEEDED'') (task_states (tables db) task_id)
     else task_states (tables db) task_id)"
proof -
  have idle: "idle db" using assms(2) by (simp add: idle_def)
  obtain db1 where 1: "InsertAmrTaskStatusEvent (faults env 0) (current_timestamp env 0) ev db = (True, db1)"
    using InsertAmrTaskStatusEvent_working [OF assms(3)] assms(1) by simp
  obtain db2 where 2: "SettleGoodsAllocation (faults env 1) (e_request_id ev) (e_robot_id ev)
      ''COMPLETED'' (e_timestamp ev) db1 = (True, db2)" and db': "db' = advance_task env ev db2"
    using assms(5,6) 1 unfolding handleAmrTaskStatus_def
    by (auto simp: is_carry_def split: if_splits prod.splits bool.splits)
  have keep1: "idle db1" "opened db1" "ledger_ok (tables db1)"
    using amr_event.keeps_idle [OF idle 1] amr_event.keeps_opened [OF idle 1]
      InsertAmrTaskStatusEvent_ledger [OF idle assms(4) 1] assms(3) by simp_all
  have keep2: "idle db2" "opened db2" "ledger_ok (tables db2)"
    using settle.keeps_idle [OF keep1(1) 2] settle.keeps_opened [OF keep1(1) 2]
      SettleGoodsAllocation_ledger [OF keep1(1,3) 2] keep1(2) by simp_all
  have same: "task_states (tables db2) = task_states (tables db)"
    using task_states_cong [OF InsertAmrTaskStatusEvent_states [OF idle 1]]
      task_states_cong [OF SettleGoodsAllocation_states [OF keep1(1) 2]] by simp
  have done_same: "all_goods_done i (tables db') = all_goods_done i (tables db2)" for i
    unfolding db' advance_completed [OF assms(1) keep2 assms(5)]
    by (auto simp: event_tables_def intro!: all_goods_done_cong)
  show ?thesis
    unfolding done_same unfolding db' advance_completed [OF assms(1) keep2 assms(5)]
    by (auto simp: event_tables_states same)
qed

lemma sample_report_facts:
  "find (open_allocation ''r1'' ''amr-1'') (tbl_task_goods_allocation (tables sample_db_allocated)) \<noteq> None"
  by (simp add: sample_db_allocated_def reserved_tables_def sample_pending open_allocation_def)

definition sample_report :: amr_task_status_event where
  "sample_report = \<lparr>e_message_id = ''m1'', e_warehouse_id = ''W1'', e_task_id = ''T1'',
     e_robot_id = ''amr-1'', e_event_type = ''CARRY_COMPLETED'', e_task_state = ''RUNNING'',
     e_request_id = ''r1'', e_goods_json = None, e_reason = [], e_timestamp = ''t2''\<rparr>"

lemma sample_report_simps [simp]:
  "e_event_type sample_report = ''CARRY_COMPLETED''" "e_request_id sample_report = ''r1''"
  "e_robot_id sample_report = ''amr-1''" "e_timestamp sample_report = ''t2''"
  "e_task_id sample_report = ''T1''"
  by (simp_all add: sample_report_def)

lemma sample_report_taken: "\<exists>db'. handleAmrTaskStatus calm sample_report sample_db_allocated = (True, db')"
proof -
  obtain db1 where 1: "InsertAmrTaskStatusEvent working (current_timestamp calm 0) sample_report sample_db_allocated
      = (True, db1)" and allocs: "tbl_task_goods_allocation (tables db1) = tbl_task_goods_allocation (tables sample_db_allocated)"
    by (simp add: InsertAmrTaskStatusEvent_working)
  have keep: "idle db1" "opened db1" "ledger_ok (tables db1)"
    using amr_event.keeps_idle [OF _ 1] amr_event.keeps_opened [OF _ 1] InsertAmrTaskStatusEvent_ledger [OF _ _ 1]
    by simp_all
  obtain db2 where "SettleGoodsAllocation working ''r1'' ''amr-1'' ''COMPLETED'' ''t2'' db1 = (True, db2)"
    using SettleGoodsAllocation_working [OF keep] sample_report_facts by (auto simp: allocs)
  then show ?thesis using 1 by (simp add: handleAmrTaskStatus_def is_carry_def)
qed

lemma completed_report_finishes_task_witness:
  "\<exists>db'. handleAmrTaskStatus calm sample_report sample_db_allocated = (True, db') \<and>
     task_states (tables db') ''T2'' = task_states (tables sample_db_allocated) ''T2''"
proof -
  obtain db' where run: "handleAmrTaskStatus calm sample_report sample_db_allocated = (True, db')"
    using sample_report_taken by blast
  have "journal sample_db_allocated = None" using sample_db_allocated_ok(1) by (simp add: idle_def)
  from completed_report_finishes_task [OF _ this _ _ _ run, of "''T2''"] run show ?thesis by simp
qed

section \<open>Requests for goods\<close>

lemma approve_all_twice:
  assumes "idle db" and "ledger_ok (tables db)"
  shows "fst (approve_all env req k (g # h # gs) db) = False"
proof -
  obtain r1 db1 where 1: "ApproveGoodsAllocation (faults env (Suc k)) (ga_request_id req) (ga_task_id req)
      (g_goods_id g) (ga_robot_id req) (g_total_quantity g) (nowIso8601 env k) db = (r1, db1)"
    by fastforce
  show ?thesis
  proof (cases r1)
    case True
    with 1 have 1: "ApproveGoodsAllocation (faults env (Suc k)) (ga_request_id req) (ga_task_id req)
      (g_goods_id g) (ga_robot_id req) (g_total_quantity g) (nowIso8601 env k) db = (True, db1)" by simp
    note keep = approve.keeps_idle [OF assms(1) 1] ApproveGoodsAllocation_ledger [OF assms 1]
    obtain r2 db2 where 2: "ApproveGoodsAllocation (faults env (Suc (Suc k))) (ga_request_id req) (ga_task_id req)
      (g_goods_id h) (ga_robot_id req) (g_total_quantity h) (nowIso8601 env (Suc k)) db1 = (r2, db2)"
      by fastforce
    have "(ga_request_id req, ga_robot_id req) \<in> allocation_key ` set (tbl_task_goods_allocation (tables db1))"
      by (simp add: approve_tables(1) [OF assms 1] reserved_tables_def allocation_key_def)
    then have "\<not> r2" using approve_tables(4) [OF keep, of _ "ga_request_id req" _ _ "ga_robot_id req"] 2 by auto
    with 1 2 show ?thesis by simp
  next
    case False
    with 1 show ?thesis by simp
  qed
qed

text \<open>
  C9: a request for more than one kind of goods is never accepted, whatever the stock and whatever
  the engine does: the allocations of one request and robot share the key \<open>UNIQUE(request_id, robot_id)\<close>,
  so the second approval fails. (The approvals before the failing one are not undone, as C10 shows.)
\<close>

theorem several_goods_never_accepted:
  assumes "journal db = None" and "ledger_ok (tables db)" and "2 \<le> length (ga_goods req)"
  shows "\<not> gr_accepted (fst (handleGoodsApply env req db))"
proof -
  obtain g h gs where goods: "ga_goods req = g # h # gs"
    using assms(3) by (cases "ga_goods req"; cases "tl (ga_goods req)") auto
  have "fst (approve_all env req 0 (ga_goods req) db) = False"
    unfolding goods by (rule approve_all_twice) (use assms in \<open>simp_all add: idle_def\<close>)
  then show ?thesis
    unfolding handleGoodsApply_def
    by (auto simp: rejected_def split: option.split prod.split bool.split)
qed

definition sample_request :: goods_apply_request where
  "sample_request = \<lparr>ga_request_id = ''r9'', ga_warehouse_id = ''W1'', ga_task_id = ''T1'',
     ga_robot_id = ''amr-2'',
     ga_goods = [\<lparr>g_goods_id = ''G1'', g_goods_name = [], g_total_quantity = 2\<rparr>,
                 \<lparr>g_goods_id = ''G2'', g_goods_name = [], g_total_quantity = 1\<rparr>]\<rparr>"

lemma sample_db_journal [simp]: "journal sample_db = None" "journal sample_db_allocated = None"
  using sample_db_ok(1) sample_db_allocated_ok(1) by (simp_all add: idle_def)

lemma several_goods_never_accepted_witness:
  "\<not> gr_accepted (fst (handleGoodsApply calm sample_request sample_db))"
  by (rule several_goods_never_accepted) (simp_all add: sample_request_def)

text \<open>The answers to a request for one kind of goods, on a working engine.\<close>

lemma handleGoodsApply_single:
  assumes "healthy env" and "journal db = None" and "opened db" and "ledger_ok (tables db)"
    and "ga_goods req = [g]" and "\<not> invalid_goods g" and "ga_task_id req \<noteq> []" and "ga_robot_id req \<noteq> []"
    and "GetTask working (ga_task_id req) db = Some task" and "ga_robot_id req \<in> set (t_robot_ids task)"
  shows "handleGoodsApply env req db =
    (if g_total_quantity g \<le> pending_of (ga_task_id req, g_goods_id g) (tables db) \<and>
        (ga_request_id req, ga_robot_id req) \<notin> allocation_key ` set (tbl_task_goods_allocation (tables db))
     then (\<lparr>gr_accepted = True, gr_reason = [], gr_goods = [g]\<rparr>,
       let reserved = db\<lparr>tables := reserved_tables (ga_request_id req) (ga_task_id req) (g_goods_id g)
             (ga_robot_id req) (g_total_quantity g) (nowIso8601 env 0) (tables db)\<rparr> in
       if t_state task = ''PENDING'' \<or> t_state task = ''ACCEPTED''
       then reserved\<lparr>tables := event_tables (current_timestamp env 2) (ga_task_id req) ''RUNNING''
              ''first goods approved'' ''EDGE'' (tables reserved)\<rparr>
       else reserved)
     else (rejected ''approve failed'', db))"
proof -
  have idle: "idle db" using assms(2) by (simp add: idle_def)
  have pos: "0 < g_total_quantity g" using assms(6) by (simp add: invalid_goods_def)
  note app = ApproveGoodsAllocation_working [OF idle assms(3,4)]
  have ev: "UpdateTaskStateWithEvent working now tid st rs src (db\<lparr>tables := t\<rparr>) =
      (True, db\<lparr>tables := event_tables now tid st rs src t\<rparr>)" for now tid st rs src t
    using UpdateTaskStateWithEvent_working [of "db\<lparr>tables := t\<rparr>"] assms(2,3) by (simp add: idle_def)
  show ?thesis
    unfolding handleGoodsApply_def using assms pos by (simp add: app ev Let_def numeral_2_eq_2)
qed

text \<open>
  The first item of a rejected request stays reserved. On a working database, a well-formed
  request for two kinds of goods of a task of which the first is in stock is answered
  "approve failed", and yet the quantity of the first has moved from pending to in progress and an
  open allocation of it is on record.
\<close>

theorem rejected_request_keeps_first_goods:
  assumes "healthy env" and "journal db = None" and "opened db" and "ledger_ok (tables db)"
    and "ga_goods req = [g, h]" and "\<not> invalid_goods g" and "\<not> invalid_goods h"
    and "ga_task_id req \<noteq> []" and "ga_robot_id req \<noteq> []"
    and "GetTask working (ga_task_id req) db = Some task" and "ga_robot_id req \<in> set (t_robot_ids task)"
    and "g_total_quantity g \<le> pending_of (ga_task_id req, g_goods_id g) (tables db)"
    and "(ga_request_id req, ga_robot_id req) \<notin> allocation_key ` set (tbl_task_goods_allocation (tables db))"
  shows "handleGoodsApply env req db = (rejected ''approve failed'',
    db\<lparr>tables := reserved_tables (ga_request_id req) (ga_task_id req) (g_goods_id g)
        (ga_robot_id req) (g_total_quantity g) (nowIso8601 env 0) (tables db)\<rparr>)"
proof -
  have idle: "idle db" using assms(2) by (simp add: idle_def)
  have pos: "0 < g_total_quantity g" using assms(6) by (simp add: invalid_goods_def)
  let ?t = "reserved_tables (ga_request_id req) (ga_task_id req) (g_goods_id g) (ga_robot_id req)
      (g_total_quantity g) (nowIso8601 env 0) (tables db)"
  have 1: "ApproveGoodsAllocation working (ga_request_id req) (ga_task_id req) (g_goods_id g)
      (ga_robot_id req) (g_total_quantity g) (nowIso8601 env 0) db = (True, db\<lparr>tables := ?t\<rparr>)"
    using ApproveGoodsAllocation_working [OF idle assms(3,4)] pos assms(12,13) by simp
  note keep = approve.keeps_idle [OF idle 1] approve.keeps_opened [OF idle 1]
    ApproveGoodsAllocation_ledger [OF idle assms(4) 1]
  have key: "(ga_request_id req, ga_robot_id req) \<in> allocation_key ` set (tbl_task_goods_allocation ?t)"
    by (simp add: reserved_tables_def allocation_key_def)
  have 2: "ApproveGoodsAllocation working (ga_request_id req) (ga_task_id req) (g_goods_id h)
      (ga_robot_id req) (g_total_quantity h) (nowIso8601 env (Suc 0)) (db\<lparr>tables := ?t\<rparr>) = (False, db\<lparr>tables := ?t\<rparr>)"
    using ApproveGoodsAllocation_working [OF keep(1) _ keep(3)] assms(3) key by simp
  show ?thesis
    unfolding handleGoodsApply_def using assms 1 2 by simp
qed

lemma sample_get: "GetTask working ''T1'' sample_db = Some sample_task"
  by (simp add: GetTask_working sample_db_def created_tables_def sample_task_def task_row_of_def
      goods_row_of_def goods_of_row_def)

lemma rejected_request_keeps_first_goods_witness:
  "fst (handleGoodsApply calm sample_request sample_db) = rejected ''approve failed'' \<and>
   pending_of (''T1'', ''G1'') (tables (snd (handleGoodsApply calm sample_request sample_db))) = 8"
proof -
  let ?g = "\<lparr>g_goods_id = ''G1'', g_goods_name = [], g_total_quantity = 2\<rparr>"
  have "handleGoodsApply calm sample_request sample_db = (rejected ''approve failed'',
    sample_db\<lparr>tables := reserved_tables (ga_request_id sample_request) (ga_task_id sample_request)
        (g_goods_id ?g) (ga_robot_id sample_request) (g_total_quantity ?g) (nowIso8601 calm 0) (tables sample_db)\<rparr>)"
    by (rule rejected_request_keeps_first_goods [where task = sample_task
          and h = "\<lparr>g_goods_id = ''G2'', g_goods_name = [], g_total_quantity = 1\<rparr>"])
      (simp_all add: sample_request_def sample_pending invalid_goods_def sample_get, simp add: sample_task_def)
  then show ?thesis
    by (simp add: sample_request_def reserved_tables_def sample_db_def created_tables_def sample_task_def
        pending_of_def) (simp add: initial_status_def goods_status_key_def)
qed

text \<open>
  C10: the answer to a well-formed request for one kind of goods. On a working database it is accepted
  exactly when that many are pending and the request is new for the robot; the quantity is then
  reserved, and a task that was PENDING or ACCEPTED goes to RUNNING with an event. The state of the
  task plays no other part: goods of a cancelled or finished task are handed out as well.
\<close>

theorem single_request_outcome:
  assumes "healthy env" and "journal db = None" and "opened db" and "ledger_ok (tables db)"
    and "ga_goods req = [g]" and "\<not> invalid_goods g" and "ga_task_id req \<noteq> []" and "ga_robot_id req \<noteq> []"
    and "GetTask working (ga_task_id req) db = Some task" and "ga_robot_id req \<in> set (t_robot_ids task)"
  shows "handleGoodsApply env req db =
    (if g_total_quantity g \<le> pending_of (ga_task_id req, g_goods_id g) (tables db) \<and>
        (ga_request_id req, ga_robot_id req) \<notin> allocation_key ` set (tbl_task_goods_allocation (tables db))
     then (\<lparr>gr_accepted = True, gr_reason = [], gr_goods = [g]\<rparr>,
       let reserved = db\<lparr>tables := reserved_tables (ga_request_id req) (ga_task_id req) (g_goods_id g)
             (ga_robot_id req) (g_total_quantity g) (nowIso8601 env 0) (tables db)\<rparr> in
       if t_state task = ''PENDING'' \<or> t_state task = ''ACCEPTED''
       then reserved\<lparr>tables := event_tables (current_timestamp env 2) (ga_task_id req) ''RUNNING''
              ''first goods approved'' ''EDGE'' (tables reserved)\<rparr>
       else reserved)
     else (rejected ''approve failed'', db))"
  by (rule handleGoodsApply_single [OF assms])

lemma single_request_outcome_witness:
  "fst (handleGoodsApply calm (sample_request\<lparr>ga_goods :=
      [\<lparr>g_goods_id = ''G1'', g_goods_name = [], g_total_quantity = 11\<rparr>]\<rparr>) sample_db) = rejected ''approve failed''"
  by (subst single_request_outcome [where task = sample_task
        and g = "\<lparr>g_goods_id = ''G1'', g_goods_name = [], g_total_quantity = 11\<rparr>"])
    (simp_all add: sample_request_def sample_pending invalid_goods_def sample_get, simp_all add: sample_task_def)

section \<open>Creating and cancelling\<close>



text \<open>
  A refused request leaves no trace. Whatever engine call fails, a creation or a cancellation
  that answers with an error has changed nothing in the database and sent no message.
\<close>

theorem refused_requests_change_nothing:
  assumes "journal db = None"
    and "createTask svc env task db = (r, ms, db') \<or> cancelTask svc env task_id db = (r, ms, db')"
    and "\<not> success r"
  shows "db' = db \<and> ms = []"
proof -
  have idle: "idle db" using assms(1) by (simp add: idle_def)
  obtain c db1 where 1: "CreateTask (faults env 1) (prepared_task svc (nowIso8601 env 0) task) db = (c, db1)"
    by fastforce
  obtain u db2 where 2: "UpdateTaskState (faults env 1) (current_timestamp env 1) task_id ''CANCELLED''
      ''canceled by API'' db = (u, db2)"
    by fastforce
  have same: "\<not> c \<Longrightarrow> db1 = db" "\<not> u \<Longrightarrow> db2 = db"
    using create.noop_unless [OF idle 1] update_state.noop_unless [OF idle 2] by simp_all
  from assms(2) show ?thesis
  proof
    assume "createTask svc env task db = (r, ms, db')"
    then show ?thesis
      using assms(3) 1 same unfolding createTask_def Let_def by (auto split: if_splits bool.splits)
  next
    assume "cancelTask svc env task_id db = (r, ms, db')"
    then show ?thesis
      using assms(3) 2 same unfolding cancelTask_def
      by (auto split: if_splits bool.splits option.splits)
  qed
qed

lemma refused_requests_change_nothing_witness:
  "snd (snd (cancelTask \<lparr>m_warehouse_id = ''W1'', m_publish_callback = True\<rparr> calm ''T7'' sample_db)) = sample_db"
proof -
  have run: "cancelTask \<lparr>m_warehouse_id = ''W1'', m_publish_callback = True\<rparr> calm ''T7'' sample_db =
      (reply_failure 41005 ''task not found'', [], sample_db)"
    by (simp add: cancelTask_def getTask_def GetTask_working sample_db_def created_tables_def
        sample_task_def task_row_of_def)
  from refused_requests_change_nothing [OF _ disjI2 [OF run]] run show ?thesis
    by (simp add: reply_failure_def)
qed



section \<open>Reports delivered again\<close>

lemma state_event_frame:
  assumes "idle db"
  shows "tbl_task_goods_allocation (tables (snd (UpdateTaskStateWithEvent eng now tid st rs src db))) =
      tbl_task_goods_allocation (tables db) \<and>
    tbl_amr_task_status_event (tables (snd (UpdateTaskStateWithEvent eng now tid st rs src db))) =
      tbl_amr_task_status_event (tables db) \<and>
    idle (snd (UpdateTaskStateWithEvent eng now tid st rs src db))"
proof -
  obtain r db' where run: "UpdateTaskStateWithEvent eng now tid st rs src db = (r, db')" by fastforce
  have idle': "idle db'" by (rule state_event.keeps_idle [OF assms run])
  show ?thesis
  proof (cases r)
    case True
    with run have "UpdateTaskStateWithEvent eng now tid st rs src db = (True, db')" by simp
    then obtain t1 where "update_task_state now tid st rs (tables db) = Some t1"
      and "insert_task_event tid st rs src now t1 = Some (tables db')"
      by (rule UpdateTaskStateWithEvent_success [OF assms])
    then have "\<exists>rows evs. tables db' = (tables db)\<lparr>tbl_task := rows, tbl_task_event := evs\<rparr>"
      by (auto simp: update_task_state_def insert_task_event_def intro: sym)
    then have "tbl_task_goods_allocation (tables db') = tbl_task_goods_allocation (tables db)"
      "tbl_amr_task_status_event (tables db') = tbl_amr_task_status_event (tables db)"
      by auto
    with idle' run show ?thesis by simp
  next
    case False
    with state_event.noop_unless [OF assms run] run assms show ?thesis by simp
  qed
qed

lemma advance_task_frame:
  assumes "idle db"
  shows "tbl_task_goods_allocation (tables (advance_task env ev db)) = tbl_task_goods_allocation (tables db) \<and>
    tbl_amr_task_status_event (tables (advance_task env ev db)) = tbl_amr_task_status_event (tables db) \<and>
    idle (advance_task env ev db)"
proof -
  have "advance_task env ev db = db \<or>
      (\<exists>eng now st rs. advance_task env ev db = snd (UpdateTaskStateWithEvent eng now (e_task_id ev) st rs ''AMR'' db))"
    unfolding advance_task_def Let_def by (auto split: option.splits prod.splits bool.splits)
  then show ?thesis using state_event_frame [OF assms] assms by auto
qed

lemma settled_no_open:
  assumes "find (open_allocation rid rob) allocs = Some a" and "st \<noteq> ''IN_PROGRESS''"
  shows "find (open_allocation rid rob) (map (\<lambda>x. if allocation_key x = allocation_key a
    then x\<lparr>al_state := st, al_settled_at := tm\<rparr> else x) allocs) = None"
  using find_Some_member [OF assms(1)] assms(2)
  by (auto simp: find_None_iff open_allocation_def allocation_key_def)

lemma insert_or_ignore_again:
  "sql_insert_or_ignore chk key r rows = rows' \<Longrightarrow> chk r \<Longrightarrow> key r' = key r \<Longrightarrow>
     sql_insert_or_ignore chk key r' rows' = rows'"
  by (auto simp: sql_insert_or_ignore_def split: if_splits)

lemma event_key_time [simp]: "amr_event_key (amr_event_row_of now ev) = amr_event_key (amr_event_row_of now' ev)"
  by (simp add: amr_event_key_def amr_event_row_of_def)

text \<open>
  A report may be delivered twice. Once the report of a carry (completed or aborted) has been
  taken, handling the same report again, under whatever conditions, answers false and leaves the
  database exactly as it is: goods are never counted twice.
\<close>

theorem carry_report_is_idempotent:
  assumes "journal db = None" and "ledger_ok (tables db)"
    and "e_event_type ev = ''CARRY_COMPLETED'' \<or> e_event_type ev = ''CARRY_ABORTED''"
    and "handleAmrTaskStatus env ev db = (True, db')"
  shows "handleAmrTaskStatus env' ev db' = (False, db')"
proof -
  have idle: "idle db" using assms(1) by (simp add: idle_def)
  let ?st = "if e_event_type ev = ''CARRY_COMPLETED'' then ''COMPLETED'' else ''ABORTED''"
  obtain db1 db2 where 1: "InsertAmrTaskStatusEvent (faults env 0) (current_timestamp env 0) ev db = (True, db1)"
    and 2: "SettleGoodsAllocation (faults env 1) (e_request_id ev) (e_robot_id ev) ?st (e_timestamp ev) db1 = (True, db2)"
    and db': "db' = advance_task env ev db2"
    using assms(3,4) unfolding handleAmrTaskStatus_def
    by (auto simp: is_carry_def split: if_splits prod.splits bool.splits)
  have keep1: "idle db1" "ledger_ok (tables db1)"
    using amr_event.keeps_idle [OF idle 1] InsertAmrTaskStatusEvent_ledger [OF idle assms(2) 1] by simp_all
  have idle2: "idle db2" by (rule settle.keeps_idle [OF keep1(1) 2])
  note frame = advance_task_frame [OF idle2, of env ev, folded db']
  obtain a where a: "find (open_allocation (e_request_id ev) (e_robot_id ev)) (tbl_task_goods_allocation (tables db1)) = Some a"
    and t2: "tables db2 = settled_tables ?st (e_timestamp ev) a (tables db1)"
    using settle_tables [OF keep1 2] by blast
  have none: "find (open_allocation (e_request_id ev) (e_robot_id ev)) (tbl_task_goods_allocation (tables db')) = None"
    using settled_no_open [OF a, of ?st] by (simp add: frame t2 settled_tables_def)
  have t1: "tbl_amr_task_status_event (tables db1) = sql_insert_or_ignore amr_event_check amr_event_key
      (amr_event_row_of (current_timestamp env 0) ev) (tbl_amr_task_status_event (tables db))"
    using arg_cong [OF InsertAmrTaskStatusEvent_success [OF 1], of "\<lambda>t. tbl_amr_task_status_event (the t)"]
    by (simp add: insert_amr_event_def)
  have chk: "amr_event_check (amr_event_row_of now ev)" for now
    using assms(3) by (auto simp: amr_event_check_def amr_event_row_of_def)
  have ev2: "tbl_amr_task_status_event (tables db') = tbl_amr_task_status_event (tables db1)"
    by (simp add: frame t2 settled_tables_def)
  have "insert_amr_event now ev (tables db') = Some (tables db')" for now
    unfolding insert_amr_event_def ev2 insert_or_ignore_again [OF t1 [symmetric] chk event_key_time]
    by (simp flip: ev2)
  then have ins: "snd (InsertAmrTaskStatusEvent eng now ev db') = db'" for eng now
    unfolding InsertAmrTaskStatusEvent_def guarded_def exec_stmt_def by simp
  have settle: "SettleGoodsAllocation eng (e_request_id ev) (e_robot_id ev) st tm db' = (False, db')" for eng st tm
    unfolding SettleGoodsAllocation_def guarded_def using none by simp
  show ?thesis
    unfolding handleAmrTaskStatus_def using ins [of "faults env' 0" "current_timestamp env' 0"] assms(3)
    by (auto simp: settle is_carry_def split: prod.split bool.split)
qed

lemma carry_report_is_idempotent_witness:
  "\<exists>db'. handleAmrTaskStatus calm sample_report sample_db_allocated = (True, db') \<and>
     handleAmrTaskStatus calm sample_report db' = (False, db')"
  using carry_report_is_idempotent [OF _ _ disjI1, of sample_db_allocated sample_report calm _ calm]
    sample_report_taken by auto

end
