(* ===== verification/Idle_Points.thy ===== *)
theory Idle_Points
  imports Edge_Types
begin

text \<open>
  \<open>edge_server/src/service/idle_point_allocator.cpp\<close>: the charging points where new robots start.
  The zip archive and the YAML parser are libraries: what they give of \<open>zones.yaml\<close> and
  \<open>stations.yaml\<close> is a parameter, with a missing or unreadable file as \<open>None\<close>, a document that
  the parser rejects as \<open>Yaml_Error\<close>, and a coordinate that is not a number as a pose \<open>None\<close>.
\<close>

record idle_point =
  station_id :: string
  location_id :: string
  point_pose :: pose2d

record idle_allocator =
  m_points :: "idle_point list"
  m_occupied :: "bool list"
  m_idleZoneIds :: "string list"

definition no_points :: idle_allocator where
  "no_points = \<lparr>m_points = [], m_occupied = [], m_idleZoneIds = []\<rparr>"

section \<open>Loading a map package\<close>

record yaml_zone =
  zone_type :: string
  zone_id :: string

record yaml_location =
  location_type :: string
  yaml_location_id :: string
  location_pose :: "pose2d option"

record yaml_station =
  yaml_station_id :: string
  station_locations :: "yaml_location list option"

text \<open>\<open>Yaml_Missing\<close> is a document without the key \<open>zones\<close> or \<open>stations\<close>.\<close>

datatype 'a yaml_doc = Yaml_Error | Yaml_Missing | Yaml_Items "'a list"

definition parseZones :: "yaml_zone yaml_doc \<Rightarrow> idle_allocator \<Rightarrow> bool \<times> idle_allocator" where
  "parseZones doc a =
     (case doc of
        Yaml_Error \<Rightarrow> (False, a)
      | Yaml_Missing \<Rightarrow> (True, a)
      | Yaml_Items zones \<Rightarrow>
          (True, a\<lparr>m_idleZoneIds := map zone_id (filter (\<lambda>z. zone_type z = ''IDLE'') zones)\<rparr>))"

text \<open>The inner loop; a location whose pose cannot be read throws, with the points before it kept.\<close>

fun add_locations ::
  "string \<Rightarrow> yaml_location list \<Rightarrow> idle_allocator \<Rightarrow> bool \<times> idle_allocator" where
  "add_locations sid [] a = (True, a)"
| "add_locations sid (l # ls) a =
     (if location_type l \<noteq> ''IDLE'' then add_locations sid ls a
      else case location_pose l of
        None \<Rightarrow> (False, a)
      | Some p \<Rightarrow> add_locations sid ls
          (a\<lparr>m_points := m_points a @
               [\<lparr>station_id = sid, location_id = yaml_location_id l, point_pose = p\<rparr>],
             m_occupied := m_occupied a @ [False]\<rparr>))"

fun add_stations :: "yaml_station list \<Rightarrow> idle_allocator \<Rightarrow> bool \<times> idle_allocator" where
  "add_stations [] a = (True, a)"
| "add_stations (s # ss) a =
     (case station_locations s of
        None \<Rightarrow> add_stations ss a
      | Some ls \<Rightarrow>
          (case add_locations (yaml_station_id s) ls a of
             (False, a') \<Rightarrow> (False, a')
           | (True, a') \<Rightarrow> add_stations ss a'))"

definition parseStations :: "yaml_station yaml_doc \<Rightarrow> idle_allocator \<Rightarrow> bool \<times> idle_allocator" where
  "parseStations doc a =
     (case doc of
        Yaml_Error \<Rightarrow> (False, a)
      | Yaml_Missing \<Rightarrow> (True, a)
      | Yaml_Items stations \<Rightarrow> add_stations stations (a\<lparr>m_points := [], m_occupied := []\<rparr>))"

definition load_points ::
  "yaml_zone yaml_doc option \<Rightarrow> yaml_station yaml_doc option \<Rightarrow> idle_allocator \<Rightarrow> bool \<times> idle_allocator" where
  "load_points zones stations a =
     (let a0 = a\<lparr>m_points := [], m_occupied := [], m_idleZoneIds := []\<rparr>;
          a1 = (case zones of None \<Rightarrow> a0 | Some doc \<Rightarrow> snd (parseZones doc a0))
      in case stations of
           None \<Rightarrow> (False, a1)
         | Some doc \<Rightarrow> parseStations doc a1)"

section \<open>Allocating\<close>

text \<open>The first index that is not occupied; \<open>None\<close> leaves the caller's pose as it was.\<close>

definition allocate :: "idle_allocator \<Rightarrow> pose2d option \<times> idle_allocator" where
  "allocate a =
     (case find (\<lambda>i. \<not> m_occupied a ! i) [0..<length (m_points a)] of
        None \<Rightarrow> (None, a)
      | Some i \<Rightarrow> (Some (point_pose (m_points a ! i)), a\<lparr>m_occupied := (m_occupied a)[i := True]\<rparr>))"

definition near :: "pose2d \<Rightarrow> pose2d \<Rightarrow> bool" where
  "near p q \<longleftrightarrow> \<bar>pose_x p - pose_x q\<bar> < 1 / 10 ^ 6 \<and> \<bar>pose_y p - pose_y q\<bar> < 1 / 10 ^ 6 \<and>
     \<bar>pose_yaw p - pose_yaw q\<bar> < 1 / 10 ^ 6"

definition markOccupied :: "pose2d \<Rightarrow> idle_allocator \<Rightarrow> idle_allocator" where
  "markOccupied pose a =
     (case find (\<lambda>i. near (point_pose (m_points a ! i)) pose) [0..<length (m_points a)] of
        None \<Rightarrow> a
      | Some i \<Rightarrow> a\<lparr>m_occupied := (m_occupied a)[i := True]\<rparr>)"

definition allocator_empty :: "idle_allocator \<Rightarrow> bool" where
  "allocator_empty a \<longleftrightarrow> m_points a = []"

definition allocator_size :: "idle_allocator \<Rightarrow> nat" where
  "allocator_size a = length (m_points a)"

section \<open>The free points\<close>

definition aligned :: "idle_allocator \<Rightarrow> bool" where
  "aligned a \<longleftrightarrow> length (m_occupied a) = length (m_points a)"

fun unoccupied :: "idle_point list \<Rightarrow> bool list \<Rightarrow> pose2d list" where
  "unoccupied (p # ps) (b # bs) = (if b then unoccupied ps bs else point_pose p # unoccupied ps bs)"
| "unoccupied _ _ = []"

definition free_poses :: "idle_allocator \<Rightarrow> pose2d list" where
  "free_poses a = unoccupied (m_points a) (m_occupied a)"

lemma find_map_Suc: "find P (map Suc xs) = map_option Suc (find (P \<circ> Suc) xs)"
  by (induction xs) auto

lemma find_upt_Suc:
  "find P [0..<Suc n] = (if P 0 then Some 0 else map_option Suc (find (P \<circ> Suc) [0..<n]))"
proof -
  have "[0..<Suc n] = 0 # map Suc [0..<n]" by (metis map_Suc_upt upt_conv_Cons zero_less_Suc)
  then show ?thesis by (simp add: find_map_Suc)
qed

lemma unoccupied_first:
  assumes "length bs = length ps"
  shows "(case find (\<lambda>i. \<not> bs ! i) [0..<length ps] of
      None \<Rightarrow> unoccupied ps bs = []
    | Some i \<Rightarrow> i < length ps \<and> unoccupied ps bs = point_pose (ps ! i) # unoccupied ps (bs[i := True]))"
  using assms
proof (induction ps arbitrary: bs)
  case Nil
  then show ?case by simp
next
  case (Cons p ps)
  then obtain b bs' where bs: "bs = b # bs'" and len: "length bs' = length ps" by (cases bs) auto
  have first: "find (\<lambda>i. \<not> bs ! i) [0..<length (p # ps)] =
      (if b then map_option Suc (find (\<lambda>i. \<not> bs' ! i) [0..<length ps]) else Some 0)"
    using find_upt_Suc [of "\<lambda>i. \<not> bs ! i" "length ps"] by (simp add: bs comp_def del: upt_Suc)
  show ?case
    unfolding first using Cons.IH [OF len] by (cases b) (auto simp: bs split: option.splits)
qed

lemma allocate_free:
  assumes "aligned a"
  shows "(case free_poses a of
      [] \<Rightarrow> allocate a = (None, a)
    | p # ps \<Rightarrow> \<exists>a'. allocate a = (Some p, a') \<and> free_poses a' = ps \<and> aligned a' \<and> m_points a' = m_points a)"
  using unoccupied_first [of "m_occupied a" "m_points a"] assms
  by (auto simp: allocate_def free_poses_def aligned_def split: option.splits list.splits)

lemma add_locations_aligned:
  "aligned a \<Longrightarrow> aligned (snd (add_locations sid ls a))"
  by (induction sid ls a rule: add_locations.induct) (auto simp: aligned_def split: option.splits)

lemma add_stations_aligned:
  "aligned a \<Longrightarrow> aligned (snd (add_stations ss a))"
proof (induction ss a rule: add_stations.induct)
  case (2 s ss a)
  then show ?case
    by (auto split: option.splits prod.splits bool.splits
        dest: add_locations_aligned [of a "yaml_station_id s" "the (station_locations s)"])
qed simp

lemma load_aligned: "aligned (snd (load_points zones stations a))"
proof -
  have z: "aligned b \<Longrightarrow> aligned (snd (parseZones doc b))" for doc b
    by (simp add: parseZones_def aligned_def split: yaml_doc.split)
  have s: "aligned b \<Longrightarrow> aligned (snd (parseStations doc b))" for doc b
  proof (cases doc)
    case (Yaml_Items ss)
    have "aligned (b\<lparr>m_points := [], m_occupied := []\<rparr>)" by (simp add: aligned_def)
    from add_stations_aligned [OF this] Yaml_Items show ?thesis by (simp add: parseStations_def)
  qed (simp_all add: parseStations_def)
  have "aligned (a\<lparr>m_points := [], m_occupied := [], m_idleZoneIds := []\<rparr>)" by (simp add: aligned_def)
  then show ?thesis
    unfolding load_points_def Let_def by (auto split: option.split intro: s z)
qed

end
