(* ===== verification/Robot_Manager.thy ===== *)
theory Robot_Manager
  imports Idle_Points
begin

text \<open>
  \<open>edge_server/src/robot/robot_manager.cpp\<close> and \<open>robot_entity.h\<close>: the robots the edge server knows.
  \<open>unordered_map\<close> is an association list with one entry a key. The pose allocator is an interface:
  the locale below says what the manager needs of it, and the charging points provide it.
\<close>

section \<open>The interface of a pose allocator\<close>

text \<open>
  \<open>avail s\<close> lists the poses that can still be handed out. An allocation takes the first one, or fails
  and changes nothing when there is none.
\<close>

locale pose_allocator =
  fixes alloc :: "'s \<Rightarrow> pose2d option \<times> 's"
    and avail :: "'s \<Rightarrow> pose2d list"
    and ok :: "'s \<Rightarrow> bool"
  assumes alloc_empty: "ok s \<Longrightarrow> avail s = [] \<Longrightarrow> alloc s = (None, s)"
    and alloc_next: "ok s \<Longrightarrow> avail s = p # ps \<Longrightarrow>
      fst (alloc s) = Some p \<and> avail (snd (alloc s)) = ps \<and> ok (snd (alloc s))"
begin

definition take_pose :: "'s \<Rightarrow> pose2d \<times> 's" where
  "take_pose s = (case alloc s of (None, s') \<Rightarrow> (zero_pose, s') | (Some p, s') \<Rightarrow> (p, s'))"

fun take_poses :: "nat \<Rightarrow> 's \<Rightarrow> pose2d list \<times> 's" where
  "take_poses 0 s = ([], s)"
| "take_poses (Suc n) s = (let (p, s1) = take_pose s; (ps, s2) = take_poses n s1 in (p # ps, s2))"

lemma take_pose_avail:
  assumes "ok s"
  shows "fst (take_pose s) = (case avail s of [] \<Rightarrow> zero_pose | p # ps \<Rightarrow> p) \<and>
    avail (snd (take_pose s)) = tl (avail s) \<and> ok (snd (take_pose s))"
  using alloc_empty [OF assms] alloc_next [OF assms] assms
  by (cases "avail s"; cases "alloc s"; cases "fst (alloc s)") (auto simp: take_pose_def)

lemma take_poses_avail:
  "ok s \<Longrightarrow> fst (take_poses n s) = take n (avail s) @ replicate (n - length (avail s)) zero_pose \<and>
     avail (snd (take_poses n s)) = drop n (avail s) \<and> ok (snd (take_poses n s))"
proof (induction n arbitrary: s)
  case 0
  then show ?case by simp
next
  case (Suc n)
  note one = take_pose_avail [OF Suc.prems]
  have rest: "ok (snd (take_pose s))" using one by simp
  from Suc.IH [OF rest] one show ?case
    by (cases "avail s") (auto simp: split_beta Let_def)
qed

end

interpretation points: pose_allocator allocate free_poses aligned
proof
  fix s assume "aligned s" and "free_poses s = []"
  then show "allocate s = (None, s)" using allocate_free [of s] by simp
next
  fix s p ps assume "aligned s" and "free_poses s = p # ps"
  then show "fst (allocate s) = Some p \<and> free_poses (snd (allocate s)) = ps \<and> aligned (snd (allocate s))"
    using allocate_free [of s] by auto
qed

section \<open>State and operations\<close>

record robot_entity =
  m_info :: robot_base_info
  m_status :: robot_running_status

definition getInstanceInfo :: "robot_entity \<Rightarrow> robot_instance_info" where
  "getInstanceInfo e = \<lparr>ri_robot_id = rb_robot_id (m_info e), ri_instance_id = rb_instance_id (m_info e),
     ri_pose = rb_initial_pose (m_info e)\<rparr>"

datatype robot_event = EVENT_REGISTER | EVENT_STATUS_CHANGED | EVENT_POSE_CHANGED | EVENT_OFFLINE

text \<open>\<open>m_robots\<close>, and whether the event callback is set.\<close>

record robot_manager =
  m_robots :: "(string \<times> robot_entity) list"
  m_event_callback :: bool

definition no_robots :: robot_manager where
  "no_robots = \<lparr>m_robots = [], m_event_callback = True\<rparr>"

definition notify :: "robot_manager \<Rightarrow> robot_event \<Rightarrow> robot_event list" where
  "notify mgr ev = (if m_event_callback mgr then [ev] else [])"

text \<open>
  What registering a new robot reads from its surroundings: the name that \<open>ms_to_md_hms\<close> makes of a
  timestamp, \<open>getCurrentTime()\<close>, and the indeterminate battery of a fresh \<open>RobotRunningStatus\<close>.
\<close>

record registration_context =
  ms_to_md_hms :: "int \<Rightarrow> string"
  current_time :: int
  uninitialised_battery :: real

definition first_status :: "registration_context \<Rightarrow> pose2d \<Rightarrow> robot_running_status" where
  "first_status ctx pose =
     \<lparr>rs_robot_id = [], rs_state = INITIALIZING, rs_online = True, rs_timestamp = to_uint64 (current_time ctx),
       rs_battery = uninitialised_battery ctx, rs_pose = pose, rs_task_id = []\<rparr>"

definition registerRobot ::
  "registration_context \<Rightarrow> ('s \<Rightarrow> pose2d option \<times> 's) option \<Rightarrow> robot_base_info
   \<Rightarrow> robot_manager \<times> 's \<Rightarrow> bool \<times> robot_event list \<times> robot_manager \<times> 's" where
  "registerRobot ctx poseAllocator robot state =
     (let (mgr, s) = state in
      if rb_robot_id robot = [] then (False, [], mgr, s)
      else case map_of (m_robots mgr) (rb_robot_id robot) of
        Some entity \<Rightarrow>
          let robotNew = robot\<lparr>rb_instance_id := ri_instance_id (getInstanceInfo entity),
                rb_initial_pose := rb_initial_pose (m_info entity)\<rparr>
          in (True, notify mgr EVENT_REGISTER,
              mgr\<lparr>m_robots := AList.update (rb_robot_id robot) (entity\<lparr>m_info := robotNew\<rparr>) (m_robots mgr)\<rparr>, s)
      | None \<Rightarrow>
          let (pose, s') =
                (case poseAllocator of
                   None \<Rightarrow> (zero_pose, s)
                 | Some alloc \<Rightarrow> (case alloc s of (None, s') \<Rightarrow> (zero_pose, s') | (Some p, s') \<Rightarrow> (p, s')));
              robotNew = robot\<lparr>rb_instance_id := ms_to_md_hms ctx (rb_register_timestamp robot),
                rb_initial_pose := pose\<rparr>
          in (True, notify mgr EVENT_REGISTER,
              mgr\<lparr>m_robots := AList.update (rb_robot_id robot)
                \<lparr>m_info = robotNew, m_status = first_status ctx pose\<rparr> (m_robots mgr)\<rparr>, s'))"

definition restoreRobot :: "robot_base_info \<Rightarrow> robot_running_status \<Rightarrow> robot_manager \<Rightarrow> robot_manager" where
  "restoreRobot robot status mgr =
     (if rb_robot_id robot = [] then mgr
      else if map_of (m_robots mgr) (rb_robot_id robot) \<noteq> None then mgr
      else mgr\<lparr>m_robots := AList.update (rb_robot_id robot)
        \<lparr>m_info = robot, m_status = status\<lparr>rs_robot_id := rb_robot_id robot, rs_online := False,
           rs_state := OFFLINE\<rparr>\<rparr> (m_robots mgr)\<rparr>)"

definition getRobotBaseInfo :: "string \<Rightarrow> robot_manager \<Rightarrow> robot_base_info option" where
  "getRobotBaseInfo robot_id mgr = map_option m_info (map_of (m_robots mgr) robot_id)"

definition unregisterRobot :: "string \<Rightarrow> robot_manager \<Rightarrow> bool \<times> robot_manager" where
  "unregisterRobot robot_id mgr = (True, mgr)"

definition markOffline :: "int \<Rightarrow> string \<Rightarrow> robot_manager \<Rightarrow> bool \<times> robot_manager" where
  "markOffline now robot_id mgr =
     (case map_of (m_robots mgr) robot_id of
        None \<Rightarrow> (False, mgr)
      | Some entity \<Rightarrow>
          (True, mgr\<lparr>m_robots := AList.update robot_id
            (entity\<lparr>m_status := (m_status entity)\<lparr>rs_online := False, rs_state := OFFLINE,
               rs_timestamp := to_uint64 now\<rparr>\<rparr>) (m_robots mgr)\<rparr>))"

definition updateRobotStatus ::
  "string \<Rightarrow> robot_running_status \<Rightarrow> robot_manager \<Rightarrow> bool \<times> robot_manager" where
  "updateRobotStatus robot_id status mgr =
     (case map_of (m_robots mgr) robot_id of
        None \<Rightarrow> (False, mgr)
      | Some entity \<Rightarrow>
          (True, mgr\<lparr>m_robots := AList.update robot_id (entity\<lparr>m_status := status\<rparr>) (m_robots mgr)\<rparr>))"

definition getRobotStatus :: "string \<Rightarrow> robot_manager \<Rightarrow> robot_running_status option" where
  "getRobotStatus robot_id mgr = map_option m_status (map_of (m_robots mgr) robot_id)"

definition getRobotList :: "robot_manager \<Rightarrow> robot_instance_info list" where
  "getRobotList mgr = map (getInstanceInfo \<circ> snd) (m_robots mgr)"

end
