(* ===== verification/Db_Robots.thy ===== *)
theory Db_Robots
  imports Db_Tasks
begin

text \<open>
  The robot and map operations of \<open>SQLiteDB\<close>. \<open>now\<close> stands for \<open>getCurrentTimeMs()\<close>
  (robots) and \<open>CURRENT_TIMESTAMP\<close> (maps). Numbers that the code stores as text with
  \<open>std::to_string\<close> and poses that it stores as JSON are carried as values. A C++ object whose
  arithmetic members are not initialised is a parameter (\<open>base0\<close>, \<open>status0\<close>, \<open>package0\<close>).
\<close>

section \<open>Robots\<close>

definition upsert_robot_row :: "int \<Rightarrow> robot_base_info \<Rightarrow> db_tables \<Rightarrow> db_tables option" where
  "upsert_robot_row now robot t = Some (t\<lparr>tbl_robot :=
     sql_upsert rr_robot_id (\<lambda>old new. new)
       \<lparr>rr_robot_id = rb_robot_id robot, rr_warehouse_id = rb_warehouse_id robot,
         rr_robot_name = [], rr_register_timestamp = rb_register_timestamp robot,
         rr_updated_at = now, rr_initial_pose = Some (rb_initial_pose robot)\<rparr>
       (tbl_robot t)\<rparr>)"

text \<open>SQLite takes the next \<open>AUTOINCREMENT\<close> id before it detects the conflict: an update uses one up.\<close>

definition upsert_robot_instance :: "int \<Rightarrow> robot_base_info \<Rightarrow> db_tables \<Rightarrow> db_tables option" where
  "upsert_robot_instance now robot t =
     (let row = \<lparr>in_id = seq_robot_instance t + 1, in_robot_id = rb_robot_id robot,
            in_instance_id = rb_instance_id robot,
            in_model_name = ''amr_'' @ rb_robot_id robot @ ''_'' @ rb_instance_id robot,
            in_lifecycle_state = ''REGISTERED'', in_created_at = rb_register_timestamp robot,
            in_updated_at = now\<rparr> in
      Some (t\<lparr>tbl_robot_instance :=
          sql_upsert robot_instance_key
            (\<lambda>old new. old\<lparr>in_model_name := in_model_name new,
               in_lifecycle_state := in_lifecycle_state new, in_updated_at := in_updated_at new\<rparr>)
            row (tbl_robot_instance t),
        seq_robot_instance := seq_robot_instance t + 1\<rparr>))"

definition upsert_robot_status ::
  "int \<Rightarrow> robot_base_info \<Rightarrow> robot_running_status \<Rightarrow> db_tables \<Rightarrow> db_tables option" where
  "upsert_robot_status now robot status t = Some (t\<lparr>tbl_robot_status :=
     sql_upsert st_robot_id (\<lambda>old new. new)
       \<lparr>st_robot_id = rb_robot_id robot, st_state = RobotStateToString (rs_state status),
         st_online = rs_online status, st_battery = rs_battery status,
         st_pose = Some (rs_pose status), st_current_task_id = rs_task_id status,
         st_updated_at = now\<rparr>
       (tbl_robot_status t)\<rparr>)"

text \<open>Without an instance id the second statement is skipped.\<close>

definition upsert_statements ::
  "engine \<Rightarrow> int \<Rightarrow> robot_base_info \<Rightarrow> robot_running_status \<Rightarrow> sqlite \<Rightarrow> sqlite option" where
  "upsert_statements eng now robot status db =
     do {
       db1 \<leftarrow> exec_stmt eng 0 (upsert_robot_row now robot) db;
       db2 \<leftarrow> (if rb_instance_id robot \<noteq> [] then exec_stmt eng 2 (upsert_robot_instance now robot) db1
              else Some db1);
       exec_stmt eng 4 (upsert_robot_status now robot status) db2
     }"

definition UpsertRobot ::
  "engine \<Rightarrow> int \<Rightarrow> robot_base_info \<Rightarrow> robot_running_status \<Rightarrow> sqlite \<Rightarrow> bool \<times> sqlite" where
  "UpsertRobot eng now robot status = guarded (transaction (upsert_statements eng now robot status))"

lemma frame_upsert [simp]: "frame (upsert_statements eng now robot status)"
  unfolding frame_def upsert_statements_def
  by (fastforce simp: bind_eq_Some_conv dest: exec_stmt_frame split: if_splits)

interpretation upsert: atomic_operation "UpsertRobot eng now robot status" for eng now robot status
  unfolding UpsertRobot_def by (intro guarded_atomic transaction_atomic frame_upsert)

text \<open>\<open>SELECT \<dots> ORDER BY i.id DESC LIMIT 1\<close>.\<close>

fun newest_instance :: "robot_instance_row list \<Rightarrow> robot_instance_row option" where
  "newest_instance [] = None"
| "newest_instance (r # rs) =
     (case newest_instance rs of
        None \<Rightarrow> Some r
      | Some m \<Rightarrow> if in_id m > in_id r then Some m else Some r)"

definition loaded_base :: "robot_base_info \<Rightarrow> db_tables \<Rightarrow> robot_row \<Rightarrow> robot_base_info" where
  "loaded_base base0 t r =
     base0\<lparr>rb_robot_id := rr_robot_id r, rb_warehouse_id := rr_warehouse_id r,
       rb_register_timestamp := rr_register_timestamp r,
       rb_instance_id :=
         (case newest_instance (filter (\<lambda>i. in_robot_id i = rr_robot_id r) (tbl_robot_instance t)) of
            Some i \<Rightarrow> in_instance_id i | None \<Rightarrow> rb_instance_id base0),
       rb_initial_pose :=
         (case rr_initial_pose r of Some p \<Rightarrow> p | None \<Rightarrow> rb_initial_pose base0)\<rparr>"

definition loaded_status :: "robot_running_status \<Rightarrow> db_tables \<Rightarrow> robot_row \<Rightarrow> robot_running_status" where
  "loaded_status status0 t r =
     (let row = find (\<lambda>s. st_robot_id s = rr_robot_id r) (tbl_robot_status t) in
      status0\<lparr>rs_robot_id := rr_robot_id r, rs_state := OFFLINE, rs_online := False,
        rs_battery := (case row of Some s \<Rightarrow> st_battery s | None \<Rightarrow> 0),
        rs_pose :=
          (case row of
             Some s \<Rightarrow> (case st_pose s of Some p \<Rightarrow> p | None \<Rightarrow> rs_pose status0)
           | None \<Rightarrow> rs_pose status0),
        rs_task_id :=
          (case row of Some s \<Rightarrow> st_current_task_id s | None \<Rightarrow> rs_task_id status0)\<rparr>)"

definition LoadRobots ::
  "engine \<Rightarrow> robot_base_info \<Rightarrow> robot_running_status \<Rightarrow> sqlite
   \<Rightarrow> bool \<times> robot_base_info list \<times> robot_running_status list" where
  "LoadRobots eng base0 status0 db =
     (if \<not> opened db \<or> \<not> eng 0 then (False, [], [])
      else let rows = read_rows eng 1 (tbl_robot (tables db)) in
        (True, map (loaded_base base0 (tables db)) rows, map (loaded_status status0 (tables db)) rows))"

section \<open>Maps\<close>

definition insert_map_package :: "string \<Rightarrow> map_package \<Rightarrow> db_tables \<Rightarrow> db_tables option" where
  "insert_map_package now package t =
     map_option (\<lambda>rows. t\<lparr>tbl_map_package := rows, seq_map_package := seq_map_package t + 1\<rparr>)
       (sql_insert (\<lambda>_. True) map_package_key
          (package\<lparr>mp_id := seq_map_package t + 1, mp_upload_time := now, mp_activate := False\<rparr>)
          (tbl_map_package t))"

text \<open>The statement, and the id that \<open>sqlite3_last_insert_rowid\<close> then gives.\<close>

definition InsertMapPackageInternal ::
  "engine \<Rightarrow> nat \<Rightarrow> string \<Rightarrow> map_package \<Rightarrow> sqlite \<Rightarrow> (sqlite \<times> int) option" where
  "InsertMapPackageInternal eng n now package db =
     map_option (\<lambda>db'. (db', seq_map_package (tables db')))
       (exec_stmt eng n (insert_map_package now package) db)"

definition set_active_map :: "string \<Rightarrow> string \<Rightarrow> int \<Rightarrow> string \<Rightarrow> db_tables \<Rightarrow> db_tables option" where
  "set_active_map now warehouse_id package_id version t = Some (t\<lparr>tbl_active_map :=
     sql_upsert am_warehouse_id (\<lambda>old new. new)
       \<lparr>am_warehouse_id = warehouse_id, am_package_id = package_id, am_version = version,
         am_update_time = now\<rparr>
       (tbl_active_map t)\<rparr>)"

definition SetActiveMapInternal ::
  "engine \<Rightarrow> nat \<Rightarrow> string \<Rightarrow> string \<Rightarrow> int \<Rightarrow> string \<Rightarrow> sqlite \<Rightarrow> sqlite option" where
  "SetActiveMapInternal eng n now warehouse_id package_id version =
     exec_stmt eng n (set_active_map now warehouse_id package_id version)"

definition upload_statements :: "engine \<Rightarrow> string \<Rightarrow> map_package \<Rightarrow> sqlite \<Rightarrow> sqlite option" where
  "upload_statements eng now package db =
     do {
       (db1, package_id) \<leftarrow> InsertMapPackageInternal eng 0 now package db;
       if mp_activate package
       then SetActiveMapInternal eng 2 now (mp_warehouse_id package) package_id (mp_version package) db1
       else Some db1
     }"

definition UploadMapPackage :: "engine \<Rightarrow> string \<Rightarrow> map_package \<Rightarrow> sqlite \<Rightarrow> bool \<times> sqlite" where
  "UploadMapPackage eng now package = guarded (transaction (upload_statements eng now package))"

lemma frame_upload [simp]: "frame (upload_statements eng now package)"
  unfolding frame_def upload_statements_def InsertMapPackageInternal_def SetActiveMapInternal_def
  by (fastforce simp: bind_eq_Some_conv dest: exec_stmt_frame split: if_splits)

interpretation upload: atomic_operation "UploadMapPackage eng now package" for eng now package
  unfolding UploadMapPackage_def by (intro guarded_atomic transaction_atomic frame_upload)

definition GetMapPackage :: "engine \<Rightarrow> string \<Rightarrow> string \<Rightarrow> sqlite \<Rightarrow> map_package option" where
  "GetMapPackage eng warehouse_id version db =
     (if \<not> opened db \<or> \<not> eng 0 \<or> \<not> eng 1 then None
      else find (\<lambda>m. map_package_key m = (warehouse_id, version)) (tbl_map_package (tables db)))"

text \<open>The join of the active row of the warehouse with its package.\<close>

definition GetActiveMap :: "engine \<Rightarrow> string \<Rightarrow> sqlite \<Rightarrow> map_package option" where
  "GetActiveMap eng warehouse_id db =
     (if \<not> opened db \<or> \<not> eng 0 \<or> \<not> eng 1 then None
      else case find (\<lambda>a. am_warehouse_id a = warehouse_id) (tbl_active_map (tables db)) of
        None \<Rightarrow> None
      | Some a \<Rightarrow> find (\<lambda>m. mp_id m = am_package_id a) (tbl_map_package (tables db)))"

definition SetActiveMap ::
  "engine \<Rightarrow> string \<Rightarrow> string \<Rightarrow> int \<Rightarrow> string \<Rightarrow> sqlite \<Rightarrow> bool \<times> sqlite" where
  "SetActiveMap eng now warehouse_id package_id version = guarded (\<lambda>db.
     case exec_stmt eng 0 (set_active_map now warehouse_id package_id version) db of
       None \<Rightarrow> (False, db)
     | Some db' \<Rightarrow> (True, db'))"

interpretation set_active: atomic_operation "SetActiveMap eng now wid pid v" for eng now wid pid v
  unfolding SetActiveMap_def by (rule single_statement_atomic)

section \<open>Looking up an upserted row\<close>

lemma find_upsert:
  assumes "\<And>old. key (merge old r) = key r"
  shows "find (\<lambda>x. key x = k) (sql_upsert key merge r rows) =
    (if k = key r then
       Some (case find (\<lambda>x. key x = key r) rows of None \<Rightarrow> r | Some old \<Rightarrow> merge old r)
     else find (\<lambda>x. key x = k) rows)"
proof (cases "find (\<lambda>x. key x = key r) rows")
  case None
  then have "key r \<notin> key ` set rows" by (force simp: find_None_iff)
  with None show ?thesis by (induction rows) (auto simp: sql_upsert_def)
next
  case (Some old)
  then have old: "old \<in> set rows" "key old = key r" using find_Some_member [OF Some] by simp_all
  then have "key r \<in> set (map key rows)" by (metis image_eqI list.set_map)
  moreover have "key (if key x = key r then merge x r else x) = key x" for x using assms by simp
  ultimately have "find (\<lambda>x. key x = k) (sql_upsert key merge r rows) =
      map_option (\<lambda>x. if key x = key r then merge x r else x) (find (\<lambda>x. key x = k) rows)"
    unfolding sql_upsert_def by (simp add: find_map_same del: list.set_map)
  with Some show ?thesis
    by (cases "find (\<lambda>x. key x = k) rows") (auto dest: find_Some_member)
qed

lemma keys_upsert:
  assumes "\<And>old. key (merge old r) = key r" and "distinct (map key rows)"
  shows "distinct (map key (sql_upsert key merge r rows))"
proof -
  have "map key (map (\<lambda>x. if key x = key r then merge x r else x) rows) = map key rows"
    using assms(1) by simp
  with assms(2) show ?thesis by (auto simp: sql_upsert_def simp del: map_map)
qed

lemma set_upsert:
  "x \<in> set (sql_upsert key merge r rows) \<Longrightarrow> x \<in> set rows \<or> x = r \<or> (\<exists>old\<in>set rows. key old = key r \<and> x = merge old r)"
  by (auto simp: sql_upsert_def split: if_splits)

end
