(* ===== verification/File_Paths.thy ===== *)
theory File_Paths
  imports Prelude
begin

text \<open>
  Files and paths as \<open>std::filesystem\<close> has them. A file system is a partial function from the paths of
  files to their contents; directories show only as prefixes of paths.
\<close>

type_synonym file_system = "string \<Rightarrow> string option"

text \<open>The operator \<open>/\<close> of \<open>std::filesystem::path\<close>: an absolute right-hand side replaces the left one.\<close>

definition path_join :: "string \<Rightarrow> string \<Rightarrow> string" where
  "path_join a b =
     (if b \<noteq> [] \<and> hd b = CHR ''/'' then b
      else if a = [] \<or> last a = CHR ''/'' then a @ b else a @ ''/'' @ b)"

text \<open>\<open>path::filename()\<close>: what follows the last slash.\<close>

definition filename :: "string \<Rightarrow> string" where
  "filename p = rev (takeWhile (\<lambda>c. c \<noteq> CHR ''/'') (rev p))"

text \<open>The prefix that the paths of the entries of a directory have, and the files below it.\<close>

definition directory_prefix :: "string \<Rightarrow> string" where
  "directory_prefix d = (if d = [] \<or> last d = CHR ''/'' then d else d @ ''/'')"

definition inside :: "string \<Rightarrow> string \<Rightarrow> bool" where
  "inside d p \<longleftrightarrow> take (length (directory_prefix d)) p = directory_prefix d"

lemma filename_no_slash: "CHR ''/'' \<notin> set (filename p)"
  by (auto simp: filename_def dest: set_takeWhileD)

lemma path_join_prefix: "CHR ''/'' \<notin> set b \<Longrightarrow> path_join a b = directory_prefix a @ b"
  by (cases b) (auto simp: path_join_def directory_prefix_def)

lemma path_join_inside: "CHR ''/'' \<notin> set b \<Longrightarrow> inside a (path_join a b)"
  by (simp add: path_join_prefix inside_def)

text \<open>The content of an entry of a directory, by its name.\<close>

definition entry :: "file_system \<Rightarrow> string \<Rightarrow> string \<Rightarrow> string option" where
  "entry fs d name = fs (path_join d name)"

lemma path_join_eq_iff:
  "CHR ''/'' \<notin> set b \<Longrightarrow> CHR ''/'' \<notin> set c \<Longrightarrow> path_join a b = path_join a c \<longleftrightarrow> b = c"
  by (simp add: path_join_prefix)

end
