(* ===== verification/Map_Service.thy ===== *)
theory Map_Service
  imports Db_Robots Task_Service File_Paths
begin

text \<open>
  \<open>edge_server/src/service/map_service.cpp\<close>: storing map packages, activating a version and telling
  robots which version is active. The file system is a partial function from paths to contents; a
  library call of \<open>std::filesystem\<close> that may throw takes a flag that says whether it works.
\<close>

record map_service =
  ms_warehouse_id :: string
  ms_callback :: bool

section \<open>Uploading\<close>

definition checkRequest :: "map_service \<Rightarrow> map_upload_request \<Rightarrow> file_system \<Rightarrow> bool" where
  "checkRequest svc request fs \<longleftrightarrow>
     mu_warehouse_id request \<noteq> [] \<and> mu_warehouse_id request = ms_warehouse_id svc \<and>
     mu_version request \<noteq> [] \<and> mu_upload_file_path request \<noteq> [] \<and>
     fs (mu_upload_file_path request) \<noteq> None"

definition map_directory :: "string \<Rightarrow> string \<Rightarrow> string" where
  "map_directory warehouse_id version =
     path_join (path_join (path_join ''/opt/amr/data/warehouses'' warehouse_id) ''maps'') version"

definition prepareMapDirectory :: "bool \<Rightarrow> string \<Rightarrow> string \<Rightarrow> string option" where
  "prepareMapDirectory created warehouse_id version =
     (if created then Some (path_join (map_directory warehouse_id version) ''map.zip'') else None)"

definition copyFile :: "bool \<Rightarrow> string \<Rightarrow> string \<Rightarrow> file_system \<Rightarrow> bool \<times> file_system" where
  "copyFile works src dst fs =
     (if works \<and> fs src \<noteq> None then (True, fs(dst := fs src)) else (False, fs))"

text \<open>
  The size of a file that is not there throws out of the handler; it is there, since the copy worked.
  The last component is the package handed to the callback of a changed active map.
\<close>

definition package_of_request :: "map_upload_request \<Rightarrow> string \<Rightarrow> string \<Rightarrow> map_package" where
  "package_of_request request target content =
     \<lparr>mp_id = 0, mp_warehouse_id = mu_warehouse_id request, mp_version = mu_version request,
       mp_package_name = mu_package_name request, mp_package_path = target,
       mp_package_size = int (length content), mp_upload_time = [], mp_activate = mu_activate request\<rparr>"

definition uploadMap ::
  "map_service \<Rightarrow> environment \<Rightarrow> bool \<Rightarrow> bool \<Rightarrow> map_upload_request \<Rightarrow> file_system \<times> sqlite
   \<Rightarrow> bool \<times> map_package option \<times> file_system \<times> sqlite" where
  "uploadMap svc env created copied request state =
     (let (fs, db) = state in
      if \<not> checkRequest svc request fs then (False, None, fs, db)
      else case prepareMapDirectory created (mu_warehouse_id request) (mu_version request) of
        None \<Rightarrow> (False, None, fs, db)
      | Some target \<Rightarrow>
          (case copyFile copied (mu_upload_file_path request) target fs of
             (False, fs') \<Rightarrow> (False, None, fs', db)
           | (True, fs') \<Rightarrow>
               let package = package_of_request request target (the (fs' target)) in
               (case UploadMapPackage (faults env 0) (current_timestamp env 0) package db of
                  (False, db') \<Rightarrow> (False, None, fs', db')
                | (True, db') \<Rightarrow>
                    (True, if mp_activate package \<and> ms_callback svc then Some package else None, fs', db'))))"

section \<open>The active map\<close>

definition getActiveMap :: "map_service \<Rightarrow> environment \<Rightarrow> string \<Rightarrow> sqlite \<Rightarrow> map_package option" where
  "getActiveMap svc env warehouse_id db =
     (if warehouse_id \<noteq> ms_warehouse_id svc then None
      else GetActiveMap (faults env 0) warehouse_id db)"

definition activateMap ::
  "map_service \<Rightarrow> environment \<Rightarrow> string \<Rightarrow> string \<Rightarrow> sqlite \<Rightarrow> bool \<times> map_package option \<times> sqlite" where
  "activateMap svc env warehouse_id version db =
     (if warehouse_id \<noteq> ms_warehouse_id svc then (False, None, db)
      else case GetMapPackage (faults env 0) warehouse_id version db of
        None \<Rightarrow> (False, None, db)
      | Some package \<Rightarrow>
          (case SetActiveMap (faults env 1) (current_timestamp env 1) warehouse_id (mp_id package)
                  (mp_version package) db of
             (ret, db') \<Rightarrow> (ret, if ret \<and> ms_callback svc then Some package else None, db')))"

definition checkMapUpdate ::
  "map_service \<Rightarrow> environment \<Rightarrow> string \<Rightarrow> string \<Rightarrow> sqlite \<Rightarrow> map_update_info option" where
  "checkMapUpdate svc env warehouse_id robot_version db =
     (if warehouse_id \<noteq> ms_warehouse_id svc then None
      else case GetActiveMap (faults env 0) warehouse_id db of
        None \<Rightarrow> None
      | Some package \<Rightarrow>
          Some (if mp_version package \<noteq> robot_version
                then \<lparr>mi_need_update = True, mi_version = mp_version package,
                  mi_download_url = ''/api/maps/download?warehouse_id='' @ warehouse_id\<rparr>
                else \<lparr>mi_need_update = False, mi_version = mp_version package, mi_download_url = []\<rparr>))"

section \<open>The map tables\<close>

text \<open>Ids are those given out so far and distinct, versions are unique, one active row a warehouse.\<close>

definition maps_ok :: "db_tables \<Rightarrow> bool" where
  "maps_ok t \<longleftrightarrow>
     distinct (map mp_id (tbl_map_package t)) \<and>
     list_all (\<lambda>m. mp_id m \<le> seq_map_package t) (tbl_map_package t) \<and>
     distinct (map map_package_key (tbl_map_package t)) \<and>
     distinct (map am_warehouse_id (tbl_active_map t)) \<and>
     list_all (\<lambda>a. \<exists>m\<in>set (tbl_map_package t). mp_id m = am_package_id a \<and>
        mp_warehouse_id m = am_warehouse_id a \<and> mp_version m = am_version a) (tbl_active_map t)"

lemma maps_empty [simp]: "maps_ok empty_tables"
  by (simp add: maps_ok_def)

lemma insert_map_maps_ok:
  assumes ok: "maps_ok t" and ins: "insert_map_package now p t = Some t'"
  shows "maps_ok t'" and "seq_map_package t' = seq_map_package t + 1"
    and "tbl_map_package t' = tbl_map_package t @
      [p\<lparr>mp_id := seq_map_package t + 1, mp_upload_time := now, mp_activate := False\<rparr>]"
    and "tbl_active_map t' = tbl_active_map t"
proof -
  let ?r = "p\<lparr>mp_id := seq_map_package t + 1, mp_upload_time := now, mp_activate := False\<rparr>"
  have t': "t' = t\<lparr>tbl_map_package := tbl_map_package t @ [?r], seq_map_package := seq_map_package t + 1\<rparr>"
    and fresh: "map_package_key ?r \<notin> map_package_key ` set (tbl_map_package t)"
    using ins by (auto simp: insert_map_package_def sql_insert_Some)
  show "seq_map_package t' = seq_map_package t + 1" "tbl_active_map t' = tbl_active_map t"
    "tbl_map_package t' = tbl_map_package t @ [?r]" by (simp_all add: t')
  show "maps_ok t'"
    using ok fresh unfolding maps_ok_def t' by (force simp: list_all_iff)
qed

lemma set_active_maps_ok:
  assumes ok: "maps_ok t" and set: "set_active_map now wid pid v t = Some t'"
    and m: "m \<in> set (tbl_map_package t)" "mp_id m = pid" "mp_warehouse_id m = wid" "mp_version m = v"
  shows "maps_ok t'" and "tbl_map_package t' = tbl_map_package t"
    and "find (\<lambda>a. am_warehouse_id a = w) (tbl_active_map t') =
      (if w = wid then Some \<lparr>am_warehouse_id = wid, am_package_id = pid, am_version = v, am_update_time = now\<rparr>
       else find (\<lambda>a. am_warehouse_id a = w) (tbl_active_map t))"
proof -
  let ?a = "\<lparr>am_warehouse_id = wid, am_package_id = pid, am_version = v, am_update_time = now\<rparr>"
  have t': "t' = t\<lparr>tbl_active_map := sql_upsert am_warehouse_id (\<lambda>old new. new) ?a (tbl_active_map t)\<rparr>"
    using set by (simp add: set_active_map_def)
  show "tbl_map_package t' = tbl_map_package t" by (simp add: t')
  have "find (\<lambda>a. am_warehouse_id a = w) (sql_upsert am_warehouse_id (\<lambda>old new. new) ?a (tbl_active_map t)) =
      (if w = am_warehouse_id ?a
       then Some (case find (\<lambda>a. am_warehouse_id a = am_warehouse_id ?a) (tbl_active_map t) of None \<Rightarrow> ?a | Some old \<Rightarrow> ?a)
       else find (\<lambda>a. am_warehouse_id a = w) (tbl_active_map t))"
    by (rule find_upsert) simp
  then show "find (\<lambda>a. am_warehouse_id a = w) (tbl_active_map t') = (if w = wid then Some ?a
      else find (\<lambda>a. am_warehouse_id a = w) (tbl_active_map t))"
    by (simp add: t' split: option.splits)
  have "distinct (map am_warehouse_id (sql_upsert am_warehouse_id (\<lambda>old new. new) ?a (tbl_active_map t)))"
    using ok by (intro keys_upsert) (simp_all add: maps_ok_def)
  moreover have "\<exists>m\<in>set (tbl_map_package t). mp_id m = am_package_id a \<and>
        mp_warehouse_id m = am_warehouse_id a \<and> mp_version m = am_version a"
    if "a \<in> set (sql_upsert am_warehouse_id (\<lambda>old new. new) ?a (tbl_active_map t))" for a
    using set_upsert [OF that] ok m by (auto simp: maps_ok_def list_all_iff)
  ultimately show "maps_ok t'"
    using ok unfolding maps_ok_def t' by (simp add: list_all_iff)
qed

lemma find_mp_id:
  "maps_ok t \<Longrightarrow> m \<in> set (tbl_map_package t) \<Longrightarrow> find (\<lambda>x. mp_id x = mp_id m) (tbl_map_package t) = Some m"
  by (rule find_key_unique) (simp_all add: maps_ok_def)

end
