(* ===== verification/Robot_Service.thy ===== *)
theory Robot_Service
  imports Robot_Manager Map_Service
begin

text \<open>
  \<open>edge_server/src/service/robot_service.cpp\<close>: registration of a robot (manager, database and map
  check together), its status reports and its will, and the start of the edge server, which restores
  the robots of the database (\<open>edge_server_app.cpp\<close>).
\<close>

record 's robot_system =
  manager :: robot_manager
  allocator :: 's
  database :: sqlite

text \<open>
  \<open>now_ms\<close> is \<open>getCurrentTimeMs()\<close> in \<open>UpsertRobot\<close>, \<open>pose0\<close> the indeterminate \<open>Pose2D\<close> of a fresh
  \<open>RobotBaseInfo\<close> and of a fresh response; strings of both start empty.
\<close>

record register_environment =
  reg_ctx :: registration_context
  upsert_engine :: engine
  map_env :: environment
  now_ms :: int
  pose0 :: pose2d

definition requested_robot :: "pose2d \<Rightarrow> robot_register_request \<Rightarrow> robot_base_info" where
  "requested_robot p0 req =
     \<lparr>rb_robot_id = rq_robot_id req, rb_instance_id = [], rb_warehouse_id = rq_warehouse_id req,
       rb_map_version = rq_map_version req, rb_register_timestamp = rq_register_timestamp req,
       rb_initial_pose = p0\<rparr>"

definition empty_response :: "pose2d \<Rightarrow> robot_register_request \<Rightarrow> robot_register_response" where
  "empty_response p0 req =
     \<lparr>rp_code = -1, rp_message = [], rp_robot_id = rq_robot_id req, rp_request_id = rq_request_id req,
       rp_map_version = [], rp_map_download_url = [], rp_map_update = False, rp_initial_pose = p0,
       rp_has_initial_pose = False\<rparr>"

definition handleRegister ::
  "map_service \<Rightarrow> register_environment \<Rightarrow> ('s \<Rightarrow> pose2d option \<times> 's) option \<Rightarrow> robot_register_request
   \<Rightarrow> 's robot_system \<Rightarrow> bool \<times> robot_register_response \<times> robot_event list \<times> 's robot_system" where
  "handleRegister maps env alloc req sys =
     (let resp0 = empty_response (pose0 env) req in
      case registerRobot (reg_ctx env) alloc (requested_robot (pose0 env) req) (manager sys, allocator sys) of
        (ok, events, mgr, s) \<Rightarrow>
          let sys1 = sys\<lparr>manager := mgr, allocator := s\<rparr> in
          if \<not> ok then (False, resp0\<lparr>rp_code := -1, rp_message := ''register failed''\<rparr>, events, sys1)
          else
            let (resp1, sys2) =
                  (case (getRobotBaseInfo (rq_robot_id req) mgr, getRobotStatus (rq_robot_id req) mgr) of
                     (Some robot, Some status) \<Rightarrow>
                       (resp0\<lparr>rp_initial_pose := rb_initial_pose robot, rp_has_initial_pose := True\<rparr>,
                        sys1\<lparr>database := snd (UpsertRobot (upsert_engine env) (now_ms env) robot status
                          (database sys1))\<rparr>)
                   | _ \<Rightarrow> (resp0, sys1));
                resp2 =
                  (case checkMapUpdate maps (map_env env) (rq_warehouse_id req) (rq_map_version req)
                          (database sys2) of
                     Some info \<Rightarrow> resp1\<lparr>rp_map_update := mi_need_update info,
                       rp_map_version := mi_version info, rp_map_download_url := mi_download_url info,
                       rp_code := 0\<rparr>
                   | None \<Rightarrow> resp1\<lparr>rp_code := -1, rp_message := ''check map failed''\<rparr>)
            in (True, resp2, events, sys2))"

definition handleStatus :: "robot_running_status \<Rightarrow> 's robot_system \<Rightarrow> 's robot_system" where
  "handleStatus status sys =
     sys\<lparr>manager := snd (updateRobotStatus (rs_robot_id status) status (manager sys))\<rparr>"

definition handleWill :: "int \<Rightarrow> string \<Rightarrow> 's robot_system \<Rightarrow> 's robot_system" where
  "handleWill now robot_id sys = sys\<lparr>manager := snd (markOffline now robot_id (manager sys))\<rparr>"

section \<open>Starting with the robots of the database\<close>

text \<open>
  The loop of \<open>EdgeServerApp\<close> over what \<open>LoadRobots\<close> returned. Restored positions are marked as
  taken when the active map has been loaded.
\<close>

definition restore_one ::
  "robot_base_info \<times> robot_running_status \<Rightarrow> robot_manager \<times> idle_allocator \<Rightarrow> robot_manager \<times> idle_allocator" where
  "restore_one rs state =
     (restoreRobot (fst rs) (snd rs) (fst state), markOccupied (rb_initial_pose (fst rs)) (snd state))"

definition restore_robots ::
  "engine \<Rightarrow> robot_base_info \<Rightarrow> robot_running_status \<Rightarrow> idle_allocator robot_system \<Rightarrow> idle_allocator robot_system" where
  "restore_robots eng base0 status0 sys =
     (case LoadRobots eng base0 status0 (database sys) of
        (False, _, _) \<Rightarrow> sys
      | (True, robots, statuses) \<Rightarrow>
          (case fold restore_one (zip robots statuses) (manager sys, allocator sys) of
             (mgr, a) \<Rightarrow> sys\<lparr>manager := mgr, allocator := a\<rparr>))"

end
