(* ===== verification/Heartbeat.thy ===== *)
theory Heartbeat
  imports Task_Rules Robot_Service
begin

text \<open>
  The periodic check of \<open>edge_server/src/edge_server_app.cpp\<close> (\<open>checkAmrHeartbeat\<close>): tasks whose robots
  are all gone are interrupted. \<open>now\<close> is \<open>getCurrentTime()\<close> in seconds; the \<open>k\<close>-th call of the task
  service runs in the environment \<open>envs k\<close>.
\<close>

definition robot_abnormal :: "int \<Rightarrow> robot_running_status \<Rightarrow> bool" where
  "robot_abnormal now status \<longleftrightarrow>
     \<not> rs_online status \<or> rs_state status = OFFLINE \<or> rs_state status = ERROR \<or>
     now - to_int64 (rs_timestamp status) > 300"

text \<open>
  The loop over the robots of a task: a robot that the manager does not know is skipped, the first
  one that is not abnormal ends it.
\<close>

fun all_abnormal_loop :: "robot_manager \<Rightarrow> int \<Rightarrow> bool \<Rightarrow> string list \<Rightarrow> bool" where
  "all_abnormal_loop mgr now acc [] = acc"
| "all_abnormal_loop mgr now acc (robot_id # rest) =
     (case getRobotStatus robot_id mgr of
        None \<Rightarrow> all_abnormal_loop mgr now acc rest
      | Some status \<Rightarrow>
          if \<not> robot_abnormal now status then False else all_abnormal_loop mgr now acc rest)"

definition allAbnormal :: "robot_manager \<Rightarrow> int \<Rightarrow> string list \<Rightarrow> bool" where
  "allAbnormal mgr now robot_ids = all_abnormal_loop mgr now (robot_ids \<noteq> []) robot_ids"

text \<open>One task, then the loop; the messages are those handed to \<open>AmrCommunication::publish\<close>.\<close>

definition check_task ::
  "(nat \<Rightarrow> environment) \<Rightarrow> nat \<Rightarrow> robot_manager \<Rightarrow> int \<Rightarrow> transport_task \<Rightarrow> sqlite \<Rightarrow> message list \<times> sqlite" where
  "check_task envs k mgr now task db =
     (if \<not> allAbnormal mgr now (t_robot_ids task) then ([], db)
      else case markTaskInterrupted (envs k) (t_task_id task) ''ALL_AMRS_ABNORMAL'' db of
        (False, db') \<Rightarrow> ([], db')
      | (True, db') \<Rightarrow>
          ((case buildTaskStateMessage (envs (Suc k)) (t_task_id task) db' of
              None \<Rightarrow> []
            | Some payload \<Rightarrow> [(makeWarehouseTaskStateTopic (t_warehouse_id task) (t_task_id task), payload)]),
           db'))"

fun check_tasks ::
  "(nat \<Rightarrow> environment) \<Rightarrow> nat \<Rightarrow> robot_manager \<Rightarrow> int \<Rightarrow> transport_task list \<Rightarrow> sqlite \<Rightarrow> message list \<times> sqlite" where
  "check_tasks envs k mgr now [] db = ([], db)"
| "check_tasks envs k mgr now (task # rest) db =
     (case check_task envs k mgr now task db of
        (ms, db1) \<Rightarrow>
          (case check_tasks envs (k + 2) mgr now rest db1 of
             (ms', db2) \<Rightarrow> (ms @ ms', db2)))"

definition checkAmrHeartbeat ::
  "(nat \<Rightarrow> environment) \<Rightarrow> robot_manager \<Rightarrow> int \<Rightarrow> sqlite \<Rightarrow> message list \<times> sqlite" where
  "checkAmrHeartbeat envs mgr now db =
     (case getActiveTasks (envs 0) db of
        (False, _) \<Rightarrow> ([], db)
      | (True, tasks) \<Rightarrow> check_tasks envs 1 mgr now tasks db)"

section \<open>Which tasks are interrupted\<close>

lemma all_abnormal_loop_iff:
  "all_abnormal_loop mgr now acc ids \<longleftrightarrow>
     (\<forall>robot_id\<in>set ids. \<forall>status. getRobotStatus robot_id mgr = Some status \<longrightarrow> robot_abnormal now status) \<and> acc"
  by (induction ids) (auto split: option.splits)

lemma allAbnormal_iff:
  "allAbnormal mgr now ids \<longleftrightarrow> ids \<noteq> [] \<and>
     (\<forall>robot_id\<in>set ids. \<forall>status. getRobotStatus robot_id mgr = Some status \<longrightarrow> robot_abnormal now status)"
  by (auto simp: allAbnormal_def all_abnormal_loop_iff)

lemma markTaskInterrupted_working:
  assumes "healthy env" and "idle db" and "opened db"
  shows "markTaskInterrupted env tid rs db = (True, db\<lparr>tables := event_tables (current_timestamp env 0) tid
    ''INTERRUPTED'' rs ''TIMEOUT'' (tables db)\<rparr>)"
  using assms by (simp add: markTaskInterrupted_def UpdateTaskStateWithEvent_working)

lemma check_task_states:
  assumes "\<forall>k. healthy (envs k)" and "idle db" and "opened db"
    and db'_def: "db' = snd (check_task envs k mgr now task db)"
  shows "idle db' \<and> opened db' \<and> task_states (tables db') i =
    (if i = t_task_id task \<and> allAbnormal mgr now (t_robot_ids task)
     then map_option (\<lambda>_. ''INTERRUPTED'') (task_states (tables db) i) else task_states (tables db) i)"
proof (cases "allAbnormal mgr now (t_robot_ids task)")
  case True
  then have "db' = db\<lparr>tables := event_tables (current_timestamp (envs k) 0) (t_task_id task)
      ''INTERRUPTED'' ''ALL_AMRS_ABNORMAL'' ''TIMEOUT'' (tables db)\<rparr>"
    using markTaskInterrupted_working [of "envs k" db] assms(1-3) by (simp add: db'_def check_task_def)
  with True assms(2,3) show ?thesis by (simp add: event_tables_states idle_def)
next
  case False
  then show ?thesis using assms(2,3) by (simp add: db'_def check_task_def)
qed

lemma check_tasks_states:
  assumes "\<forall>k. healthy (envs k)" and "idle db" and "opened db"
  shows "task_states (tables (snd (check_tasks envs k mgr now ts db))) i =
    (if \<exists>task\<in>set ts. t_task_id task = i \<and> allAbnormal mgr now (t_robot_ids task)
     then map_option (\<lambda>_. ''INTERRUPTED'') (task_states (tables db) i) else task_states (tables db) i)"
  using assms(2,3)
proof (induction ts arbitrary: k db)
  case Nil
  then show ?case by simp
next
  case (Cons task ts)
  let ?db1 = "snd (check_task envs k mgr now task db)"
  note one = check_task_states [OF assms(1) Cons.prems refl, of k mgr now task]
  have "idle ?db1" "opened ?db1" using one by simp_all
  from Cons.IH [OF this, of "k + 2"] one [of i] show ?case
    by (auto simp: split_beta option.map_comp comp_def)
qed



end
