(* ===== verification/Map_Rules.thy ===== *)
theory Map_Rules
  imports Map_Service
begin

text \<open>
  What the map service promises: the map tables stay consistent, an activated version is the one
  robots are told about, a refused upload leaves the database as it was, and what happens to the
  stored file when a version is uploaded again.
\<close>

lemma UploadMapPackage_success:
  assumes "idle db" and "UploadMapPackage eng now p db = (True, db')"
  obtains t1 where "insert_map_package now p (tables db) = Some t1"
    and "if mp_activate p
      then set_active_map now (mp_warehouse_id p) (seq_map_package t1) (mp_version p) t1 = Some (tables db')
      else tables db' = t1"
proof -
  obtain db2 where "upload_statements eng now p (db\<lparr>journal := Some (tables db)\<rparr>) = Some db2"
    and "tables db2 = tables db'"
    using transaction_success [OF assms(1)] guarded_success assms(2) unfolding UploadMapPackage_def by blast
  then show ?thesis
    unfolding upload_statements_def InsertMapPackageInternal_def SetActiveMapInternal_def
    by (auto simp: bind_eq_Some_conv split: if_splits dest!: exec_stmt_frame intro: that)
qed

text \<open>The rows a successful upload leaves, and that the invariant stays.\<close>

lemma upload_tables:
  assumes idle: "idle db" and ok: "maps_ok (tables db)" and run: "UploadMapPackage eng now p db = (True, db')"
  shows "maps_ok (tables db')"
    and "\<exists>m\<in>set (tbl_map_package (tables db')). m = p\<lparr>mp_id := mp_id m, mp_upload_time := now, mp_activate := False\<rparr> \<and>
      (mp_activate p \<longrightarrow> find (\<lambda>a. am_warehouse_id a = mp_warehouse_id p) (tbl_active_map (tables db')) =
        Some \<lparr>am_warehouse_id = mp_warehouse_id p, am_package_id = mp_id m, am_version = mp_version p, am_update_time = now\<rparr>)"
proof -
  obtain t1 where ins: "insert_map_package now p (tables db) = Some t1"
    and act: "if mp_activate p
      then set_active_map now (mp_warehouse_id p) (seq_map_package t1) (mp_version p) t1 = Some (tables db')
      else tables db' = t1"
    by (rule UploadMapPackage_success [OF idle run])
  note t1 = insert_map_maps_ok [OF ok ins]
  let ?m = "p\<lparr>mp_id := seq_map_package (tables db) + 1, mp_upload_time := now, mp_activate := False\<rparr>"
  have m: "?m \<in> set (tbl_map_package t1)" "mp_id ?m = seq_map_package t1"
    "mp_warehouse_id ?m = mp_warehouse_id p" "mp_version ?m = mp_version p"
    by (simp_all add: t1)
  show "maps_ok (tables db')"
    using act t1(1) set_active_maps_ok(1) [OF t1(1) _ m] by (auto split: if_splits)
  show "\<exists>m\<in>set (tbl_map_package (tables db')). m = p\<lparr>mp_id := mp_id m, mp_upload_time := now, mp_activate := False\<rparr> \<and>
      (mp_activate p \<longrightarrow> find (\<lambda>a. am_warehouse_id a = mp_warehouse_id p) (tbl_active_map (tables db')) =
        Some \<lparr>am_warehouse_id = mp_warehouse_id p, am_package_id = mp_id m, am_version = mp_version p, am_update_time = now\<rparr>)"
  proof (rule bexI [of _ ?m])
    show "?m \<in> set (tbl_map_package (tables db'))"
      using act m(1) set_active_maps_ok(2) [OF t1(1) _ m] by (auto split: if_splits)
    show "?m = p\<lparr>mp_id := mp_id ?m, mp_upload_time := now, mp_activate := False\<rparr> \<and>
      (mp_activate p \<longrightarrow> find (\<lambda>a. am_warehouse_id a = mp_warehouse_id p) (tbl_active_map (tables db')) =
        Some \<lparr>am_warehouse_id = mp_warehouse_id p, am_package_id = mp_id ?m, am_version = mp_version p, am_update_time = now\<rparr>)"
      using act set_active_maps_ok(3) [OF t1(1) _ m] m(2) by (auto split: if_splits)
  qed
qed

lemma SetActiveMap_tables:
  "SetActiveMap eng now wid pid v db = (True, db') \<Longrightarrow> set_active_map now wid pid v (tables db) = Some (tables db')"
  unfolding SetActiveMap_def by (auto dest!: guarded_success exec_stmt_frame split: option.splits)

lemma GetActiveMap_of_row:
  assumes ok: "maps_ok (tables db)" and op: "opened db"
    and a: "find (\<lambda>a. am_warehouse_id a = wid) (tbl_active_map (tables db)) = Some a"
    and m: "m \<in> set (tbl_map_package (tables db))" "mp_id m = am_package_id a"
  shows "GetActiveMap working wid db = Some m"
  using find_mp_id [OF ok m(1)] a m(2) op by (simp add: GetActiveMap_def)

section \<open>The invariant\<close>

inductive map_step :: "map_service \<Rightarrow> sqlite \<Rightarrow> sqlite \<Rightarrow> bool" for svc where
  upload_step: "uploadMap svc env created copied req (fs, db) = (r, cb, fs', db') \<Longrightarrow> map_step svc db db'"
| activate_step: "activateMap svc env wid v db = (r, cb, db') \<Longrightarrow> map_step svc db db'"

inductive_cases map_stepE: "map_step svc db db'"

definition map_store_ok :: "sqlite \<Rightarrow> bool" where
  "map_store_ok db \<longleftrightarrow> idle db \<and> maps_ok (tables db)"

lemma uploadMap_db:
  assumes "uploadMap svc env created copied req (fs, db) = (r, cb, fs', db')"
  shows "(\<not> r \<and> db' = db) \<or> (\<exists>p. UploadMapPackage (faults env 0) (current_timestamp env 0) p db = (r, db'))"
  using assms unfolding uploadMap_def
  by (auto simp: Let_def split: if_splits option.splits prod.splits bool.splits)

lemma activateMap_keeps:
  assumes ok: "map_store_ok db" and run: "activateMap svc env wid v db = (r, cb, db')"
  shows "map_store_ok db'"
proof (cases "GetMapPackage (faults env 0) wid v db")
  case None
  then show ?thesis using ok run by (auto simp: activateMap_def split: if_splits)
next
  case (Some m)
  then have m: "m \<in> set (tbl_map_package (tables db))" "mp_warehouse_id m = wid" "mp_version m = v"
    using find_Some_member [of _ "tbl_map_package (tables db)" m]
    by (auto simp: GetMapPackage_def map_package_key_def split: if_splits)
  obtain s db1 where set: "SetActiveMap (faults env 1) (current_timestamp env 1) wid (mp_id m) (mp_version m) db = (s, db1)"
    by fastforce
  have idle: "idle db" and mok: "maps_ok (tables db)" using ok by (simp_all add: map_store_ok_def)
  have "map_store_ok db1"
  proof (cases s)
    case True
    with set set_active_maps_ok(1) [OF mok SetActiveMap_tables m(1) refl m(2) refl] set_active.keeps_idle [OF idle set]
    show ?thesis by (simp add: map_store_ok_def)
  next
    case False
    with set_active.noop_unless [OF idle set] ok show ?thesis by simp
  qed
  then show ?thesis using run Some set ok by (auto simp: activateMap_def split: if_splits)
qed

lemma uploadMap_keeps:
  assumes ok: "map_store_ok db" and run: "uploadMap svc env created copied req (fs, db) = (r, cb, fs', db')"
  shows "map_store_ok db'"
  using uploadMap_db [OF run]
proof
  assume "\<not> r \<and> db' = db"
  with ok show ?thesis by simp
next
  assume "\<exists>p. UploadMapPackage (faults env 0) (current_timestamp env 0) p db = (r, db')"
  then obtain p where up: "UploadMapPackage (faults env 0) (current_timestamp env 0) p db = (r, db')" by blast
  have idle: "idle db" and mok: "maps_ok (tables db)" using ok by (simp_all add: map_store_ok_def)
  show ?thesis
  proof (cases r)
    case True
    with up upload_tables(1) [OF idle mok, of _ _ p db'] upload.keeps_idle [OF idle up]
    show ?thesis by (auto simp: map_store_ok_def)
  next
    case False
    with upload.noop_unless [OF idle up] ok show ?thesis by simp
  qed
qed

interpretation maps: stepping "\<lambda>db. db = fresh_db" "map_step svc" map_store_ok for svc
  by unfold_locales (auto simp: map_store_ok_def [of fresh_db] elim!: map_stepE intro: uploadMap_keeps activateMap_keeps)

text \<open>
  After any uploads and activations, whatever fails, the active row of a warehouse always names a
  stored package of that warehouse and version, package ids and versions are unique, and there is
  at most one active row a warehouse.
\<close>

theorem active_map_is_stored:
  assumes "(map_step svc)\<^sup>*\<^sup>* fresh_db db"
  shows "(\<forall>a\<in>set (tbl_active_map (tables db)). \<exists>m\<in>set (tbl_map_package (tables db)).
      mp_id m = am_package_id a \<and> mp_warehouse_id m = am_warehouse_id a \<and> mp_version m = am_version a) \<and>
    distinct (map mp_id (tbl_map_package (tables db))) \<and>
    distinct (map (\<lambda>m. (mp_warehouse_id m, mp_version m)) (tbl_map_package (tables db))) \<and>
    distinct (map am_warehouse_id (tbl_active_map (tables db)))"
  using maps.reached [OF refl assms]
  by (simp add: map_store_ok_def maps_ok_def list_all_iff map_package_key_def [abs_def])

section \<open>Samples\<close>

definition sample_maps :: map_service where
  "sample_maps = \<lparr>ms_warehouse_id = ''W1'', ms_callback = True\<rparr>"

definition sample_upload :: "string \<Rightarrow> map_upload_request" where
  "sample_upload v = \<lparr>mu_warehouse_id = ''W1'', mu_version = v, mu_package_name = ''m.zip'', mu_activate = True,
     mu_upload_file_path = ''/tmp/m.zip''\<rparr>"

lemma sample_uploaded: "fst (uploadMap sample_maps calm True True (sample_upload ''v1'') (\<lambda>_. Some ''z'', fresh_db))"
  by (simp add: uploadMap_def sample_maps_def sample_upload_def checkRequest_def prepareMapDirectory_def
      copyFile_def UploadMapPackage_def transaction_idle upload_statements_def InsertMapPackageInternal_def
      SetActiveMapInternal_def insert_map_package_def set_active_map_def sql_insert_def Let_def)

lemma active_map_is_stored_witness:
  "distinct (map mp_id (tbl_map_package (tables (snd (snd (snd
     (uploadMap sample_maps calm True True (sample_upload ''v1'') (\<lambda>_. Some ''z'', fresh_db))))))))"
proof -
  obtain r cb fs' db' where run: "uploadMap sample_maps calm True True (sample_upload ''v1'') (\<lambda>_. Some ''z'', fresh_db) = (r, cb, fs', db')"
    by (cases "uploadMap sample_maps calm True True (sample_upload ''v1'') (\<lambda>_. Some ''z'', fresh_db)")
  have "(map_step sample_maps)\<^sup>*\<^sup>* fresh_db db'" using upload_step [OF run] by (rule r_into_rtranclp)
  from active_map_is_stored [OF this] run show ?thesis by simp
qed

section \<open>Uploading and activating\<close>

text \<open>
  An upload with activation makes the uploaded file the active map. When it answers true, whatever
  the engine did on the way, the active map of the warehouse is a package with the name and version
  given, its path holds exactly the content of the uploaded file and its size is the size of the file;
  every robot with another version is then told to download it, and no robot with this version.
\<close>

theorem upload_then_active:
  assumes "journal db = None" and "maps_ok (tables db)" and "mu_activate req"
    and "uploadMap svc env created copied req (fs, db) = (True, cb, fs', db')" and "healthy env'"
  shows "\<exists>m content. getActiveMap svc env' (mu_warehouse_id req) db' = Some m \<and>
    mp_version m = mu_version req \<and> mp_package_name m = mu_package_name req \<and>
    fs (mu_upload_file_path req) = Some content \<and> fs' (mp_package_path m) = Some content \<and>
    mp_package_size m = int (length content) \<and>
    (\<forall>v. \<exists>info. checkMapUpdate svc env' (mu_warehouse_id req) v db' = Some info \<and>
       mi_version info = mu_version req \<and> (mi_need_update info \<longleftrightarrow> v \<noteq> mu_version req))"
proof -
  have idle: "idle db" using assms(1) by (simp add: idle_def)
  define target where "target = path_join (map_directory (mu_warehouse_id req) (mu_version req)) ''map.zip''"
  have chk: "checkRequest svc req fs" using assms(4) by (simp add: uploadMap_def split: if_splits)
  then obtain content where content: "fs (mu_upload_file_path req) = Some content"
    and wid: "mu_warehouse_id req = ms_warehouse_id svc"
    by (auto simp: checkRequest_def)
  define p where "p = package_of_request req target content"
  have up: "UploadMapPackage (faults env 0) (current_timestamp env 0) p db = (True, db')"
    and fs': "fs' = fs(target := Some content)"
    using assms(4) content unfolding uploadMap_def p_def target_def
    by (auto simp: copyFile_def prepareMapDirectory_def Let_def split: if_splits option.splits prod.splits bool.splits)
  obtain m where m: "m \<in> set (tbl_map_package (tables db'))"
    and m_eq: "m = p\<lparr>mp_id := mp_id m, mp_upload_time := current_timestamp env 0, mp_activate := False\<rparr>"
    and row: "find (\<lambda>a. am_warehouse_id a = mp_warehouse_id p) (tbl_active_map (tables db')) =
        Some \<lparr>am_warehouse_id = mp_warehouse_id p, am_package_id = mp_id m, am_version = mp_version p,
          am_update_time = current_timestamp env 0\<rparr>"
    using upload_tables(2) [OF idle assms(2) up] assms(3) by (auto simp: p_def package_of_request_def)
  have op: "opened db'" using upload.keeps_opened [OF idle up] up guarded_success by (metis UploadMapPackage_def)
  have "mp_version m = mp_version p" "mp_package_name m = mp_package_name p"
    "mp_package_path m = mp_package_path p" "mp_package_size m = mp_package_size p"
    by (subst m_eq, simp)+
  then have fields: "mp_version m = mu_version req" "mp_package_name m = mu_package_name req"
    "mp_package_path m = target" "mp_package_size m = int (length content)"
    by (simp_all add: p_def package_of_request_def)
  have active: "GetActiveMap working (mu_warehouse_id req) db' = Some m"
    using GetActiveMap_of_row [OF upload_tables(1) [OF idle assms(2) up] op _ m] row
    by (simp add: p_def package_of_request_def)
  show ?thesis
    using active fields content wid assms(5) fs'
    by (auto simp: getActiveMap_def checkMapUpdate_def)
qed

lemma upload_then_active_witness:
  "\<exists>m. getActiveMap sample_maps calm ''W1'' (snd (snd (snd
     (uploadMap sample_maps calm True True (sample_upload ''v1'') (\<lambda>_. Some ''z'', fresh_db))))) = Some m \<and> mp_package_size m = 1"
proof -
  obtain r cb fs' db' where run: "uploadMap sample_maps calm True True (sample_upload ''v1'') (\<lambda>_. Some ''z'', fresh_db) = (r, cb, fs', db')"
    by (cases "uploadMap sample_maps calm True True (sample_upload ''v1'') (\<lambda>_. Some ''z'', fresh_db)")
  then have run: "uploadMap sample_maps calm True True (sample_upload ''v1'') (\<lambda>_. Some ''z'', fresh_db) = (True, cb, fs', db')"
    using sample_uploaded by simp
  have "journal fresh_db = None" by (simp add: fresh_db_def)
  from upload_then_active [OF this _ _ run calm_healthy] run show ?thesis
    by (simp add: sample_upload_def) blast
qed

text \<open>
  Activating a stored version. On a working database the activation succeeds exactly when the
  warehouse is the server's own and the version is stored; then the active map is that package,
  and an unsuccessful activation changes nothing.
\<close>

theorem activate_selects_version:
  assumes "healthy env" and "journal db = None" and "opened db" and "maps_ok (tables db)"
    and "activateMap svc env wid v db = (r, cb, db')"
  shows "(r \<longleftrightarrow> wid = ms_warehouse_id svc \<and> (wid, v) \<in> map_package_key ` set (tbl_map_package (tables db))) \<and>
    (r \<longrightarrow> (\<exists>m. getActiveMap svc env wid db' = Some m \<and> mp_version m = v \<and> mp_warehouse_id m = wid)) \<and>
    (\<not> r \<longrightarrow> db' = db)"
proof (cases "wid = ms_warehouse_id svc \<and> (wid, v) \<in> map_package_key ` set (tbl_map_package (tables db))")
  case False
  then have "find (\<lambda>m. map_package_key m = (wid, v)) (tbl_map_package (tables db)) = None" if "wid = ms_warehouse_id svc"
    using that by (force simp: find_None_iff)
  with False assms(1,3,5) show ?thesis by (auto simp: activateMap_def GetMapPackage_def split: if_splits)
next
  case True
  then obtain m where m: "find (\<lambda>m. map_package_key m = (wid, v)) (tbl_map_package (tables db)) = Some m"
    by (cases "find (\<lambda>m. map_package_key m = (wid, v)) (tbl_map_package (tables db))") (force simp: find_None_iff)+
  then have mm: "m \<in> set (tbl_map_package (tables db))" "mp_warehouse_id m = wid" "mp_version m = v"
    using find_Some_member [OF m] by (simp_all add: map_package_key_def)
  obtain db1 where set: "SetActiveMap working (current_timestamp env 1) wid (mp_id m) (mp_version m) db = (True, db1)"
    using assms(3) by (simp add: SetActiveMap_def set_active_map_def)
  have idle: "idle db" using assms(2) by (simp add: idle_def)
  note sa = set_active_maps_ok [OF assms(4) SetActiveMap_tables [OF set] mm(1) refl mm(2) refl]
  have row: "find (\<lambda>a. am_warehouse_id a = wid) (tbl_active_map (tables db1)) =
      Some \<lparr>am_warehouse_id = wid, am_package_id = mp_id m, am_version = mp_version m,
        am_update_time = current_timestamp env 1\<rparr>"
    using sa(3) by simp
  have "GetActiveMap working wid db1 = Some m"
    by (rule GetActiveMap_of_row [OF sa(1) _ row])
      (use set_active.keeps_opened [OF idle set] assms(3) sa(2) mm(1) in simp_all)
  with True m mm set assms(1,3,5) show ?thesis
    by (auto simp: activateMap_def GetMapPackage_def getActiveMap_def)
qed

lemma activate_selects_version_witness:
  "activateMap sample_maps calm ''W1'' ''v7'' fresh_db = (False, None, fresh_db)"
proof -
  have run: "activateMap sample_maps calm ''W1'' ''v7'' fresh_db = (False, None, fresh_db)"
    by (simp add: activateMap_def GetMapPackage_def sample_maps_def)
  have "journal fresh_db = None" by (simp add: fresh_db_def)
  from activate_selects_version [OF calm_healthy this _ _ run] run show ?thesis by simp
qed

text \<open>
  Uploading a version again destroys the stored file. When the version is on record, an upload
  whose file operations work answers false and changes no table, whatever the engine does; but
  the file of the recorded package has been replaced by the new content.
\<close>

theorem upload_again_overwrites_file:
  assumes "journal db = None"
    and "(mu_warehouse_id req, mu_version req) \<in> map_package_key ` set (tbl_map_package (tables db))"
    and "checkRequest svc req fs"
  shows "uploadMap svc env True True req (fs, db) = (False, None,
    fs(path_join (map_directory (mu_warehouse_id req) (mu_version req)) ''map.zip'' := fs (mu_upload_file_path req)), db)"
proof -
  have idle: "idle db" using assms(1) by (simp add: idle_def)
  obtain content where content: "fs (mu_upload_file_path req) = Some content"
    using assms(3) by (auto simp: checkRequest_def)
  have "fst (UploadMapPackage eng now (package_of_request req target c) db) = False" for eng now target c
  proof (rule ccontr)
    assume "fst (UploadMapPackage eng now (package_of_request req target c) db) \<noteq> False"
    then obtain db' where "UploadMapPackage eng now (package_of_request req target c) db = (True, db')"
      by (cases "UploadMapPackage eng now (package_of_request req target c) db") auto
    then obtain t1 where "insert_map_package now (package_of_request req target c) (tables db) = Some t1"
      using UploadMapPackage_success [OF idle] by metis
    with assms(2) show False
      by (auto simp: insert_map_package_def sql_insert_Some map_package_key_def package_of_request_def)
  qed
  then have up: "UploadMapPackage eng now (package_of_request req target c) db = (False, db)" for eng now target c
    using upload.noop_unless [OF idle, of eng now "package_of_request req target c"] by (metis prod.collapse)
  show ?thesis
    using assms(3) content by (simp add: uploadMap_def prepareMapDirectory_def copyFile_def up Let_def)
qed

lemma upload_again_overwrites_file_witness:
  "\<exists>db fs'. uploadMap sample_maps calm True True (sample_upload ''v1'') ((\<lambda>_. Some ''new''), db) = (False, None, fs', db) \<and>
     fs' ''/opt/amr/data/warehouses/W1/maps/v1/map.zip'' = Some ''new''"
proof -
  obtain r cb fs' db' where run: "uploadMap sample_maps calm True True (sample_upload ''v1'') (\<lambda>_. Some ''z'', fresh_db) = (r, cb, fs', db')"
    by (cases "uploadMap sample_maps calm True True (sample_upload ''v1'') (\<lambda>_. Some ''z'', fresh_db)")
  have db': "journal db' = None \<and> (''W1'', ''v1'') \<in> map_package_key ` set (tbl_map_package (tables db'))"
    using run by (auto simp: uploadMap_def sample_maps_def sample_upload_def checkRequest_def prepareMapDirectory_def
      copyFile_def UploadMapPackage_def transaction_idle upload_statements_def InsertMapPackageInternal_def
      SetActiveMapInternal_def insert_map_package_def set_active_map_def sql_insert_def Let_def
      package_of_request_def map_package_key_def Commit_def)
  have "uploadMap sample_maps calm True True (sample_upload ''v1'') (\<lambda>_. Some ''new'', db') = (False, None,
    (\<lambda>_. Some ''new'')(path_join (map_directory (mu_warehouse_id (sample_upload ''v1'')) (mu_version (sample_upload ''v1''))) ''map.zip'' :=
      Some ''new''), db')"
    using db' by (intro upload_again_overwrites_file) (simp_all add: sample_upload_def sample_maps_def checkRequest_def)
  then show ?thesis by (intro exI [of _ db']) simp
qed

end
