(* ===== verification/Robot_Rules.thy ===== *)
theory Robot_Rules
  imports Robot_Service Map_Rules
begin

text \<open>
  What registration promises: new robots get the free charging points in order, registering again
  keeps what was assigned, and a robot that is in the database keeps its instance id and start
  pose through registrations, failures of the database and restarts of the server.
\<close>

section \<open>Identities\<close>

text \<open>The instance id and start pose of a robot, which the simulation relies on not to change.\<close>

definition identity :: "robot_manager \<Rightarrow> string \<Rightarrow> (string \<times> pose2d) option" where
  "identity mgr robot_id =
     map_option (\<lambda>e. (rb_instance_id (m_info e), rb_initial_pose (m_info e))) (map_of (m_robots mgr) robot_id)"

lemma identity_no_robots [simp]: "identity no_robots robot_id = None"
  by (simp add: identity_def no_robots_def)

lemma identity_update:
  "identity (mgr\<lparr>m_robots := AList.update k e (m_robots mgr)\<rparr>) =
     (identity mgr)(k \<mapsto> (rb_instance_id (m_info e), rb_initial_pose (m_info e)))"
  by (simp add: identity_def update_conv' fun_eq_iff)

lemma registerRobot_identity:
  assumes "registerRobot ctx alloc robot (mgr, s) = (ok, evs, mgr', s')"
  shows "ok \<longleftrightarrow> rb_robot_id robot \<noteq> []"
    and "\<not> ok \<Longrightarrow> mgr' = mgr \<and> s' = s"
    and "ok \<Longrightarrow> identity mgr (rb_robot_id robot) \<noteq> None \<Longrightarrow> identity mgr' = identity mgr \<and> s' = s"
    and "ok \<Longrightarrow> identity mgr (rb_robot_id robot) = None \<Longrightarrow>
      \<exists>p. identity mgr' = (identity mgr)(rb_robot_id robot \<mapsto> (ms_to_md_hms ctx (rb_register_timestamp robot), p))"
    and "ok \<Longrightarrow> \<exists>e. map_of (m_robots mgr') (rb_robot_id robot) = Some e \<and> rb_robot_id (m_info e) = rb_robot_id robot"
proof -
  show "ok \<longleftrightarrow> rb_robot_id robot \<noteq> []"
    using assms by (auto simp: registerRobot_def Let_def split: if_splits option.splits prod.splits)
  show "\<not> ok \<Longrightarrow> mgr' = mgr \<and> s' = s"
    using assms by (auto simp: registerRobot_def Let_def split: if_splits option.splits prod.splits)
  show "identity mgr' = identity mgr \<and> s' = s" if ok: "ok" and known: "identity mgr (rb_robot_id robot) \<noteq> None"
  proof -
    obtain e where e: "map_of (m_robots mgr) (rb_robot_id robot) = Some e"
      using known by (auto simp: identity_def)
    then have "identity mgr (rb_robot_id robot) = Some (rb_instance_id (m_info e), rb_initial_pose (m_info e))"
      by (simp add: identity_def)
    then show ?thesis
      using assms e ok
      by (auto simp: registerRobot_def Let_def getInstanceInfo_def identity_update fun_upd_triv split: if_splits)
  qed
  show "\<exists>p. identity mgr' = (identity mgr)(rb_robot_id robot \<mapsto> (ms_to_md_hms ctx (rb_register_timestamp robot), p))"
    if "ok" "identity mgr (rb_robot_id robot) = None"
    using assms that by (auto simp: registerRobot_def Let_def identity_update identity_def [of mgr]
        split: if_splits option.splits prod.splits)
  show "\<exists>e. map_of (m_robots mgr') (rb_robot_id robot) = Some e \<and> rb_robot_id (m_info e) = rb_robot_id robot" if "ok"
    using assms that by (auto simp: registerRobot_def Let_def update_conv' split: if_splits option.splits prod.splits)
qed

lemma updateRobotStatus_identity [simp]: "identity (snd (updateRobotStatus rid st mgr)) = identity mgr"
  unfolding updateRobotStatus_def
  by (cases "map_of (m_robots mgr) rid") (auto simp: identity_update fun_eq_iff, simp add: identity_def)

lemma markOffline_identity [simp]: "identity (snd (markOffline now rid mgr)) = identity mgr"
  unfolding markOffline_def
  by (cases "map_of (m_robots mgr) rid") (auto simp: identity_update fun_eq_iff, simp add: identity_def)

lemma restoreRobot_identity:
  "rb_robot_id b \<noteq> [] \<Longrightarrow> identity mgr (rb_robot_id b) = None \<Longrightarrow>
     identity (restoreRobot b st mgr) = (identity mgr)(rb_robot_id b \<mapsto> (rb_instance_id b, rb_initial_pose b))"
  by (simp add: restoreRobot_def identity_update) (simp add: identity_def)

section \<open>The database agrees with the manager\<close>

definition agrees :: "db_tables \<Rightarrow> (string \<Rightarrow> (string \<times> pose2d) option) \<Rightarrow> bool" where
  "agrees t ids \<longleftrightarrow>
     distinct (map rr_robot_id (tbl_robot t)) \<and>
     (\<forall>r\<in>set (tbl_robot t). rr_robot_id r \<noteq> [] \<and>
        (\<exists>inst p. ids (rr_robot_id r) = Some (inst, p) \<and> rr_initial_pose r = Some p \<and>
           (inst = [] \<or> (\<exists>i\<in>set (tbl_robot_instance t). in_robot_id i = rr_robot_id r \<and> in_instance_id i = inst)))) \<and>
     (\<forall>i\<in>set (tbl_robot_instance t). in_robot_id i \<in> rr_robot_id ` set (tbl_robot t) \<and>
        (\<exists>p. ids (in_robot_id i) = Some (in_instance_id i, p)))"

lemma agrees_extend: "agrees t ids \<Longrightarrow> ids \<subseteq>\<^sub>m ids' \<Longrightarrow> agrees t ids'"
  unfolding agrees_def map_le_def
  by (elim conjE, intro conjI) (assumption, (metis domI)+)

lemma agrees_empty [simp]: "agrees empty_tables ids"
  by (simp add: agrees_def)

lemma UpsertRobot_success:
  assumes "idle db" and "UpsertRobot eng now robot status db = (True, db')"
  obtains t1 t2 where "upsert_robot_row now robot (tables db) = Some t1"
    and "if rb_instance_id robot \<noteq> [] then upsert_robot_instance now robot t1 = Some t2 else t2 = t1"
    and "upsert_robot_status now robot status t2 = Some (tables db')"
proof -
  obtain db3 where "upsert_statements eng now robot status (db\<lparr>journal := Some (tables db)\<rparr>) = Some db3"
    and "tables db3 = tables db'"
    using transaction_success [OF assms(1)] guarded_success assms(2) unfolding UpsertRobot_def by blast
  then show ?thesis
    unfolding upsert_statements_def
    by (cases "rb_instance_id robot = []")
      (auto simp: bind_eq_Some_conv dest!: exec_stmt_frame intro: that [rotated 2])
qed

lemma sql_upsert_replace_mem:
  "x \<in> set (sql_upsert key (\<lambda>old new. new) r rows) \<longleftrightarrow> x = r \<or> (x \<in> set rows \<and> key x \<noteq> key r)"
  by (auto simp: sql_upsert_def image_iff)

lemma upsert_key_set:
  assumes "\<And>old. key old = key r \<Longrightarrow> key (merge old r) = key r"
  shows "key ` set (sql_upsert key merge r rows) = insert (key r) (key ` set rows)"
proof (cases "key r \<in> key ` set rows")
  case True
  have "key (if key x = key r then merge x r else x) = key x" for x using assms by simp
  then have "map key (map (\<lambda>x. if key x = key r then merge x r else x) rows) = map key rows" by simp
  then have "key ` set (map (\<lambda>x. if key x = key r then merge x r else x) rows) = key ` set rows"
    by (metis list.set_map)
  with True show ?thesis by (auto simp: sql_upsert_def simp del: set_map)
next
  case False
  then show ?thesis by (simp add: sql_upsert_def)
qed

lemma upsert_robot_agrees:
  assumes ag: "agrees t ids" and rid: "rb_robot_id b \<noteq> []"
    and ids: "ids (rb_robot_id b) = Some (rb_instance_id b, rb_initial_pose b)"
    and 1: "upsert_robot_row now b t = Some t1"
    and 2: "if rb_instance_id b \<noteq> [] then upsert_robot_instance now b t1 = Some t2 else t2 = t1"
    and 3: "upsert_robot_status now b st t2 = Some t'"
  shows "agrees t' ids" and "rr_robot_id ` set (tbl_robot t') = insert (rb_robot_id b) (rr_robot_id ` set (tbl_robot t))"
proof -
  let ?row = "\<lparr>rr_robot_id = rb_robot_id b, rr_warehouse_id = rb_warehouse_id b, rr_robot_name = [],
      rr_register_timestamp = rb_register_timestamp b, rr_updated_at = now, rr_initial_pose = Some (rb_initial_pose b)\<rparr>"
  have rob: "tbl_robot t' = sql_upsert rr_robot_id (\<lambda>old new. new) ?row (tbl_robot t)"
    using 1 2 3 by (auto simp: upsert_robot_row_def upsert_robot_instance_def upsert_robot_status_def Let_def split: if_splits)
  have mem: "x \<in> set (tbl_robot t') \<longleftrightarrow> x = ?row \<or> (x \<in> set (tbl_robot t) \<and> rr_robot_id x \<noteq> rb_robot_id b)" for x
    unfolding rob sql_upsert_replace_mem by simp
  show img: "rr_robot_id ` set (tbl_robot t') = insert (rb_robot_id b) (rr_robot_id ` set (tbl_robot t))"
  proof -
    have "set (tbl_robot t') = insert ?row {x \<in> set (tbl_robot t). rr_robot_id x \<noteq> rb_robot_id b}"
      using mem by blast
    then show ?thesis by (auto simp: image_iff)
  qed
  have dist: "distinct (map rr_robot_id (tbl_robot t'))"
    unfolding rob using ag by (intro keys_upsert) (simp_all add: agrees_def)
  have keys: "robot_instance_key ` set (tbl_robot_instance t') =
      (if rb_instance_id b = [] then robot_instance_key ` set (tbl_robot_instance t)
       else insert (rb_robot_id b, rb_instance_id b) (robot_instance_key ` set (tbl_robot_instance t)))"
  proof (cases "rb_instance_id b = []")
    case True
    with 1 2 3 show ?thesis by (auto simp: upsert_robot_row_def upsert_robot_status_def)
  next
    case False
    let ?i = "\<lparr>in_id = seq_robot_instance t + 1, in_robot_id = rb_robot_id b, in_instance_id = rb_instance_id b,
        in_model_name = ''amr_'' @ rb_robot_id b @ ''_'' @ rb_instance_id b, in_lifecycle_state = ''REGISTERED'',
        in_created_at = rb_register_timestamp b, in_updated_at = now\<rparr>"
    let ?m = "\<lambda>old new. old\<lparr>in_model_name := in_model_name new, in_lifecycle_state := in_lifecycle_state new,
        in_updated_at := in_updated_at new\<rparr>"
    have eq: "tbl_robot_instance t' = sql_upsert robot_instance_key ?m ?i (tbl_robot_instance t)"
      using 1 2 3 False by (auto simp: upsert_robot_row_def upsert_robot_instance_def upsert_robot_status_def Let_def)
    have "robot_instance_key ` set (tbl_robot_instance t') =
        insert (robot_instance_key ?i) (robot_instance_key ` set (tbl_robot_instance t))"
      unfolding eq by (rule upsert_key_set) (simp add: robot_instance_key_def)
    moreover have "robot_instance_key ?i = (rb_robot_id b, rb_instance_id b)" by (simp add: robot_instance_key_def)
    ultimately show ?thesis using False by simp
  qed
  have inst: "(\<exists>j\<in>set (tbl_robot_instance t). in_robot_id i = in_robot_id j \<and> in_instance_id i = in_instance_id j)
      \<or> (in_robot_id i = rb_robot_id b \<and> in_instance_id i = rb_instance_id b)"
    if "i \<in> set (tbl_robot_instance t')" for i
  proof -
    from that have "robot_instance_key i \<in> robot_instance_key ` set (tbl_robot_instance t')" by simp
    then show ?thesis unfolding keys by (auto simp: robot_instance_key_def split: if_splits)
  qed
  have new: "rb_instance_id b = [] \<or> (\<exists>i\<in>set (tbl_robot_instance t'). in_robot_id i = rb_robot_id b \<and> in_instance_id i = rb_instance_id b)"
  proof (cases "rb_instance_id b = []")
    case False
    then have "(rb_robot_id b, rb_instance_id b) \<in> robot_instance_key ` set (tbl_robot_instance t')" by (simp add: keys)
    then show ?thesis by (auto simp: robot_instance_key_def)
  qed simp
  have old: "\<exists>i\<in>set (tbl_robot_instance t'). in_robot_id i = in_robot_id j \<and> in_instance_id i = in_instance_id j"
    if "j \<in> set (tbl_robot_instance t)" for j
  proof -
    from that have "robot_instance_key j \<in> robot_instance_key ` set (tbl_robot_instance t')" by (simp add: keys)
    then show ?thesis by (auto simp: robot_instance_key_def)
  qed
  show "agrees t' ids"
    unfolding agrees_def
  proof (intro conjI ballI)
    show "distinct (map rr_robot_id (tbl_robot t'))" by (rule dist)
    fix r assume r: "r \<in> set (tbl_robot t')"
    show "rr_robot_id r \<noteq> []" using r mem rid ag by (auto simp: agrees_def)
    show "\<exists>inst p. ids (rr_robot_id r) = Some (inst, p) \<and> rr_initial_pose r = Some p \<and>
        (inst = [] \<or> (\<exists>i\<in>set (tbl_robot_instance t'). in_robot_id i = rr_robot_id r \<and> in_instance_id i = inst))"
    proof (cases "r = ?row")
      case True
      then show ?thesis using ids new by simp
    next
      case False
      then have "r \<in> set (tbl_robot t)" using r mem by blast
      then obtain inst p where "ids (rr_robot_id r) = Some (inst, p)" "rr_initial_pose r = Some p"
        and i: "inst = [] \<or> (\<exists>i\<in>set (tbl_robot_instance t). in_robot_id i = rr_robot_id r \<and> in_instance_id i = inst)"
        using ag unfolding agrees_def by blast
      then show ?thesis using old by metis
    qed
  next
    fix i assume i: "i \<in> set (tbl_robot_instance t')"
    show "in_robot_id i \<in> rr_robot_id ` set (tbl_robot t')" "\<exists>p. ids (in_robot_id i) = Some (in_instance_id i, p)"
      using inst [OF i] ag ids unfolding img agrees_def by force+
  qed
qed

section \<open>Registrations and restarts\<close>

text \<open>
  A restart forgets the manager and the allocator and reads the robots back on a working engine;
  the other steps may meet any engine.
\<close>

inductive robot_step :: "map_service \<Rightarrow> idle_allocator robot_system \<Rightarrow> idle_allocator robot_system \<Rightarrow> bool" for maps where
  register_step: "handleRegister maps env (Some allocate) req sys = (ok, resp, evs, sys') \<Longrightarrow> robot_step maps sys sys'"
| status_step: "robot_step maps sys (handleStatus status sys)"
| will_step: "robot_step maps sys (handleWill now rid sys)"
| restart_step: "rb_instance_id base0 = [] \<Longrightarrow> opened (database sys) \<Longrightarrow>
    robot_step maps sys (restore_robots working base0 status0
      \<lparr>manager = no_robots, allocator = a, database = database sys\<rparr>)"

definition keyed :: "robot_manager \<Rightarrow> bool" where
  "keyed mgr \<longleftrightarrow> distinct (map fst (m_robots mgr)) \<and>
     (\<forall>rid e. map_of (m_robots mgr) rid = Some e \<longrightarrow> rb_robot_id (m_info e) = rid)"

lemma keyedD: "keyed mgr \<Longrightarrow> map_of (m_robots mgr) rid = Some e \<Longrightarrow> rb_robot_id (m_info e) = rid"
  by (simp add: keyed_def)

lemma keyed_update:
  "keyed mgr \<Longrightarrow> rb_robot_id (m_info e) = k \<Longrightarrow> keyed (mgr\<lparr>m_robots := AList.update k e (m_robots mgr)\<rparr>)"
  by (simp add: keyed_def update_conv' distinct_update)

lemma keyed_list_distinct: "keyed mgr \<Longrightarrow> distinct (map ri_robot_id (getRobotList mgr))"
proof -
  assume k: "keyed mgr"
  then have "map ri_robot_id (getRobotList mgr) = map fst (m_robots mgr)"
    by (auto simp: getRobotList_def getInstanceInfo_def keyed_def)
  with k show ?thesis by (simp add: keyed_def)
qed

lemma keyed_no_robots [simp]: "keyed no_robots"
  by (simp add: keyed_def no_robots_def)

definition robots_ok :: "'s robot_system \<Rightarrow> bool" where
  "robots_ok sys \<longleftrightarrow> idle (database sys) \<and> agrees (tables (database sys)) (identity (manager sys)) \<and>
     keyed (manager sys)"

definition persisted :: "'s robot_system \<Rightarrow> string set" where
  "persisted sys = rr_robot_id ` set (tbl_robot (tables (database sys)))"

text \<open>What a step does to the identities of the robots that are in the database: nothing.\<close>

definition same_identities :: "'s robot_system \<Rightarrow> 's robot_system \<Rightarrow> bool" where
  "same_identities sys sys' \<longleftrightarrow> persisted sys \<subseteq> persisted sys' \<and>
     (\<forall>rid\<in>persisted sys. identity (manager sys') rid = identity (manager sys) rid)"

lemma registerRobot_keys:
  assumes "keyed mgr"
    and "registerRobot ctx alloc robot (mgr, s) = (ok, evs, mgr', s')"
  shows "keyed mgr'"
  using assms
  by (auto simp: registerRobot_def Let_def split: if_splits option.splits prod.splits intro!: keyed_update)

lemma handleRegister_parts:
  assumes "handleRegister maps env alloc req sys = (ok, resp, evs, sys')"
  obtains mgr s r b st where "registerRobot (reg_ctx env) alloc (requested_robot (pose0 env) req) (manager sys, allocator sys)
      = (ok, r, mgr, s)" and "manager sys' = mgr"
    and "database sys' = database sys \<or>
      (ok \<and> (\<exists>e. map_of (m_robots mgr) (rq_robot_id req) = Some e \<and> b = m_info e \<and>
        database sys' = snd (UpsertRobot (upsert_engine env) (now_ms env) b st (database sys))))"
proof -
  obtain ok1 r mgr s where reg: "registerRobot (reg_ctx env) alloc (requested_robot (pose0 env) req) (manager sys, allocator sys)
      = (ok1, r, mgr, s)" by (metis prod_cases4)
  have ok: "ok = ok1" using assms reg by (auto simp: handleRegister_def Let_def split: if_splits prod.splits)
  show thesis
  proof (cases "map_of (m_robots mgr) (rq_robot_id req)")
    case None
    then have "manager sys' = mgr \<and> database sys' = database sys"
      using assms reg by (auto simp: handleRegister_def Let_def getRobotBaseInfo_def split: if_splits prod.splits)
    then show ?thesis using that reg ok by blast
  next
    case (Some e)
    then have "manager sys' = mgr \<and> (database sys' = database sys \<or>
        (ok \<and> database sys' = snd (UpsertRobot (upsert_engine env) (now_ms env) (m_info e) (m_status e) (database sys))))"
      using assms reg ok
      by (auto simp: handleRegister_def Let_def getRobotBaseInfo_def getRobotStatus_def split: if_splits prod.splits)
    then show ?thesis using that reg ok Some by blast
  qed
qed

lemma handleRegister_step:
  assumes ok: "robots_ok sys" and run: "handleRegister maps env alloc req sys = (r, resp, evs, sys')"
  shows "robots_ok sys' \<and> same_identities sys sys'"
proof -
  obtain mgr s ev b st where reg: "registerRobot (reg_ctx env) alloc (requested_robot (pose0 env) req) (manager sys, allocator sys)
      = (r, ev, mgr, s)" and mgr: "manager sys' = mgr"
    and db: "database sys' = database sys \<or>
      (r \<and> (\<exists>e. map_of (m_robots mgr) (rq_robot_id req) = Some e \<and> b = m_info e \<and>
        database sys' = snd (UpsertRobot (upsert_engine env) (now_ms env) b st (database sys))))"
    by (rule handleRegister_parts [OF run])
  have rid: "rb_robot_id (requested_robot (pose0 env) req) = rq_robot_id req" by (simp add: requested_robot_def)
  note regs = registerRobot_identity [OF reg, unfolded rid]
  have ext: "identity (manager sys) \<subseteq>\<^sub>m identity mgr"
    using regs(2,3,4) by (cases r; cases "identity (manager sys) (rq_robot_id req)") (auto simp: map_le_def)
  have ag: "agrees (tables (database sys)) (identity mgr)"
    using agrees_extend [OF _ ext] ok by (simp add: robots_ok_def)
  have idle: "idle (database sys)" using ok by (simp add: robots_ok_def)
  have keys: "keyed mgr"
    using registerRobot_keys [OF _ reg] ok by (simp add: robots_ok_def)
  have "idle (database sys') \<and> agrees (tables (database sys')) (identity mgr) \<and> persisted sys \<subseteq> persisted sys'"
    using db
  proof
    assume "database sys' = database sys"
    then show ?thesis using idle ag by (simp add: persisted_def)
  next
    assume "r \<and> (\<exists>e. map_of (m_robots mgr) (rq_robot_id req) = Some e \<and> b = m_info e \<and>
        database sys' = snd (UpsertRobot (upsert_engine env) (now_ms env) b st (database sys)))"
    then obtain e where r and e: "map_of (m_robots mgr) (rq_robot_id req) = Some e" "b = m_info e"
      and db': "database sys' = snd (UpsertRobot (upsert_engine env) (now_ms env) b st (database sys))" by blast
    obtain u where run: "UpsertRobot (upsert_engine env) (now_ms env) b st (database sys) = (u, database sys')"
      unfolding db' by (metis prod.collapse)
    have idle': "idle (database sys')" by (rule upsert.keeps_idle [OF idle run])
    have b: "rb_robot_id b = rq_robot_id req" "rb_robot_id b \<noteq> []"
      "identity mgr (rb_robot_id b) = Some (rb_instance_id b, rb_initial_pose b)"
      using keyedD [OF keys e(1)] e regs(1) \<open>r\<close> by (auto simp: identity_def)
    show ?thesis
    proof (cases u)
      case True
      with run have run: "UpsertRobot (upsert_engine env) (now_ms env) b st (database sys) = (True, database sys')" by simp
      obtain t1 t2 where "upsert_robot_row (now_ms env) b (tables (database sys)) = Some t1"
        and "if rb_instance_id b \<noteq> [] then upsert_robot_instance (now_ms env) b t1 = Some t2 else t2 = t1"
        and "upsert_robot_status (now_ms env) b st t2 = Some (tables (database sys'))"
        by (rule UpsertRobot_success [OF idle run])
      from upsert_robot_agrees [OF ag b(2,3) this] idle' show ?thesis by (auto simp: persisted_def)
    next
      case False
      with upsert.noop_unless [OF idle run] idle ag show ?thesis by (simp add: persisted_def)
    qed
  qed
  moreover have "identity mgr rid = identity (manager sys) rid" if "rid \<in> persisted sys" for rid
  proof -
    have "rid \<in> dom (identity (manager sys))"
      using that ok unfolding robots_ok_def agrees_def persisted_def by blast
    with ext show ?thesis by (simp add: map_le_def)
  qed
  ultimately show ?thesis using keys mgr by (simp add: robots_ok_def same_identities_def)
qed

lemma newest_member: "newest_instance rows = Some i \<Longrightarrow> i \<in> set rows"
  by (induction rows arbitrary: i) (auto split: option.splits if_splits)

lemma newest_None: "newest_instance rows = None \<longleftrightarrow> rows = []"
  by (cases rows) (auto split: option.splits)

text \<open>Every robot read back carries the identity that the manager had.\<close>

lemma loaded_identity:
  assumes ag: "agrees t ids" and r: "r \<in> set (tbl_robot t)" and b0: "rb_instance_id base0 = []"
  shows "ids (rr_robot_id r) = Some (rb_instance_id (loaded_base base0 t r), rb_initial_pose (loaded_base base0 t r))
    \<and> rb_robot_id (loaded_base base0 t r) = rr_robot_id r \<and> rr_robot_id r \<noteq> []"
proof -
  obtain inst p where ids: "ids (rr_robot_id r) = Some (inst, p)" and pose: "rr_initial_pose r = Some p"
    and row: "inst = [] \<or> (\<exists>i\<in>set (tbl_robot_instance t). in_robot_id i = rr_robot_id r \<and> in_instance_id i = inst)"
    and ne: "rr_robot_id r \<noteq> []"
    using ag r unfolding agrees_def by blast
  let ?mine = "filter (\<lambda>i. in_robot_id i = rr_robot_id r) (tbl_robot_instance t)"
  have all: "in_instance_id i = inst" if "i \<in> set ?mine" for i
    using that ag ids unfolding agrees_def by auto
  have "rb_instance_id (loaded_base base0 t r) = inst"
  proof (cases "newest_instance ?mine")
    case None
    then have "?mine = []" by (simp only: newest_None)
    then have "inst = []" using row by (auto simp: filter_empty_conv)
    with None b0 show ?thesis by (simp add: loaded_base_def)
  next
    case (Some i)
    with all [OF newest_member [OF Some]] show ?thesis by (simp add: loaded_base_def)
  qed
  with ids pose ne show ?thesis by (simp add: loaded_base_def)
qed

lemma restore_fold_identity:
  assumes "distinct (map (rb_robot_id \<circ> fst) rs)" and "\<forall>b\<in>fst ` set rs. rb_robot_id b \<noteq> []"
    and "\<forall>b\<in>fst ` set rs. identity mgr (rb_robot_id b) = None"
  shows "identity (fst (fold restore_one rs (mgr, a))) rid =
    (case find (\<lambda>b. rb_robot_id b = rid) (map fst rs) of
       Some b \<Rightarrow> Some (rb_instance_id b, rb_initial_pose b) | None \<Rightarrow> identity mgr rid)"
  using assms
proof (induction rs arbitrary: mgr a)
  case Nil
  then show ?case by simp
next
  case (Cons r rs)
  let ?b = "fst r"
  have b: "rb_robot_id ?b \<noteq> []" "identity mgr (rb_robot_id ?b) = None" using Cons.prems(2,3) by simp_all
  note one = restoreRobot_identity [OF b, of "snd r"]
  have fresh: "rb_robot_id ?b \<notin> rb_robot_id ` fst ` set rs"
    using Cons.prems(1) by (simp add: image_comp)
  then have "\<forall>b\<in>fst ` set rs. rb_robot_id b \<noteq> rb_robot_id ?b" by (metis imageI)
  then have "\<forall>b\<in>fst ` set rs. identity (restoreRobot ?b (snd r) mgr) (rb_robot_id b) = None"
    using Cons.prems(3) by (simp add: one)
  moreover have step: "restore_one r (mgr, a) = (restoreRobot ?b (snd r) mgr, markOccupied (rb_initial_pose ?b) a)"
    by (simp add: restore_one_def)
  ultimately have IH: "identity (fst (fold restore_one (r # rs) (mgr, a))) rid =
      (case find (\<lambda>b. rb_robot_id b = rid) (map fst rs) of
         Some b \<Rightarrow> Some (rb_instance_id b, rb_initial_pose b)
       | None \<Rightarrow> identity (restoreRobot ?b (snd r) mgr) rid)"
    using Cons.IH [of "restoreRobot ?b (snd r) mgr" "markOccupied (rb_initial_pose ?b) a"] Cons.prems
    by (simp add: step)
  have "find (\<lambda>b. rb_robot_id b = rid) (map fst rs) = None" if "rb_robot_id ?b = rid"
  proof -
    have "rid \<notin> rb_robot_id ` set (map fst rs)" using fresh that by simp
    then show ?thesis by (auto simp: find_None_iff simp del: set_map)
  qed
  with IH show ?case by (auto simp: one split: option.splits)
qed

lemma restoreRobot_keys:
  "keyed mgr \<Longrightarrow>
   keyed (restoreRobot b st mgr)"
  by (simp add: restoreRobot_def keyed_update)

lemma restore_fold_keys:
  "keyed mgr \<Longrightarrow>
   keyed (fst (fold restore_one rs (mgr, a)))"
proof (induction rs arbitrary: mgr a)
  case Nil
  then show ?case by simp
next
  case (Cons r rs)
  have "restore_one r (mgr, a) = (restoreRobot (fst r) (snd r) mgr, markOccupied (rb_initial_pose (fst r)) a)"
    by (simp add: restore_one_def)
  with Cons.IH [OF restoreRobot_keys [OF Cons.prems]] show ?case by simp
qed

lemma restart_system:
  assumes ok: "robots_ok sys" and op: "opened (database sys)" and b0: "rb_instance_id base0 = []"
    and sys'_def: "sys' = restore_robots working base0 status0 \<lparr>manager = no_robots, allocator = a, database = database sys\<rparr>"
  shows "robots_ok sys' \<and> same_identities sys sys'"
proof -
  let ?t = "tables (database sys)"
  let ?bs = "map (loaded_base base0 ?t) (tbl_robot ?t)" and ?ss = "map (loaded_status status0 ?t) (tbl_robot ?t)"
  have ag: "agrees ?t (identity (manager sys))" using ok by (simp add: robots_ok_def)
  have sys': "sys' = \<lparr>manager = fst (fold restore_one (zip ?bs ?ss) (no_robots, a)),
      allocator = snd (fold restore_one (zip ?bs ?ss) (no_robots, a)), database = database sys\<rparr>"
    using op by (simp add: sys'_def restore_robots_def LoadRobots_def Let_def split_beta)
  have fsts: "map fst (zip ?bs ?ss) = ?bs" by simp
  have ids: "map rb_robot_id ?bs = map rr_robot_id (tbl_robot ?t)"
    using loaded_identity [OF ag _ b0] by simp
  have fold: "identity (manager sys') rid = (case find (\<lambda>b. rb_robot_id b = rid) ?bs of
      Some b \<Rightarrow> Some (rb_instance_id b, rb_initial_pose b) | None \<Rightarrow> None)" for rid
  proof -
    have "map (rb_robot_id \<circ> fst) (zip ?bs ?ss) = map rr_robot_id (tbl_robot ?t)"
      using ids by (metis fsts map_map)
    moreover have "fst ` set (zip ?bs ?ss) = set ?bs" by (metis fsts list.set_map)
    ultimately show ?thesis
      using restore_fold_identity [of "zip ?bs ?ss" no_robots a rid] ag loaded_identity [OF ag _ b0]
      unfolding sys' fsts by (auto simp: agrees_def cong: option.case_cong)
  qed
  have known: "identity (manager sys') rid = identity (manager sys) rid" if rid: "rid \<in> persisted sys" for rid
  proof -
    obtain r where r: "r \<in> set (tbl_robot ?t)" "rr_robot_id r = rid" using rid by (auto simp: persisted_def)
    have "find (\<lambda>b. rb_robot_id b = rid) ?bs = Some (loaded_base base0 ?t r)"
      using r loaded_identity [OF ag r(1) b0] ag
      by (intro find_key_unique) (simp_all only: ids agrees_def set_map imageI)
    with loaded_identity [OF ag r(1) b0] r(2) show ?thesis by (simp add: fold)
  qed
  have "agrees ?t (identity (manager sys'))"
    unfolding agrees_def
  proof (intro conjI ballI)
    show "distinct (map rr_robot_id (tbl_robot ?t))" using ag by (simp add: agrees_def)
    fix r assume r: "r \<in> set (tbl_robot ?t)"
    then have "identity (manager sys') (rr_robot_id r) = identity (manager sys) (rr_robot_id r)"
      by (intro known) (simp add: persisted_def)
    with ag r show "rr_robot_id r \<noteq> []" "\<exists>inst p. identity (manager sys') (rr_robot_id r) = Some (inst, p) \<and>
        rr_initial_pose r = Some p \<and> (inst = [] \<or> (\<exists>i\<in>set (tbl_robot_instance ?t). in_robot_id i = rr_robot_id r \<and> in_instance_id i = inst))"
      by (simp_all add: agrees_def)
  next
    fix i assume i: "i \<in> set (tbl_robot_instance ?t)"
    then have "in_robot_id i \<in> persisted sys" using ag by (simp add: agrees_def persisted_def)
    with ag i known show "in_robot_id i \<in> rr_robot_id ` set (tbl_robot ?t)"
      "\<exists>p. identity (manager sys') (in_robot_id i) = Some (in_instance_id i, p)"
      by (simp_all add: agrees_def)
  qed
  moreover have "keyed (manager sys')"
    unfolding sys' robot_system.simps by (rule restore_fold_keys) simp
  ultimately show ?thesis
    using ok known by (auto simp: robots_ok_def same_identities_def sys' persisted_def)
qed

lemma updateRobotStatus_keys:
  "keyed mgr \<Longrightarrow>
   keyed (snd (updateRobotStatus k st mgr))"
  by (auto simp: updateRobotStatus_def split: option.splits intro!: keyed_update dest: keyedD)

lemma markOffline_keys:
  "keyed mgr \<Longrightarrow>
   keyed (snd (markOffline now k mgr))"
  by (auto simp: markOffline_def split: option.splits intro!: keyed_update dest: keyedD)

lemma robot_step_keeps:
  assumes "robot_step maps sys sys'" and "robots_ok sys"
  shows "robots_ok sys' \<and> same_identities sys sys'"
  using assms
proof (induction rule: robot_step.induct)
  case (register_step env req sys ok resp evs sys')
  show ?case by (rule handleRegister_step [OF register_step.prems register_step.hyps])
next
  case (status_step sys status)
  then show ?case
    using updateRobotStatus_keys [of "manager sys" "rs_robot_id status" status]
    by (auto simp: robots_ok_def same_identities_def persisted_def handleStatus_def)
next
  case (will_step sys now rid)
  then show ?case
    using markOffline_keys [of "manager sys" now rid]
    by (auto simp: robots_ok_def same_identities_def persisted_def handleWill_def)
next
  case (restart_step base0 sys status0 a)
  then show ?case by (intro restart_system [OF _ _ _ refl])
qed

definition fresh_system :: "idle_allocator \<Rightarrow> idle_allocator robot_system" where
  "fresh_system a = \<lparr>manager = no_robots, allocator = a, database = fresh_db\<rparr>"

interpretation robots: stepping "\<lambda>sys. \<exists>a. sys = fresh_system a" "robot_step maps" robots_ok for maps
proof
  fix sys :: "idle_allocator robot_system" assume "\<exists>a. sys = fresh_system a"
  then show "robots_ok sys" by (auto simp: robots_ok_def fresh_system_def)
next
  fix sys sys' assume "robots_ok sys" and "robot_step maps sys sys'"
  then show "robots_ok sys'" using robot_step_keeps by blast
qed

text \<open>
  A robot in the database is the same robot for ever. From a fresh server on, once the robot table
  has a row for a robot, no sequence of registrations (of it or of others), status reports, wills,
  database failures and restarts of the server changes its instance id or its start pose, and the
  manager always knows it.
\<close>

theorem persisted_identity_is_stable:
  assumes "(robot_step maps)\<^sup>*\<^sup>* (fresh_system a) sys" and "(robot_step maps)\<^sup>*\<^sup>* sys sys'"
    and "robot_id \<in> rr_robot_id ` set (tbl_robot (tables (database sys)))"
  shows "(\<exists>base base'. getRobotBaseInfo robot_id (manager sys) = Some base \<and>
      getRobotBaseInfo robot_id (manager sys') = Some base' \<and>
      rb_instance_id base' = rb_instance_id base \<and> rb_initial_pose base' = rb_initial_pose base) \<and>
    robot_id \<in> rr_robot_id ` set (tbl_robot (tables (database sys')))"
proof -
  have ok: "robots_ok sys" using robots.reached [OF _ assms(1)] by blast
  from assms(2) have "robots_ok sys' \<and> same_identities sys sys'"
  proof (induction rule: rtranclp_induct)
    case base
    then show ?case using ok by (simp add: same_identities_def)
  next
    case (step y z)
    then show ?case using robot_step_keeps [OF step.hyps(2)] unfolding same_identities_def by (metis subset_iff)
  qed
  moreover obtain b where b: "identity (manager sys) robot_id = Some b"
    using ok assms(3) unfolding robots_ok_def agrees_def by blast
  ultimately have "identity (manager sys') robot_id = identity (manager sys) robot_id" "robot_id \<in> persisted sys'"
    using assms(3) by (auto simp: same_identities_def persisted_def)
  with b show ?thesis
    by (auto simp: identity_def getRobotBaseInfo_def persisted_def)
qed

definition sample_register_env :: register_environment where
  "sample_register_env = \<lparr>reg_ctx = \<lparr>ms_to_md_hms = (\<lambda>_. ''0101000000''), current_time = 7, uninitialised_battery = 0\<rparr>,
     upsert_engine = working, map_env = calm, now_ms = 7000, pose0 = zero_pose\<rparr>"

definition sample_register_request :: robot_register_request where
  "sample_register_request = \<lparr>rq_robot_id = ''amr-1'', rq_instance_id = [], rq_warehouse_id = ''W1'', rq_map_version = ''v1'',
     rq_request_id = ''q1'', rq_register_timestamp = 5\<rparr>"

definition sample_points :: idle_allocator where
  "sample_points = \<lparr>m_points = [\<lparr>station_id = ''S'', location_id = ''L'', point_pose = \<lparr>pose_x = 1, pose_y = 2, pose_yaw = 0\<rparr>\<rparr>],
     m_occupied = [False], m_idleZoneIds = []\<rparr>"

definition sample_registered :: "idle_allocator robot_system" where
  "sample_registered = snd (snd (snd (handleRegister sample_maps sample_register_env (Some allocate)
     sample_register_request (fresh_system sample_points))))"

lemma sample_registered_reached: "(robot_step sample_maps)\<^sup>*\<^sup>* (fresh_system sample_points) sample_registered"
  unfolding sample_registered_def by (metis prod_cases4 snd_conv r_into_rtranclp register_step)

lemma sample_registered_persisted:
  "''amr-1'' \<in> rr_robot_id ` set (tbl_robot (tables (database sample_registered)))"
  by (simp add: sample_registered_def handleRegister_def sample_register_env_def sample_register_request_def
      fresh_system_def requested_robot_def registerRobot_def no_robots_def getRobotBaseInfo_def
      getRobotStatus_def Let_def UpsertRobot_def transaction_idle upsert_statements_def
      upsert_robot_row_def upsert_robot_instance_def upsert_robot_status_def sql_upsert_def
      allocate_def sample_points_def find_upt_Suc)

lemma persisted_identity_is_stable_witness:
  "\<exists>base. getRobotBaseInfo ''amr-1'' (manager (handleWill 9 ''amr-1'' sample_registered)) = Some base"
  using persisted_identity_is_stable [OF sample_registered_reached
      r_into_rtranclp [of "robot_step sample_maps", OF will_step] sample_registered_persisted] by blast

section \<open>Start poses\<close>

definition register_all ::
  "registration_context \<Rightarrow> robot_base_info list \<Rightarrow> robot_manager \<times> idle_allocator \<Rightarrow> robot_manager \<times> idle_allocator" where
  "register_all ctx rs state =
     fold (\<lambda>r st. case registerRobot ctx (Some allocate) r st of (_, _, mgr, a) \<Rightarrow> (mgr, a)) rs state"

lemma register_new:
  assumes "rb_robot_id r \<noteq> []" and "identity mgr (rb_robot_id r) = None"
  shows "\<exists>mgr'. registerRobot ctx (Some allocate) r (mgr, a) = (True, notify mgr EVENT_REGISTER, mgr', snd (points.take_pose a)) \<and>
    identity mgr' = (identity mgr)(rb_robot_id r \<mapsto> (ms_to_md_hms ctx (rb_register_timestamp r), fst (points.take_pose a)))"
proof -
  have none: "map_of (m_robots mgr) (rb_robot_id r) = None" using assms(2) by (simp add: identity_def)
  obtain p a' where p: "points.take_pose a = (p, a')" by fastforce
  then have alloc: "(case allocate a of (None, s') \<Rightarrow> (zero_pose, s') | (Some q, s') \<Rightarrow> (q, s')) = (p, a')"
    by (simp add: points.take_pose_def)
  show ?thesis
    using assms(1) none by (simp add: registerRobot_def alloc p Let_def identity_update)
qed

lemma register_all_other:
  assumes "rid \<notin> rb_robot_id ` set rs"
  shows "identity (fst (register_all ctx rs (mgr, a))) rid = identity mgr rid"
  using assms
proof (induction rs arbitrary: mgr a)
  case Nil
  then show ?case by (simp add: register_all_def)
next
  case (Cons r rs)
  obtain ok evs mgr' a' where run: "registerRobot ctx (Some allocate) r (mgr, a) = (ok, evs, mgr', a')"
    by (metis prod_cases4)
  have "identity mgr' rid = identity mgr rid"
    using registerRobot_identity [OF run] Cons.prems by (cases ok; cases "identity mgr (rb_robot_id r)") auto
  moreover have "register_all ctx (r # rs) (mgr, a) = register_all ctx rs (mgr', a')"
    by (simp add: register_all_def run)
  ultimately show ?case using Cons by simp
qed

lemma register_all_poses:
  assumes "distinct (map rb_robot_id rs)" and "\<forall>r\<in>set rs. rb_robot_id r \<noteq> [] \<and> identity mgr (rb_robot_id r) = None"
  shows "map (\<lambda>r. map_option snd (identity (fst (register_all ctx rs (mgr, a))) (rb_robot_id r))) rs =
    map Some (fst (points.take_poses (length rs) a))"
  using assms
proof (induction rs arbitrary: mgr a)
  case Nil
  then show ?case by simp
next
  case (Cons r rs)
  obtain mgr' where run: "registerRobot ctx (Some allocate) r (mgr, a) =
      (True, notify mgr EVENT_REGISTER, mgr', snd (points.take_pose a))"
    and new: "identity mgr' = (identity mgr)(rb_robot_id r \<mapsto> (ms_to_md_hms ctx (rb_register_timestamp r), fst (points.take_pose a)))"
    using register_new [of r mgr ctx a] Cons.prems(2) by auto
  have rest: "register_all ctx (r # rs) (mgr, a) = register_all ctx rs (mgr', snd (points.take_pose a))"
    by (simp add: register_all_def run)
  have "rb_robot_id r \<notin> rb_robot_id ` set rs" using Cons.prems(1) by simp
  then have "\<forall>x\<in>set rs. rb_robot_id x \<noteq> rb_robot_id r" by (metis imageI)
  with Cons.prems(2) have "\<forall>x\<in>set rs. rb_robot_id x \<noteq> [] \<and> identity mgr' (rb_robot_id x) = None"
    by (simp add: new)
  with Cons.IH [of mgr' "snd (points.take_pose a)"] Cons.prems(1)
  have "map (\<lambda>r. map_option snd (identity (fst (register_all ctx rs (mgr', snd (points.take_pose a)))) (rb_robot_id r))) rs =
      map Some (fst (points.take_poses (length rs) (snd (points.take_pose a))))" by simp
  moreover have "identity (fst (register_all ctx rs (mgr', snd (points.take_pose a)))) (rb_robot_id r) =
      Some (ms_to_md_hms ctx (rb_register_timestamp r), fst (points.take_pose a))"
    using register_all_other [of "rb_robot_id r" rs] Cons.prems(1) by (simp add: new)
  ultimately show ?case unfolding rest by (simp add: split_beta Let_def)
qed

text \<open>
  New robots take the free charging points in the order of the map. Robots with different ids
  that the manager does not know get, one after another, the poses of the free points in order, and
  the origin once there are none left; so two robots share a start pose only at the origin or where
  the map itself lists a pose twice.
\<close>

theorem new_robots_take_points_in_order:
  assumes "length (m_occupied a) = length (m_points a)" and "distinct (map rb_robot_id rs)"
    and "\<forall>r\<in>set rs. rb_robot_id r \<noteq> [] \<and> getRobotBaseInfo (rb_robot_id r) mgr = None"
  shows "map (\<lambda>r. map_option rb_initial_pose (getRobotBaseInfo (rb_robot_id r) (fst (register_all ctx rs (mgr, a))))) rs =
    map Some (take (length rs) (free_poses a) @ replicate (length rs - length (free_poses a)) zero_pose)"
proof -
  have pose: "map_option rb_initial_pose (getRobotBaseInfo rid m) = map_option snd (identity m rid)" for rid m
    by (simp add: getRobotBaseInfo_def identity_def option.map_comp comp_def)
  have "\<forall>r\<in>set rs. rb_robot_id r \<noteq> [] \<and> identity mgr (rb_robot_id r) = None"
    using assms(3) by (simp add: getRobotBaseInfo_def identity_def)
  moreover have "aligned a" using assms(1) by (simp add: aligned_def)
  ultimately show ?thesis
    unfolding pose using register_all_poses [OF assms(2)] points.take_poses_avail by simp
qed

lemma new_robots_take_points_in_order_witness:
  "map (\<lambda>r. map_option rb_initial_pose (getRobotBaseInfo (rb_robot_id r) (fst (register_all (reg_ctx sample_register_env)
      [requested_robot zero_pose sample_register_request, (requested_robot zero_pose sample_register_request)\<lparr>rb_robot_id := ''amr-2''\<rparr>]
      (no_robots, sample_points)))))
     [requested_robot zero_pose sample_register_request, (requested_robot zero_pose sample_register_request)\<lparr>rb_robot_id := ''amr-2''\<rparr>] =
   [Some \<lparr>pose_x = 1, pose_y = 2, pose_yaw = 0\<rparr>, Some zero_pose]"
  by (subst new_robots_take_points_in_order)
    (simp_all add: sample_points_def requested_robot_def sample_register_request_def getRobotBaseInfo_def
      no_robots_def free_poses_def)

text \<open>
  Registering again is harmless. A robot that the manager knows is accepted again with its new map
  version and timestamp, keeps its instance id, start pose and running status, takes no charging
  point, and no other robot is affected.
\<close>

theorem register_again_keeps_robot:
  assumes "getRobotBaseInfo (rb_robot_id robot) mgr = Some base" and "rb_robot_id robot \<noteq> []"
    and "registerRobot ctx alloc robot (mgr, s) = (ok, evs, mgr', s')"
  shows "ok \<and> s' = s \<and>
    getRobotBaseInfo (rb_robot_id robot) mgr' =
      Some (robot\<lparr>rb_instance_id := rb_instance_id base, rb_initial_pose := rb_initial_pose base\<rparr>) \<and>
    (\<forall>rid. getRobotStatus rid mgr' = getRobotStatus rid mgr) \<and>
    (\<forall>rid. rid \<noteq> rb_robot_id robot \<longrightarrow> getRobotBaseInfo rid mgr' = getRobotBaseInfo rid mgr)"
proof -
  obtain e where e: "map_of (m_robots mgr) (rb_robot_id robot) = Some e" "base = m_info e"
    using assms(1) by (auto simp: getRobotBaseInfo_def)
  then show ?thesis
    using assms(2,3)
    by (auto simp: registerRobot_def Let_def getInstanceInfo_def getRobotBaseInfo_def getRobotStatus_def update_conv')
qed

lemma register_again_keeps_robot_witness:
  "\<exists>base. getRobotBaseInfo ''amr-1'' (manager sample_registered) = Some base \<and>
     fst (registerRobot (reg_ctx sample_register_env) (Some allocate)
       (requested_robot zero_pose sample_register_request) (manager sample_registered, allocator sample_registered))"
proof -
  obtain base where b: "getRobotBaseInfo ''amr-1'' (manager sample_registered) = Some base"
    by (simp add: sample_registered_def handleRegister_def sample_register_env_def sample_register_request_def
      fresh_system_def requested_robot_def registerRobot_def no_robots_def getRobotBaseInfo_def
      getRobotStatus_def Let_def allocate_def sample_points_def find_upt_Suc)
  obtain ok evs mgr' a' where run: "registerRobot (reg_ctx sample_register_env) (Some allocate)
      (requested_robot zero_pose sample_register_request) (manager sample_registered, allocator sample_registered) = (ok, evs, mgr', a')"
    by (metis prod_cases4)
  have "rb_robot_id (requested_robot zero_pose sample_register_request) = ''amr-1''"
    by (simp add: requested_robot_def sample_register_request_def)
  with register_again_keeps_robot [OF _ _ run] b run show ?thesis by simp
qed

end
