(* ===== verification/Mqtt_Router.thy ===== *)
theory Mqtt_Router
  imports Topics "HOL-Library.Multiset"
begin

text \<open>
  \<open>edge_server/src/mqtt/mqtt_message_router.cpp\<close>: the queue between the MQTT thread and the
  consumer thread, the handler table and the matching of topic filters. The table is a
  \<open>std::unordered_map\<close>; it is carried as the list of its entries in the order of iteration, which
  the library does not specify.
\<close>

section \<open>Topic filters\<close>

text \<open>\<open>input.find('/', start)\<close> for \<open>start <= input.size()\<close>.\<close>

definition find_slash :: "string \<Rightarrow> nat \<Rightarrow> nat option" where
  "find_slash input start =
     (let pos = start + length (takeWhile (\<lambda>c. c \<noteq> CHR ''/'') (drop start input)) in
      if pos < length input then Some pos else None)"

lemma find_slash_bounds: "find_slash input start = Some pos \<Longrightarrow> start \<le> pos \<and> pos < length input"
  by (auto simp: find_slash_def Let_def split: if_splits)

function split_levels :: "string \<Rightarrow> nat \<Rightarrow> string list" where
  "split_levels input start =
     (if start \<le> length input
      then case find_slash input start of
             None \<Rightarrow> [drop start input]
           | Some pos \<Rightarrow> take (pos - start) (drop start input) # split_levels input (pos + 1)
      else [])"
  by pat_completeness auto
termination
  by (relation "measure (\<lambda>(input, start). length input + 1 - start)") (auto dest: find_slash_bounds)

declare split_levels.simps [simp del]

function match_levels :: "string list \<Rightarrow> string list \<Rightarrow> nat \<Rightarrow> bool" where
  "match_levels filterLevels topicLevels i =
     (if i < length filterLevels
      then
        (let level = filterLevels ! i in
         if level = ''#'' then i = length filterLevels - 1
         else if i \<ge> length topicLevels then False
         else if level \<noteq> ''+'' \<and> level \<noteq> topicLevels ! i then False
         else match_levels filterLevels topicLevels (i + 1))
      else length filterLevels = length topicLevels)"
  by pat_completeness auto
termination
  by (relation "measure (\<lambda>(f, t, i). length f - i)") auto

declare match_levels.simps [simp del]

definition topicMatches :: "string \<Rightarrow> string \<Rightarrow> bool" where
  "topicMatches topic_filter topic =
     match_levels (split_levels topic_filter 0) (split_levels topic 0) 0"

section \<open>The handler table and the queue\<close>

text \<open>\<open>m_msgHandlers[topic] = handler\<close>, and the dispatch of one message.\<close>

definition registerHandler :: "string \<Rightarrow> 'h \<Rightarrow> (string \<times> 'h) list \<Rightarrow> (string \<times> 'h) list" where
  "registerHandler topic handler m_msgHandlers = AList.update topic handler m_msgHandlers"

definition messageRouter :: "(string \<times> 'h) list \<Rightarrow> string \<Rightarrow> 'h option" where
  "messageRouter m_msgHandlers topic =
     (case map_of m_msgHandlers topic of
        Some handler \<Rightarrow> Some handler
      | None \<Rightarrow> map_option snd (find (\<lambda>item. topicMatches (fst item) topic) m_msgHandlers))"

text \<open>
  The producer appends to the queue; one turn of the consumer takes the front message, which it
  then routes. A message without a handler is dropped.
\<close>

record ('h, 'm) router =
  m_msgHandlers :: "(string \<times> 'h) list"
  m_msgQueue :: "(string \<times> 'm) list"

definition onMessageProducer :: "string \<Rightarrow> 'm \<Rightarrow> ('h, 'm) router \<Rightarrow> ('h, 'm) router" where
  "onMessageProducer topic message r = r\<lparr>m_msgQueue := m_msgQueue r @ [(topic, message)]\<rparr>"

definition messageConsumer :: "('h, 'm) router \<Rightarrow> ('h \<times> 'm) option \<times> ('h, 'm) router" where
  "messageConsumer r =
     (case m_msgQueue r of
        [] \<Rightarrow> (None, r)
      | (topic, message) # rest \<Rightarrow>
          (map_option (\<lambda>h. (h, message)) (messageRouter (m_msgHandlers r) topic), r\<lparr>m_msgQueue := rest\<rparr>))"

section \<open>The levels of a topic\<close>

fun levels :: "string \<Rightarrow> string list" where
  "levels [] = [[]]"
| "levels (c # cs) =
     (if c = CHR ''/'' then [] # levels cs
      else case levels cs of [] \<Rightarrow> [[c]] | l # ls \<Rightarrow> (c # l) # ls)"

lemma levels_not_Nil [simp]: "levels s \<noteq> []"
  by (cases s) (auto split: list.split)

lemma levels_single: "CHR ''/'' \<notin> set s \<Longrightarrow> levels s = [s]"
  by (induction s) auto

lemma levels_append:
  "CHR ''/'' \<notin> set a \<Longrightarrow> levels (a @ CHR ''/'' # b) = a # levels b"
  by (induction a) auto

lemma split_levels_drop:
  "start \<le> length input \<Longrightarrow> split_levels input start = levels (drop start input)"
proof (induction input start rule: split_levels.induct)
  case (1 input start)
  let ?rest = "drop start input"
  let ?n = "length (takeWhile (\<lambda>c. c \<noteq> CHR ''/'') ?rest)"
  show ?case
  proof (cases "start + ?n < length input")
    case True
    then have n: "?n < length ?rest" by simp
    have rest: "?rest = takeWhile (\<lambda>c. c \<noteq> CHR ''/'') ?rest @ CHR ''/'' # drop (Suc ?n) ?rest"
      using id_take_nth_drop [OF n] nth_length_takeWhile [OF n] by (simp add: takeWhile_eq_take [symmetric])
    have noslash: "CHR ''/'' \<notin> set (takeWhile (\<lambda>c. c \<noteq> CHR ''/'') ?rest)"
      by (auto dest: set_takeWhileD)
    have pos: "find_slash input start = Some (start + ?n)" using True by (simp add: find_slash_def)
    have "split_levels input (start + ?n + 1) = levels (drop (start + ?n + 1) input)"
      using 1(1) [OF 1(2) pos] True by simp
    moreover have "levels ?rest = takeWhile (\<lambda>c. c \<noteq> CHR ''/'') ?rest # levels (drop (Suc ?n) ?rest)"
      using levels_append [OF noslash, of "drop (Suc ?n) ?rest"] rest by simp
    ultimately show ?thesis
      using 1(2) pos by (simp add: split_levels.simps [of input start] takeWhile_eq_take [symmetric] ac_simps)
  next
    case False
    then have "?n = length ?rest"
      using length_takeWhile_le [of "\<lambda>c. c \<noteq> CHR ''/''" ?rest] 1(2) by simp
    then have "takeWhile (\<lambda>c. c \<noteq> CHR ''/'') ?rest = ?rest"
      by (metis takeWhile_eq_take take_all_iff order_refl)
    then have "CHR ''/'' \<notin> set ?rest" by (metis set_takeWhileD)
    with False 1(2) show ?thesis
      by (simp add: split_levels.simps [of input start] find_slash_def levels_single)
  qed
qed

lemma split_levels_0 [simp]: "split_levels input 0 = levels input"
  by (simp add: split_levels_drop)

section \<open>Matching as MQTT defines it\<close>

inductive mqtt_match :: "string list \<Rightarrow> string list \<Rightarrow> bool" where
  match_end: "mqtt_match [] []"
| match_rest: "mqtt_match [''#''] ts"
| match_plus: "mqtt_match fs ts \<Longrightarrow> mqtt_match (''+'' # fs) (t # ts)"
| match_same: "l \<noteq> ''#'' \<Longrightarrow> mqtt_match fs ts \<Longrightarrow> mqtt_match (l # fs) (l # ts)"

inductive_simps mqtt_match_simps [simp]:
  "mqtt_match [] ts"
  "mqtt_match (f # fs) []"
  "mqtt_match (f # fs) (t # ts)"

lemma match_levels_drop:
  "i \<le> length f \<Longrightarrow> i \<le> length t \<Longrightarrow> match_levels f t i \<longleftrightarrow> mqtt_match (drop i f) (drop i t)"
proof (induction f t i rule: match_levels.induct)
  case (1 f t i)
  show ?case
  proof (cases "i < length f")
    case True
    then have f: "drop i f = f ! i # drop (i + 1) f" using Cons_nth_drop_Suc [OF True] by simp
    show ?thesis
    proof (cases "i < length t")
      case t: True
      then have "drop i t = t ! i # drop (i + 1) t" using Cons_nth_drop_Suc [OF t] by simp
      then show ?thesis
        using 1(1) [OF True refl] 1(2,3) True t f
        by (subst match_levels.simps) (auto simp: Let_def not_le)
    next
      case False
      with 1(3) have "i = length t" by simp
      then show ?thesis using True f by (subst match_levels.simps) (auto simp: Let_def)
    qed
  next
    case False
    with 1(2,3) show ?thesis by (subst match_levels.simps) auto
  qed
qed

lemma topicMatches_levels: "topicMatches f t \<longleftrightarrow> mqtt_match (levels f) (levels t)"
  by (simp add: topicMatches_def match_levels_drop)

text \<open>
  C26: the matching of topic filters is that of MQTT. The index loops of the code accept exactly the
  topics that the level-wise definition accepts: a plain level matches itself, \<open>+\<close> one level, and \<open>#\<close>,
  as the last level only, all the remaining ones (also none). (The rule of MQTT that wildcards do not
  match a topic that begins with a dollar sign is not part of it.)
\<close>

theorem topicMatches_is_mqtt: "topicMatches f t = mqtt_match (levels f) (levels t)"
  by (rule topicMatches_levels)

end
