(* ===== verification/Message_Codec.thy ===== *)
theory Message_Codec
  imports Edge_Types
begin

text \<open>
  \<open>edge_server/src/message/message_codec.cpp\<close>. A decoder returns \<open>None\<close> where the code returns false;
  the object it was filling is not used then. The accessors throw in the order of the code, and its
  \<open>catch\<close> turns every exception into the same failure.
\<close>

definition decoded :: "'a result \<Rightarrow> 'a option" where
  "decoded r = (case r of Inl _ \<Rightarrow> None | Inr x \<Rightarrow> Some x)"

lemma decoded_simps [simp]: "decoded (Inl e) = None" "decoded (Inr x) = Some x"
  by (simp_all add: decoded_def)

text \<open>
  The default \<open>0\<close> of the timestamp makes \<open>value\<close> read an \<open>int\<close>, which is then converted to
  \<open>uint64_t\<close>. \<open>instance_id\<close> is never set.
\<close>

definition decodeRegisterReq :: "json option \<Rightarrow> robot_register_request option" where
  "decodeRegisterReq payload =
     (case parse payload of
        Inl _ \<Rightarrow> None
      | Inr doc \<Rightarrow>
          if \<not> contains doc ''robot_id'' \<or> \<not> contains doc ''timestamp'' \<or>
             \<not> contains doc ''warehouse_id'' \<or> \<not> contains doc ''map_version'' then None
          else decoded (
            bind_result (value_string doc ''robot_id'' []) (\<lambda>robot_id.
            bind_result (value_int doc ''timestamp'' 0) (\<lambda>timestamp.
            bind_result (value_string doc ''warehouse_id'' []) (\<lambda>warehouse_id.
            bind_result (value_string doc ''map_version'' []) (\<lambda>map_version.
            bind_result (value_string doc ''request_id'' []) (\<lambda>request_id.
            Inr \<lparr>rq_robot_id = robot_id, rq_instance_id = [], rq_warehouse_id = warehouse_id,
              rq_map_version = map_version, rq_request_id = request_id,
              rq_register_timestamp = to_uint64 timestamp\<rparr>)))))))"

definition pose_json :: "pose2d \<Rightarrow> json" where
  "pose_json p = JObj [(''x'', JReal (pose_x p)), (''y'', JReal (pose_y p)), (''yaw'', JReal (pose_yaw p))]"

definition encodeRegisterResp :: "robot_register_response \<Rightarrow> json" where
  "encodeRegisterResp resp = JObj
     [(''code'', JInt (rp_code resp)), (''message'', JStr (rp_message resp)),
      (''robot_id'', JStr (rp_robot_id resp)), (''request_id'', JStr (rp_request_id resp)),
      (''map_update'', JBool (rp_map_update resp)), (''map_version'', JStr (rp_map_version resp)),
      (''map_download_url'', JStr (rp_map_download_url resp)),
      (''initial_pose'', pose_json (rp_initial_pose resp))]"

definition decodeRobotRunningStatus :: "json option \<Rightarrow> robot_running_status option" where
  "decodeRobotRunningStatus payload =
     (case parse payload of
        Inl _ \<Rightarrow> None
      | Inr doc \<Rightarrow>
          if \<not> contains doc ''robot_id'' \<or> \<not> contains doc ''timestamp'' \<or>
             \<not> contains doc ''state'' \<or> \<not> contains doc ''pose'' then None
          else decoded (
            bind_result (bind_result (subscript doc ''robot_id'') get_string) (\<lambda>robot_id.
            bind_result (bind_result (subscript doc ''timestamp'') get_uint64) (\<lambda>timestamp.
            bind_result (bind_result (subscript doc ''state'') get_string) (\<lambda>state.
            bind_result (value_double doc ''battery'' 0) (\<lambda>battery.
            bind_result (subscript doc ''pose'') (\<lambda>pose.
            bind_result (bind_result (subscript pose ''x'') get_double) (\<lambda>x.
            bind_result (bind_result (subscript pose ''y'') get_double) (\<lambda>y.
            bind_result (bind_result (subscript pose ''yaw'') get_double) (\<lambda>yaw.
            bind_result (value_string doc ''task_id'' []) (\<lambda>task_id.
            Inr \<lparr>rs_robot_id = robot_id, rs_state = RobotStateFromString state, rs_online = True,
              rs_timestamp = timestamp, rs_battery = battery,
              rs_pose = \<lparr>pose_x = x, pose_y = y, pose_yaw = yaw\<rparr>, rs_task_id = task_id\<rparr>)))))))))))"

definition decodeRobotWillPush :: "json option \<Rightarrow> robot_reg_will_push option" where
  "decodeRobotWillPush payload =
     (case parse payload of
        Inl _ \<Rightarrow> None
      | Inr doc \<Rightarrow>
          if \<not> contains doc ''robot_id'' then None
          else decoded (bind_result (value_string doc ''robot_id'' []) (\<lambda>robot_id.
            Inr \<lparr>wp_robot_id = robot_id\<rparr>)))"

end
