(* ===== verification/Edge_Communication.thy ===== *)
theory Edge_Communication
  imports Mqtt_Router Message_Codec Heartbeat
begin

text \<open>
  \<open>edge_server/src/communication/amr_communication.cpp\<close>: which handler a topic of the robots reaches,
  and what the handlers do with a message. A handler returns the messages it publishes, in order,
  and the state of the edge server it leaves.
\<close>

section \<open>Registration of the handlers\<close>

datatype amr_handler =
    robotRegisterReqHandler_of
  | robotStatusHandler_of
  | robotWillHandler_of
  | robotGoodsRequestHandler_of
  | robotTaskStatusHandler_of

definition amr_handlers :: "(string \<times> amr_handler) list" where
  "amr_handlers =
     registerHandler (makeAmrTaskStatusTopic ''+'') robotTaskStatusHandler_of
    (registerHandler (makeAmrTaskGoodsRequestTopic ''+'') robotGoodsRequestHandler_of
    (registerHandler (makeRobotWillTopic ''+'') robotWillHandler_of
    (registerHandler (makeRobotStatusTopic ''+'') robotStatusHandler_of
    (registerHandler ROBOT_REGISTER_REQ robotRegisterReqHandler_of []))))"

definition amr_subscriptions :: "string list" where
  "amr_subscriptions = [ROBOT_REGISTER_REQ, makeRobotStatusTopic ''+'', makeRobotWillTopic ''+'',
     makeAmrTaskGoodsRequestTopic ''+'', makeAmrTaskStatusTopic ''+'']"

section \<open>The handlers\<close>

text \<open>What one message meets: the surroundings of a registration and those of two service calls.\<close>

record amr_environment =
  register_env :: register_environment
  task_env :: environment
  state_env :: environment
  will_time :: int

definition robotRegisterReqHandler ::
  "map_service \<Rightarrow> amr_environment \<Rightarrow> ('s \<Rightarrow> pose2d option \<times> 's) option \<Rightarrow> json option
   \<Rightarrow> 's robot_system \<Rightarrow> message list \<times> robot_event list \<times> 's robot_system" where
  "robotRegisterReqHandler maps env alloc msg sys =
     (case decodeRegisterReq msg of
        None \<Rightarrow> ([], [], sys)
      | Some req \<Rightarrow>
          (case handleRegister maps (register_env env) alloc req sys of
             (_, resp, events, sys') \<Rightarrow>
               ([(ROBOT_REGISTER_RSP_PREFIX @ rq_robot_id req, encodeRegisterResp resp)], events, sys')))"

definition robotStatusHandler :: "json option \<Rightarrow> 's robot_system \<Rightarrow> 's robot_system" where
  "robotStatusHandler msg sys =
     (case decodeRobotRunningStatus msg of None \<Rightarrow> sys | Some status \<Rightarrow> handleStatus status sys)"

definition robotWillHandler :: "amr_environment \<Rightarrow> json option \<Rightarrow> 's robot_system \<Rightarrow> 's robot_system" where
  "robotWillHandler env msg sys =
     (case decodeRobotWillPush msg of None \<Rightarrow> sys
      | Some push \<Rightarrow> handleWill (will_time env) (wp_robot_id push) sys)"

text \<open>The publication of the task's state that ends both task handlers; no payload, no message.\<close>

definition task_state_messages :: "environment \<Rightarrow> string \<Rightarrow> string \<Rightarrow> sqlite \<Rightarrow> message list" where
  "task_state_messages env warehouse_id task_id db =
     (case buildTaskStateMessage env task_id db of
        None \<Rightarrow> []
      | Some payload \<Rightarrow> [(makeWarehouseTaskStateTopic warehouse_id task_id, payload)])"

definition requested_goods :: "json \<Rightarrow> task_goods result" where
  "requested_goods item =
     bind_result (value_string item ''goods_id'' []) (\<lambda>goods_id.
     bind_result (value_string item ''goods_name'' []) (\<lambda>goods_name.
     bind_result (value_int item ''quantity'' 0) (\<lambda>quantity.
     Inr \<lparr>g_goods_id = goods_id, g_goods_name = goods_name, g_total_quantity = quantity\<rparr>)))"

definition goods_request_of :: "json \<Rightarrow> goods_apply_request result" where
  "goods_request_of doc =
     bind_result (value_string doc ''request_id'' []) (\<lambda>request_id.
     bind_result (value_string doc ''warehouse_id'' []) (\<lambda>warehouse_id.
     bind_result (value_string doc ''task_id'' []) (\<lambda>task_id.
     bind_result (value_string doc ''robot_id'' []) (\<lambda>robot_id.
     bind_result (map_result requested_goods (array_items doc ''goods'')) (\<lambda>goods.
     Inr \<lparr>ga_request_id = request_id, ga_warehouse_id = warehouse_id, ga_task_id = task_id,
       ga_robot_id = robot_id, ga_goods = goods\<rparr>)))))"

definition response_goods_json :: "bool \<Rightarrow> task_goods \<Rightarrow> json" where
  "response_goods_json accepted g = JObj
     [(''goods_id'', JStr (g_goods_id g)), (''goods_name'', JStr (g_goods_name g)),
      (''quantity'', JInt (g_total_quantity g)), (''accepted'', JBool accepted)]"

definition goods_response_json :: "goods_apply_request \<Rightarrow> goods_apply_result \<Rightarrow> json" where
  "goods_response_json request r = JObj
     [(''request_id'', JStr (ga_request_id request)), (''warehouse_id'', JStr (ga_warehouse_id request)),
      (''task_id'', JStr (ga_task_id request)), (''robot_id'', JStr (ga_robot_id request)),
      (''accepted'', JBool (gr_accepted r)), (''reason'', JStr (gr_reason r)),
      (''goods'', JArr (map (response_goods_json (gr_accepted r)) (gr_goods r)))]"

definition robotGoodsRequestHandler ::
  "amr_environment \<Rightarrow> json option \<Rightarrow> sqlite \<Rightarrow> message list \<times> sqlite" where
  "robotGoodsRequestHandler env msg db =
     (case bind_result (parse msg) goods_request_of of
        Inl _ \<Rightarrow> ([], db)
      | Inr request \<Rightarrow>
          (case handleGoodsApply (task_env env) request db of
             (r, db') \<Rightarrow>
               ((makeAmrTaskGoodsResponseTopic (ga_robot_id request), goods_response_json request r) #
                  task_state_messages (state_env env) (ga_warehouse_id request) (ga_task_id request) db',
                db')))"

text \<open>The member \<open>goods_json\<close> carries the dumped document; the empty string is \<open>None\<close>.\<close>

definition task_status_event_of :: "json \<Rightarrow> amr_task_status_event result" where
  "task_status_event_of doc =
     bind_result (value_string doc ''message_id'' []) (\<lambda>message_id.
     bind_result (value_string doc ''warehouse_id'' []) (\<lambda>warehouse_id.
     bind_result (value_string doc ''task_id'' []) (\<lambda>task_id.
     bind_result (value_string doc ''robot_id'' []) (\<lambda>robot_id.
     bind_result (value_string doc ''event_type'' []) (\<lambda>event_type.
     bind_result (value_string doc ''task_state'' []) (\<lambda>task_state.
     bind_result (value_string doc ''request_id'' []) (\<lambda>request_id.
     bind_result (value_string doc ''reason'' []) (\<lambda>reason.
     bind_result (value_string doc ''timestamp'' []) (\<lambda>timestamp.
     Inr \<lparr>e_message_id = message_id, e_warehouse_id = warehouse_id, e_task_id = task_id,
       e_robot_id = robot_id, e_event_type = event_type, e_task_state = task_state,
       e_request_id = request_id, e_goods_json = member doc ''goods'', e_reason = reason,
       e_timestamp = timestamp\<rparr>)))))))))"

definition ack_json :: "amr_task_status_event \<Rightarrow> json" where
  "ack_json ev = JObj
     [(''warehouse_id'', JStr (e_warehouse_id ev)), (''task_id'', JStr (e_task_id ev)),
      (''robot_id'', JStr (e_robot_id ev)), (''acked_message_ids'', JArr [JStr (e_message_id ev)]),
      (''timestamp'', JStr (e_timestamp ev))]"

definition robotTaskStatusHandler ::
  "amr_environment \<Rightarrow> json option \<Rightarrow> sqlite \<Rightarrow> message list \<times> sqlite" where
  "robotTaskStatusHandler env msg db =
     (case bind_result (parse msg) task_status_event_of of
        Inl _ \<Rightarrow> ([], db)
      | Inr ev \<Rightarrow>
          let db' = snd (handleAmrTaskStatus (task_env env) ev db) in
          (task_state_messages (state_env env) (e_warehouse_id ev) (e_task_id ev) db' @
             [(makeAmrTaskStatusAckTopic (e_robot_id ev), ack_json ev)],
           db'))"

text \<open>One turn of the consumer thread, for a message that arrived on a topic.\<close>

definition edge_consume ::
  "map_service \<Rightarrow> (string \<times> amr_handler) list \<Rightarrow> amr_environment \<Rightarrow> ('s \<Rightarrow> pose2d option \<times> 's) option
   \<Rightarrow> string \<times> json option \<Rightarrow> 's robot_system \<Rightarrow> message list \<times> robot_event list \<times> 's robot_system" where
  "edge_consume maps handlers env alloc tm sys =
     (let (topic, msg) = tm in
      case messageRouter handlers topic of
        None \<Rightarrow> ([], [], sys)
      | Some robotRegisterReqHandler_of \<Rightarrow> robotRegisterReqHandler maps env alloc msg sys
      | Some robotStatusHandler_of \<Rightarrow> ([], [], robotStatusHandler msg sys)
      | Some robotWillHandler_of \<Rightarrow> ([], [], robotWillHandler env msg sys)
      | Some robotGoodsRequestHandler_of \<Rightarrow>
          (case robotGoodsRequestHandler env msg (database sys) of
             (ms, db) \<Rightarrow> (ms, [], sys\<lparr>database := db\<rparr>))
      | Some robotTaskStatusHandler_of \<Rightarrow>
          (case robotTaskStatusHandler env msg (database sys) of
             (ms, db) \<Rightarrow> (ms, [], sys\<lparr>database := db\<rparr>)))"

end
