(* ===== verification/Edge_Rules.thy ===== *)
theory Edge_Rules
  imports Edge_Communication
begin

text \<open>Which handler a message of a robot reaches, and what a robot is told about its reports.\<close>

section \<open>Routing\<close>

lemma amr_handlers_eq:
  "amr_handlers = [(ROBOT_REGISTER_REQ, robotRegisterReqHandler_of),
     (makeRobotStatusTopic ''+'', robotStatusHandler_of), (makeRobotWillTopic ''+'', robotWillHandler_of),
     (makeAmrTaskGoodsRequestTopic ''+'', robotGoodsRequestHandler_of),
     (makeAmrTaskStatusTopic ''+'', robotTaskStatusHandler_of)]"
  by (simp add: amr_handlers_def registerHandler_def topic_defs)

text \<open>A handler is found whatever the order of the table when no other entry fits the topic.\<close>

definition fits :: "(string list \<times> 'h) list \<Rightarrow> string list \<Rightarrow> 'h list" where
  "fits table topic = map snd (filter (\<lambda>item. fst item = topic \<or> mqtt_match (fst item) topic) table)"

lemma messageRouter_fits:
  assumes "mset handlers = mset table"
    and "fits (map (map_prod levels (\<lambda>h. h)) table) (levels topic) = [h]"
  shows "mqtt_match (levels f) (levels topic) \<Longrightarrow> (f, h) \<in> set table \<Longrightarrow> messageRouter handlers topic = Some h"
proof -
  assume f: "mqtt_match (levels f) (levels topic)" "(f, h) \<in> set table"
  have same: "set handlers = set table" using mset_eq_setD [OF assms(1)] .
  have only: "h' = h" if "(f', h') \<in> set table" "f' = topic \<or> topicMatches f' topic" for f' h'
  proof -
    have "h' \<in> set (fits (map (map_prod levels (\<lambda>h. h)) table) (levels topic))"
      using that by (force simp: fits_def topicMatches_levels image_iff)
    with assms(2) show ?thesis by simp
  qed
  show ?thesis
  proof (cases "map_of handlers topic")
    case None
    have "find (\<lambda>item. topicMatches (fst item) topic) handlers \<noteq> None"
    proof
      assume "find (\<lambda>item. topicMatches (fst item) topic) handlers = None"
      then have "\<not> topicMatches (fst (f, h)) topic" using f(2) same unfolding find_None_iff by blast
      with f(1) show False by (simp add: topicMatches_levels)
    qed
    then obtain item where item: "find (\<lambda>item. topicMatches (fst item) topic) handlers = Some item" by blast
    then have "snd item = h"
      using only [of "fst item" "snd item"] find_Some_member [OF item] same by simp
    with None item show ?thesis by (simp add: messageRouter_def)
  next
    case (Some h')
    then show ?thesis using only [of topic h'] map_of_SomeD [OF Some] same by (simp add: messageRouter_def)
  qed
qed

lemma messageRouter_none:
  assumes "mset handlers = mset table" and "fits (map (map_prod levels (\<lambda>h. h)) table) (levels topic) = []"
  shows "messageRouter handlers topic = None"
proof -
  have same: "set handlers = set table" using mset_eq_setD [OF assms(1)] .
  have none: "fst item \<noteq> topic \<and> \<not> topicMatches (fst item) topic" if "item \<in> set handlers" for item
    using that assms(2) unfolding same by (force simp: fits_def topicMatches_levels filter_empty_conv)
  then have "map_of handlers topic = None" by (force simp: map_of_eq_None_iff)
  moreover have "find (\<lambda>item. topicMatches (fst item) topic) handlers = None"
    using none by (auto simp: find_None_iff)
  ultimately show ?thesis by (simp add: messageRouter_def)
qed

lemma topic_levels [simp]:
  "levels ROBOT_REGISTER_REQ = [''amr'', ''register'', ''request'']"
  "CHR ''/'' \<notin> set rid \<Longrightarrow> levels (makeRobotStatusTopic rid) = [''amr'', rid, ''status'']"
  "CHR ''/'' \<notin> set rid \<Longrightarrow> levels (makeRobotWillTopic rid) = [''amr'', rid, ''will'']"
  "CHR ''/'' \<notin> set rid \<Longrightarrow> levels (makeAmrTaskGoodsRequestTopic rid) = [''amr'', rid, ''task'', ''goods'', ''request'']"
  "CHR ''/'' \<notin> set rid \<Longrightarrow> levels (makeAmrTaskStatusTopic rid) = [''amr'', rid, ''task'', ''status'']"
  "CHR ''/'' \<notin> set rid \<Longrightarrow> levels (makeAmrTaskTopic rid) = [''amr'', rid, ''task'']"
  "CHR ''/'' \<notin> set rid \<Longrightarrow> levels (makeAmrTaskGoodsResponseTopic rid) = [''amr'', rid, ''task'', ''goods'', ''response'']"
  "CHR ''/'' \<notin> set rid \<Longrightarrow> levels (makeAmrTaskStatusAckTopic rid) = [''amr'', rid, ''task'', ''status'', ''ack'']"
  using levels_append [of rid]
  by (simp_all add: topic_defs)

lemma amr_handler_levels:
  "map (map_prod levels (\<lambda>h. h)) amr_handlers =
    [([''amr'', ''register'', ''request''], robotRegisterReqHandler_of),
     ([''amr'', ''+'', ''status''], robotStatusHandler_of),
     ([''amr'', ''+'', ''will''], robotWillHandler_of),
     ([''amr'', ''+'', ''task'', ''goods'', ''request''], robotGoodsRequestHandler_of),
     ([''amr'', ''+'', ''task'', ''status''], robotTaskStatusHandler_of)]"
  by (simp add: amr_handlers_eq)

lemmas amr_route = messageRouter_fits [where table = amr_handlers, unfolded amr_handler_levels]
lemmas amr_no_route = messageRouter_none [where table = amr_handlers, unfolded amr_handler_levels]

lemma amr_routes:
  assumes "mset handlers = mset amr_handlers"
  shows "messageRouter handlers ROBOT_REGISTER_REQ = Some robotRegisterReqHandler_of"
    "CHR ''/'' \<notin> set rid \<Longrightarrow> messageRouter handlers (makeRobotStatusTopic rid) = Some robotStatusHandler_of"
    "CHR ''/'' \<notin> set rid \<Longrightarrow> messageRouter handlers (makeRobotWillTopic rid) = Some robotWillHandler_of"
    "CHR ''/'' \<notin> set rid \<Longrightarrow>
      messageRouter handlers (makeAmrTaskGoodsRequestTopic rid) = Some robotGoodsRequestHandler_of"
    "CHR ''/'' \<notin> set rid \<Longrightarrow> messageRouter handlers (makeAmrTaskStatusTopic rid) = Some robotTaskStatusHandler_of"
  by (rule amr_route [OF assms, where f = ROBOT_REGISTER_REQ];
      simp add: fits_def amr_handlers_eq)
    (rule amr_route [OF assms, where f = "makeRobotStatusTopic ''+''"]
      amr_route [OF assms, where f = "makeRobotWillTopic ''+''"]
      amr_route [OF assms, where f = "makeAmrTaskGoodsRequestTopic ''+''"]
      amr_route [OF assms, where f = "makeAmrTaskStatusTopic ''+''"];
      (simp add: fits_def amr_handlers_eq; fail))+

text \<open>
  Every topic of a robot reaches its handler. Whatever order the hash table of the router iterates
  in, a message on one of the five subscribed topics of a robot (whose id contains no slash) reaches the
  handler registered for that topic, and the topics that the edge server itself publishes to for that
  robot reach none.
\<close>

theorem amr_topics_reach_their_handler:
  assumes "mset handlers = mset amr_handlers" and "CHR ''/'' \<notin> set robot_id"
  shows "messageRouter handlers ROBOT_REGISTER_REQ = Some robotRegisterReqHandler_of \<and>
    messageRouter handlers (makeRobotStatusTopic robot_id) = Some robotStatusHandler_of \<and>
    messageRouter handlers (makeRobotWillTopic robot_id) = Some robotWillHandler_of \<and>
    messageRouter handlers (makeAmrTaskGoodsRequestTopic robot_id) = Some robotGoodsRequestHandler_of \<and>
    messageRouter handlers (makeAmrTaskStatusTopic robot_id) = Some robotTaskStatusHandler_of \<and>
    messageRouter handlers (makeAmrTaskTopic robot_id) = None \<and>
    messageRouter handlers (makeAmrTaskGoodsResponseTopic robot_id) = None \<and>
    messageRouter handlers (makeAmrTaskStatusAckTopic robot_id) = None"
  by (intro conjI amr_routes [OF assms(1)] amr_no_route [OF assms(1)] assms(2))
    (simp_all add: fits_def assms(2))

lemma amr_topics_reach_their_handler_witness:
  "messageRouter (rev amr_handlers) (makeAmrTaskStatusTopic ''amr-1'') = Some robotTaskStatusHandler_of"
  using amr_topics_reach_their_handler [of "rev amr_handlers" "''amr-1''"] by simp

end
