(* ===== verification/Ros_Messages.thy ===== *)
theory Ros_Messages
  imports Edge_Types
begin

text \<open>
  The messages that the nodes of a robot exchange (\<open>robot_ws/src/amr_interfaces/msg\<close>) and the
  states of its components (\<open>amr_common/robot_state.h\<close>). The stamps, which no receiver reads, are
  left out; \<open>int32\<close> members are integers.
\<close>

record ros_task_goods_status =
  gs_goods_id :: string
  gs_goods_name :: string
  gs_total_quantity :: int
  gs_in_progress_quantity :: int
  gs_completed_quantity :: int
  gs_pending_quantity :: int

record task_command =
  c_command_type :: string
  c_task_id :: string
  c_warehouse_id :: string
  c_task_type :: string
  c_robot_ids :: "string list"
  c_goods :: "task_goods list"
  c_goods_status :: "ros_task_goods_status list"
  c_state :: string
  c_reason :: string
  c_request_id :: string
  c_accepted :: bool

definition empty_command :: task_command where
  "empty_command = \<lparr>c_command_type = [], c_task_id = [], c_warehouse_id = [], c_task_type = [],
     c_robot_ids = [], c_goods = [], c_goods_status = [], c_state = [], c_reason = [],
     c_request_id = [], c_accepted = False\<rparr>"

record task_event =
  te_event_type :: string
  te_task_id :: string
  te_warehouse_id :: string
  te_task_state :: string
  te_goods :: "task_goods list"
  te_request_id :: string
  te_reason :: string

section \<open>States of the components\<close>

text \<open>The enumeration is ordered by its values: the lower, the less available.\<close>

datatype component_state = STATE_ERROR | STATE_INITIALIZING | STATE_WORKING | STATE_IDLE

fun state_value :: "component_state \<Rightarrow> int" where
  "state_value STATE_ERROR = 0"
| "state_value STATE_INITIALIZING = 1"
| "state_value STATE_WORKING = 2"
| "state_value STATE_IDLE = 3"

lemma state_value_inj [simp]: "state_value a = state_value b \<longleftrightarrow> a = b"
  by (cases a; cases b) simp_all

instantiation component_state :: linorder
begin

definition less_eq_component_state :: "component_state \<Rightarrow> component_state \<Rightarrow> bool" where
  "less_eq_component_state a b \<longleftrightarrow> state_value a \<le> state_value b"

definition less_component_state :: "component_state \<Rightarrow> component_state \<Rightarrow> bool" where
  "less_component_state a b \<longleftrightarrow> state_value a < state_value b"

instance
  by standard (auto simp: less_eq_component_state_def less_component_state_def)

end

lemma state_value_min: "state_value (min a b) = min (state_value a) (state_value b)"
  by (simp add: min_def less_eq_component_state_def)

text \<open>
  \<open>static_cast<RobotState>\<close> of an \<open>int\<close> keeps its low eight bits; \<open>robotStateToString\<close> names the
  values of the enumeration and calls every other one INITIALIZING.
\<close>

definition cast_to_uint8 :: "int \<Rightarrow> int" where
  "cast_to_uint8 n = n mod 256"

definition amrStateToString :: "int \<Rightarrow> string" where
  "amrStateToString v =
     (if v = 0 then ''ERROR'' else if v = 1 then ''INITIALIZING'' else if v = 2 then ''WORKING''
      else if v = 3 then ''IDLE'' else ''INITIALIZING'')"

definition amrStateFromString :: "string \<Rightarrow> component_state" where
  "amrStateFromString str =
     (if str = ''ERROR'' then STATE_ERROR else if str = ''INITIALIZING'' then STATE_INITIALIZING
      else if str = ''WORKING'' then STATE_WORKING else if str = ''IDLE'' then STATE_IDLE
      else STATE_INITIALIZING)"

lemma amrState_roundtrip [simp]: "amrStateFromString (amrStateToString (state_value s)) = s"
  by (cases s) (simp_all add: amrStateFromString_def amrStateToString_def)

lemma cast_state_value [simp]: "cast_to_uint8 (state_value s) = state_value s"
  by (cases s) (simp_all add: cast_to_uint8_def)

end
