(* ===== verification/Agent_Codec.thy ===== *)
theory Agent_Codec
  imports Ros_Messages Message_Codec
begin

text \<open>
  \<open>amr_agent/src/message/message_codec.cpp\<close>: what a robot reads from the edge server. The members
  that a decoder does not write are those of the object it is given.
\<close>

record mqtt_config =
  mq_url :: string
  mq_client_id :: string
  mq_user :: string
  mq_pwd :: string
  mq_ca_file :: string
  mq_keepalive :: int
  mq_reconnect_interval :: int
  mq_tls_enable :: bool
  mq_will_msg_enable :: bool
  mq_will :: "string \<times> string"

record map_config =
  mc_path :: string
  mc_version :: string
  mc_mapName :: string
  mc_imageName :: string
  mc_zoneName :: string
  mc_stationName :: string

record bootstrap_info =
  b_robot_id :: string
  b_warehouse_id :: string
  b_edge_host :: string
  b_edge_port :: int
  b_initial_x :: real
  b_initial_y :: real
  b_initial_yaw :: real
  b_mqtt :: mqtt_config
  b_map :: map_config

text \<open>
  A failure returns false after the members read so far have been written; only the success is
  carried, because the caller gives up on false.
\<close>

definition decodeBootstrapInfo :: "json option \<Rightarrow> bootstrap_info \<Rightarrow> bootstrap_info option" where
  "decodeBootstrapInfo msg info =
     (case bind_result (parse msg) (\<lambda>doc.
        bind_result (value_int doc ''code'' (-1)) (\<lambda>c. Inr (doc, c))) of
        Inl _ \<Rightarrow> None
      | Inr (doc, c) \<Rightarrow>
          if c \<noteq> 0 then None
          else case decoded (
            bind_result (subscript doc ''data'') (\<lambda>data.
            bind_result (value_string data ''warehouse_id'' []) (\<lambda>warehouse_id.
            bind_result (subscript data ''mqtt'') (\<lambda>mqtt.
            bind_result (value_string mqtt ''url'' []) (\<lambda>url.
            bind_result (value_string mqtt ''client_id'' []) (\<lambda>client_id.
            bind_result (value_string mqtt ''username'' []) (\<lambda>user.
            bind_result (value_string mqtt ''password'' []) (\<lambda>pwd.
            bind_result (value_int mqtt ''keepalive'' 12) (\<lambda>keepalive.
            bind_result (value_int mqtt ''reconnect_interval'' 5) (\<lambda>reconnect.
            bind_result (value_bool mqtt ''tls_enable'' False) (\<lambda>tls.
            Inr (info\<lparr>b_warehouse_id := warehouse_id,
              b_mqtt := (b_mqtt info)\<lparr>mq_url := url, mq_client_id := client_id, mq_user := user,
                mq_pwd := pwd, mq_keepalive := keepalive, mq_reconnect_interval := reconnect,
                mq_tls_enable := tls\<rparr>\<rparr>)))))))))))) of
              None \<Rightarrow> None
            | Some info' \<Rightarrow> if mq_url (b_mqtt info') = [] then None else Some info')"

definition decodeEdgeSvrStatus :: "json option \<Rightarrow> bool option" where
  "decodeEdgeSvrStatus msg =
     decoded (bind_result (parse msg) (\<lambda>doc.
       bind_result (value_string doc ''status'' ''offline'') (\<lambda>status. Inr (status = ''online''))))"

record agent_register_response =
  ar_code :: int
  ar_message :: string
  ar_robot_id :: string
  ar_request_id :: string
  ar_map_version :: string
  ar_map_download_url :: string
  ar_map_update :: bool
  ar_initial_x :: real
  ar_initial_y :: real
  ar_initial_yaw :: real
  ar_has_initial_pose :: bool

definition read_initial_pose :: "json \<Rightarrow> (real \<times> real \<times> real) option result" where
  "read_initial_pose doc =
     (case member doc ''initial_pose'' of
        Some (JObj kvs) \<Rightarrow>
          bind_result (value_double (JObj kvs) ''x'' 0) (\<lambda>x.
          bind_result (value_double (JObj kvs) ''y'' 0) (\<lambda>y.
          bind_result (value_double (JObj kvs) ''yaw'' 0) (\<lambda>yaw.
          Inr (Some (x, y, yaw)))))
      | _ \<Rightarrow> Inr None)"

definition with_initial_pose ::
  "(real \<times> real \<times> real) option \<Rightarrow> agent_register_response \<Rightarrow> agent_register_response" where
  "with_initial_pose p resp =
     (case p of None \<Rightarrow> resp
      | Some (x, y, yaw) \<Rightarrow>
          resp\<lparr>ar_initial_x := x, ar_initial_y := y, ar_initial_yaw := yaw, ar_has_initial_pose := True\<rparr>)"

definition decodeRobotRegisterResp :: "json option \<Rightarrow> agent_register_response option" where
  "decodeRobotRegisterResp msg =
     (case bind_result (parse msg) (\<lambda>doc.
        bind_result (value_int doc ''code'' (-1)) (\<lambda>c. Inr (doc, c))) of
        Inl _ \<Rightarrow> None
      | Inr (doc, c) \<Rightarrow>
          if c \<noteq> 0 then None
          else decoded (
            bind_result (value_int doc ''code'' 0) (\<lambda>code.
            bind_result (value_string doc ''message'' []) (\<lambda>message.
            bind_result (value_string doc ''robot_id'' []) (\<lambda>robot_id.
            bind_result (value_string doc ''request_id'' []) (\<lambda>request_id.
            bind_result (value_string doc ''map_version'' []) (\<lambda>map_version.
            bind_result (value_bool doc ''map_update'' False) (\<lambda>map_update.
            bind_result (value_string doc ''map_download_url'' []) (\<lambda>url.
            bind_result (read_initial_pose doc) (\<lambda>pose.
            Inr (with_initial_pose pose
              \<lparr>ar_code = code, ar_message = message, ar_robot_id = robot_id, ar_request_id = request_id,
                ar_map_version = map_version, ar_map_download_url = url, ar_map_update = map_update,
                ar_initial_x = 0, ar_initial_y = 0, ar_initial_yaw = 0,
                ar_has_initial_pose = False\<rparr>)))))))))))"

text \<open>
  A robot reads the registration answer that the edge server wrote. An answer of code 0 is decoded
  with every member as it was sent, and always with an initial pose (also when the edge server had none
  to give); an answer of any other code is refused.
\<close>

theorem register_response_roundtrip:
  assumes "- (2 ^ 31) \<le> rp_code resp \<and> rp_code resp < 2 ^ 31"
  shows "decodeRobotRegisterResp (Some (encodeRegisterResp resp)) =
    (if rp_code resp = 0
     then Some \<lparr>ar_code = 0, ar_message = rp_message resp, ar_robot_id = rp_robot_id resp,
       ar_request_id = rp_request_id resp, ar_map_version = rp_map_version resp,
       ar_map_download_url = rp_map_download_url resp, ar_map_update = rp_map_update resp,
       ar_initial_x = pose_x (rp_initial_pose resp), ar_initial_y = pose_y (rp_initial_pose resp),
       ar_initial_yaw = pose_yaw (rp_initial_pose resp), ar_has_initial_pose = True\<rparr>
     else None)"
  using assms
  by (simp add: decodeRobotRegisterResp_def encodeRegisterResp_def pose_json_def read_initial_pose_def
      with_initial_pose_def)

lemma register_response_roundtrip_witness:
  "map_option ar_has_initial_pose (decodeRobotRegisterResp (Some (encodeRegisterResp
     \<lparr>rp_code = 0, rp_message = [], rp_robot_id = ''amr-1'', rp_request_id = ''q1'',
       rp_map_version = ''v2'', rp_map_download_url = ''/m'', rp_map_update = True, rp_initial_pose = zero_pose,
       rp_has_initial_pose = False\<rparr>))) = Some True"
  by (subst register_response_roundtrip) simp_all

end
