(* ===== verification/Pending_Reports.thy ===== *)
theory Pending_Reports
  imports Json
begin

text \<open>
  \<open>amr_agent/src/persist/pending_report_store.cpp\<close>: the file of reports that could not be published.
\<close>

record pending_report =
  pr_message_id :: string
  pr_topic :: string
  pr_payload :: string

text \<open>
  What opening the file and parsing it gives. Writing goes to a temporary file that is then renamed:
  either the file cannot be opened (the code returns without a word), or creating the directory or
  renaming throws, or the new document is in place.
\<close>

datatype pending_file = Absent | Garbled | Document json

datatype disk = Disk_Works | Disk_Refuses | Disk_Throws

datatype file_error = FilesystemError

definition report_json :: "pending_report \<Rightarrow> json" where
  "report_json report = JObj [(''message_id'', JStr (pr_message_id report)),
     (''topic'', JStr (pr_topic report)), (''payload'', JStr (pr_payload report))]"

definition reports_json :: "pending_report list \<Rightarrow> json" where
  "reports_json reports = JObj [(''version'', JInt 1), (''reports'', JArr (map report_json reports))]"

text \<open>
  Iteration over a document: the elements of an array, the values of an object, nothing of null, and
  a scalar itself.
\<close>

fun iterate :: "json \<Rightarrow> json list" where
  "iterate (JArr xs) = xs"
| "iterate (JObj kvs) = map snd kvs"
| "iterate JNull = []"
| "iterate j = [j]"

definition read_report :: "json \<Rightarrow> pending_report result" where
  "read_report item =
     bind_result (value_string item ''message_id'' []) (\<lambda>message_id.
     bind_result (value_string item ''topic'' []) (\<lambda>topic.
     bind_result (value_string item ''payload'' []) (\<lambda>payload.
     Inr \<lparr>pr_message_id = message_id, pr_topic = topic, pr_payload = payload\<rparr>)))"

definition usable :: "pending_report \<Rightarrow> bool" where
  "usable report \<longleftrightarrow> pr_message_id report \<noteq> [] \<and> pr_topic report \<noteq> []"

definition load :: "pending_file \<Rightarrow> pending_report list" where
  "load file =
     (case file of
        Absent \<Rightarrow> []
      | Garbled \<Rightarrow> []
      | Document doc \<Rightarrow>
          (case bind_result (value_of Inr doc ''reports'' (JArr [])) (\<lambda>items. map_result read_report (iterate items)) of
             Inl _ \<Rightarrow> []
           | Inr reports \<Rightarrow> filter usable reports))"

definition save :: "disk \<Rightarrow> pending_report list \<Rightarrow> pending_file \<Rightarrow> file_error + pending_file" where
  "save d reports file =
     (case d of
        Disk_Works \<Rightarrow> Inr (Document (reports_json reports))
      | Disk_Refuses \<Rightarrow> Inr file
      | Disk_Throws \<Rightarrow> Inl FilesystemError)"

definition add :: "disk \<Rightarrow> pending_report \<Rightarrow> pending_file \<Rightarrow> file_error + pending_file" where
  "add d report file =
     (let reports = load file in
      if list_ex (\<lambda>item. pr_message_id item = pr_message_id report) reports then Inr file
      else save d (reports @ [report]) file)"

definition removeByMessageIds ::
  "disk \<Rightarrow> string list \<Rightarrow> pending_file \<Rightarrow> file_error + pending_file" where
  "removeByMessageIds d message_ids file =
     save d (filter (\<lambda>item. pr_message_id item \<notin> set message_ids) (load file)) file"

section \<open>What the file holds\<close>

lemma read_report_json [simp]: "read_report (report_json r) = Inr r"
  by (simp add: read_report_def report_json_def)

lemma read_reports_json [simp]: "map_result read_report (map report_json reports) = Inr reports"
  by (induction reports) auto

lemma load_reports_json [simp]: "load (Document (reports_json reports)) = filter usable reports"
  by (simp add: load_def reports_json_def)

lemma load_usable: "r \<in> set (load file) \<Longrightarrow> usable r"
  by (auto simp: load_def split: pending_file.splits sum.splits)

lemma load_all_usable: "\<forall>r\<in>set (load file). usable r"
  by (blast dest: load_usable)

lemma load_save:
  assumes "save d reports file = Inr file'" and "\<forall>r\<in>set reports. usable r"
  shows "load file' = (if d = Disk_Works then reports else load file)"
proof -
  have "filter usable reports = reports" using assms(2) by (simp add: filter_id_conv)
  with assms(1) show ?thesis by (cases d) (auto simp: save_def)
qed

lemma load_add:
  assumes "add d report file = Inr file'" and "usable report"
  shows "load file' =
    (if d = Disk_Works \<and> pr_message_id report \<notin> pr_message_id ` set (load file)
     then load file @ [report] else load file)"
proof (cases "pr_message_id report \<in> pr_message_id ` set (load file)")
  case True
  then have "list_ex (\<lambda>item. pr_message_id item = pr_message_id report) (load file)"
    by (auto simp: list_ex_iff)
  with True assms(1) show ?thesis by (simp add: add_def)
next
  case False
  then have "\<not> list_ex (\<lambda>item. pr_message_id item = pr_message_id report) (load file)"
    by (auto simp: list_ex_iff image_iff)
  then have "save d (load file @ [report]) file = Inr file'" using assms(1) by (simp add: add_def)
  from load_save [OF this] False assms(2) load_all_usable [of "file"] show ?thesis by simp
qed

lemma load_remove:
  assumes "removeByMessageIds d ids file = Inr file'"
  shows "load file' =
    (if d = Disk_Works then filter (\<lambda>r. pr_message_id r \<notin> set ids) (load file) else load file)"
  using load_save [OF assms [unfolded removeByMessageIds_def]] load_all_usable [of "file"] by simp

end
