(* ===== verification/Task_Bridge.thy ===== *)
theory Task_Bridge
  imports Ros_Messages Pending_Reports Topics Message_Codec
begin

text \<open>
  \<open>amr_agent/src/bridge/task_bridge.cpp\<close>: the tasks of the edge server become commands for the
  behaviour manager, its events become MQTT messages, and what cannot be published is kept in the
  file of pending reports. Here payloads are texts: \<open>dump\<close> and \<open>parse_text\<close> are those of the JSON
  library.
\<close>

record text_codec =
  dump :: "json \<Rightarrow> string"
  parse_text :: "string \<Rightarrow> json option"

section \<open>Commands for the behaviour manager\<close>

definition goods_of_json :: "json \<Rightarrow> task_goods result" where
  "goods_of_json item =
     bind_result (value_string item ''goods_id'' []) (\<lambda>goods_id.
     bind_result (value_string item ''goods_name'' []) (\<lambda>goods_name.
     bind_result (value_int item ''quantity'' 0) (\<lambda>quantity.
     Inr \<lparr>g_goods_id = goods_id, g_goods_name = goods_name, g_total_quantity = quantity\<rparr>)))"

definition onAmrTaskMessage :: "string \<Rightarrow> json option \<Rightarrow> task_command option" where
  "onAmrTaskMessage m_warehouse_id payload = decoded (
     bind_result (parse payload) (\<lambda>doc.
     bind_result (value_string doc ''command_type'' ''TASK_ASSIGN'') (\<lambda>command_type.
     bind_result (value_string doc ''task_id'' []) (\<lambda>task_id.
     bind_result (value_string doc ''warehouse_id'' m_warehouse_id) (\<lambda>warehouse_id.
     bind_result (value_string doc ''task_type'' []) (\<lambda>task_type.
     bind_result (value_string doc ''state'' []) (\<lambda>state.
     bind_result (value_string doc ''reason'' []) (\<lambda>reason.
     bind_result (map_result get_string (array_items doc ''robot_ids'')) (\<lambda>robot_ids.
     bind_result (map_result goods_of_json (array_items doc ''goods'')) (\<lambda>goods.
     Inr (empty_command\<lparr>c_command_type := command_type, c_task_id := task_id,
       c_warehouse_id := warehouse_id, c_task_type := task_type, c_state := state, c_reason := reason,
       c_robot_ids := robot_ids, c_goods := goods\<rparr>)))))))))))"

definition goods_status_of_json :: "json \<Rightarrow> ros_task_goods_status result" where
  "goods_status_of_json item =
     bind_result (value_string item ''goods_id'' []) (\<lambda>goods_id.
     bind_result (value_string item ''goods_name'' []) (\<lambda>goods_name.
     bind_result (value_int item ''total_quantity'' 0) (\<lambda>total.
     bind_result (value_int item ''in_progress_quantity'' 0) (\<lambda>in_progress.
     bind_result (value_int item ''completed_quantity'' 0) (\<lambda>completed.
     bind_result (value_int item ''pending_quantity'' 0) (\<lambda>pending.
     Inr \<lparr>gs_goods_id = goods_id, gs_goods_name = goods_name, gs_total_quantity = total,
       gs_in_progress_quantity = in_progress, gs_completed_quantity = completed,
       gs_pending_quantity = pending\<rparr>))))))"

definition onTaskStateMessage :: "json option \<Rightarrow> task_command option" where
  "onTaskStateMessage payload = decoded (
     bind_result (parse payload) (\<lambda>doc.
     bind_result (value_string doc ''task_id'' []) (\<lambda>task_id.
     bind_result (value_string doc ''warehouse_id'' []) (\<lambda>warehouse_id.
     bind_result (value_string doc ''state'' []) (\<lambda>state.
     bind_result (map_result goods_status_of_json (array_items doc ''goods_status'')) (\<lambda>goods_status.
     Inr (empty_command\<lparr>c_command_type := ''TASK_STATE_UPDATE'', c_task_id := task_id,
       c_warehouse_id := warehouse_id, c_state := state, c_goods_status := goods_status\<rparr>)))))))"

definition onGoodsResponseMessage :: "json option \<Rightarrow> task_command option" where
  "onGoodsResponseMessage payload = decoded (
     bind_result (parse payload) (\<lambda>doc.
     bind_result (value_string doc ''task_id'' []) (\<lambda>task_id.
     bind_result (value_string doc ''warehouse_id'' []) (\<lambda>warehouse_id.
     bind_result (value_string doc ''request_id'' []) (\<lambda>request_id.
     bind_result (value_bool doc ''accepted'' False) (\<lambda>accepted.
     bind_result (value_string doc ''reason'' []) (\<lambda>reason.
     bind_result (map_result goods_of_json (array_items doc ''goods'')) (\<lambda>goods.
     Inr (empty_command\<lparr>c_command_type := ''GOODS_RESPONSE'', c_task_id := task_id,
       c_warehouse_id := warehouse_id, c_request_id := request_id, c_accepted := accepted,
       c_reason := reason, c_goods := goods\<rparr>)))))))))"

section \<open>Reports to the edge server\<close>

text \<open>
  The two clocks of a report are \<open>ms\<close> (\<open>makeMessageId\<close>) and \<open>now_iso\<close> (\<open>nowIso8601\<close>). A request for
  goods is another document, on another topic, than a status report.
\<close>

definition makeMessageId :: "string \<Rightarrow> int \<Rightarrow> string \<Rightarrow> string" where
  "makeMessageId m_robot_id ms event_type = m_robot_id @ ''_'' @ to_string ms @ ''_'' @ event_type"

definition event_goods_json :: "task_goods \<Rightarrow> json" where
  "event_goods_json g = JObj [(''goods_id'', JStr (g_goods_id g)), (''goods_name'', JStr (g_goods_name g)),
     (''quantity'', JInt (g_total_quantity g))]"

definition buildMqttMessage ::
  "string \<Rightarrow> string \<Rightarrow> int \<Rightarrow> string \<Rightarrow> task_event \<Rightarrow> string \<times> json" where
  "buildMqttMessage m_robot_id m_warehouse_id ms now_iso event =
     (let head = [(''message_id'', JStr (makeMessageId m_robot_id ms (te_event_type event))),
            (''warehouse_id'', JStr (if te_warehouse_id event = [] then m_warehouse_id else te_warehouse_id event)),
            (''task_id'', JStr (te_task_id event)), (''robot_id'', JStr m_robot_id)];
          goods = (''goods'', JArr (map event_goods_json (te_goods event))) in
      if te_event_type event = ''GOODS_REQUEST''
      then (makeAmrTaskGoodsRequestTopic m_robot_id,
            JObj (head @ [(''request_id'', JStr (te_request_id event)), goods]))
      else (makeAmrTaskStatusTopic m_robot_id,
            JObj (head @ [(''event_type'', JStr (te_event_type event)), (''task_state'', JStr (te_task_state event)),
              (''reason'', JStr (te_reason event)), (''request_id'', JStr (te_request_id event)),
              (''timestamp'', JStr now_iso), goods])))"

text \<open>
  \<open>isConnected()\<close> and what \<open>publish\<close> returns are given. \<open>json::parse(payload)\<close> and the directory
  operations may throw, and nothing here catches them: \<open>Inl\<close>.
\<close>

datatype bridge_error = Json_Exception json_error | File_Exception file_error

definition pending_of_message :: "text_codec \<Rightarrow> string \<Rightarrow> string \<Rightarrow> json_error + pending_report" where
  "pending_of_message text topic payload =
     bind_result (bind_result (parse (parse_text text payload)) (\<lambda>doc. value_string doc ''message_id'' []))
       (\<lambda>message_id. Inr \<lparr>pr_message_id = message_id, pr_topic = topic, pr_payload = payload\<rparr>)"

definition keep_pending ::
  "text_codec \<Rightarrow> disk \<Rightarrow> string \<Rightarrow> string \<Rightarrow> pending_file \<Rightarrow> bridge_error + pending_file" where
  "keep_pending text d topic payload file =
     (case pending_of_message text topic payload of
        Inl e \<Rightarrow> Inl (Json_Exception e)
      | Inr report \<Rightarrow> (case add d report file of Inl e \<Rightarrow> Inl (File_Exception e) | Inr file' \<Rightarrow> Inr file'))"

record bridge_env =
  codec :: text_codec
  robot :: string
  warehouse :: string
  clock_ms :: int
  clock_iso :: string
  connected :: bool
  publish_succeeds :: bool
  disk_state :: disk

definition publishTaskEventToMqtt ::
  "bridge_env \<Rightarrow> task_event \<Rightarrow> pending_file \<Rightarrow> bridge_error + ((string \<times> string) list \<times> pending_file)" where
  "publishTaskEventToMqtt env event file =
     (let (topic, doc) = buildMqttMessage (robot env) (warehouse env) (clock_ms env) (clock_iso env) event;
          payload = dump (codec env) doc;
          keep = (\<lambda>sent. case keep_pending (codec env) (disk_state env) topic payload file of
                    Inl e \<Rightarrow> Inl e | Inr file' \<Rightarrow> Inr (sent, file')) in
      if topic = [] then Inr ([], file)
      else if connected env
      then (if publish_succeeds env then Inr ([(topic, payload)], file) else keep [])
      else keep [])"

text \<open>The handler of acknowledgements catches every exception. The timer sends all pending reports.\<close>

definition onStatusAckMessage :: "disk \<Rightarrow> json option \<Rightarrow> pending_file \<Rightarrow> pending_file" where
  "onStatusAckMessage d payload file =
     (case bind_result (parse payload) (\<lambda>doc. map_result get_string (array_items doc ''acked_message_ids'')) of
        Inl _ \<Rightarrow> file
      | Inr acked \<Rightarrow> (case removeByMessageIds d acked file of Inl _ \<Rightarrow> file | Inr file' \<Rightarrow> file'))"

definition flushPendingReports :: "bool \<Rightarrow> (nat \<Rightarrow> bool) \<Rightarrow> pending_file \<Rightarrow> (string \<times> string) list" where
  "flushPendingReports is_connected ok file =
     (if \<not> is_connected then []
      else map (\<lambda>(i, r). (pr_topic r, pr_payload r))
        (filter (\<lambda>(i, r). ok i) (enumerate 0 (load file))))"

section \<open>The pending reports over time\<close>

text \<open>One thing that happens to the bridge; an exception ends the process and leaves the file.\<close>

datatype bridge_action =
    Report bridge_env task_event
  | Ack disk "json option"
  | Flush

definition bridge_act :: "bridge_action \<Rightarrow> pending_file \<Rightarrow> pending_file" where
  "bridge_act a file =
     (case a of
        Report env event \<Rightarrow> (case publishTaskEventToMqtt env event file of Inl _ \<Rightarrow> file | Inr (_, file') \<Rightarrow> file')
      | Ack d payload \<Rightarrow> onStatusAckMessage d payload file
      | Flush \<Rightarrow> file)"

definition acknowledges :: "bridge_action \<Rightarrow> string \<Rightarrow> bool" where
  "acknowledges a message_id =
     (case a of
        Ack d (Some doc) \<Rightarrow> JStr message_id \<in> set (array_items doc ''acked_message_ids'')
      | _ \<Rightarrow> False)"

end
