(* ===== verification/Zone_Stations.thy ===== *)
theory Zone_Stations
  imports Complex_Main Prelude
begin

text \<open>
  \<open>amr_behavior_manager/src/zone_station_loader.cpp\<close> and \<open>goods_point_resolver.cpp\<close>: the zones and
  stations of a map and the point to which a kind of goods is carried.
\<close>

record location_info =
  l_id :: string
  l_type :: string
  l_x :: real
  l_y :: real
  l_yaw :: real

record station_info =
  sn_id :: string
  sn_name :: string
  sn_zone_id :: string
  sn_locations :: "location_info list"

record zone_info =
  z_id :: string
  z_name :: string
  z_type :: string
  z_goods_ids :: "string list"

section \<open>Loading\<close>

text \<open>
  A node of the YAML documents has its members as \<open>None\<close> where the library's conversion throws. A
  document that cannot be read, or that lacks the list, is \<open>Yaml_Broken\<close> or \<open>Yaml_None\<close>; an absent
  sequence of a node is \<open>None\<close>.
\<close>

datatype 'a yaml_list = Yaml_Broken | Yaml_None | Yaml_List "'a list"

record zone_node =
  zn_id :: "string option"
  zn_name :: "string option"
  zn_type :: "string option"
  zn_goods_ids :: "string option list option"

record location_node =
  ln_id :: "string option"
  ln_type :: "string option"
  ln_x :: "real option"
  ln_y :: "real option"
  ln_yaw :: "real option"

record station_node =
  stn_id :: "string option"
  stn_name :: "string option"
  stn_zone_id :: "string option"
  stn_locations :: "location_node list option"

fun all_some :: "'a option list \<Rightarrow> 'a list option" where
  "all_some [] = Some []"
| "all_some (None # xs) = None"
| "all_some (Some x # xs) = map_option (\<lambda>ys. x # ys) (all_some xs)"

definition read_zone :: "zone_node \<Rightarrow> zone_info option" where
  "read_zone node =
     Option.bind (zn_id node) (\<lambda>i. Option.bind (zn_name node) (\<lambda>n. Option.bind (zn_type node) (\<lambda>t.
       map_option (\<lambda>goods. \<lparr>z_id = i, z_name = n, z_type = t, z_goods_ids = goods\<rparr>)
         (case zn_goods_ids node of None \<Rightarrow> Some [] | Some gs \<Rightarrow> all_some gs))))"

definition read_location :: "location_node \<Rightarrow> location_info option" where
  "read_location node =
     Option.bind (ln_id node) (\<lambda>i. Option.bind (ln_type node) (\<lambda>t. Option.bind (ln_x node) (\<lambda>x.
       Option.bind (ln_y node) (\<lambda>y. map_option (\<lambda>yaw. \<lparr>l_id = i, l_type = t, l_x = x, l_y = y, l_yaw = yaw\<rparr>)
         (ln_yaw node)))))"

definition read_station :: "station_node \<Rightarrow> station_info option" where
  "read_station node =
     Option.bind (stn_id node) (\<lambda>i. Option.bind (stn_name node) (\<lambda>n. Option.bind (stn_zone_id node) (\<lambda>z.
       map_option (\<lambda>ls. \<lparr>sn_id = i, sn_name = n, sn_zone_id = z, sn_locations = ls\<rparr>)
         (case stn_locations node of None \<Rightarrow> Some [] | Some ls \<Rightarrow> all_some (map read_location ls)))))"

text \<open>
  The loop over a list keeps what was read before an exception. The result is whether \<open>load\<close> returns
  true, \<open>m_zones\<close> and \<open>m_stations\<close>.
\<close>

fun read_until_error :: "('n \<Rightarrow> 'a option) \<Rightarrow> 'n list \<Rightarrow> bool \<times> 'a list" where
  "read_until_error f [] = (True, [])"
| "read_until_error f (n # ns) =
     (case f n of None \<Rightarrow> (False, []) | Some x \<Rightarrow> (case read_until_error f ns of (ok, xs) \<Rightarrow> (ok, x # xs)))"

definition read_document :: "('n \<Rightarrow> 'a option) \<Rightarrow> 'n yaml_list \<Rightarrow> bool \<times> 'a list" where
  "read_document f doc =
     (case doc of Yaml_Broken \<Rightarrow> (False, []) | Yaml_None \<Rightarrow> (True, []) | Yaml_List ns \<Rightarrow> read_until_error f ns)"

definition load_zone_stations ::
  "zone_node yaml_list \<Rightarrow> station_node yaml_list \<Rightarrow> bool \<times> zone_info list \<times> station_info list" where
  "load_zone_stations zones stations =
     (case read_document read_zone zones of
        (False, zs) \<Rightarrow> (False, zs, [])
      | (True, zs) \<Rightarrow> (case read_document read_station stations of (ok, ss) \<Rightarrow> (ok, zs, ss)))"

section \<open>The point of a kind of goods\<close>

definition to_upper :: "char \<Rightarrow> char" where
  "to_upper c = (let n = of_char c :: nat in if 97 \<le> n \<and> n \<le> 122 then char_of (n - 32) else c)"

definition serves :: "string \<Rightarrow> string \<Rightarrow> zone_info \<Rightarrow> bool" where
  "serves goods_id target_zone_type zone \<longleftrightarrow>
     map to_upper (z_type zone) = target_zone_type \<and> goods_id \<in> set (z_goods_ids zone)"

definition work_location :: "location_info list \<Rightarrow> location_info option" where
  "work_location ls =
     (case find (\<lambda>l. l_type l = ''WORK'') ls of
        Some l \<Rightarrow> Some l
      | None \<Rightarrow> (case find (\<lambda>l. l_type l = ''WAIT'') ls of
                   Some l \<Rightarrow> Some l
                 | None \<Rightarrow> (case ls of [] \<Rightarrow> None | l # _ \<Rightarrow> Some l)))"

definition resolve :: "zone_info list \<Rightarrow> station_info list \<Rightarrow> string \<Rightarrow> string \<Rightarrow> location_info option" where
  "resolve zones stations goods_id task_type =
     (let target_zone_type = (if task_type = ''LOAD'' then ''LOAD'' else ''UNLOAD'') in
      case find (serves goods_id target_zone_type) zones of
        None \<Rightarrow> None
      | Some zone \<Rightarrow>
          (case find (\<lambda>s. sn_zone_id s = z_id zone) stations of
             None \<Rightarrow> None
           | Some station \<Rightarrow> if sn_locations station = [] then None else work_location (sn_locations station)))"

lemma work_location_member: "work_location ls = Some l \<Longrightarrow> l \<in> set ls"
  by (auto simp: work_location_def dest: find_Some_member split: option.splits list.splits)

lemma work_location_prefers:
  "work_location ls = Some l \<Longrightarrow> \<exists>w\<in>set ls. l_type w = ''WORK'' \<Longrightarrow> l_type l = ''WORK''"
  by (auto simp: work_location_def find_None_iff dest: find_Some_member split: option.splits)

lemma work_location_total: "work_location ls = None \<longleftrightarrow> ls = []"
  by (auto simp: work_location_def split: option.splits list.splits)

lemma find_Some_ex: "(\<exists>x\<in>set xs. P x) \<longleftrightarrow> (\<exists>x. find P xs = Some x)"
  by (induction xs) auto

text \<open>
  Goods are carried to a point of their own zone. When the resolver gives a point, it belongs to
  the first station of the first zone of the required type (LOAD for a task of that type, else UNLOAD;
  upper or lower case) that lists the goods, and is a WORK point whenever the station has one. It gives
  none exactly when there is no such zone, no station of it, or no location of that station.
\<close>

theorem resolve_gives_point_of_zone:
  "case resolve zones stations goods_id task_type of
     Some l \<Rightarrow>
       (\<exists>zone station. find (serves goods_id (if task_type = ''LOAD'' then ''LOAD'' else ''UNLOAD'')) zones = Some zone \<and>
          find (\<lambda>s. sn_zone_id s = z_id zone) stations = Some station \<and> goods_id \<in> set (z_goods_ids zone) \<and>
          l \<in> set (sn_locations station) \<and>
          (l_type l = ''WORK'' \<or> ''WORK'' \<notin> l_type ` set (sn_locations station)))
   | None \<Rightarrow>
       (\<forall>zone station. find (serves goods_id (if task_type = ''LOAD'' then ''LOAD'' else ''UNLOAD'')) zones \<noteq> Some zone \<or>
          find (\<lambda>s. sn_zone_id s = z_id zone) stations \<noteq> Some station \<or> sn_locations station = [])"
proof (cases "resolve zones stations goods_id task_type")
  case None
  then show ?thesis
    by (auto simp: resolve_def work_location_total split: option.splits if_splits)
next
  case (Some l)
  then obtain zone station where
    "find (serves goods_id (if task_type = ''LOAD'' then ''LOAD'' else ''UNLOAD'')) zones = Some zone"
    "find (\<lambda>s. sn_zone_id s = z_id zone) stations = Some station" "work_location (sn_locations station) = Some l"
    by (auto simp: resolve_def split: option.splits if_splits)
  moreover from this(1) have "goods_id \<in> set (z_goods_ids zone)"
    by (auto dest!: find_Some_member simp: serves_def)
  ultimately show ?thesis
    using Some work_location_member work_location_prefers by (fastforce simp: image_iff)
qed

lemma resolve_gives_point_of_zone_witness:
  "\<exists>station. find (\<lambda>s. sn_zone_id s = ''Z1'')
     [\<lparr>sn_id = ''S1'', sn_name = [], sn_zone_id = ''Z1'',
        sn_locations = [\<lparr>l_id = ''a'', l_type = ''WAIT'', l_x = 0, l_y = 0, l_yaw = 0\<rparr>]\<rparr>] = Some station \<and>
     sn_locations station \<noteq> []"
  using resolve_gives_point_of_zone [where goods_id = "''G1''" and task_type = "''LOAD''"
      and zones = "[\<lparr>z_id = ''Z1'', z_name = [], z_type = ''LOAD'', z_goods_ids = [''G1'']\<rparr>]"
      and stations = "[\<lparr>sn_id = ''S1'', sn_name = [], sn_zone_id = ''Z1'',
        sn_locations = [\<lparr>l_id = ''a'', l_type = ''WAIT'', l_x = 0, l_y = 0, l_yaw = 0\<rparr>]\<rparr>]"]
  by (simp add: resolve_def serves_def to_upper_def work_location_def)

end
