(* ===== verification/Behavior.thy ===== *)
theory Behavior
  imports Ros_Messages Zone_Stations
begin

text \<open>
  \<open>amr_behavior_manager/src/amr_behavior_manager_node.cpp\<close>: what a robot does with a task. Each
  callback of the node is a function of the state; it returns what the node publishes or asks of the
  navigation client, in order. The node runs on one thread, so callbacks do not overlap.
\<close>

section \<open>State\<close>

text \<open>
  The timers of \<open>m_one_shot_timers\<close> are wall timers: each fires again and again, and nothing removes
  one from the list.
\<close>

datatype one_shot_timer = Grasp_Timer | Place_Timer

record behavior =
  m_current_task_id :: string
  m_current_warehouse_id :: string
  m_current_task_type :: string
  m_task_state :: string
  m_request_id :: string
  m_waiting_goods_response :: bool
  m_map_ready :: bool
  m_edge_online :: bool
  m_goods_status :: "ros_task_goods_status list"
  m_current_goods :: "task_goods list"
  m_one_shot_timers :: "one_shot_timer list"
  m_goods_point_resolver :: "(zone_info list \<times> station_info list) option"

definition fresh_behavior :: behavior where
  "fresh_behavior = \<lparr>m_current_task_id = [], m_current_warehouse_id = [], m_current_task_type = [],
     m_task_state = ''IDLE'', m_request_id = [], m_waiting_goods_response = False, m_map_ready = False,
     m_edge_online = True, m_goods_status = [], m_current_goods = [], m_one_shot_timers = [],
     m_goods_point_resolver = None\<rparr>"

text \<open>A goal of the navigation: position, and \<open>z\<close> and \<open>w\<close> of the orientation.\<close>

record nav_goal =
  goal_x :: real
  goal_y :: real
  goal_z :: real
  goal_w :: real

datatype behavior_output = Publish task_event | Navigate nav_goal | Cancel_Navigation

text \<open>The parameter \<open>carry_capacity\<close> and the clock that names the requests.\<close>

record behavior_env =
  carry_capacity :: int
  nanoseconds :: int

section \<open>The pieces of the callbacks\<close>

definition task_event_of ::
  "string \<Rightarrow> string \<Rightarrow> task_goods list \<Rightarrow> string \<Rightarrow> string \<Rightarrow> behavior \<Rightarrow> task_event" where
  "task_event_of event_type task_state goods request_id reason b =
     \<lparr>te_event_type = event_type, te_task_id = m_current_task_id b, te_warehouse_id = m_current_warehouse_id b,
       te_task_state = task_state, te_goods = goods, te_request_id = request_id, te_reason = reason\<rparr>"

definition publishTaskEvent ::
  "string \<Rightarrow> string \<Rightarrow> task_goods list \<Rightarrow> string \<Rightarrow> string \<Rightarrow> behavior \<Rightarrow> behavior_output" where
  "publishTaskEvent event_type task_state goods request_id reason b =
     Publish (task_event_of event_type task_state goods request_id reason b)"

definition resetTask :: "behavior \<Rightarrow> behavior" where
  "resetTask b = b\<lparr>m_current_task_id := [], m_current_warehouse_id := [], m_current_task_type := [],
     m_task_state := ''IDLE'', m_goods_status := [], m_current_goods := [], m_request_id := [],
     m_waiting_goods_response := False\<rparr>"

definition makeRequestId :: "behavior_env \<Rightarrow> behavior \<Rightarrow> string" where
  "makeRequestId env b = m_current_task_id b @ ''_'' @ to_string (nanoseconds env)"

definition request_goods :: "behavior_env \<Rightarrow> int \<Rightarrow> ros_task_goods_status \<Rightarrow> behavior \<Rightarrow> behavior_output list \<times> behavior" where
  "request_goods env capacity status b =
     (let requestQuantity = min (gs_pending_quantity status) capacity;
          b1 = b\<lparr>m_request_id := makeRequestId env b\<rparr> in
      ([publishTaskEvent ''GOODS_REQUEST'' ''ACCEPTED''
          [\<lparr>g_goods_id = gs_goods_id status, g_goods_name = gs_goods_name status,
            g_total_quantity = requestQuantity\<rparr>] (m_request_id b1) [] b1],
       b1\<lparr>m_waiting_goods_response := True\<rparr>))"

text \<open>The parameter is read as \<open>int64_t\<close> and kept as \<open>int\<close>.\<close>

definition maybeRequestNextGoods :: "behavior_env \<Rightarrow> behavior \<Rightarrow> behavior_output list \<times> behavior" where
  "maybeRequestNextGoods env b =
     (let capacity = to_int32 (carry_capacity env) in
      if \<not> m_edge_online b then ([], b)
      else if \<not> m_map_ready b then ([], b)
      else if m_task_state b = ''CANCELLED'' \<or> m_task_state b = ''INTERRUPTED'' \<or> m_waiting_goods_response b
      then ([], b)
      else if m_current_task_id b = [] then ([], b)
      else if capacity \<le> 0 then ([], b)
      else case find (\<lambda>status. gs_pending_quantity status > 0) (m_goods_status b) of
             None \<Rightarrow> ([], b)
           | Some status \<Rightarrow> request_goods env capacity status b)"

definition goal_of :: "behavior \<Rightarrow> nav_goal" where
  "goal_of b =
     (case (m_current_goods b, m_goods_point_resolver b) of
        (g # _, Some (zones, stations)) \<Rightarrow>
          (case resolve zones stations (g_goods_id g) (m_current_task_type b) of
             Some l \<Rightarrow> \<lparr>goal_x = l_x l, goal_y = l_y l, goal_z = sin (l_yaw l * (1/2)), goal_w = cos (l_yaw l * (1/2))\<rparr>
           | None \<Rightarrow> \<lparr>goal_x = 0, goal_y = 0, goal_z = 0, goal_w = 1\<rparr>)
      | _ \<Rightarrow> \<lparr>goal_x = 0, goal_y = 0, goal_z = 0, goal_w = 1\<rparr>)"

definition navigateToGoodsDestination :: "behavior \<Rightarrow> behavior_output" where
  "navigateToGoodsDestination b = Navigate (goal_of b)"

definition beginGraspThenNavigate :: "behavior \<Rightarrow> behavior_output list \<times> behavior" where
  "beginGraspThenNavigate b =
     (let b1 = b\<lparr>m_task_state := ''GRASPING''\<rparr> in
      ([publishTaskEvent ''STATUS'' ''GRASPING'' (m_current_goods b1) [] [] b1],
       b1\<lparr>m_one_shot_timers := m_one_shot_timers b1 @ [Grasp_Timer]\<rparr>))"

section \<open>Commands\<close>

definition handleTaskAssign :: "task_command \<Rightarrow> behavior \<Rightarrow> behavior_output list \<times> behavior" where
  "handleTaskAssign cmd b =
     (if \<not> m_map_ready b then ([], b)
      else if m_current_task_id b \<noteq> [] \<and> m_current_task_id b = c_task_id cmd then ([], b)
      else
        let b1 = b\<lparr>m_current_task_id := c_task_id cmd, m_current_warehouse_id := c_warehouse_id cmd,
              m_current_task_type := c_task_type cmd, m_task_state := ''ACCEPTED'', m_goods_status := [],
              m_current_goods := [], m_waiting_goods_response := False\<rparr> in
        ([publishTaskEvent ''TASK_ACCEPTED'' ''ACCEPTED'' [] [] [] b1], b1))"

definition handleTaskCancel :: "task_command \<Rightarrow> behavior \<Rightarrow> behavior_output list \<times> behavior" where
  "handleTaskCancel cmd b =
     (if m_current_task_id b \<noteq> c_task_id cmd then ([], b)
      else
        let b1 = b\<lparr>m_task_state := ''CANCELLED''\<rparr> in
        ([Cancel_Navigation,
          publishTaskEvent ''CARRY_ABORTED'' ''INTERRUPTED'' (m_current_goods b1) [] ''TASK_CANCELLED'' b1],
         resetTask b1))"

definition final_state :: "string \<Rightarrow> bool" where
  "final_state st \<longleftrightarrow> st = ''SUCCEEDED'' \<or> st = ''CANCELLED'' \<or> st = ''FAILED'' \<or> st = ''INTERRUPTED''"

definition handleTaskStateUpdate ::
  "behavior_env \<Rightarrow> task_command \<Rightarrow> behavior \<Rightarrow> behavior_output list \<times> behavior" where
  "handleTaskStateUpdate env cmd b =
     (if c_task_id cmd \<noteq> m_current_task_id b then ([], b)
      else if final_state (c_state cmd) then ([], resetTask (b\<lparr>m_task_state := ''IDLE''\<rparr>))
      else maybeRequestNextGoods env (b\<lparr>m_goods_status := c_goods_status cmd\<rparr>))"

definition handleGoodsResponse :: "task_command \<Rightarrow> behavior \<Rightarrow> behavior_output list \<times> behavior" where
  "handleGoodsResponse cmd b =
     (if c_task_id cmd \<noteq> m_current_task_id b \<or> \<not> m_waiting_goods_response b then ([], b)
      else
        let b1 = b\<lparr>m_waiting_goods_response := False\<rparr> in
        if \<not> c_accepted cmd then ([], b1)
        else beginGraspThenNavigate (b1\<lparr>m_current_goods := c_goods cmd\<rparr>))"

definition handleTaskCommand ::
  "behavior_env \<Rightarrow> task_command \<Rightarrow> behavior \<Rightarrow> behavior_output list \<times> behavior" where
  "handleTaskCommand env cmd b =
     (if c_command_type cmd = ''TASK_ASSIGN'' then handleTaskAssign cmd b
      else if c_command_type cmd = ''TASK_CANCEL'' then handleTaskCancel cmd b
      else if c_command_type cmd = ''TASK_STATE_UPDATE'' then handleTaskStateUpdate env cmd b
      else if c_command_type cmd = ''GOODS_RESPONSE'' then handleGoodsResponse cmd b
      else ([], b))"

section \<open>Navigation, timers and notifications\<close>

definition onNavigationResult :: "bool \<Rightarrow> behavior \<Rightarrow> behavior_output list \<times> behavior" where
  "onNavigationResult succeeded b =
     (if m_task_state b \<noteq> ''TRANSPORTING'' then ([], b)
      else if \<not> succeeded then
        let b1 = b\<lparr>m_task_state := ''INTERRUPTED''\<rparr> in
        ([publishTaskEvent ''CARRY_ABORTED'' ''INTERRUPTED'' (m_current_goods b1) [] ''NAVIGATION_FAILED'' b1], b1)
      else
        let b1 = b\<lparr>m_task_state := ''PLACING''\<rparr> in
        ([publishTaskEvent ''STATUS'' ''PLACING'' (m_current_goods b1) [] [] b1],
         b1\<lparr>m_one_shot_timers := m_one_shot_timers b1 @ [Place_Timer]\<rparr>))"

definition graspTimerCallback :: "behavior \<Rightarrow> behavior_output list \<times> behavior" where
  "graspTimerCallback b =
     (let b1 = b\<lparr>m_task_state := ''TRANSPORTING''\<rparr> in
      ([publishTaskEvent ''STATUS'' ''TRANSPORTING'' (m_current_goods b1) [] [] b1,
        navigateToGoodsDestination b1], b1))"

definition placeTimerCallback :: "behavior_env \<Rightarrow> behavior \<Rightarrow> behavior_output list \<times> behavior" where
  "placeTimerCallback env b =
     (let completed = publishTaskEvent ''CARRY_COMPLETED'' ''TRANSPORTING'' (m_current_goods b) [] [] b;
          b1 = b\<lparr>m_current_goods := []\<rparr> in
      if m_edge_online b1
      then (case maybeRequestNextGoods env (b1\<lparr>m_task_state := ''ACCEPTED''\<rparr>) of (outs, b2) \<Rightarrow> (completed # outs, b2))
      else ([completed], resetTask (b1\<lparr>m_task_state := ''IDLE''\<rparr>)))"

definition publishPeriodicTaskStatus :: "behavior \<Rightarrow> behavior_output list" where
  "publishPeriodicTaskStatus b =
     (if m_current_task_id b = [] then []
      else [publishTaskEvent ''STATUS'' (m_task_state b) (m_current_goods b) [] [] b])"

text \<open>The map notification carries what \<open>ZoneStationLoader::load\<close> makes of its two files.\<close>

definition onMapInfo :: "bool \<Rightarrow> bool \<times> zone_info list \<times> station_info list \<Rightarrow> behavior \<Rightarrow> behavior" where
  "onMapInfo msg_ready loaded b =
     (if \<not> msg_ready then b
      else case loaded of
        (True, zs) \<Rightarrow> b\<lparr>m_goods_point_resolver := Some zs, m_map_ready := True\<rparr>
      | (False, _) \<Rightarrow> b\<lparr>m_map_ready := False\<rparr>)"

definition onEdgeStatus :: "bool \<Rightarrow> behavior \<Rightarrow> behavior" where
  "onEdgeStatus online b = b\<lparr>m_edge_online := online\<rparr>"

definition componentStatus :: "behavior \<Rightarrow> component_state" where
  "componentStatus b =
     (if \<not> m_map_ready b then STATE_INITIALIZING
      else if m_task_state b = ''INTERRUPTED'' then STATE_ERROR
      else if m_task_state b = ''ACCEPTED'' \<or> m_task_state b = ''GRASPING'' \<or>
        m_task_state b = ''TRANSPORTING'' \<or> m_task_state b = ''PLACING'' then STATE_WORKING
      else STATE_IDLE)"

text \<open>The robot status, with the latest pose of the navigation client when it has a valid one.\<close>

record robot_status_msg =
  rsm_robot_id :: string
  rsm_position :: "(real \<times> real) option"
  rsm_executing :: bool
  rsm_battery :: real
  rsm_navigating :: bool
  rsm_current_task_id :: string

definition robotStatus :: "string \<Rightarrow> (real \<times> real) option \<Rightarrow> behavior \<Rightarrow> robot_status_msg" where
  "robotStatus robot_id pose b =
     \<lparr>rsm_robot_id = robot_id, rsm_position = pose, rsm_executing = (m_task_state b = ''TRANSPORTING''),
       rsm_battery = 100, rsm_navigating = (m_task_state b = ''TRANSPORTING''),
       rsm_current_task_id = m_current_task_id b\<rparr>"

section \<open>One callback\<close>

datatype behavior_input =
    Command task_command
  | Navigation_Result bool
  | Timer one_shot_timer
  | Periodic
  | Map_Info bool "bool \<times> zone_info list \<times> station_info list"
  | Edge_Online bool

text \<open>A timer fires only while the list holds it.\<close>

definition behave :: "behavior_env \<Rightarrow> behavior_input \<Rightarrow> behavior \<Rightarrow> behavior_output list \<times> behavior" where
  "behave env input b =
     (case input of
        Command cmd \<Rightarrow> handleTaskCommand env cmd b
      | Navigation_Result ok \<Rightarrow> onNavigationResult ok b
      | Timer t \<Rightarrow>
          if t \<notin> set (m_one_shot_timers b) then ([], b)
          else (case t of Grasp_Timer \<Rightarrow> graspTimerCallback b | Place_Timer \<Rightarrow> placeTimerCallback env b)
      | Periodic \<Rightarrow> (publishPeriodicTaskStatus b, b)
      | Map_Info r l \<Rightarrow> ([], onMapInfo r l b)
      | Edge_Online online \<Rightarrow> ([], onEdgeStatus online b))"

fun behave_run ::
  "(behavior_env \<times> behavior_input) list \<Rightarrow> behavior \<Rightarrow> behavior_output list \<times> behavior" where
  "behave_run [] b = ([], b)"
| "behave_run ((env, input) # rest) b =
     (case behave env input b of (outs, b1) \<Rightarrow> (case behave_run rest b1 of (outs', b2) \<Rightarrow> (outs @ outs', b2)))"

end
