(* ===== verification/Behavior_Rules.thy ===== *)
theory Behavior_Rules
  imports Behavior
begin

text \<open>
  What the behaviour manager promises: its requests for goods, its task states, and what its timers
  and reports do.
\<close>

lemmas behavior_defs =
  handleTaskCommand_def handleTaskAssign_def handleTaskCancel_def handleTaskStateUpdate_def
  handleGoodsResponse_def beginGraspThenNavigate_def onNavigationResult_def graspTimerCallback_def
  placeTimerCallback_def publishPeriodicTaskStatus_def onMapInfo_def onEdgeStatus_def resetTask_def
  navigateToGoodsDestination_def publishTaskEvent_def task_event_of_def Let_def

definition is_request :: "behavior_output \<Rightarrow> bool" where
  "is_request out = (case out of Publish e \<Rightarrow> te_event_type e = ''GOODS_REQUEST'' | _ \<Rightarrow> False)"

lemma is_request_simps [simp]:
  "is_request (Publish e) \<longleftrightarrow> te_event_type e = ''GOODS_REQUEST''"
  "\<not> is_request (Navigate g)" "\<not> is_request Cancel_Navigation"
  by (simp_all add: is_request_def)

section \<open>Requests for goods\<close>

text \<open>What one callback may do to the state, as far as requests are concerned.\<close>

definition request_sent :: "behavior_env \<Rightarrow> task_event \<Rightarrow> behavior \<Rightarrow> bool" where
  "request_sent env e b \<longleftrightarrow>
     m_waiting_goods_response b \<and> m_edge_online b \<and> m_map_ready b \<and> m_current_task_id b \<noteq> [] \<and>
     te_task_id e = m_current_task_id b \<and> te_request_id e = m_request_id b \<and>
     te_request_id e = makeRequestId env b \<and>
     (\<exists>s q. s \<in> set (m_goods_status b) \<and>
        te_goods e = [\<lparr>g_goods_id = gs_goods_id s, g_goods_name = gs_goods_name s, g_total_quantity = q\<rparr>] \<and>
        0 < q \<and> q \<le> gs_pending_quantity s \<and> q \<le> to_int32 (carry_capacity env))"

lemma maybe_request_cases:
  assumes "maybeRequestNextGoods env b = (outs, b')"
  shows "(outs = [] \<and> b' = b) \<or>
    (\<exists>e. outs = [Publish e] \<and> te_event_type e = ''GOODS_REQUEST'' \<and> \<not> m_waiting_goods_response b \<and>
       request_sent env e b' \<and> m_current_task_id b' = m_current_task_id b \<and> m_task_state b' = m_task_state b \<and>
       m_one_shot_timers b' = m_one_shot_timers b)"
proof (cases "outs = [] \<and> b' = b")
  case False
  then obtain s where s: "find (\<lambda>status. gs_pending_quantity status > 0) (m_goods_status b) = Some s"
    and guards: "m_edge_online b" "m_map_ready b" "\<not> m_waiting_goods_response b" "m_current_task_id b \<noteq> []"
      "0 < to_int32 (carry_capacity env)"
    and run: "request_goods env (to_int32 (carry_capacity env)) s b = (outs, b')"
    using assms by (auto simp: maybeRequestNextGoods_def Let_def split: if_splits option.splits)
  have "s \<in> set (m_goods_status b)" "0 < gs_pending_quantity s" using find_Some_member [OF s] by simp_all
  with guards run show ?thesis
    by (auto simp: request_goods_def request_sent_def makeRequestId_def publishTaskEvent_def task_event_of_def Let_def
        intro!: exI [of _ s])
qed simp

lemma behave_requests:
  assumes "behave env input b = (outs, b')"
  shows "filter is_request outs = [] \<or>
    (\<exists>e. filter is_request outs = [Publish e] \<and> \<not> m_waiting_goods_response b \<and> request_sent env e b')"
proof -
  have from_maybe: "filter is_request os = [] \<or>
      (\<exists>e. filter is_request os = [Publish e] \<and> \<not> m_waiting_goods_response c \<and> request_sent env e c')"
    if "maybeRequestNextGoods env c = (os, c')" for c os c'
    using maybe_request_cases [OF that] by auto
  show ?thesis
    using assms from_maybe
    by (cases input)
      (fastforce simp: behave_def behavior_defs split: if_splits one_shot_timer.splits bool.splits prod.splits)+
qed


definition sample_goods_status :: ros_task_goods_status where
  "sample_goods_status = \<lparr>gs_goods_id = ''G1'', gs_goods_name = ''box'', gs_total_quantity = 30,
     gs_in_progress_quantity = 0, gs_completed_quantity = 0, gs_pending_quantity = 30\<rparr>"

definition sample_behavior_env :: behavior_env where
  "sample_behavior_env = \<lparr>carry_capacity = 10, nanoseconds = 7\<rparr>"

definition sample_behavior :: behavior where
  "sample_behavior = fresh_behavior\<lparr>m_current_task_id := ''T1'', m_task_state := ''ACCEPTED'', m_map_ready := True\<rparr>"

definition sample_update :: task_command where
  "sample_update = empty_command\<lparr>c_command_type := ''TASK_STATE_UPDATE'', c_task_id := ''T1'',
     c_state := ''RUNNING'', c_goods_status := [sample_goods_status]\<rparr>"

lemma sample_update_run:
  "\<exists>e b'. behave sample_behavior_env (Command sample_update) sample_behavior = ([Publish e], b') \<and>
     te_event_type e = ''GOODS_REQUEST'' \<and> m_waiting_goods_response b' \<and> m_current_task_id b' = ''T1''"
  by (simp add: behave_def behavior_defs sample_update_def sample_behavior_def fresh_behavior_def empty_command_def
      final_state_def maybeRequestNextGoods_def request_goods_def sample_goods_status_def sample_behavior_env_def)


section \<open>One request at a time\<close>

definition is_command :: "behavior_input \<Rightarrow> bool" where
  "is_command input = (case input of Command _ \<Rightarrow> True | _ \<Rightarrow> False)"

definition held_back :: "behavior \<Rightarrow> bool" where
  "held_back b \<longleftrightarrow> m_waiting_goods_response b \<or> m_current_task_id b = []"

lemma held_back_step:
  assumes "behave env input b = (outs, b')" and "held_back b" and "\<not> is_command input"
  shows "filter is_request outs = [] \<and> held_back b'"
proof -
  have maybe: "maybeRequestNextGoods env c = ([], c)" if "held_back c" for c
    using that by (auto simp: maybeRequestNextGoods_def held_back_def Let_def)
  have kept: "held_back (b\<lparr>m_current_goods := [], m_task_state := ''ACCEPTED''\<rparr>)" using assms(2) by (simp add: held_back_def)
  show ?thesis
    using assms maybe [OF kept]
    by (cases input)
      (auto simp: behave_def behavior_defs held_back_def is_command_def split: if_splits one_shot_timer.splits bool.splits prod.splits)
qed

lemma held_back_run:
  "held_back b \<Longrightarrow> list_all (\<lambda>(env, input). \<not> is_command input) run \<Longrightarrow>
    filter is_request (fst (behave_run run b)) = [] \<and> held_back (snd (behave_run run b))"
proof (induction run arbitrary: b)
  case (Cons step run)
  obtain env input where step: "step = (env, input)" by fastforce
  obtain outs b1 where one: "behave env input b = (outs, b1)" by fastforce
  have "filter is_request outs = [] \<and> held_back b1"
    using held_back_step [OF one] Cons.prems step by simp
  with Cons.IH [of b1] Cons.prems(2) step one show ?case by (simp add: split_beta)
qed simp

text \<open>
  A robot does not ask twice. Once it waits for the answer to a request, no sequence of timers,
  navigation results, periodic reports, map or edge notifications makes it publish another one: only a
  command (the answer, a new assignment, a cancellation or a state update) can lead to the next request.
\<close>

theorem no_second_request_while_waiting:
  assumes "m_waiting_goods_response b" and "list_all (\<lambda>(env, input). \<not> is_command input) run"
  shows "\<not> list_ex is_request (fst (behave_run run b))"
  using held_back_run [of b run] assms
  by (simp add: held_back_def list_ex_iff filter_empty_conv)

lemma no_second_request_while_waiting_witness:
  "\<not> list_ex is_request (fst (behave_run
     [(sample_behavior_env, Periodic), (sample_behavior_env, Timer Place_Timer), (sample_behavior_env, Edge_Online True)]
     (fresh_behavior\<lparr>m_waiting_goods_response := True, m_current_task_id := ''T1''\<rparr>)))"
  by (rule no_second_request_while_waiting) (simp_all add: is_command_def)

section \<open>Reports\<close>

definition names_request :: "behavior_output \<Rightarrow> bool" where
  "names_request out = (case out of Publish e \<Rightarrow> te_request_id e \<noteq> [] | _ \<Rightarrow> False)"

lemma behave_report_ids:
  assumes "behave env input b = (outs, b')" and "out \<in> set outs" and "names_request out"
  shows "is_request out"
proof -
  have maybe: "is_request out" if "maybeRequestNextGoods env c = (os, c')" "out \<in> set os" for c os c'
    using maybe_request_cases [OF that(1)] that(2) by auto
  show ?thesis
    using assms maybe
    by (cases input)
      (auto simp: behave_def behavior_defs names_request_def split: if_splits one_shot_timer.splits bool.splits prod.splits)
qed

lemma behave_run_report_ids:
  assumes "out \<in> set (fst (behave_run run b))" and "names_request out"
  shows "is_request out"
  using assms
proof (induction run arbitrary: b)
  case (Cons step run)
  obtain env input where step: "step = (env, input)" by fastforce
  obtain outs b1 where one: "behave env input b = (outs, b1)" by fastforce
  from Cons.prems(1) have "out \<in> set outs \<or> out \<in> set (fst (behave_run run b1))"
    by (auto simp: step one split_beta)
  then show ?case using behave_report_ids [OF one] Cons.IH Cons.prems(2) by blast
qed simp

text \<open>
  No report names the request it is about. In every run, whatever the node publishes other than a
  request for goods, the reports of a completed or an aborted carry included, has an empty request id.
\<close>

theorem reports_name_no_request:
  "\<forall>e. Publish e \<in> set (fst (behave_run run b)) \<longrightarrow> te_event_type e \<noteq> ''GOODS_REQUEST'' \<longrightarrow> te_request_id e = []"
  using behave_run_report_ids [of _ run b] by (fastforce simp: names_request_def)

lemma reports_name_no_request_witness:
  "Publish \<lparr>te_event_type = ''CARRY_COMPLETED'', te_task_id = ''T1'', te_warehouse_id = [],
       te_task_state = ''TRANSPORTING'', te_goods = [], te_request_id = ''r1'', te_reason = []\<rparr> \<notin>
     set (fst (behave_run [(sample_behavior_env, Timer Place_Timer)] (sample_behavior\<lparr>m_one_shot_timers := [Place_Timer]\<rparr>)))"
  using reports_name_no_request [of "[(sample_behavior_env, Timer Place_Timer)]" "sample_behavior\<lparr>m_one_shot_timers := [Place_Timer]\<rparr>"]
  by fastforce

section \<open>Task states and timers\<close>

text \<open>The states between callbacks, and the invariant of the node.\<close>

definition known_state :: "string \<Rightarrow> bool" where
  "known_state st \<longleftrightarrow> st \<in> {''IDLE'', ''ACCEPTED'', ''GRASPING'', ''TRANSPORTING'', ''PLACING'', ''INTERRUPTED''}"

definition needed_timer :: "string \<Rightarrow> one_shot_timer set" where
  "needed_timer st =
     (if st = ''GRASPING'' \<or> st = ''TRANSPORTING'' then {Grasp_Timer}
      else if st = ''PLACING'' then {Place_Timer} else {})"

definition may_move :: "string \<Rightarrow> string \<Rightarrow> bool" where
  "may_move st st' \<longleftrightarrow> (st' \<in> {''PLACING'', ''INTERRUPTED''} \<and> st' \<noteq> st \<longrightarrow> st = ''TRANSPORTING'')"

lemma task_state_simps [simp]:
  "known_state ''IDLE''" "known_state ''ACCEPTED''" "known_state ''GRASPING''" "known_state ''TRANSPORTING''"
  "known_state ''PLACING''" "known_state ''INTERRUPTED''"
  "needed_timer ''IDLE'' = {}" "needed_timer ''ACCEPTED'' = {}" "needed_timer ''GRASPING'' = {Grasp_Timer}"
  "needed_timer ''TRANSPORTING'' = {Grasp_Timer}" "needed_timer ''PLACING'' = {Place_Timer}"
  "needed_timer ''INTERRUPTED'' = {}"
  "may_move st st" "may_move st ''IDLE''" "may_move st ''ACCEPTED''" "may_move st ''GRASPING''"
  "may_move st ''TRANSPORTING''" "may_move ''TRANSPORTING'' st"
  by (simp_all add: known_state_def needed_timer_def may_move_def)

definition behavior_ok :: "behavior \<Rightarrow> bool" where
  "behavior_ok b \<longleftrightarrow>
     known_state (m_task_state b) \<and> needed_timer (m_task_state b) \<subseteq> set (m_one_shot_timers b) \<and>
     (m_waiting_goods_response b \<longrightarrow> m_current_task_id b \<noteq> [] \<and> m_request_id b \<noteq> []) \<and>
     (m_map_ready b \<longrightarrow> m_goods_point_resolver b \<noteq> None)"

definition keeps :: "behavior \<Rightarrow> behavior \<Rightarrow> bool" where
  "keeps b b' \<longleftrightarrow> behavior_ok b' \<and> may_move (m_task_state b) (m_task_state b') \<and>
     set (m_one_shot_timers b) \<subseteq> set (m_one_shot_timers b')"

lemmas keeps_defs = keeps_def behavior_ok_def

lemma maybe_keeps:
  assumes "maybeRequestNextGoods env b = (outs, b')" and "behavior_ok b"
  shows "behavior_ok b' \<and> m_task_state b' = m_task_state b \<and> m_one_shot_timers b' = m_one_shot_timers b"
proof -
  have res: "m_goods_point_resolver b' = m_goods_point_resolver b \<and> m_map_ready b' = m_map_ready b"
    using assms(1) by (auto simp: maybeRequestNextGoods_def request_goods_def Let_def split: if_splits option.splits)
  show ?thesis
    using maybe_request_cases [OF assms(1)] assms(2) res
    by (auto simp: behavior_ok_def request_sent_def makeRequestId_def)
qed

lemma assign_keeps: "handleTaskAssign cmd b = (outs, b') \<Longrightarrow> behavior_ok b \<Longrightarrow> keeps b b'"
  by (auto simp: handleTaskAssign_def keeps_defs Let_def split: if_splits)

lemma cancel_keeps: "handleTaskCancel cmd b = (outs, b') \<Longrightarrow> behavior_ok b \<Longrightarrow> keeps b b'"
  by (auto simp: handleTaskCancel_def resetTask_def keeps_defs Let_def split: if_splits)

lemma update_keeps:
  assumes "handleTaskStateUpdate env cmd b = (outs, b')" and "behavior_ok b"
  shows "keeps b b'"
proof (cases "c_task_id cmd = m_current_task_id b \<and> \<not> final_state (c_state cmd)")
  case True
  with assms(1) have run: "maybeRequestNextGoods env (b\<lparr>m_goods_status := c_goods_status cmd\<rparr>) = (outs, b')"
    by (simp add: handleTaskStateUpdate_def)
  have "behavior_ok (b\<lparr>m_goods_status := c_goods_status cmd\<rparr>)" using assms(2) by (simp add: behavior_ok_def)
  from maybe_keeps [OF run this] show ?thesis by (simp add: keeps_def)
next
  case False
  with assms show ?thesis
    by (auto simp: handleTaskStateUpdate_def resetTask_def keeps_defs split: if_splits)
qed

lemma response_keeps: "handleGoodsResponse cmd b = (outs, b') \<Longrightarrow> behavior_ok b \<Longrightarrow> keeps b b'"
  by (auto simp: handleGoodsResponse_def beginGraspThenNavigate_def keeps_defs Let_def split: if_splits)

lemma command_keeps: "handleTaskCommand env cmd b = (outs, b') \<Longrightarrow> behavior_ok b \<Longrightarrow> keeps b b'"
  unfolding handleTaskCommand_def
  by (auto split: if_splits intro: assign_keeps cancel_keeps update_keeps response_keeps)
    (simp add: keeps_def)

lemma navigation_keeps: "onNavigationResult ok b = (outs, b') \<Longrightarrow> behavior_ok b \<Longrightarrow> keeps b b'"
  by (auto simp: onNavigationResult_def keeps_defs Let_def split: if_splits)

lemma place_keeps:
  assumes "placeTimerCallback env b = (outs, b')" and "behavior_ok b"
  shows "keeps b b'"
proof (cases "m_edge_online b")
  case True
  let ?b1 = "b\<lparr>m_current_goods := [], m_task_state := ''ACCEPTED''\<rparr>"
  obtain os where run: "maybeRequestNextGoods env ?b1 = (os, b')"
    using assms(1) True by (auto simp: placeTimerCallback_def Let_def split: prod.splits)
  have "behavior_ok ?b1" using assms(2) by (simp add: behavior_ok_def)
  from maybe_keeps [OF run this] show ?thesis by (simp add: keeps_def)
next
  case False
  with assms show ?thesis by (auto simp: placeTimerCallback_def resetTask_def keeps_defs Let_def)
qed

lemma behave_keeps:
  assumes "behave env input b = (outs, b')" and "behavior_ok b"
  shows "keeps b b'"
proof (cases input)
  case (Command cmd)
  with assms show ?thesis by (simp add: behave_def command_keeps)
next
  case (Navigation_Result ok)
  with assms show ?thesis by (simp add: behave_def navigation_keeps)
next
  case (Timer t)
  then consider (gone) "b' = b" | (grasp) "t = Grasp_Timer" "t \<in> set (m_one_shot_timers b)" "graspTimerCallback b = (outs, b')"
    | (place) "placeTimerCallback env b = (outs, b')"
    using assms(1) by (cases t) (auto simp: behave_def split: if_splits)
  then show ?thesis
  proof cases
    case gone
    with assms(2) show ?thesis by (simp add: keeps_def)
  next
    case grasp
    with assms(2) show ?thesis by (auto simp: graspTimerCallback_def keeps_defs Let_def)
  next
    case place
    then show ?thesis using place_keeps assms(2) by blast
  qed
next
  case (Map_Info r l)
  with assms show ?thesis by (cases l) (auto simp: behave_def onMapInfo_def keeps_defs split: if_splits bool.splits)
qed (use assms in \<open>auto simp: behave_def onEdgeStatus_def keeps_defs\<close>)

inductive behavior_step :: "behavior \<Rightarrow> behavior \<Rightarrow> bool" where
  callback: "behave env input b = (outs, b') \<Longrightarrow> behavior_step b b'"

inductive_cases behavior_stepE: "behavior_step b b'"

interpretation behaviors: stepping "\<lambda>b. b = fresh_behavior" behavior_step behavior_ok
proof
  fix b :: behavior
  assume "b = fresh_behavior"
  then show "behavior_ok b" by (simp add: behavior_ok_def fresh_behavior_def)
next
  fix b b'
  assume "behavior_ok b" and "behavior_step b b'"
  then show "behavior_ok b'" by (auto elim!: behavior_stepE dest: behave_keeps simp: keeps_def)
qed

definition sample_assign :: task_command where
  "sample_assign = empty_command\<lparr>c_command_type := ''TASK_ASSIGN'', c_task_id := ''T1''\<rparr>"

definition sample_grant :: task_command where
  "sample_grant = empty_command\<lparr>c_command_type := ''GOODS_RESPONSE'', c_task_id := ''T1'', c_accepted := True\<rparr>"

lemma run_is_steps: "behavior_step\<^sup>*\<^sup>* b (snd (behave_run run b))"
proof (induction run arbitrary: b)
  case (Cons step run)
  obtain env input where step: "step = (env, input)" by fastforce
  obtain outs b1 where one: "behave env input b = (outs, b1)" by fastforce
  have "behavior_step\<^sup>*\<^sup>* b (snd (behave_run run b1))"
    using callback [OF one] Cons.IH [of b1] by (rule converse_rtranclp_into_rtranclp)
  then show ?case by (simp add: step one split_beta)
qed simp



section \<open>Timers go on\<close>

lemma behave_run_timers:
  "behavior_ok b \<Longrightarrow> set (m_one_shot_timers b) \<subseteq> set (m_one_shot_timers (snd (behave_run run b)))"
proof (induction run arbitrary: b)
  case (Cons step run)
  obtain env input where step: "step = (env, input)" by fastforce
  obtain outs b1 where one: "behave env input b = (outs, b1)" by fastforce
  from behave_keeps [OF one Cons.prems] have "behavior_ok b1" "set (m_one_shot_timers b) \<subseteq> set (m_one_shot_timers b1)"
    by (simp_all add: keeps_def)
  with Cons.IH [of b1] step one show ?case by (auto simp: split_beta)
qed simp

lemma granted_sets_timer:
  assumes "behave env (Command cmd) b = (outs, b1)" and "c_command_type cmd = ''GOODS_RESPONSE''"
    and "c_task_id cmd = m_current_task_id b" and "m_waiting_goods_response b" and "c_accepted cmd"
  shows "Grasp_Timer \<in> set (m_one_shot_timers b1)"
  using assms by (auto simp: behave_def handleTaskCommand_def handleGoodsResponse_def beginGraspThenNavigate_def Let_def)

text \<open>
  A granted carry starts over for ever. Once a robot, in any state that it can reach, has been
  granted goods, then whatever happens afterwards (the carry completed, the task cancelled, another one
  assigned) the timer of the grasp can fire again: it declares the robot to be transporting and sends it
  to a goal, with or without a task, and the timer stays in place for the next round.
\<close>

theorem granted_carry_starts_over:
  assumes "behavior_step\<^sup>*\<^sup>* fresh_behavior b" and "behave env (Command cmd) b = (outs, b1)"
    and "c_command_type cmd = ''GOODS_RESPONSE''" and "c_task_id cmd = m_current_task_id b"
    and "m_waiting_goods_response b" and "c_accepted cmd" and "behave_run run b1 = (outs', b2)"
  shows "behave env' (Timer Grasp_Timer) b2 =
    ([Publish (task_event_of ''STATUS'' ''TRANSPORTING'' (m_current_goods b2) [] [] b2), Navigate (goal_of b2)],
     b2\<lparr>m_task_state := ''TRANSPORTING''\<rparr>) \<and>
    Grasp_Timer \<in> set (m_one_shot_timers b2)"
proof -
  have "behavior_ok b1"
    using behave_keeps [OF assms(2) behaviors.reached [OF refl assms(1)]] by (simp add: keeps_def)
  from behave_run_timers [OF this, of run] have "Grasp_Timer \<in> set (m_one_shot_timers b2)"
    using granted_sets_timer [OF assms(2-6)] assms(7) by auto
  then show ?thesis
    by (simp add: behave_def graspTimerCallback_def publishTaskEvent_def task_event_of_def navigateToGoodsDestination_def
        goal_of_def Let_def cong: list.case_cong option.case_cong)
qed

text \<open>A robot that is granted goods, then cancelled: without a task, it is sent to the origin.\<close>

lemma granted_carry_starts_over_witness:
  "\<exists>b2. m_current_task_id b2 = [] \<and>
     fst (behave sample_behavior_env (Timer Grasp_Timer) b2) =
       [Publish (task_event_of ''STATUS'' ''TRANSPORTING'' [] [] [] b2), Navigate \<lparr>goal_x = 0, goal_y = 0, goal_z = 0, goal_w = 1\<rparr>]"
proof -
  let ?cancel = "empty_command\<lparr>c_command_type := ''TASK_CANCEL'', c_task_id := ''T1''\<rparr>"
  define b where "b = snd (behave_run [(sample_behavior_env, Map_Info True (True, [], [])),
      (sample_behavior_env, Command sample_assign), (sample_behavior_env, Command sample_update)] fresh_behavior)"
  have b: "m_current_task_id b = ''T1'' \<and> m_waiting_goods_response b"
    by (simp add: b_def behave_def behavior_defs sample_assign_def sample_update_def fresh_behavior_def empty_command_def
        final_state_def maybeRequestNextGoods_def request_goods_def sample_goods_status_def sample_behavior_env_def)
  obtain outs b1 where grant: "behave sample_behavior_env (Command sample_grant) b = (outs, b1)" by fastforce
  obtain outs' b2 where cancel: "behave_run [(sample_behavior_env, Command ?cancel)] b1 = (outs', b2)" by fastforce
  have "behavior_step\<^sup>*\<^sup>* fresh_behavior b" unfolding b_def by (rule run_is_steps)
  from granted_carry_starts_over [OF this grant _ _ _ _ cancel, of sample_behavior_env]
  have fires: "fst (behave sample_behavior_env (Timer Grasp_Timer) b2) =
      [Publish (task_event_of ''STATUS'' ''TRANSPORTING'' (m_current_goods b2) [] [] b2), Navigate (goal_of b2)]"
    using b by (simp add: sample_grant_def empty_command_def)
  have "m_current_task_id b1 = ''T1''"
    using grant b by (auto simp: behave_def handleTaskCommand_def handleGoodsResponse_def beginGraspThenNavigate_def
        sample_grant_def empty_command_def Let_def)
  then have "m_current_task_id b2 = []" "m_current_goods b2 = []"
    using cancel by (auto simp: behave_def handleTaskCommand_def handleTaskCancel_def resetTask_def empty_command_def Let_def)
  with fires show ?thesis by (intro exI [of _ b2]) (simp add: goal_of_def)
qed

end
