(* ===== verification/Agent_Node.thy ===== *)
theory Agent_Node
  imports Agent_Codec Task_Bridge Mqtt_Router
begin

text \<open>
  \<open>amr_agent/src/amr_agent_node.cpp\<close>, \<open>communication/edge_communication.cpp\<close> and
  \<open>mqtt/mqtt_message_router.cpp\<close>: registration, the aggregated robot status, and which handler an
  incoming message reaches. The map manager is a parameter (\<open>isReady()\<close> after it has seen the answer).
\<close>

section \<open>State\<close>

record agent_node =
  n_robot_id :: string
  n_warehouse_id :: string
  n_map_version :: string
  n_initial_pose :: "real \<times> real \<times> real"
  n_initial_pose_published :: bool
  n_registered :: bool
  n_map_ready :: bool
  n_edge_online :: bool
  n_nav_state :: int
  n_behavior_state :: int

text \<open>What \<open>AmrAgentNode::init\<close> makes of the bootstrap information.\<close>

definition agent_of_bootstrap :: "bootstrap_info \<Rightarrow> agent_node" where
  "agent_of_bootstrap info = \<lparr>n_robot_id = b_robot_id info, n_warehouse_id = b_warehouse_id info,
     n_map_version = mc_version (b_map info),
     n_initial_pose = (b_initial_x info, b_initial_y info, b_initial_yaw info),
     n_initial_pose_published = False, n_registered = False, n_map_ready = False, n_edge_online = False,
     n_nav_state = state_value STATE_INITIALIZING, n_behavior_state = state_value STATE_INITIALIZING\<rparr>"

text \<open>Messages to the edge server, and what the node publishes to the other nodes of the robot.\<close>

datatype agent_output =
    To_Edge string json
  | Edge_Status bool
  | Initial_Pose "real \<times> real \<times> real"

section \<open>Messages to the edge server\<close>

text \<open>\<open>getCurrentTimeMs()\<close> is read twice.\<close>

definition register_request_json :: "int \<Rightarrow> int \<Rightarrow> agent_node \<Rightarrow> json" where
  "register_request_json ms1 ms2 a = JObj
     [(''robot_id'', JStr (n_robot_id a)), (''warehouse_id'', JStr (n_warehouse_id a)),
      (''map_version'', JStr (n_map_version a)),
      (''request_id'', JStr (n_robot_id a @ ''_'' @ to_string ms1)), (''timestamp'', JInt ms2)]"

definition sendRegisterRequest :: "int \<Rightarrow> int \<Rightarrow> agent_node \<Rightarrow> agent_output" where
  "sendRegisterRequest ms1 ms2 a = To_Edge ROBOT_REGISTER_REQ (register_request_json ms1 ms2 a)"

definition aggregated_state :: "agent_node \<Rightarrow> string" where
  "aggregated_state a = amrStateToString (cast_to_uint8 (min (n_nav_state a) (n_behavior_state a)))"

definition robot_status_json :: "int \<Rightarrow> agent_node \<Rightarrow> json" where
  "robot_status_json ms a = JObj
     [(''robot_id'', JStr (n_robot_id a)), (''state'', JStr (aggregated_state a)), (''online'', JBool True),
      (''battery'', JReal 100),
      (''pose'', JObj [(''x'', JReal 0), (''y'', JReal 0), (''yaw'', JReal 0)]),
      (''task_id'', JStr []), (''timestamp'', JInt ms)]"

definition publishRobotStatus :: "int \<Rightarrow> agent_node \<Rightarrow> agent_output" where
  "publishRobotStatus ms a = To_Edge (makeRobotStatusTopic (n_robot_id a)) (robot_status_json ms a)"

text \<open>The last will that the MQTT broker sends for a robot that disappears.\<close>

definition will_message :: "agent_node \<Rightarrow> string \<times> json" where
  "will_message a = (makeRobotWillTopic (n_robot_id a), JObj [(''status'', JStr ''offline'')])"

section \<open>Callbacks and timers\<close>

definition publishInitialPoseIfReady :: "bool \<Rightarrow> agent_node \<Rightarrow> agent_output list \<times> agent_node" where
  "publishInitialPoseIfReady map_is_ready a =
     (if n_initial_pose_published a \<or> \<not> map_is_ready then ([], a)
      else ([Initial_Pose (n_initial_pose a)], a\<lparr>n_initial_pose_published := True\<rparr>))"

definition onRegisterResponse ::
  "bool \<Rightarrow> int \<Rightarrow> agent_register_response \<Rightarrow> agent_node \<Rightarrow> agent_output list \<times> agent_node" where
  "onRegisterResponse map_is_ready ms response a =
     (let a1 = (if ar_code response = 0 then a\<lparr>n_registered := True\<rparr> else a);
          a2 = (if ar_has_initial_pose response
                then a1\<lparr>n_initial_pose := (ar_initial_x response, ar_initial_y response, ar_initial_yaw response)\<rparr>
                else a1);
          a3 = a2\<lparr>n_map_ready := map_is_ready\<rparr> in
      if map_is_ready
      then (case publishInitialPoseIfReady map_is_ready a3 of (outs, a4) \<Rightarrow> (outs @ [publishRobotStatus ms a4], a4))
      else ([], a3))"

definition onEdgeStatusMessage :: "int \<Rightarrow> int \<Rightarrow> bool \<Rightarrow> agent_node \<Rightarrow> agent_output list \<times> agent_node" where
  "onEdgeStatusMessage ms1 ms2 online a =
     (let a1 = a\<lparr>n_edge_online := online\<rparr> in
      if online \<and> \<not> n_edge_online a
      then let a2 = a1\<lparr>n_registered := False\<rparr> in ([Edge_Status online, sendRegisterRequest ms1 ms2 a2], a2)
      else ([Edge_Status online], a1))"

definition register_timer :: "int \<Rightarrow> int \<Rightarrow> agent_node \<Rightarrow> agent_output list" where
  "register_timer ms1 ms2 a = (if \<not> n_registered a then [sendRegisterRequest ms1 ms2 a] else [])"

definition heartbeat_timer :: "int \<Rightarrow> agent_node \<Rightarrow> agent_output list" where
  "heartbeat_timer ms a = (if n_registered a then [publishRobotStatus ms a] else [])"

definition on_navigation_status :: "int \<Rightarrow> agent_node \<Rightarrow> agent_node" where
  "on_navigation_status s a = a\<lparr>n_nav_state := s\<rparr>"

definition on_behavior_status :: "int \<Rightarrow> agent_node \<Rightarrow> agent_node" where
  "on_behavior_status s a = a\<lparr>n_behavior_state := s\<rparr>"

section \<open>Routing\<close>

text \<open>The router of the agent looks the topic up and knows no wildcards.\<close>

datatype agent_handler =
    edgeSvrStatusHandler | robotRegisterRespHandler | amrTaskHandler | taskStateHandler
  | goodsResponseHandler | statusAckHandler

definition agent_handlers :: "string \<Rightarrow> string \<Rightarrow> (string \<times> agent_handler) list" where
  "agent_handlers robot_id warehouse_id =
     registerHandler (makeAmrTaskStatusAckTopic robot_id) statusAckHandler
    (registerHandler (makeAmrTaskGoodsResponseTopic robot_id) goodsResponseHandler
    (registerHandler (makeWarehouseTaskStateTopic warehouse_id ''+'') taskStateHandler
    (registerHandler (makeAmrTaskTopic robot_id) amrTaskHandler
    (registerHandler (ROBOT_REGISTER_RSP_PREFIX @ robot_id) robotRegisterRespHandler
    (registerHandler EDGE_SERVER_STATUS edgeSvrStatusHandler [])))))"

definition agentRouter :: "(string \<times> agent_handler) list \<Rightarrow> string \<Rightarrow> agent_handler option" where
  "agentRouter handlers topic = map_of handlers topic"

text \<open>
  One message handled by the agent: what it publishes, a command for the behaviour manager, the state
  of the node and the file of pending reports.
\<close>

record agent_env =
  map_manager_ready :: bool
  now1 :: int
  now2 :: int
  ack_disk :: disk

definition agent_consume ::
  "agent_env \<Rightarrow> string \<times> json option \<Rightarrow> agent_node \<times> pending_file
   \<Rightarrow> agent_output list \<times> task_command option \<times> agent_node \<times> pending_file" where
  "agent_consume env tm st =
     (let (topic, msg) = tm; (a, file) = st in
      case agentRouter (agent_handlers (n_robot_id a) (n_warehouse_id a)) topic of
        None \<Rightarrow> ([], None, a, file)
      | Some edgeSvrStatusHandler \<Rightarrow>
          (case decodeEdgeSvrStatus msg of
             None \<Rightarrow> ([], None, a, file)
           | Some online \<Rightarrow> (case onEdgeStatusMessage (now1 env) (now2 env) online a of (outs, a') \<Rightarrow> (outs, None, a', file)))
      | Some robotRegisterRespHandler \<Rightarrow>
          (case decodeRobotRegisterResp msg of
             None \<Rightarrow> ([], None, a, file)
           | Some resp \<Rightarrow>
               (case onRegisterResponse (map_manager_ready env) (now1 env) resp a of (outs, a') \<Rightarrow> (outs, None, a', file)))
      | Some amrTaskHandler \<Rightarrow> ([], onAmrTaskMessage (n_warehouse_id a) msg, a, file)
      | Some taskStateHandler \<Rightarrow> ([], onTaskStateMessage msg, a, file)
      | Some goodsResponseHandler \<Rightarrow> ([], onGoodsResponseMessage msg, a, file)
      | Some statusAckHandler \<Rightarrow> ([], None, a, onStatusAckMessage (ack_disk env) msg file))"

lemma agent_consume_identity:
  "agent_consume env tm (a, file) = (outs, cmd, a', file') \<Longrightarrow>
    n_robot_id a' = n_robot_id a \<and> n_warehouse_id a' = n_warehouse_id a"
  by (cases tm)
    (auto simp: agent_consume_def onEdgeStatusMessage_def onRegisterResponse_def publishInitialPoseIfReady_def Let_def
      split: option.splits agent_handler.splits if_splits prod.splits)

lemma task_state_topic_unknown:
  assumes "CHR ''+'' \<notin> set topic"
  shows "agentRouter (agent_handlers robot_id warehouse_id) topic \<noteq> Some taskStateHandler"
proof
  assume "agentRouter (agent_handlers robot_id warehouse_id) topic = Some taskStateHandler"
  then have "topic = makeWarehouseTaskStateTopic warehouse_id ''+''"
    by (auto simp: agentRouter_def agent_handlers_def registerHandler_def update_conv' split: if_splits)
  with assms show False by (simp add: makeWarehouseTaskStateTopic_def)
qed

end
