(* ===== verification/Agent_Rules.thy ===== *)
theory Agent_Rules
  imports Agent_Node
begin

text \<open>What the agent promises about the reports it could not publish.\<close>

section \<open>Pending reports over time\<close>

lemma map_result_get_string: "map_result get_string xs = Inr ys \<Longrightarrow> xs = map JStr ys"
proof (induction xs arbitrary: ys)
  case (Cons x xs)
  from Cons.prems obtain y ys' where "get_string x = Inr y" "map_result get_string xs = Inr ys'" "ys = y # ys'"
    by (auto simp: bind_result_Inr_iff)
  moreover from this(1) have "x = JStr y" by (cases x) (simp_all add: get_string_def)
  ultimately show ?case using Cons.IH by simp
qed simp

lemma ack_keeps_others:
  assumes "r \<in> set (load file)" and "\<not> acknowledges (Ack d payload) (pr_message_id r)"
  shows "r \<in> set (load (onStatusAckMessage d payload file))"
proof (cases "bind_result (parse payload) (\<lambda>doc. map_result get_string (array_items doc ''acked_message_ids''))")
  case (Inl e)
  with assms(1) show ?thesis by (simp add: onStatusAckMessage_def)
next
  case (Inr acked)
  then obtain doc where doc: "payload = Some doc" "map_result get_string (array_items doc ''acked_message_ids'') = Inr acked"
    by (cases payload) auto
  then have "pr_message_id r \<notin> set acked"
    using assms(2) map_result_get_string [OF doc(2)] by (auto simp: acknowledges_def)
  then have "r \<in> set (load file')" if "removeByMessageIds d acked file = Inr file'" for file'
    using load_remove [OF that] assms(1) by simp
  with Inr assms(1) show ?thesis by (simp add: onStatusAckMessage_def split: sum.split)
qed

lemma add_load_cases:
  assumes "add d report file = Inr file'"
  shows "set (load file) \<subseteq> set (load file') \<and> set (load file') \<subseteq> insert report (set (load file))"
proof (cases "list_ex (\<lambda>item. pr_message_id item = pr_message_id report) (load file)")
  case True
  with assms show ?thesis by (auto simp: add_def)
next
  case False
  then have "save d (load file @ [report]) file = Inr file'" using assms by (simp add: add_def)
  then show ?thesis using load_all_usable [of "file"] by (cases d) (auto simp: save_def split: if_splits)
qed

lemma report_act_cases:
  "set (load file) \<subseteq> set (load (bridge_act (Report env event) file)) \<and>
   (\<forall>r\<in>set (load (bridge_act (Report env event) file)). r \<in> set (load file) \<or>
      (case buildMqttMessage (robot env) (warehouse env) (clock_ms env) (clock_iso env) event of
         (topic, doc) \<Rightarrow> pr_topic r = topic \<and> pr_payload r = dump (codec env) doc))"
proof -
  obtain topic doc where msg: "buildMqttMessage (robot env) (warehouse env) (clock_ms env) (clock_iso env) event = (topic, doc)"
    by fastforce
  have keep: "set (load file) \<subseteq> set (load file') \<and>
      (\<forall>r\<in>set (load file'). r \<in> set (load file) \<or> pr_topic r = topic \<and> pr_payload r = dump (codec env) doc)"
    if kept: "keep_pending (codec env) (disk_state env) topic (dump (codec env) doc) file = Inr file'" for file'
  proof -
    obtain report where r: "pending_of_message (codec env) topic (dump (codec env) doc) = Inr report"
      "add (disk_state env) report file = Inr file'"
      using kept by (auto simp: keep_pending_def split: sum.splits)
    then have "pr_topic report = topic \<and> pr_payload report = dump (codec env) doc"
      by (auto simp: pending_of_message_def bind_result_Inr_iff)
    with add_load_cases [OF r(2)] show ?thesis by auto
  qed
  show ?thesis
    using keep by (auto simp: bridge_act_def publishTaskEventToMqtt_def msg Let_def split: sum.splits if_splits)
qed

lemma bridge_act_keeps:
  "r \<in> set (load file) \<Longrightarrow> \<not> acknowledges a (pr_message_id r) \<Longrightarrow> r \<in> set (load (bridge_act a file))"
  using report_act_cases [of "file"] ack_keeps_others [of r "file"]
  by (cases a) (auto simp: bridge_act_def)

definition made_by :: "bridge_action \<Rightarrow> pending_report \<Rightarrow> bool" where
  "made_by a r \<longleftrightarrow> (case a of
     Report env event \<Rightarrow>
       (case buildMqttMessage (robot env) (warehouse env) (clock_ms env) (clock_iso env) event of
          (topic, doc) \<Rightarrow> pr_topic r = topic \<and> pr_payload r = dump (codec env) doc)
   | _ \<Rightarrow> False)"

lemma ack_adds_nothing: "set (load (onStatusAckMessage d payload file)) \<subseteq> set (load file)"
  by (auto simp: onStatusAckMessage_def dest: load_remove split: sum.split if_splits)

lemma bridge_act_adds:
  "r \<in> set (load (bridge_act a file)) \<Longrightarrow> r \<in> set (load file) \<or> made_by a r"
  using report_act_cases [of "file"] subsetD [OF ack_adds_nothing]
  by (cases a) (auto simp: bridge_act_def made_by_def)


definition sample_report_file :: pending_file where
  "sample_report_file = Document (reports_json [\<lparr>pr_message_id = ''m1'', pr_topic = ''t'', pr_payload = ''p''\<rparr>])"


section \<open>A report that could not be sent\<close>

text \<open>
  What could not be published is sent later. When the connection is down or the client refuses the
  message, the disk works, the JSON library reads back what it wrote, and no pending report has the same
  message id, then the report is stored and the next flush over a connection that accepts messages sends
  exactly its topic and payload (and every other pending report).
\<close>

theorem unpublished_report_is_flushed:
  assumes "buildMqttMessage (robot env) (warehouse env) (clock_ms env) (clock_iso env) event = (topic, doc)"
    and "\<not> connected env \<or> \<not> publish_succeeds env" and "disk_state env = Disk_Works"
    and "parse_text (codec env) (dump (codec env) doc) = Some doc"
    and "makeMessageId (robot env) (clock_ms env) (te_event_type event) \<notin> pr_message_id ` set (load file)"
  shows "\<exists>file'. publishTaskEventToMqtt env event file = Inr ([], file') \<and>
    flushPendingReports True (\<lambda>_. True) file' =
      flushPendingReports True (\<lambda>_. True) file @ [(topic, dump (codec env) doc)]"
proof -
  let ?id = "makeMessageId (robot env) (clock_ms env) (te_event_type event)"
  let ?r = "\<lparr>pr_message_id = ?id, pr_topic = topic, pr_payload = dump (codec env) doc\<rparr>"
  have topic: "topic \<noteq> []" and id: "value_string doc ''message_id'' [] = Inr ?id"
    using assms(1) by (auto simp: buildMqttMessage_def Let_def topic_defs split: if_splits)
  have pending: "pending_of_message (codec env) topic (dump (codec env) doc) = Inr ?r"
    by (simp add: pending_of_message_def assms(4) id)
  have usable: "usable ?r" using topic by (simp add: usable_def makeMessageId_def)
  have "\<not> list_ex (\<lambda>item. pr_message_id item = ?id) (load file)"
    using assms(5) by (auto simp: list_ex_iff image_iff)
  then have added: "add Disk_Works ?r file = Inr (Document (reports_json (load file @ [?r])))"
    by (simp add: add_def save_def)
  let ?file' = "Document (reports_json (load file @ [?r]))"
  have "load ?file' = load file @ [?r]"
    using load_add [OF added usable] assms(5) by simp
  then have "flushPendingReports True (\<lambda>_. True) ?file' = flushPendingReports True (\<lambda>_. True) file @ [(topic, dump (codec env) doc)]"
    by (simp add: flushPendingReports_def enumerate_append_eq split_beta comp_def)
  moreover have "publishTaskEventToMqtt env event file = Inr ([], ?file')"
    using assms(2) topic by (auto simp: publishTaskEventToMqtt_def assms(1,3) keep_pending_def pending added Let_def)
  ultimately show ?thesis by blast
qed

definition sample_event :: task_event where
  "sample_event = \<lparr>te_event_type = ''STATUS'', te_task_id = ''T1'', te_warehouse_id = ''W1'',
     te_task_state = ''ACCEPTED'', te_goods = [], te_request_id = [], te_reason = []\<rparr>"

definition sample_doc :: json where
  "sample_doc = snd (buildMqttMessage ''amr-1'' ''W1'' 5 ''now'' sample_event)"

definition sample_bridge_env :: bridge_env where
  "sample_bridge_env = \<lparr>codec = \<lparr>dump = (\<lambda>_. ''doc''), parse_text = (\<lambda>_. Some sample_doc)\<rparr>, robot = ''amr-1'',
     warehouse = ''W1'', clock_ms = 5, clock_iso = ''now'', connected = False, publish_succeeds = True,
     disk_state = Disk_Works\<rparr>"

lemma unpublished_report_is_flushed_witness:
  "\<exists>file'. publishTaskEventToMqtt sample_bridge_env sample_event Absent = Inr ([], file') \<and>
     flushPendingReports True (\<lambda>_. True) file' = [(makeAmrTaskStatusTopic ''amr-1'', ''doc'')]"
proof -
  have msg: "buildMqttMessage (robot sample_bridge_env) (warehouse sample_bridge_env) (clock_ms sample_bridge_env)
      (clock_iso sample_bridge_env) sample_event = (makeAmrTaskStatusTopic ''amr-1'', sample_doc)"
    by (simp add: sample_bridge_env_def sample_doc_def buildMqttMessage_def sample_event_def Let_def)
  show ?thesis
    using unpublished_report_is_flushed [OF msg, of Absent]
    by (simp add: sample_bridge_env_def load_def flushPendingReports_def)
qed

end
