(* ===== verification/Robot_Edge.thy ===== *)
theory Robot_Edge
  imports Agent_Rules Behavior_Rules Edge_Rules Robot_Rules
begin

text \<open>
  The robot and the edge server together: the agent, the behaviour manager and the broker between
  them and the handlers of the edge server.
\<close>

section \<open>A robot\<close>

text \<open>
  What reaches a robot: a message of the broker, which the agent may turn into a command for the
  behaviour manager or into a notification of the edge server's state, or one of the other callbacks
  of the behaviour manager.
\<close>

record robot_state_all =
  agent :: agent_node
  pending :: pending_file
  behaviour :: behavior

datatype robot_input =
    Mqtt agent_env string "json option"
  | Local behavior_input

definition edge_notifications :: "agent_output list \<Rightarrow> behavior_input list" where
  "edge_notifications outs = List.map_filter (\<lambda>out. case out of Edge_Status online \<Rightarrow> Some (Edge_Online online) | _ \<Rightarrow> None) outs"

definition robot_consume ::
  "behavior_env \<Rightarrow> robot_input \<Rightarrow> robot_state_all \<Rightarrow> behavior_output list \<times> robot_state_all" where
  "robot_consume env input s =
     (case input of
        Mqtt aenv topic msg \<Rightarrow>
          (case agent_consume aenv (topic, msg) (agent s, pending s) of
             (outs, cmd, a, file) \<Rightarrow>
               (case behave_run (map (Pair env) (edge_notifications outs @
                        (case cmd of None \<Rightarrow> [] | Some c \<Rightarrow> [Command c]))) (behaviour s) of
                  (outs', b) \<Rightarrow> (outs', \<lparr>agent = a, pending = file, behaviour = b\<rparr>)))
      | Local i \<Rightarrow> (case behave env i (behaviour s) of (outs, b) \<Rightarrow> (outs, s\<lparr>behaviour := b\<rparr>)))"

fun robot_run :: "(behavior_env \<times> robot_input) list \<Rightarrow> robot_state_all \<Rightarrow> behavior_output list \<times> robot_state_all" where
  "robot_run [] s = ([], s)"
| "robot_run ((env, input) # rest) s =
     (case robot_consume env input s of (outs, s1) \<Rightarrow> (case robot_run rest s1 of (outs', s2) \<Rightarrow> (outs @ outs', s2)))"

text \<open>Topics of messages hold no wildcard; commands reach the behaviour manager only from the agent.\<close>

definition possible_input :: "robot_input \<Rightarrow> bool" where
  "possible_input input = (case input of
     Mqtt _ topic _ \<Rightarrow> CHR ''+'' \<notin> set topic
   | Local i \<Rightarrow> \<not> is_command i)"

section \<open>No robot asks for goods\<close>

lemma no_status_step:
  assumes "behave env input b = (outs, b')" and "m_goods_status b = []"
    and "\<And>cmd. input = Command cmd \<Longrightarrow> c_goods_status cmd = []"
  shows "m_goods_status b' = [] \<and> filter is_request outs = []"
proof -
  have maybe: "maybeRequestNextGoods env c = ([], c)" if "m_goods_status c = []" for c
    using that by (auto simp: maybeRequestNextGoods_def Let_def)
  have request: "filter is_request outs = [] \<or> (\<exists>e. request_sent env e b')"
    using behave_requests [OF assms(1)] by blast
  have "m_goods_status b' = []"
  proof (cases input)
    case (Command cmd)
    then have "m_goods_status (b\<lparr>m_goods_status := c_goods_status cmd\<rparr>) = []" using assms(3) by simp
    from maybe [OF this] Command show ?thesis
      using assms(1,2,3) by (auto simp: behave_def behavior_defs split: if_splits)
  next
    case (Timer t)
    have "m_goods_status (b\<lparr>m_current_goods := [], m_task_state := ''ACCEPTED''\<rparr>) = []" using assms(2) by simp
    from maybe [OF this] Timer show ?thesis
      using assms(1,2) by (cases t) (auto simp: behave_def behavior_defs split: if_splits)
  next
    case (Map_Info r l)
    with assms(1,2) show ?thesis by (cases l) (auto simp: behave_def onMapInfo_def split: if_splits bool.splits)
  qed (use assms(1,2) in \<open>auto simp: behave_def onNavigationResult_def onEdgeStatus_def Let_def split: if_splits\<close>)
  with request show ?thesis by (auto simp: request_sent_def)
qed

lemma no_status_run:
  "m_goods_status b = [] \<Longrightarrow> \<forall>x\<in>set run. \<forall>cmd. snd x = Command cmd \<longrightarrow> c_goods_status cmd = [] \<Longrightarrow>
    m_goods_status (snd (behave_run run b)) = [] \<and> filter is_request (fst (behave_run run b)) = []"
proof (induction run arbitrary: b)
  case (Cons step run)
  obtain env input where step: "step = (env, input)" by fastforce
  obtain outs b1 where one: "behave env input b = (outs, b1)" by fastforce
  have "c_goods_status cmd = []" if "input = Command cmd" for cmd
    using Cons.prems(2) step that by simp
  then have "m_goods_status b1 = [] \<and> filter is_request outs = []"
    using no_status_step [OF one Cons.prems(1)] by blast
  with Cons.IH [of b1] Cons.prems(2) step one show ?case by (simp add: split_beta)
qed simp

lemma agent_command_status:
  assumes "agent_consume aenv (topic, msg) (a, file) = (outs, Some cmd, a', file')" and "CHR ''+'' \<notin> set topic"
  shows "c_goods_status cmd = []"
proof -
  have amr: "c_goods_status c = []" if "onAmrTaskMessage w m = Some c" for w m c
    using that by (auto simp: onAmrTaskMessage_def decoded_def empty_command_def bind_result_Inr_iff split: sum.splits)
  have goods: "c_goods_status c = []" if "onGoodsResponseMessage m = Some c" for m c
    using that by (auto simp: onGoodsResponseMessage_def decoded_def empty_command_def bind_result_Inr_iff split: sum.splits)
  show ?thesis
    using assms(1) task_state_topic_unknown [OF assms(2)] amr goods
    by (auto simp: agent_consume_def split: option.splits agent_handler.splits prod.splits)
qed

lemma robot_consume_no_status:
  assumes "robot_consume env input s = (outs, s')" and "possible_input input" and "m_goods_status (behaviour s) = []"
  shows "m_goods_status (behaviour s') = [] \<and> filter is_request outs = []"
proof (cases input)
  case (Mqtt aenv topic msg)
  obtain aouts cmd a file' where consume: "agent_consume aenv (topic, msg) (agent s, pending s) = (aouts, cmd, a, file')"
    by (metis prod_cases4)
  let ?inputs = "edge_notifications aouts @ (case cmd of None \<Rightarrow> [] | Some c \<Rightarrow> [Command c])"
  have "c_goods_status c = []" if "Command c \<in> set ?inputs" for c
    using that agent_command_status [of aenv topic msg "agent s" "pending s" aouts c a file'] consume assms(2) Mqtt
    by (auto simp: possible_input_def edge_notifications_def List.map_filter_def split: option.splits agent_output.splits)
  then have "\<forall>x\<in>set (map (Pair env) ?inputs). \<forall>cmd. snd x = Command cmd \<longrightarrow> c_goods_status cmd = []"
    by (metis (no_types, lifting) in_set_zip image_iff list.set_map snd_conv)
  note none = no_status_run [OF assms(3) this]
  show ?thesis
    using assms(1) none by (auto simp: robot_consume_def Mqtt consume simp del: map_append split: prod.splits)
next
  case (Local i)
  obtain os b' where one: "behave env i (behaviour s) = (os, b')" by fastforce
  have "\<And>cmd. i = Command cmd \<Longrightarrow> c_goods_status cmd = []"
    using assms(2) Local by (auto simp: possible_input_def is_command_def)
  from no_status_step [OF one assms(3) this] assms(1) Local one show ?thesis
    by (auto simp: robot_consume_def)
qed

lemma robot_run_no_status:
  "list_all (\<lambda>(env, input). possible_input input) run \<Longrightarrow> m_goods_status (behaviour s) = [] \<Longrightarrow>
    filter is_request (fst (robot_run run s)) = []"
proof (induction run arbitrary: s)
  case (Cons step run)
  obtain env input where step: "step = (env, input)" by fastforce
  obtain outs s1 where one: "robot_consume env input s = (outs, s1)" by fastforce
  have "m_goods_status (behaviour s1) = [] \<and> filter is_request outs = []"
    using robot_consume_no_status [OF one] Cons.prems step by simp
  with Cons.IH [of s1] Cons.prems(1) step one show ?case by (simp add: split_beta)
qed simp

text \<open>
  C24: no robot ever asks for goods. A robot learns what is left to carry from the task state messages,
  to which it subscribes with a wildcard for the task. The agent's router compares topics literally, so
  no message that the broker delivers (its topic has no wildcard) reaches that handler: whatever messages
  arrive in whatever order, and whatever timers, navigation results and notifications come between, a
  robot that starts without goods status never publishes a request for goods.
\<close>

theorem robot_never_requests_goods:
  assumes "behaviour s = fresh_behavior" and "list_all (\<lambda>(env, input). possible_input input) run"
  shows "\<not> list_ex is_request (fst (robot_run run s))"
  using robot_run_no_status [OF assms(2), of s] assms(1)
  by (simp add: fresh_behavior_def list_ex_iff filter_empty_conv)

definition sample_agent :: agent_node where
  "sample_agent = \<lparr>n_robot_id = ''amr-1'', n_warehouse_id = ''W1'', n_map_version = ''v1'', n_initial_pose = (0, 0, 0),
     n_initial_pose_published = False, n_registered = True, n_map_ready = True, n_edge_online = True,
     n_nav_state = 3, n_behavior_state = 3\<rparr>"

definition sample_agent_env :: agent_env where
  "sample_agent_env = \<lparr>map_manager_ready = True, now1 = 1, now2 = 2, ack_disk = Disk_Works\<rparr>"

lemma robot_never_requests_goods_witness:
  "\<not> list_ex is_request (fst (robot_run
     [(sample_behavior_env, Local (Map_Info True (True, [], []))),
      (sample_behavior_env, Mqtt sample_agent_env ''amr/amr-1/task'' (Some (JObj [(''task_id'', JStr ''T1'')]))),
      (sample_behavior_env, Mqtt sample_agent_env ''warehouse/W1/task/T1/state'' (Some (JObj [(''task_id'', JStr ''T1'')]))),
      (sample_behavior_env, Local Periodic)]
     \<lparr>agent = sample_agent, pending = Absent, behaviour = fresh_behavior\<rparr>))"
  by (rule robot_never_requests_goods) (simp_all add: possible_input_def is_command_def)

section \<open>Messages between a robot and the edge server\<close>

lemma event_goods_read: "g_total_quantity g = to_int32 (g_total_quantity g) \<Longrightarrow> requested_goods (event_goods_json g) = Inr g"
  by (simp add: requested_goods_def event_goods_json_def)

lemma response_goods_read:
  "g_total_quantity g = to_int32 (g_total_quantity g) \<Longrightarrow> goods_of_json (response_goods_json accepted g) = Inr g"
  by (simp add: goods_of_json_def response_goods_json_def)

lemma assign_goods_read:
  "g_total_quantity g = to_int32 (g_total_quantity g) \<Longrightarrow> goods_of_json (goods_json g) = Inr g"
  by (simp add: goods_of_json_def goods_json_def)

lemma map_result_id: "(\<And>x. x \<in> set xs \<Longrightarrow> f (g x) = Inr x) \<Longrightarrow> map_result f (map g xs) = Inr xs"
  by (induction xs) auto

lemma map_result_strings [simp]: "map_result get_string (map JStr xs) = Inr xs"
  by (rule map_result_id) simp

text \<open>
  C19: the task messages arrive as they were sent. For quantities that fit an \<open>int\<close>, the assignment that
  the edge server writes becomes the command with the same task, type, robots and goods; the request for
  goods that the agent writes for an event is read by the edge server with the event's task, request id
  and goods; and the answer that the edge server writes is read by the robot with the same request id,
  verdict, reason and goods.
\<close>

theorem task_messages_roundtrip:
  assumes "\<forall>g\<in>set (t_goods task) \<union> set (te_goods event) \<union> set (gr_goods answer).
      - (2 ^ 31) \<le> g_total_quantity g \<and> g_total_quantity g < 2 ^ 31"
    and "te_event_type event = ''GOODS_REQUEST''" and "te_warehouse_id event \<noteq> []"
  shows "onAmrTaskMessage warehouse_id (Some (task_assign_message task)) =
      Some (empty_command\<lparr>c_command_type := ''TASK_ASSIGN'', c_task_id := t_task_id task,
        c_warehouse_id := t_warehouse_id task, c_task_type := t_task_type task, c_state := t_state task,
        c_reason := t_reason task, c_robot_ids := t_robot_ids task, c_goods := t_goods task\<rparr>) \<and>
    goods_request_of (snd (buildMqttMessage robot_id warehouse_id ms iso8601 event)) =
      Inr \<lparr>ga_request_id = te_request_id event, ga_warehouse_id = te_warehouse_id event,
        ga_task_id = te_task_id event, ga_robot_id = robot_id, ga_goods = te_goods event\<rparr> \<and>
    onGoodsResponseMessage (Some (goods_response_json request answer)) =
      Some (empty_command\<lparr>c_command_type := ''GOODS_RESPONSE'', c_task_id := ga_task_id request,
        c_warehouse_id := ga_warehouse_id request, c_request_id := ga_request_id request,
        c_accepted := gr_accepted answer, c_reason := gr_reason answer, c_goods := gr_goods answer\<rparr>)"
proof -
  have fits: "to_int32 (g_total_quantity g) = g_total_quantity g"
    if "g \<in> set (t_goods task) \<union> set (te_goods event) \<union> set (gr_goods answer)" for g
    using assms(1) that by (intro to_int32_id) auto
  have assign: "map_result goods_of_json (map goods_json (t_goods task)) = Inr (t_goods task)"
    by (rule map_result_id, rule assign_goods_read) (simp add: fits)
  have ask: "map_result requested_goods (map event_goods_json (te_goods event)) = Inr (te_goods event)"
    by (rule map_result_id, rule event_goods_read) (simp add: fits)
  have grant: "map_result goods_of_json (map (response_goods_json (gr_accepted answer)) (gr_goods answer)) = Inr (gr_goods answer)"
    by (rule map_result_id, rule response_goods_read) (simp add: fits)
  show ?thesis
    using assms(2,3) assign ask grant
    by (simp add: onAmrTaskMessage_def task_assign_message_def goods_request_of_def buildMqttMessage_def
        onGoodsResponseMessage_def goods_response_json_def array_items_def Let_def)
qed

lemma task_messages_roundtrip_witness:
  "goods_request_of (snd (buildMqttMessage ''amr-1'' ''W1'' 5 ''now''
     (sample_event\<lparr>te_event_type := ''GOODS_REQUEST'', te_request_id := ''r1''\<rparr>))) =
   Inr \<lparr>ga_request_id = ''r1'', ga_warehouse_id = ''W1'', ga_task_id = ''T1'', ga_robot_id = ''amr-1'', ga_goods = []\<rparr>"
  using task_messages_roundtrip [of "sample_task\<lparr>t_goods := []\<rparr>"
      "sample_event\<lparr>te_event_type := ''GOODS_REQUEST'', te_request_id := ''r1''\<rparr>" "rejected []"]
  by (simp add: rejected_def sample_event_def)

section \<open>Reports of carries\<close>

lemma InsertAmrTaskStatusEvent_tables:
  assumes "InsertAmrTaskStatusEvent eng now ev db = (r, db')"
  shows "tables db' = (tables db)\<lparr>tbl_amr_task_status_event := tbl_amr_task_status_event (tables db')\<rparr>"
  using assms
  by (auto simp: InsertAmrTaskStatusEvent_def guarded_def exec_stmt_def insert_amr_event_def split: if_splits)

lemma carry_without_request:
  assumes "is_carry (e_event_type ev)" and "e_request_id ev = []"
  shows "fst (handleAmrTaskStatus env ev db) = False \<and>
    tables (snd (handleAmrTaskStatus env ev db)) =
      (tables db)\<lparr>tbl_amr_task_status_event := tbl_amr_task_status_event (tables (snd (handleAmrTaskStatus env ev db)))\<rparr>"
proof -
  obtain r db1 where "InsertAmrTaskStatusEvent (faults env 0) (current_timestamp env 0) ev db = (r, db1)" by fastforce
  with InsertAmrTaskStatusEvent_tables [OF this] assms show ?thesis
    by (cases r) (simp_all add: handleAmrTaskStatus_def)
qed

lemma status_event_read:
  assumes "te_event_type event \<noteq> ''GOODS_REQUEST''"
  shows "\<exists>ev. task_status_event_of (snd (buildMqttMessage robot_id warehouse_id ms iso8601 event)) = Inr ev \<and>
    e_message_id ev = makeMessageId robot_id ms (te_event_type event) \<and> e_robot_id ev = robot_id \<and>
    e_event_type ev = te_event_type event \<and> e_request_id ev = te_request_id event"
  using assms by (simp add: task_status_event_of_def buildMqttMessage_def Let_def)

lemma ack_acknowledges: "acknowledges (Ack d (Some (ack_json ev))) (e_message_id ev)"
  by (simp add: acknowledges_def ack_json_def array_items_def)


definition sample_amr_env :: amr_environment where
  "sample_amr_env = \<lparr>register_env = sample_register_env, task_env = calm, state_env = calm, will_time = 0\<rparr>"


section \<open>Clocks\<close>

lemma status_state_names:
  "RobotStateFromString (amrStateToString v) =
    (if v = 0 then ERROR else if v = 2 then WORKING else if v = 3 then IDLE else INITIALIZING)"
  by (simp add: amrStateToString_def RobotStateFromString_def)

lemma status_read:
  assumes "0 \<le> ms" and "ms < 2 ^ 63"
  shows "\<exists>st. decodeRobotRunningStatus (Some (robot_status_json ms a)) = Some st \<and> rs_robot_id st = n_robot_id a \<and>
    rs_online st \<and> rs_timestamp st = ms \<and> rs_state st = RobotStateFromString (aggregated_state a) \<and> rs_state st \<noteq> OFFLINE"
  using assms by (simp add: decodeRobotRunningStatus_def robot_status_json_def aggregated_state_def status_state_names)

lemma will_ignored: "robotWillHandler env (Some (snd (will_message a))) sys = sys"
  by (simp add: robotWillHandler_def will_message_def decodeRobotWillPush_def)

lemma getRobotStatus_handleStatus:
  assumes "getRobotStatus (rs_robot_id st) (manager sys) \<noteq> None"
  shows "getRobotStatus (rs_robot_id st) (manager (handleStatus st sys)) = Some st"
  using assms
  by (auto simp: getRobotStatus_def handleStatus_def updateRobotStatus_def update_conv' split: option.splits)

text \<open>
  A lost robot goes unnoticed. A registered robot that sent one status at \<open>ms\<close> milliseconds, with no
  component in error, and then disappeared (so that the broker delivers its last will) does not count as
  abnormal in any heartbeat whose clock, in seconds, is at most \<open>ms + 300\<close>: the will names no robot and is
  ignored, and milliseconds are compared with seconds.
\<close>

theorem lost_robot_goes_unnoticed:
  assumes "getRobotStatus (n_robot_id a) (manager sys) \<noteq> None" and "0 \<le> ms" and "ms < 2 ^ 63"
    and "aggregated_state a \<noteq> ''ERROR''" and "now \<le> ms + 300"
  shows "\<exists>st. getRobotStatus (n_robot_id a)
      (manager (robotWillHandler env (Some (snd (will_message a))) (robotStatusHandler (Some (robot_status_json ms a)) sys))) = Some st \<and>
    \<not> robot_abnormal now st"
proof -
  obtain st where st: "decodeRobotRunningStatus (Some (robot_status_json ms a)) = Some st" "rs_robot_id st = n_robot_id a"
    "rs_online st" "rs_timestamp st = ms" "rs_state st = RobotStateFromString (aggregated_state a)" "rs_state st \<noteq> OFFLINE"
    using status_read [OF assms(2,3), of a] by blast
  have known: "getRobotStatus (n_robot_id a) (manager (handleStatus st sys)) = Some st"
    using getRobotStatus_handleStatus [of st sys] assms(1) st(2) by simp
  have "rs_state st \<noteq> ERROR"
    using assms(4) st(5) by (auto simp: aggregated_state_def RobotStateFromString_def amrStateToString_def split: if_splits)
  then have "\<not> robot_abnormal now st" using assms(2,3,5) st(3,4,6) by (simp add: robot_abnormal_def)
  with known st(1) show ?thesis by (simp add: will_ignored robotStatusHandler_def)
qed

lemma lost_robot_goes_unnoticed_witness:
  "\<exists>st. getRobotStatus ''amr-1''
      (manager (robotWillHandler sample_amr_env (Some (snd (will_message sample_agent)))
        (robotStatusHandler (Some (robot_status_json 1700000000000 sample_agent)) sample_registered))) = Some st \<and>
    \<not> robot_abnormal 1800000000 st"
proof -
  have "getRobotStatus (n_robot_id sample_agent) (manager sample_registered) \<noteq> None"
    using sample_registered_persisted
    by (simp add: sample_agent_def sample_registered_def getRobotStatus_def handleRegister_def registerRobot_def
        requested_robot_def sample_register_request_def fresh_system_def no_robots_def Let_def split: prod.splits option.splits)
  from lost_robot_goes_unnoticed [OF this, of 1700000000000 1800000000 sample_amr_env] show ?thesis
    by (simp add: sample_agent_def aggregated_state_def amrStateToString_def cast_to_uint8_def)
qed

text \<open>
  The edge server truncates the clock of a registration. It reads the registration request that an
  agent wrote with all its members, except that it keeps the low 32 bits of the timestamp as a signed
  number: the timestamp is right only before \<open>2 ^ 31\<close> milliseconds after 1970.
\<close>

theorem register_request_truncates_clock:
  assumes "0 \<le> ms" and "ms < 2 ^ 63"
  shows "\<exists>req. decodeRegisterReq (Some (register_request_json ms' ms a)) = Some req \<and>
    rq_robot_id req = n_robot_id a \<and> rq_warehouse_id req = n_warehouse_id a \<and> rq_map_version req = n_map_version a \<and>
    rq_request_id req = n_robot_id a @ ''_'' @ to_string ms' \<and>
    rq_register_timestamp req = to_uint64 (to_int32 ms) \<and> (rq_register_timestamp req = ms \<longleftrightarrow> ms < 2 ^ 31)"
proof -
  have "to_uint64 (to_int32 ms) = ms \<longleftrightarrow> ms < 2 ^ 31"
  proof
    assume eq: "to_uint64 (to_int32 ms) = ms"
    show "ms < 2 ^ 31"
    proof (cases "to_int32 ms < 0")
      case True
      have "(to_int32 ms + 2 ^ 64) mod 2 ^ 64 = to_int32 ms + 2 ^ 64"
        using to_int32_bounds [of ms] True by (intro mod_pos_pos_trivial) simp_all
      then have "to_uint64 (to_int32 ms) = to_int32 ms + 2 ^ 64" by (simp add: to_uint64_def)
      with eq assms(2) to_int32_bounds [of ms] show ?thesis by simp
    next
      case False
      with to_int32_bounds [of ms] have "to_uint64 (to_int32 ms) = to_int32 ms" by simp
      with eq to_int32_bounds [of ms] show ?thesis by simp
    qed
  qed (use assms in simp)
  then show ?thesis by (simp add: decodeRegisterReq_def register_request_json_def)
qed

lemma register_request_truncates_clock_witness:
  "\<exists>req. decodeRegisterReq (Some (register_request_json 5 1700000000000 sample_agent)) = Some req \<and>
     rq_register_timestamp req \<noteq> 1700000000000"
  using register_request_truncates_clock [of 1700000000000 5 sample_agent] by auto

end
