(* ===== verification/Navigation.thy ===== *)
theory Navigation
  imports Ros_Messages
begin

text \<open>
  \<open>amr_navigation/src/navigation_manager.cpp\<close> and the action server of \<open>navigation_server.cpp\<close>: one
  navigation goal of the robot on its way through Nav2. Nav2 itself is outside: it answers with the
  callbacks below.
\<close>

section \<open>The navigation manager\<close>

datatype nav_state =
    NAV_IDLE | NAV_ACCEPTING | NAV_NAVIGATING | NAV_CANCELING | NAV_SUCCEEDED | NAV_FAILED | NAV_CANCELED

datatype result_code = Code_Succeeded | Code_Aborted | Code_Canceled | Code_Unknown

text \<open>
  The members of the manager and of the server that a navigation uses: \<open>m_state\<close> and whether
  \<open>m_goal_handle\<close> is set; \<open>m_navigation_result_ready\<close>, \<open>m_navigation_result\<close>,
  \<open>m_active_goal_handle\<close> (the number of the goal) and \<open>m_navigating\<close>.
\<close>

record navigation =
  m_state :: nav_state
  m_goal_handle :: bool
  m_navigation_result_ready :: bool
  m_navigation_result :: nav_state
  m_active_goal_handle :: "nat option"
  m_navigating :: bool

definition fresh_navigation :: navigation where
  "fresh_navigation = \<lparr>m_state = NAV_IDLE, m_goal_handle = False, m_navigation_result_ready = False,
     m_navigation_result = NAV_IDLE, m_active_goal_handle = None, m_navigating = False\<rparr>"

record nav_response =
  rs_accepted :: bool
  rs_nav_state :: nav_state
  rs_nav_message :: string

definition isBusyState :: "nav_state \<Rightarrow> bool" where
  "isBusyState st \<longleftrightarrow> st = NAV_ACCEPTING \<or> st = NAV_NAVIGATING \<or> st = NAV_CANCELING"

definition navigateToPose :: "bool \<Rightarrow> navigation \<Rightarrow> nav_response \<times> navigation" where
  "navigateToPose server_up s =
     (if \<not> server_up
      then (\<lparr>rs_accepted = False, rs_nav_state = NAV_IDLE, rs_nav_message = ''nav2 action server not available''\<rparr>, s)
      else if m_state s = NAV_ACCEPTING \<or> m_state s = NAV_NAVIGATING \<or> m_state s = NAV_CANCELING
      then (\<lparr>rs_accepted = False, rs_nav_state = m_state s, rs_nav_message = ''robot busy''\<rparr>, s)
      else (\<lparr>rs_accepted = True, rs_nav_state = NAV_ACCEPTING, rs_nav_message = ''navigation request accepted''\<rparr>,
            s\<lparr>m_state := NAV_ACCEPTING\<rparr>))"

text \<open>The server's reaction to a result, then the callbacks of the manager that lead to it.\<close>

definition onNavigationResult_server :: "nav_state \<Rightarrow> navigation \<Rightarrow> navigation" where
  "onNavigationResult_server st s =
     s\<lparr>m_navigating := False, m_navigation_result := st, m_navigation_result_ready := True,
       m_active_goal_handle := None\<rparr>"

definition goalResponseCallback :: "bool \<Rightarrow> navigation \<Rightarrow> navigation" where
  "goalResponseCallback goal_accepted s =
     (if \<not> goal_accepted
      then onNavigationResult_server NAV_FAILED (s\<lparr>m_state := NAV_IDLE, m_goal_handle := False\<rparr>)
      else s\<lparr>m_state := NAV_NAVIGATING, m_goal_handle := True\<rparr>)"

fun state_of_code :: "result_code \<Rightarrow> nav_state" where
  "state_of_code Code_Succeeded = NAV_SUCCEEDED"
| "state_of_code Code_Aborted = NAV_FAILED"
| "state_of_code Code_Canceled = NAV_CANCELED"
| "state_of_code Code_Unknown = NAV_FAILED"

definition resultCallback :: "result_code \<Rightarrow> navigation \<Rightarrow> navigation" where
  "resultCallback rc s =
     onNavigationResult_server (state_of_code rc) (s\<lparr>m_goal_handle := False, m_state := NAV_IDLE\<rparr>)"

definition cancelNavigation :: "navigation \<Rightarrow> navigation" where
  "cancelNavigation s = (if m_goal_handle s then s\<lparr>m_state := NAV_CANCELING\<rparr> else s)"

section \<open>The action server\<close>

definition handleGoal :: "bool \<Rightarrow> bool" where
  "handleGoal map_ready = map_ready"

definition handleCancel :: "navigation \<Rightarrow> bool \<times> navigation" where
  "handleCancel s = (True, cancelNavigation s)"

text \<open>
  What may run on other threads while a goal waits. \<open>wait_for\<close> ends as soon as the flag is up; if it is
  not up after the callbacks of the minute, the wait has timed out.
\<close>

datatype nav_callback = Goal_Response bool | Nav_Result result_code | Cancel_Request

definition nav_react :: "nav_callback \<Rightarrow> navigation \<Rightarrow> navigation" where
  "nav_react cb s = (case cb of
     Goal_Response accepted \<Rightarrow> goalResponseCallback accepted s
   | Nav_Result rc \<Rightarrow> resultCallback rc s
   | Cancel_Request \<Rightarrow> snd (handleCancel s))"

fun waitForNavigationResult :: "nav_callback list \<Rightarrow> navigation \<Rightarrow> nav_state option \<times> navigation" where
  "waitForNavigationResult cbs s =
     (if m_navigation_result_ready s then (Some (m_navigation_result s), s)
      else case cbs of [] \<Rightarrow> (None, s) | cb # rest \<Rightarrow> waitForNavigationResult rest (nav_react cb s))"

declare waitForNavigationResult.simps [simp del]

datatype goal_outcome = Goal_Succeeded string | Goal_Canceled string | Goal_Aborted string

text \<open>
  What a goal meets: whether the client has cancelled it already, the two availabilities of Nav2, the
  callbacks while the old navigation ends, between the acceptance and the registration of the goal, and
  while the goal waits for its result.
\<close>

record execute_env =
  is_canceling :: bool
  nav2_up1 :: bool
  nav2_up2 :: bool
  while_old :: "nav_callback list"
  before_registration :: "nav_callback list"
  while_navigating :: "nav_callback list"

definition request_navigation :: "execute_env \<Rightarrow> navigation \<Rightarrow> nav_response \<times> navigation" where
  "request_navigation env s =
     (case navigateToPose (nav2_up1 env) s of
        (resp, s1) \<Rightarrow>
          if \<not> rs_accepted resp \<and> isBusyState (rs_nav_state resp)
          then navigateToPose (nav2_up2 env) (snd (waitForNavigationResult (while_old env) (cancelNavigation s1)))
          else (resp, s1))"

definition outcome_of :: "nav_state \<Rightarrow> goal_outcome" where
  "outcome_of st = (case st of
     NAV_SUCCEEDED \<Rightarrow> Goal_Succeeded ''navigation succeeded''
   | NAV_CANCELED \<Rightarrow> Goal_Canceled ''canceled''
   | _ \<Rightarrow> Goal_Aborted ''navigation failed'')"

text \<open>The goal becomes the active one; then its thread waits and ends the goal.\<close>

definition register_goal :: "nat \<Rightarrow> navigation \<Rightarrow> navigation" where
  "register_goal goal s = s\<lparr>m_navigation_result_ready := False, m_active_goal_handle := Some goal, m_navigating := True\<rparr>"

definition end_of_wait :: "nav_state option \<Rightarrow> goal_outcome" where
  "end_of_wait r =
     (case r of None \<Rightarrow> Goal_Aborted ''navigation result timeout'' | Some final_state \<Rightarrow> outcome_of final_state)"

definition execute :: "execute_env \<Rightarrow> nat \<Rightarrow> navigation \<Rightarrow> goal_outcome \<times> navigation" where
  "execute env goal s =
     (if is_canceling env then (Goal_Canceled ''canceled before start'', s)
      else case request_navigation env s of
        (resp, s1) \<Rightarrow>
          if \<not> rs_accepted resp
          then (Goal_Aborted (if rs_nav_message resp = [] then ''navigate request rejected'' else rs_nav_message resp), s1)
          else case waitForNavigationResult (while_navigating env)
              (register_goal goal (fold nav_react (before_registration env) s1)) of
            (r, s2) \<Rightarrow> (end_of_wait r, s2))"

section \<open>What a goal ends with\<close>

definition is_result :: "nav_callback \<Rightarrow> bool" where
  "is_result cb = (case cb of Nav_Result _ \<Rightarrow> True | Goal_Response accepted \<Rightarrow> \<not> accepted | Cancel_Request \<Rightarrow> False)"

definition result_of :: "nav_callback \<Rightarrow> nav_state" where
  "result_of cb = (case cb of Nav_Result rc \<Rightarrow> state_of_code rc | _ \<Rightarrow> NAV_FAILED)"

lemma nav_react_result:
  "is_result cb \<Longrightarrow> nav_react cb s = s\<lparr>m_state := NAV_IDLE, m_goal_handle := False, m_navigation_result_ready := True,
     m_navigation_result := result_of cb, m_active_goal_handle := None, m_navigating := False\<rparr>"
  by (cases cb) (simp_all add: is_result_def result_of_def nav_react_def resultCallback_def goalResponseCallback_def
      onNavigationResult_server_def)

lemma nav_react_other:
  "\<not> is_result cb \<Longrightarrow> m_navigation_result_ready (nav_react cb s) = m_navigation_result_ready s \<and>
     m_navigating (nav_react cb s) = m_navigating s \<and> m_active_goal_handle (nav_react cb s) = m_active_goal_handle s \<and>
     (isBusyState (m_state s) \<longrightarrow> isBusyState (m_state (nav_react cb s)))"
  by (cases cb) (auto simp: is_result_def nav_react_def goalResponseCallback_def handleCancel_def cancelNavigation_def isBusyState_def)

lemma wait_ready [simp]:
  "m_navigation_result_ready s \<Longrightarrow> waitForNavigationResult cbs s = (Some (m_navigation_result s), s)"
  by (simp add: waitForNavigationResult.simps)

lemma wait_first_result:
  assumes "\<not> m_navigation_result_ready s"
  shows "fst (waitForNavigationResult cbs s) = map_option result_of (find is_result cbs)"
  using assms
proof (induction cbs arbitrary: s)
  case Nil
  then show ?case by (simp add: waitForNavigationResult.simps)
next
  case (Cons cb cbs)
  show ?case
  proof (cases "is_result cb")
    case True
    with Cons.prems show ?thesis
      by (simp add: waitForNavigationResult.simps [of "cb # cbs"] nav_react_result)
  next
    case False
    with Cons nav_react_other [OF False, of s] show ?thesis
      by (simp add: waitForNavigationResult.simps [of "cb # cbs"])
  qed
qed

lemma wait_state:
  assumes "\<not> m_navigation_result_ready s" and "m_navigating s" and "waitForNavigationResult cbs s = (r, s')"
  shows "if r = None then m_navigating s' \<and> m_active_goal_handle s' = m_active_goal_handle s \<and>
      (isBusyState (m_state s) \<longrightarrow> isBusyState (m_state s'))
    else \<not> m_navigating s' \<and> m_state s' = NAV_IDLE \<and> m_active_goal_handle s' = None"
  using assms
proof (induction cbs arbitrary: s)
  case Nil
  then show ?case by (auto simp: waitForNavigationResult.simps)
next
  case (Cons cb cbs)
  show ?case
  proof (cases "is_result cb")
    case True
    with Cons.prems show ?thesis
      by (auto simp: waitForNavigationResult.simps [of "cb # cbs"] nav_react_result)
  next
    case False
    with Cons.prems nav_react_other [OF False, of s] Cons.IH [of "nav_react cb s"] show ?thesis
      by (auto simp: waitForNavigationResult.simps [of "cb # cbs"])
  qed
qed

lemma busy_react: "isBusyState (m_state s) \<Longrightarrow> list_all (\<lambda>cb. \<not> is_result cb) cbs \<Longrightarrow> isBusyState (m_state (fold nav_react cbs s))"
  using nav_react_other by (induction cbs arbitrary: s) auto



end
