(* ===== verification/Nav2_Lifecycle.thy ===== *)
theory Nav2_Lifecycle
  imports Ros_Messages Navigation
begin

text \<open>
  The rest of \<open>amr_navigation/src/navigation_server.cpp\<close>: starting and stopping Nav2 for the map of the
  robot, publishing the initial pose, and the parameter file with the robot's prefix. The fork, the
  services of the lifecycle managers and the signals are outside.
\<close>

section \<open>The parameter file\<close>

text \<open>\<open>content.find(sub, pos)\<close>, and the loop that replaces every occurrence.\<close>

definition find_sub :: "string \<Rightarrow> string \<Rightarrow> nat \<Rightarrow> nat option" where
  "find_sub sub s pos = find (\<lambda>p. take (length sub) (drop p s) = sub) [pos..<Suc (length s) - length sub]"

definition placeholder :: string where
  "placeholder = ''<robot_prefix>''"

lemma find_sub_bounds:
  "find_sub sub s pos = Some p \<Longrightarrow> pos \<le> p \<and> p + length sub \<le> length s \<and> take (length sub) (drop p s) = sub"
  by (auto simp: find_sub_def dest!: find_Some_member)

function replace_placeholders :: "string \<Rightarrow> string \<Rightarrow> nat \<Rightarrow> string" where
  "replace_placeholders prefix content pos =
     (case find_sub placeholder content pos of
        None \<Rightarrow> content
      | Some p \<Rightarrow>
          replace_placeholders prefix (take p content @ prefix @ drop (p + length placeholder) content)
            (p + length prefix))"
  by pat_completeness auto
termination
  by (relation "measure (\<lambda>(prefix, content, pos). length content - pos)")
    (auto simp: placeholder_def dest!: find_sub_bounds)

declare replace_placeholders.simps [simp del]

definition robot_prefix :: "string \<Rightarrow> string" where
  "robot_prefix robot_namespace =
     (if robot_namespace = [] then []
      else (if hd robot_namespace = CHR ''/'' then tl robot_namespace else robot_namespace) @ ''_'')"

definition nav2_params :: "string \<Rightarrow> string \<Rightarrow> string" where
  "nav2_params robot_namespace content =
     (let ns = (if robot_namespace = ''/'' then [] else robot_namespace) in
      replace_placeholders (robot_prefix ns) content 0)"

text \<open>The reference: one pass over the text.\<close>

fun substitute :: "string \<Rightarrow> string \<Rightarrow> nat \<Rightarrow> string" where
  "substitute prefix s 0 = s"
| "substitute prefix [] (Suc n) = []"
| "substitute prefix (c # s) (Suc n) =
     (if take (length placeholder) (c # s) = placeholder
      then prefix @ substitute prefix (drop (length placeholder) (c # s)) n
      else c # substitute prefix s n)"

lemma placeholder_length [simp]: "length placeholder = 14"
  by (simp add: placeholder_def)

lemma find_sub_here:
  assumes "take 14 (drop pos s) = placeholder"
  shows "find_sub placeholder s pos = Some pos"
proof -
  have "14 \<le> length (drop pos s)" using arg_cong [OF assms, of length] by simp
  then have "[pos..<Suc (length s) - 14] = pos # [Suc pos..<Suc (length s) - 14]"
    by (intro upt_conv_Cons) simp
  with assms show ?thesis by (simp add: find_sub_def)
qed

lemma find_sub_later:
  assumes "take 14 (drop pos s) \<noteq> placeholder"
  shows "find_sub placeholder s pos = find_sub placeholder s (Suc pos)"
  using assms by (cases "pos < Suc (length s) - 14") (simp_all add: find_sub_def upt_conv_Cons)

lemma replace_step:
  "replace_placeholders prefix content pos =
     (if take 14 (drop pos content) = placeholder
      then replace_placeholders prefix (take pos content @ prefix @ drop (pos + 14) content) (pos + length prefix)
      else if pos < length content then replace_placeholders prefix content (Suc pos) else content)"
proof -
  have at_end: "find_sub placeholder content pos = None" if "\<not> pos < length content"
    using that by (simp add: find_sub_def)
  show ?thesis
    using find_sub_here [of pos content] find_sub_later [of pos content] at_end
    by (auto simp: replace_placeholders.simps [of prefix content pos] replace_placeholders.simps [of prefix content "Suc pos"])
qed

lemma replace_substitute:
  "length (drop pos content) \<le> n \<Longrightarrow> pos \<le> length content \<Longrightarrow>
    replace_placeholders prefix content pos = take pos content @ substitute prefix (drop pos content) n"
proof (induction prefix "drop pos content" n arbitrary: pos content rule: substitute.induct)
  case (1 prefix)
  then have "pos = length content" by simp
  then show ?case by (simp add: replace_step [of prefix content "length content"] placeholder_def)
next
  case (2 prefix n)
  then have "pos = length content" by (metis drop_eq_Nil order_antisym)
  then show ?case by (simp add: replace_step [of prefix content "length content"] placeholder_def)
next
  case (3 prefix c s n)
  note cons = 3(3)[symmetric]
  then have pos: "pos < length content" by (metis drop_eq_Nil list.distinct(1) not_le)
  show ?case
  proof (cases "take 14 (drop pos content) = placeholder")
    case True
    have long: "pos + 14 \<le> length content" using arg_cong [OF True, of length] pos by simp
    have fuel: "length content - (pos + 14) \<le> n" "pos + length prefix \<le> length prefix + length content - 14"
      using 3(4) long by simp_all
    let ?content' = "take pos content @ prefix @ drop (pos + 14) content"
    have rest: "drop (pos + length prefix) ?content' = drop 14 (drop pos content)"
      using pos by (simp add: add.commute)
    have "replace_placeholders prefix ?content' (pos + length prefix) =
        take (pos + length prefix) ?content' @ substitute prefix (drop 14 (drop pos content)) n"
      using 3(1) [of "pos + length prefix" ?content'] True cons rest fuel long by simp
    with True pos cons show ?thesis by (simp add: replace_step [of prefix content pos])
  next
    case False
    have "s = drop (Suc pos) content" using cons by (metis drop_Suc list.sel(3) tl_drop)
    then have "replace_placeholders prefix content (Suc pos) = take (Suc pos) content @ substitute prefix s n"
      using 3(2) [of "Suc pos" content] False cons 3(4) pos by simp
    moreover have "take (Suc pos) content = take pos content @ [c]"
      using cons pos by (metis nth_via_drop take_Suc_conv_app_nth)
    ultimately show ?thesis using False pos cons by (simp add: replace_step [of prefix content pos])
  qed
qed

lemma nav2_params_substitute:
  "nav2_params ns content =
     substitute (robot_prefix (if ns = ''/'' then [] else ns)) content (length content)"
  using replace_substitute [of 0 content "length content"] by (simp add: nav2_params_def Let_def)

section \<open>Starting and stopping Nav2\<close>

datatype nav2_state =
    STOPPED | STARTING_PROCESS | STARTING_LIFECYCLE | WAITING_FOR_LOCALIZATION | READY | STOPPING | FAILED

record nav2 =
  m_map_ready :: bool
  m_nav2_pid :: int
  m_nav2_state :: nav2_state
  m_initial_pose :: "(real \<times> real \<times> real) option"
  m_initial_pose_published :: bool
  m_current_map_yaml :: string
  m_current_map_version :: string

definition fresh_nav2 :: nav2 where
  "fresh_nav2 = \<lparr>m_map_ready = False, m_nav2_pid = -1, m_nav2_state = STOPPED, m_initial_pose = None,
     m_initial_pose_published = False, m_current_map_yaml = [], m_current_map_version = []\<rparr>"

text \<open>What \<open>fork\<close> returns in the parent, and whether the two services of the lifecycle managers answer.\<close>

record nav2_env =
  fork_result :: int
  navigation_service :: bool
  localization_service :: bool

text \<open>The pose handed to \<open>initialpose\<close>: position, and \<open>z\<close> and \<open>w\<close> of the orientation.\<close>

type_synonym initial_pose_msg = "real \<times> real \<times> real \<times> real"

definition stopNav2Process :: "nav2 \<Rightarrow> nav2" where
  "stopNav2Process s =
     (if m_nav2_pid s \<le> 0 then s else s\<lparr>m_nav2_pid := -1, m_initial_pose_published := False\<rparr>)"

definition requestStopNav2 :: "nav2 \<Rightarrow> nav2" where
  "requestStopNav2 s =
     (if m_nav2_state s = STOPPING \<or> m_nav2_state s = STOPPED then s
      else (stopNav2Process (s\<lparr>m_nav2_state := STOPPING\<rparr>))\<lparr>m_nav2_state := STOPPED\<rparr>)"

definition launchNav2Process :: "nav2_env \<Rightarrow> nav2 \<Rightarrow> nav2" where
  "launchNav2Process env s =
     (if m_nav2_pid s > 0 then s
      else if fork_result env < 0 then s\<lparr>m_nav2_state := FAILED\<rparr>
      else s\<lparr>m_nav2_pid := fork_result env\<rparr>)"

definition startNav2Lifecycle :: "nav2_env \<Rightarrow> nav2 \<Rightarrow> nav2" where
  "startNav2Lifecycle env s =
     (if navigation_service env \<and> localization_service env
      then s\<lparr>m_nav2_state := WAITING_FOR_LOCALIZATION\<rparr>
      else s\<lparr>m_nav2_state := STARTING_LIFECYCLE\<rparr>)"

definition publishInitialPoseIfReady_nav :: "nav2 \<Rightarrow> initial_pose_msg list \<times> nav2" where
  "publishInitialPoseIfReady_nav s =
     (if m_nav2_state s \<noteq> WAITING_FOR_LOCALIZATION \<and> m_nav2_state s \<noteq> READY then ([], s)
      else case m_initial_pose s of
        None \<Rightarrow> ([], s)
      | Some (x, y, yaw) \<Rightarrow>
          if m_initial_pose_published s then ([], s)
          else ([(x, y, sin (yaw * (1/2)), cos (yaw * (1/2)))], s\<lparr>m_initial_pose_published := True\<rparr>))"

definition handleStateMachineTick :: "nav2_env \<Rightarrow> nav2 \<Rightarrow> initial_pose_msg list \<times> nav2" where
  "handleStateMachineTick env s =
     (if \<not> m_map_ready s then ([], s)
      else case m_nav2_state s of
        STARTING_PROCESS \<Rightarrow> ([], startNav2Lifecycle env s)
      | STARTING_LIFECYCLE \<Rightarrow> ([], startNav2Lifecycle env s)
      | WAITING_FOR_LOCALIZATION \<Rightarrow>
          (case publishInitialPoseIfReady_nav s of
             (poses, s1) \<Rightarrow> (poses, if m_initial_pose_published s1 then s1\<lparr>m_nav2_state := READY\<rparr> else s1))
      | _ \<Rightarrow> ([], s))"

text \<open>A map message that is null or not ready is \<open>None\<close>; else its YAML file and version.\<close>

definition handleMapInfo :: "nav2_env \<Rightarrow> (string \<times> string) option \<Rightarrow> nav2 \<Rightarrow> initial_pose_msg list \<times> nav2" where
  "handleMapInfo env msg s =
     (case msg of
        None \<Rightarrow>
          let s1 = s\<lparr>m_map_ready := False\<rparr> in
          ([], if m_nav2_state s1 \<noteq> STOPPED then requestStopNav2 s1 else s1)
      | Some (map_yaml, map_version) \<Rightarrow>
          let mapChanged = (m_current_map_yaml s \<noteq> map_yaml \<or> m_current_map_version s \<noteq> map_version);
              s1 = (if m_nav2_pid s > 0 \<and> mapChanged then requestStopNav2 s else s);
              s2 = s1\<lparr>m_map_ready := True, m_current_map_yaml := map_yaml, m_current_map_version := map_version\<rparr> in
          if m_nav2_state s2 = STOPPED \<or> m_nav2_state s2 = FAILED
          then handleStateMachineTick env ((launchNav2Process env s2)\<lparr>m_nav2_state := STARTING_PROCESS\<rparr>)
          else ([], s2))"

definition onInitialPose :: "real \<times> real \<times> real \<Rightarrow> nav2 \<Rightarrow> initial_pose_msg list \<times> nav2" where
  "onInitialPose pose s = publishInitialPoseIfReady_nav (s\<lparr>m_initial_pose := Some pose\<rparr>)"

text \<open>The status that the server reports for the navigation.\<close>

definition navigationStatus :: "nav2 \<Rightarrow> navigation \<Rightarrow> component_state" where
  "navigationStatus s nav =
     (if m_nav2_state s = FAILED then STATE_ERROR
      else if m_navigating nav then STATE_WORKING
      else if m_nav2_state s = READY then STATE_IDLE
      else STATE_INITIALIZING)"

section \<open>The states that are reached\<close>

inductive nav2_step :: "nav2 \<Rightarrow> nav2 \<Rightarrow> bool" where
  map_info: "handleMapInfo env msg s = (poses, s') \<Longrightarrow> nav2_step s s'"
| tick: "handleStateMachineTick env s = (poses, s') \<Longrightarrow> nav2_step s s'"
| initial_pose: "onInitialPose pose s = (poses, s') \<Longrightarrow> nav2_step s s'"

inductive_cases nav2_stepE: "nav2_step s s'"

definition nav2_ok :: "nav2 \<Rightarrow> bool" where
  "nav2_ok s \<longleftrightarrow>
     m_nav2_state s \<noteq> FAILED \<and> m_nav2_state s \<noteq> STOPPING \<and> (m_map_ready s \<longleftrightarrow> m_nav2_state s \<noteq> STOPPED) \<and>
     (m_nav2_state s = READY \<longrightarrow> m_initial_pose_published s) \<and>
     (m_initial_pose_published s \<longrightarrow> m_initial_pose s \<noteq> None) \<and>
     (m_nav2_state s = STOPPED \<longrightarrow> m_nav2_pid s \<le> 0)"

lemma publish_ok:
  "publishInitialPoseIfReady_nav s = (poses, s') \<Longrightarrow> nav2_ok s \<Longrightarrow> nav2_ok s' \<and> m_nav2_state s' = m_nav2_state s"
  by (auto simp: publishInitialPoseIfReady_nav_def nav2_ok_def split: if_splits option.splits prod.splits)

lemma tick_ok:
  assumes "handleStateMachineTick env s = (poses, s')" and "nav2_ok s"
  shows "nav2_ok s'"
proof (cases "m_map_ready s \<and> m_nav2_state s = WAITING_FOR_LOCALIZATION")
  case True
  obtain ps s1 where p: "publishInitialPoseIfReady_nav s = (ps, s1)" by fastforce
  from publish_ok [OF p assms(2)] True p assms(1) show ?thesis
    by (auto simp: handleStateMachineTick_def nav2_ok_def split: if_splits)
next
  case False
  with assms show ?thesis
    by (auto simp: handleStateMachineTick_def startNav2Lifecycle_def nav2_ok_def split: if_splits nav2_state.splits)
qed

lemma stop_ok:
  "nav2_ok s \<Longrightarrow> m_nav2_state (requestStopNav2 s) = STOPPED \<and> m_nav2_pid (requestStopNav2 s) \<le> 0 \<and>
    (m_initial_pose_published (requestStopNav2 s) \<longrightarrow> m_initial_pose (requestStopNav2 s) \<noteq> None) \<and>
    m_map_ready (requestStopNav2 s) = m_map_ready s"
  by (auto simp: requestStopNav2_def stopNav2Process_def nav2_ok_def)

lemma launch_ok:
  assumes "m_initial_pose_published s \<longrightarrow> m_initial_pose s \<noteq> None" and "m_map_ready s"
  shows "nav2_ok ((launchNav2Process env s)\<lparr>m_nav2_state := STARTING_PROCESS\<rparr>)"
  using assms by (auto simp: launchNav2Process_def nav2_ok_def)

lemma map_info_ok:
  assumes "handleMapInfo env msg s = (poses, s')" and "nav2_ok s"
  shows "nav2_ok s'"
proof (cases msg)
  case None
  have "nav2_ok (s\<lparr>m_map_ready := False\<rparr>) \<or> m_nav2_state s \<noteq> STOPPED" using assms(2) by (auto simp: nav2_ok_def)
  moreover have "nav2_ok (requestStopNav2 (s\<lparr>m_map_ready := False\<rparr>))" if "m_nav2_state s \<noteq> STOPPED"
    using assms(2) that by (auto simp: requestStopNav2_def stopNav2Process_def nav2_ok_def)
  ultimately show ?thesis using assms None by (auto simp: handleMapInfo_def Let_def split: if_splits)
next
  case (Some m)
  obtain yaml version where m: "m = (yaml, version)" by fastforce
  let ?s1 = "if m_nav2_pid s > 0 \<and> (m_current_map_yaml s \<noteq> yaml \<or> m_current_map_version s \<noteq> version) then requestStopNav2 s else s"
  let ?s2 = "?s1\<lparr>m_map_ready := True, m_current_map_yaml := yaml, m_current_map_version := version\<rparr>"
  show ?thesis
  proof (cases "m_nav2_state ?s1 = STOPPED \<or> m_nav2_state ?s1 = FAILED")
    case True
    then have "handleStateMachineTick env ((launchNav2Process env ?s2)\<lparr>m_nav2_state := STARTING_PROCESS\<rparr>) = (poses, s')"
      using assms(1) Some m by (simp add: handleMapInfo_def Let_def)
    moreover have "nav2_ok ((launchNav2Process env ?s2)\<lparr>m_nav2_state := STARTING_PROCESS\<rparr>)"
      using stop_ok [OF assms(2)] assms(2) by (intro launch_ok) (auto simp: nav2_ok_def)
    ultimately show ?thesis by (rule tick_ok)
  next
    case False
    then have "?s1 = s" using stop_ok [OF assms(2)] by (auto split: if_splits)
    with False assms Some m show ?thesis by (auto simp: handleMapInfo_def Let_def nav2_ok_def)
  qed
qed

lemma initial_pose_ok:
  assumes "onInitialPose pose s = (poses, s')" and "nav2_ok s"
  shows "nav2_ok s'"
  using publish_ok [OF assms(1) [unfolded onInitialPose_def]] assms(2) by (auto simp: nav2_ok_def)

interpretation nav2: stepping "\<lambda>s. s = fresh_nav2" nav2_step nav2_ok
proof
  fix s :: nav2
  assume "s = fresh_nav2"
  then show "nav2_ok s" by (simp add: nav2_ok_def fresh_nav2_def)
next
  fix s s'
  assume "nav2_ok s" and "nav2_step s s'"
  then show "nav2_ok s'" by (auto elim!: nav2_stepE intro: map_info_ok tick_ok initial_pose_ok)
qed

section \<open>What the navigation server reports and writes\<close>

lemma launch_failure_unreported:
  "m_nav2_state s \<noteq> FAILED \<Longrightarrow> navigationStatus s nav \<noteq> STATE_ERROR"
  by (simp add: navigationStatus_def)

definition sample_nav2_env :: nav2_env where
  "sample_nav2_env = \<lparr>fork_result = -1, navigation_service = True, localization_service = True\<rparr>"

definition sample_nav2 :: nav2 where
  "sample_nav2 = snd (handleMapInfo sample_nav2_env (Some (''map.yaml'', ''v1'')) fresh_nav2)"

lemma sample_nav2_reached: "nav2_step\<^sup>*\<^sup>* fresh_nav2 sample_nav2"
proof -
  obtain poses s where "handleMapInfo sample_nav2_env (Some (''map.yaml'', ''v1'')) fresh_nav2 = (poses, s)"
    by fastforce
  then show ?thesis by (auto simp: sample_nav2_def intro: nav2_step.map_info)
qed

text \<open>
  C34: Whatever map messages, ticks and initial poses arrive, in any order and with any outcome of the
  fork and of the lifecycle services, the navigation server at rest is never in the state FAILED or
  STOPPING, is STOPPED exactly when no map is ready, is READY only after the initial pose was published,
  and holds no Nav2 process while it is STOPPED. In particular a fork that failed is never reported: the
  status is never ERROR, and the server goes on to READY without a Nav2 process.
\<close>
theorem navigation_server_states:
  assumes "nav2_step\<^sup>*\<^sup>* fresh_nav2 s"
  shows "nav2_ok s \<and> navigationStatus s nav \<noteq> STATE_ERROR"
  using nav2.reached [OF _ assms] launch_failure_unreported by (simp add: nav2_ok_def)

lemma navigation_server_states_witness:
  "nav2_ok sample_nav2 \<and> navigationStatus sample_nav2 fresh_navigation \<noteq> STATE_ERROR"
  by (rule navigation_server_states [OF sample_nav2_reached])

text \<open>
  Writing the parameter file ends for every text, prefix and placeholder position, and what it writes
  is the text with each occurrence of the placeholder, read from left to right in one pass, replaced by the
  robot's prefix: a prefix that itself contains the placeholder is not expanded again.
\<close>
theorem nav2_params_is_substitution:
  "nav2_params ns content = substitute (robot_prefix (if ns = ''/'' then [] else ns)) content (length content)"
  by (rule nav2_params_substitute)

end
