(* ===== verification/Map_Manager.thy ===== *)
theory Map_Manager
  imports File_Paths Agent_Codec
begin

text \<open>
  \<open>amr_agent/src/map/map_manager.cpp\<close> and \<open>amr_agent/src/http/http_client.cpp\<close>: the map of the robot.
  It is loaded from its directory at start, replaced by the package that the edge server names, and
  announced to the other nodes. The node and the publisher exist throughout. Outside are the network, the
  ZIP and YAML libraries and the disk: what they do in a call are fields of a world.
\<close>

section \<open>State and surroundings\<close>

record map_manager =
  m_mapRootPath :: string
  m_warehouseId :: string
  m_mapVersion :: string
  m_mapDir :: string
  m_mapYaml :: string
  m_mapImage :: string
  m_map_is_ready :: bool

text \<open>What the constructor and the first line of \<open>init\<close> leave.\<close>

definition fresh_map_manager :: "string \<Rightarrow> map_manager" where
  "fresh_map_manager path = \<lparr>m_mapRootPath = path, m_warehouseId = [], m_mapVersion = [], m_mapDir = [],
     m_mapYaml = [], m_mapImage = [], m_map_is_ready = False\<rparr>"

text \<open>The message \<open>MapInfo\<close>.\<close>

record map_info =
  fo_warehouse_id :: string
  fo_map_version :: string
  fo_map_dir :: string
  fo_map_yaml :: string
  fo_zones_yaml :: string
  fo_stations_yaml :: string
  fo_ready :: bool

text \<open>
  A member of the metadata file: missing, not convertible to a string (the conversion throws), or a text.
  An entry of an archive: its name where \<open>zip_stat_index\<close> gives one, and the bytes that \<open>zip_fread\<close>
  delivers before its end or its error, where \<open>zip_fopen_index\<close> succeeds.
\<close>

datatype yaml_field = Missing | Bad | Text string

record metadata =
  md_warehouse_id :: yaml_field
  md_version :: yaml_field
  md_map :: yaml_field
  md_image :: yaml_field

type_synonym zip_entry = "string option \<times> string option"

datatype zip_archive = Zip_Unreadable | Zip_Bad_Count | Zip "zip_entry list"

datatype clearing = Cleared | Interrupted "string \<Rightarrow> bool" | Not_Listed

datatype http_reply = No_Reply string | Reply int string string

record map_world =
  http_exchange :: "string \<Rightarrow> http_reply"
  remove_old_ok :: bool
  remove_package_ok :: bool
  package_write :: "string option"
  root_exists :: bool
  directories_ok :: bool
  clearing :: clearing
  unzip :: "string \<Rightarrow> zip_archive"
  can_write :: "string \<Rightarrow> bool"
  yaml :: "string \<Rightarrow> metadata option"

text \<open>
  \<open>package_write\<close> is \<open>None\<close> when the package file can be written, \<open>Some\<close> of what ends up in it when the
  write fails; an interrupted clearing has removed some of the files of the map directory. A directory that
  cannot be listed gives an empty loop, so nothing is removed and nothing is reported.
\<close>

section \<open>The HTTP client\<close>

record http_response =
  hr_succeed :: bool
  hr_body :: string
  hr_errMsg :: string

definition request :: "(string \<Rightarrow> http_reply) \<Rightarrow> string \<Rightarrow> http_response" where
  "request exchange path =
     (case exchange path of
        Reply status reason body \<Rightarrow>
          if status \<ge> 200 \<and> status < 300
          then \<lparr>hr_succeed = True, hr_body = (if status = 204 then [] else body), hr_errMsg = []\<rparr>
          else \<lparr>hr_succeed = False, hr_body = [], hr_errMsg = ''HTTP Error '' @ to_string status @ '': '' @ reason\<rparr>
      | No_Reply err \<Rightarrow> \<lparr>hr_succeed = False, hr_body = [], hr_errMsg = ''Request failed: '' @ err\<rparr>)"

section \<open>Loading the metadata and the current map\<close>

text \<open>The members are read one after the other; a member that throws ends the reading.\<close>

definition read_member ::
  "yaml_field \<Rightarrow> (string \<Rightarrow> map_manager \<Rightarrow> map_manager) \<Rightarrow> bool \<times> map_manager \<Rightarrow> bool \<times> map_manager" where
  "read_member fld upd st =
     (case st of (ok, m) \<Rightarrow>
        if \<not> ok then st
        else case fld of Missing \<Rightarrow> (True, m) | Bad \<Rightarrow> (False, m) | Text s \<Rightarrow> (True, upd s m))"

definition loadMetadata :: "map_world \<Rightarrow> file_system \<Rightarrow> map_manager \<Rightarrow> bool \<times> map_manager" where
  "loadMetadata w fs m =
     (case fs (path_join (m_mapRootPath m) ''metadata.yaml'') of
        None \<Rightarrow> (False, m)
      | Some content \<Rightarrow>
          (case yaml w content of
             None \<Rightarrow> (False, m)
           | Some doc \<Rightarrow>
               read_member (md_image doc) (\<lambda>s m. m\<lparr>m_mapImage := s\<rparr>)
                 (read_member (md_map doc) (\<lambda>s m. m\<lparr>m_mapYaml := path_join (m_mapRootPath m) s\<rparr>)
                   (read_member (md_version doc) (\<lambda>s m. m\<lparr>m_mapVersion := s\<rparr>)
                     (read_member (md_warehouse_id doc) (\<lambda>s m. m\<lparr>m_warehouseId := s\<rparr>) (True, m))))))"

definition default_yaml :: "map_manager \<Rightarrow> map_manager" where
  "default_yaml m =
     (if m_mapYaml m = [] then m\<lparr>m_mapYaml := path_join (m_mapRootPath m) ''map.yaml''\<rparr> else m)"

definition loadCurrentMap :: "map_world \<Rightarrow> file_system \<Rightarrow> map_manager \<Rightarrow> bool \<times> map_manager" where
  "loadCurrentMap w fs m =
     (if m_mapRootPath m = [] then (False, m)
      else
        let m1 = default_yaml (snd (loadMetadata w fs m)) in
        if fs (m_mapYaml m1) = None then (False, m1\<lparr>m_map_is_ready := False\<rparr>)
        else (True, m1\<lparr>m_mapDir := m_mapRootPath m1, m_map_is_ready := True\<rparr>))"

definition map_info_of :: "map_manager \<Rightarrow> map_info" where
  "map_info_of m = \<lparr>fo_warehouse_id = m_warehouseId m, fo_map_version = m_mapVersion m, fo_map_dir = m_mapDir m,
     fo_map_yaml = m_mapYaml m, fo_zones_yaml = path_join (m_mapDir m) ''zones.yaml'',
     fo_stations_yaml = path_join (m_mapDir m) ''stations.yaml'', fo_ready = True\<rparr>"

definition publishMapInfo :: "map_manager \<Rightarrow> map_info option" where
  "publishMapInfo m = (if \<not> m_map_is_ready m then None else Some (map_info_of m))"

definition init_map_manager ::
  "map_world \<Rightarrow> string \<Rightarrow> file_system \<Rightarrow> bool \<times> map_info option \<times> map_manager" where
  "init_map_manager w path fs =
     (let m = fresh_map_manager path in
      if path = [] then (False, None, m)
      else if \<not> directories_ok w then (False, None, m)
      else case loadCurrentMap w fs m of
        (True, m1) \<Rightarrow> (True, publishMapInfo m1, m1)
      | (False, m1) \<Rightarrow> (True, None, m1))"

section \<open>Replacing the map\<close>

definition package_path :: string where
  "package_path = ''/tmp/amr_map_package.zip''"

definition downloadMap :: "map_world \<Rightarrow> string \<Rightarrow> string \<Rightarrow> file_system \<Rightarrow> bool \<times> file_system" where
  "downloadMap w url packagePath fs =
     (let response = request (http_exchange w) url in
      if \<not> hr_succeed response then (False, fs)
      else if hr_body response = [] then (False, fs)
      else if \<not> can_write w packagePath then (False, fs)
      else case package_write w of
        Some content \<Rightarrow> (False, fs(packagePath \<mapsto> content))
      | None \<Rightarrow> (True, fs(packagePath \<mapsto> hr_body response)))"

text \<open>The loop over the entries: directories and nameless entries are skipped, only file names are used.\<close>

fun extract_entries ::
  "(string \<Rightarrow> bool) \<Rightarrow> string \<Rightarrow> zip_entry list \<Rightarrow> file_system \<Rightarrow> bool \<times> file_system" where
  "extract_entries writable mapDir [] fs = (True, fs)"
| "extract_entries writable mapDir ((None, bytes) # entries) fs = extract_entries writable mapDir entries fs"
| "extract_entries writable mapDir ((Some entryName, bytes) # entries) fs =
     (if entryName = [] \<or> last entryName = CHR ''/'' then extract_entries writable mapDir entries fs
      else case bytes of
        None \<Rightarrow> (False, fs)
      | Some content \<Rightarrow>
          let outputPath = path_join mapDir (filename entryName) in
          if \<not> writable outputPath then (False, fs)
          else extract_entries writable mapDir entries (fs(outputPath \<mapsto> content)))"

definition extractMap :: "map_world \<Rightarrow> string \<Rightarrow> string \<Rightarrow> file_system \<Rightarrow> bool \<times> file_system" where
  "extractMap w packagePath mapDir fs =
     (case fs packagePath of
        None \<Rightarrow> (False, fs)
      | Some package \<Rightarrow>
          if \<not> directories_ok w then (False, fs)
          else case unzip w package of
            Zip_Unreadable \<Rightarrow> (False, fs)
          | Zip_Bad_Count \<Rightarrow> (False, fs)
          | Zip entries \<Rightarrow> extract_entries (can_write w) mapDir entries fs)"

definition remove_file :: "bool \<Rightarrow> string \<Rightarrow> file_system \<Rightarrow> bool \<times> file_system" where
  "remove_file works p fs = (if works then (True, fs(p := None)) else (False, fs))"

text \<open>Making the directory or emptying it.\<close>

definition clear_directory :: "map_world \<Rightarrow> string \<Rightarrow> file_system \<Rightarrow> bool \<times> file_system" where
  "clear_directory w mapDir fs =
     (if \<not> root_exists w then (directories_ok w, fs)
      else case clearing w of
        Cleared \<Rightarrow> (True, \<lambda>p. if inside mapDir p then None else fs p)
      | Interrupted gone \<Rightarrow> (False, \<lambda>p. if inside mapDir p \<and> gone p then None else fs p)
      | Not_Listed \<Rightarrow> (True, fs))"

definition updateMap ::
  "map_world \<Rightarrow> agent_register_response \<Rightarrow> file_system \<times> map_manager \<Rightarrow> bool \<times> file_system \<times> map_manager" where
  "updateMap w response st =
     (let (fs, m) = st in
      if ar_map_download_url response = [] then (False, fs, m)
      else case remove_file (remove_old_ok w) package_path fs of
        (False, fs1) \<Rightarrow> (False, fs1, m)
      | (True, fs1) \<Rightarrow>
      (case downloadMap w (ar_map_download_url response) package_path fs1 of
        (False, fs2) \<Rightarrow> (False, fs2, m)
      | (True, fs2) \<Rightarrow>
      if fs2 package_path = None then (False, fs2, m)
      else (case clear_directory w (m_mapRootPath m) fs2 of
        (False, fs3) \<Rightarrow> (False, snd (remove_file (remove_package_ok w) package_path fs3), m)
      | (True, fs3) \<Rightarrow>
      (case extractMap w package_path (m_mapRootPath m) fs3 of
        (False, fs4) \<Rightarrow> (False, snd (remove_file (remove_package_ok w) package_path fs4), m)
      | (True, fs4) \<Rightarrow>
          let fs5 = snd (remove_file (remove_package_ok w) package_path fs4);
              m1 = default_yaml (snd (loadMetadata w fs5 m)) in
          if fs5 (m_mapYaml m1) = None then (False, fs5, m1)
          else
            let m2 = (if ar_map_version response \<noteq> [] then m1\<lparr>m_mapVersion := ar_map_version response\<rparr> else m1) in
            (True, fs5, m2\<lparr>m_mapDir := m_mapRootPath m2, m_map_is_ready := True\<rparr>)))))"

definition onRegisterResponse_map ::
  "map_world \<Rightarrow> agent_register_response \<Rightarrow> file_system \<times> map_manager
     \<Rightarrow> map_info option \<times> file_system \<times> map_manager" where
  "onRegisterResponse_map w response st =
     (let (fs, m) = st in
      if ar_code response \<noteq> 0 then (None, fs, m)
      else if \<not> ar_map_update response
      then if m_map_is_ready m then (publishMapInfo m, fs, m)
           else (case loadCurrentMap w fs m of
                   (True, m1) \<Rightarrow> (publishMapInfo m1, fs, m1)
                 | (False, m1) \<Rightarrow> (None, fs, m1))
      else case updateMap w response st of
        (False, fs1, m1) \<Rightarrow> (None, fs1, m1)
      | (True, fs1, m1) \<Rightarrow> (publishMapInfo m1, fs1, m1))"

end
