(* ===== verification/Map_Manager_Rules.thy ===== *)
theory Map_Manager_Rules
  imports Map_Manager
begin

text \<open>
  What the map manager of the robot keeps to and promises: which files an update may touch, what a
  completed update leaves, and what a failed one leaves behind.
\<close>

section \<open>Extraction\<close>

text \<open>The files that the entries of an archive stand for, in their order.\<close>

fun archive_files :: "string \<Rightarrow> zip_entry list \<Rightarrow> (string \<times> string) list" where
  "archive_files d [] = []"
| "archive_files d ((None, bytes) # es) = archive_files d es"
| "archive_files d ((Some n, bytes) # es) =
     (if n = [] \<or> last n = CHR ''/'' then archive_files d es
      else case bytes of
        None \<Rightarrow> archive_files d es
      | Some content \<Rightarrow> (path_join d (filename n), content) # archive_files d es)"

lemma extract_complete:
  "extract_entries writable d es fs = (True, fs') \<Longrightarrow> fs' = fs ++ map_of (rev (archive_files d es))"
  by (induction writable d es fs rule: extract_entries.induct) (auto simp: Let_def split: if_splits option.splits)

lemma extract_inside:
  "extract_entries writable d es fs = (ok, fs') \<Longrightarrow> \<not> inside d p \<Longrightarrow> fs' p = fs p"
proof (induction writable d es fs rule: extract_entries.induct)
  case (3 writable d n bytes es fs)
  have "path_join d (filename n) \<noteq> p" using 3(4) path_join_inside [OF filename_no_slash] by blast
  with 3 show ?case by (auto simp: Let_def simp del: fun_upd_apply split: if_splits option.splits) simp_all
qed auto

lemma archive_files_inside: "p \<in> fst ` set (archive_files d es) \<Longrightarrow> inside d p"
  by (induction d es rule: archive_files.induct) (auto simp: path_join_inside filename_no_slash split: if_splits option.splits)

section \<open>The steps of an update\<close>

lemma read_member_cases:
  "snd (read_member f upd (ok, m)) = m \<or> (\<exists>s. snd (read_member f upd (ok, m)) = upd s m)"
  by (cases f) (auto simp: read_member_def)

lemma loadMetadata_keeps:
  assumes "\<And>s m. P (m\<lparr>m_mapImage := s\<rparr>) = P m" "\<And>s m. P (m\<lparr>m_mapVersion := s\<rparr>) = P m"
    and "\<And>s m. P (m\<lparr>m_warehouseId := s\<rparr>) = P m" "\<And>s m. P (m\<lparr>m_mapYaml := s\<rparr>) = P m"
  shows "P (snd (loadMetadata w fs m)) = P m"
  by (auto simp: loadMetadata_def read_member_def assms split: option.splits yaml_field.splits)

lemma loadMetadata_ready [simp]: "m_map_is_ready (snd (loadMetadata w fs m)) = m_map_is_ready m"
  by (rule loadMetadata_keeps) simp_all

lemma loadMetadata_root [simp]: "m_mapRootPath (snd (loadMetadata w fs m)) = m_mapRootPath m"
  by (rule loadMetadata_keeps [where P = "\<lambda>m. m_mapRootPath m = r" for r, THEN iffD2, of "m_mapRootPath m"]) simp_all

lemma default_yaml_keeps [simp]:
  "m_map_is_ready (default_yaml m) = m_map_is_ready m" "m_mapRootPath (default_yaml m) = m_mapRootPath m"
  by (simp_all add: default_yaml_def)

lemma download_frame:
  "downloadMap w url q fs = (ok, fs') \<Longrightarrow> p \<noteq> q \<Longrightarrow> fs' p = fs p"
  by (auto simp: downloadMap_def Let_def split: if_splits option.splits)

lemma remove_frame: "remove_file works q fs = (ok, fs') \<Longrightarrow> p \<noteq> q \<Longrightarrow> fs' p = fs p"
  by (auto simp: remove_file_def split: if_splits)

lemma clear_frame: "clear_directory w d fs = (ok, fs') \<Longrightarrow> \<not> inside d p \<Longrightarrow> fs' p = fs p"
  by (auto simp: clear_directory_def split: if_splits clearing.splits)

lemma extract_frame: "extractMap w q d fs = (ok, fs') \<Longrightarrow> \<not> inside d p \<Longrightarrow> fs' p = fs p"
  by (auto simp: extractMap_def dest: extract_inside split: option.splits if_splits zip_archive.splits)

lemmas update_frames = download_frame remove_frame clear_frame extract_frame

lemma updateMap_frame:
  assumes "updateMap w response (fs, m) = (ok, fs', m')" and "\<not> inside (m_mapRootPath m) p" and "p \<noteq> package_path"
  shows "fs' p = fs p"
  using assms
  by (auto simp: updateMap_def Let_def split: if_splits prod.splits bool.splits)
    (metis update_frames prod.collapse)+

lemma updateMap_manager:
  assumes "updateMap w response (fs, m) = (ok, fs', m')"
  shows "m_mapRootPath m' = m_mapRootPath m \<and> (if ok then m_map_is_ready m' else m_map_is_ready m' = m_map_is_ready m)"
  using assms by (auto simp: updateMap_def Let_def split: if_splits prod.splits bool.splits)

lemma updateMap_publishes:
  assumes "updateMap w response (fs, m) = (True, fs', m')"
  shows "publishMapInfo m' = Some (map_info_of m') \<and> m_mapDir m' = m_mapRootPath m \<and> fs' (m_mapYaml m') \<noteq> None \<and>
    (ar_map_version response \<noteq> [] \<longrightarrow> m_mapVersion m' = ar_map_version response)"
  using assms by (auto simp: updateMap_def publishMapInfo_def Let_def split: if_splits prod.splits bool.splits)

lemma updateMap_files:
  assumes "updateMap w response (fs, m) = (True, fs', m')" and "root_exists w" and "clearing w = Cleared"
    and "\<not> inside (m_mapRootPath m) package_path"
  shows "\<exists>entries. unzip w (hr_body (request (http_exchange w) (ar_map_download_url response))) = Zip entries \<and>
    (\<forall>p. inside (m_mapRootPath m) p \<longrightarrow> fs' p = map_of (rev (archive_files (m_mapRootPath m) entries)) p)"
proof -
  let ?root = "m_mapRootPath m" and ?body = "hr_body (request (http_exchange w) (ar_map_download_url response))"
  obtain fs1 fs2 fs4 where steps: "downloadMap w (ar_map_download_url response) package_path fs1 = (True, fs2)"
      "extractMap w package_path ?root (\<lambda>p. if inside ?root p then None else fs2 p) = (True, fs4)"
      "fs' = snd (remove_file (remove_package_ok w) package_path fs4)"
    using assms(1,2,3)
    by (auto simp: updateMap_def clear_directory_def Let_def split: if_splits prod.splits bool.splits)
  have "fs2 package_path = Some ?body"
    using steps(1) by (auto simp: downloadMap_def Let_def split: if_splits option.splits)
  with steps(2) assms(4) obtain entries where entries: "unzip w ?body = Zip entries"
      "extract_entries (can_write w) ?root entries (\<lambda>p. if inside ?root p then None else fs2 p) = (True, fs4)"
    by (auto simp: extractMap_def split: if_splits option.splits zip_archive.splits)
  have "fs' p = map_of (rev (archive_files ?root entries)) p" if "inside ?root p" for p
  proof -
    have "p \<noteq> package_path" using that assms(4) by blast
    then have "fs' p = fs4 p" using steps(3) by (simp add: remove_file_def)
    with that show ?thesis by (simp add: extract_complete [OF entries(2)] map_add_def split: option.splits)
  qed
  with entries show ?thesis by blast
qed

section \<open>What an update may touch and what it leaves\<close>

text \<open>
  C35: the map manager stays in its place. Whatever the archive, the network and the disk do, handling a
  registration answer changes no file outside the map directory except the downloaded package: names in
  an archive cannot lead out of the directory. A map that is ready stays ready.
\<close>

theorem map_update_contained:
  assumes "onRegisterResponse_map w response (fs, m) = (info, fs', m')"
  shows "(\<forall>p. \<not> inside (m_mapRootPath m) p \<and> p \<noteq> package_path \<longrightarrow> fs' p = fs p) \<and>
    m_mapRootPath m' = m_mapRootPath m \<and> (m_map_is_ready m \<longrightarrow> m_map_is_ready m')"
proof (cases "ar_code response = 0 \<and> ar_map_update response")
  case True
  obtain ok fs1 m1 where u: "updateMap w response (fs, m) = (ok, fs1, m1)" by (metis prod_cases3)
  with True assms have "fs' = fs1 \<and> m' = m1"
    by (cases ok) (auto simp: onRegisterResponse_map_def)
  with updateMap_frame [OF u] updateMap_manager [OF u] show ?thesis by (auto split: if_splits)
next
  case False
  with assms show ?thesis
    by (auto simp: onRegisterResponse_map_def loadCurrentMap_def Let_def split: if_splits prod.splits bool.splits)
qed

text \<open>
  A completed update. When the map is announced after an answer that asks for an update, the archive
  that was downloaded was readable, the files in the emptied map directory are exactly the files of that
  archive by their base names, a later entry of the same name winning, the YAML file announced is there,
  and version and directory announced are those of the answer and of the manager.
\<close>

theorem map_update_installs_archive:
  assumes "onRegisterResponse_map w response (fs, m) = (Some info, fs', m')" and "ar_map_update response"
    and "root_exists w" and "clearing w = Cleared" and "\<not> inside (m_mapRootPath m) package_path"
  shows "\<exists>entries. unzip w (hr_body (request (http_exchange w) (ar_map_download_url response))) = Zip entries \<and>
    (\<forall>p. inside (m_mapRootPath m) p \<longrightarrow> fs' p = map_of (rev (archive_files (m_mapRootPath m) entries)) p) \<and>
    fs' (fo_map_yaml info) \<noteq> None \<and> fo_map_dir info = m_mapRootPath m \<and>
    (ar_map_version response \<noteq> [] \<longrightarrow> fo_map_version info = ar_map_version response)"
proof -
  have u: "updateMap w response (fs, m) = (True, fs', m')" and i: "publishMapInfo m' = Some info"
    using assms(1,2) by (auto simp: onRegisterResponse_map_def split: if_splits prod.splits bool.splits)
  have "info = map_info_of m'" using i updateMap_publishes [OF u] by simp
  with updateMap_publishes [OF u] updateMap_files [OF u assms(3-5)] show ?thesis by (simp add: map_info_of_def)
qed

text \<open>
  A broken package leaves the robot without a map that it goes on announcing. If the package of an
  update was downloaded but cannot be opened as an archive, the files of the current map are gone while the
  manager stays as it was, and every later answer that asks for no update announces the lost map as ready.
\<close>

theorem broken_package_loses_map:
  assumes "m_map_is_ready m" and "\<not> inside (m_mapRootPath m) package_path"
    and "ar_code response = 0" and "ar_map_update response" and "ar_map_download_url response \<noteq> []"
    and "hr_succeed (request (http_exchange w) (ar_map_download_url response))"
    and "hr_body (request (http_exchange w) (ar_map_download_url response)) = package" and "package \<noteq> []"
    and "can_write w package_path" and "package_write w = None" and "remove_old_ok w" and "root_exists w"
    and "clearing w = Cleared" and "unzip w package = Zip_Unreadable"
  shows "\<exists>fs'. onRegisterResponse_map w response (fs, m) = (None, fs', m) \<and>
    (\<forall>p. inside (m_mapRootPath m) p \<longrightarrow> fs' p = None) \<and>
    (\<forall>w' response'. ar_code response' = 0 \<and> \<not> ar_map_update response' \<longrightarrow>
       onRegisterResponse_map w' response' (fs', m) = (Some (map_info_of m), fs', m))"
proof -
  let ?root = "m_mapRootPath m" and ?url = "ar_map_download_url response"
  define fs1 where "fs1 = fs(package_path := None)"
  define fs2 where "fs2 = fs1(package_path \<mapsto> package)"
  define fs3 where "fs3 = (\<lambda>p. if inside ?root p then None else fs2 p)"
  let ?fs5 = "snd (remove_file (remove_package_ok w) package_path fs3)"
  have "remove_file (remove_old_ok w) package_path fs = (True, fs1)"
    using assms(11) by (simp add: remove_file_def fs1_def)
  moreover have "downloadMap w ?url package_path fs1 = (True, fs2)"
    using assms(6-10) by (simp add: downloadMap_def fs2_def Let_def)
  moreover have there: "fs2 package_path = Some package" by (simp add: fs2_def)
  moreover have "clear_directory w ?root fs2 = (True, fs3)"
    using assms(12,13) by (simp add: clear_directory_def fs3_def)
  moreover have "extractMap w package_path ?root fs3 = (False, fs3)"
    using assms(2,14) there by (simp add: extractMap_def fs3_def)
  ultimately have "updateMap w response (fs, m) = (False, ?fs5, m)"
    using assms(5) by (simp add: updateMap_def)
  moreover have "?fs5 p = None" if "inside ?root p" for p
    using that by (auto simp: remove_file_def fs3_def)
  ultimately show ?thesis
    using assms(1,3,4) by (intro exI [of _ ?fs5]) (simp add: onRegisterResponse_map_def publishMapInfo_def)
qed

section \<open>Examples\<close>

definition sample_manager :: map_manager where
  "sample_manager = (fresh_map_manager ''/m'')\<lparr>m_mapYaml := ''/m/map.yaml'', m_mapDir := ''/m'', m_map_is_ready := True\<rparr>"

definition sample_answer :: agent_register_response where
  "sample_answer = \<lparr>ar_code = 0, ar_message = [], ar_robot_id = ''amr-1'', ar_request_id = ''q1'', ar_map_version = ''v2'',
     ar_map_download_url = ''/maps'', ar_map_update = True, ar_initial_x = 0, ar_initial_y = 0, ar_initial_yaw = 0,
     ar_has_initial_pose = False\<rparr>"

definition sample_world :: "zip_archive \<Rightarrow> map_world" where
  "sample_world z = \<lparr>http_exchange = (\<lambda>_. Reply 200 ''OK'' ''zip''), remove_old_ok = True, remove_package_ok = True,
     package_write = None, root_exists = True, directories_ok = True, clearing = Cleared, unzip = (\<lambda>_. z),
     can_write = (\<lambda>_. True), yaml = (\<lambda>_. None)\<rparr>"

definition sample_zip :: zip_archive where
  "sample_zip = Zip [(Some ''maps/'', None), (Some ''maps/map.yaml'', Some ''old''), (Some ''../map.yaml'', Some ''new'')]"

lemma sample_outside [simp]: "\<not> inside ''/m'' package_path"
  by (simp add: inside_def directory_prefix_def package_path_def)

lemma sample_map_update:
  "\<exists>info fs' m'. onRegisterResponse_map (sample_world sample_zip) sample_answer (Map.empty, sample_manager) = (Some info, fs', m')"
  by (simp add: onRegisterResponse_map_def updateMap_def remove_file_def downloadMap_def clear_directory_def extractMap_def
      sample_world_def sample_zip_def sample_answer_def sample_manager_def request_def fresh_map_manager_def loadMetadata_def
      default_yaml_def path_join_def filename_def inside_def directory_prefix_def package_path_def publishMapInfo_def Let_def)

text \<open>An archive that names the same file twice, once with a path that leads out of the directory.\<close>

lemma map_update_contained_witness:
  "\<exists>info fs' m'. onRegisterResponse_map (sample_world sample_zip) sample_answer (Map.empty, sample_manager) = (Some info, fs', m') \<and>
     fs' ''/map.yaml'' = None \<and> m_map_is_ready m'"
proof -
  obtain info fs' m' where run:
    "onRegisterResponse_map (sample_world sample_zip) sample_answer (Map.empty, sample_manager) = (Some info, fs', m')"
    using sample_map_update by blast
  have outside: "\<not> inside (m_mapRootPath sample_manager) ''/map.yaml''" "''/map.yaml'' \<noteq> package_path"
    by (simp_all add: sample_manager_def fresh_map_manager_def inside_def directory_prefix_def package_path_def)
  have "m_map_is_ready sample_manager" by (simp add: sample_manager_def)
  with map_update_contained [OF run] outside have "fs' ''/map.yaml'' = None \<and> m_map_is_ready m'" by simp
  with run show ?thesis by blast
qed

lemma map_update_installs_archive_witness:
  "\<exists>info fs' m'. onRegisterResponse_map (sample_world sample_zip) sample_answer (Map.empty, sample_manager) = (Some info, fs', m') \<and>
     fs' ''/m/map.yaml'' = Some ''new'' \<and> fo_map_version info = ''v2''"
proof -
  obtain info fs' m' where run:
    "onRegisterResponse_map (sample_world sample_zip) sample_answer (Map.empty, sample_manager) = (Some info, fs', m')"
    using sample_map_update by blast
  have root: "m_mapRootPath sample_manager = ''/m''" by (simp add: sample_manager_def fresh_map_manager_def)
  have here: "inside ''/m'' ''/m/map.yaml''" by (simp add: inside_def directory_prefix_def)
  have installed: "\<exists>entries. unzip (sample_world sample_zip)
        (hr_body (request (http_exchange (sample_world sample_zip)) (ar_map_download_url sample_answer))) = Zip entries \<and>
      (\<forall>p. inside ''/m'' p \<longrightarrow> fs' p = map_of (rev (archive_files ''/m'' entries)) p) \<and>
      fs' (fo_map_yaml info) \<noteq> None \<and> fo_map_dir info = ''/m'' \<and>
      (ar_map_version sample_answer \<noteq> [] \<longrightarrow> fo_map_version info = ar_map_version sample_answer)"
    using map_update_installs_archive [OF run] sample_outside
    by (simp add: root) (simp add: sample_answer_def sample_world_def)
  then obtain entries where entries: "sample_zip = Zip entries"
      "fs' ''/m/map.yaml'' = map_of (rev (archive_files ''/m'' entries)) ''/m/map.yaml''" "fo_map_version info = ''v2''"
    using here by (auto simp: sample_world_def sample_answer_def)
  from entries(1)[symmetric] have "fs' ''/m/map.yaml'' = Some ''new''"
    by (simp add: entries(2) sample_zip_def path_join_def filename_def)
  with run entries(3) show ?thesis by blast
qed

lemma broken_package_loses_map_witness:
  "\<exists>fs'. fs' ''/m/map.yaml'' = None \<and>
     onRegisterResponse_map (sample_world sample_zip) (sample_answer\<lparr>ar_map_update := False\<rparr>) (fs', sample_manager) =
       (Some (map_info_of sample_manager), fs', sample_manager) \<and>
     fo_map_yaml (map_info_of sample_manager) = ''/m/map.yaml''"
proof -
  have here: "inside (m_mapRootPath sample_manager) ''/m/map.yaml''"
    by (simp add: inside_def directory_prefix_def sample_manager_def fresh_map_manager_def)
  have "\<exists>fs'. onRegisterResponse_map (sample_world Zip_Unreadable) sample_answer (Map.empty, sample_manager) = (None, fs', sample_manager) \<and>
    (\<forall>p. inside (m_mapRootPath sample_manager) p \<longrightarrow> fs' p = None) \<and>
    (\<forall>w' response'. ar_code response' = 0 \<and> \<not> ar_map_update response' \<longrightarrow>
       onRegisterResponse_map w' response' (fs', sample_manager) = (Some (map_info_of sample_manager), fs', sample_manager))"
    by (rule broken_package_loses_map [where package = "''zip''"])
      (simp_all add: sample_world_def sample_answer_def request_def sample_manager_def fresh_map_manager_def)
  then obtain fs' where "\<forall>p. inside (m_mapRootPath sample_manager) p \<longrightarrow> fs' p = None"
      and again: "\<forall>w' response'. ar_code response' = 0 \<and> \<not> ar_map_update response' \<longrightarrow>
       onRegisterResponse_map w' response' (fs', sample_manager) = (Some (map_info_of sample_manager), fs', sample_manager)"
    by blast
  then have "fs' ''/m/map.yaml'' = None" using here by blast
  moreover have "onRegisterResponse_map (sample_world sample_zip) (sample_answer\<lparr>ar_map_update := False\<rparr>) (fs', sample_manager) =
       (Some (map_info_of sample_manager), fs', sample_manager)"
    using again by (simp add: sample_answer_def)
  ultimately show ?thesis
    by (intro exI [of _ fs']) (simp add: map_info_of_def sample_manager_def)
qed

end
