(* ===== verification/Robot_Map.thy ===== *)
theory Robot_Map
  imports Robot_Edge Map_Manager_Rules
begin

text \<open>
  The map of the robot between the agent and the edge server: how the node and the map manager handle an
  answer together, and which version the edge server gets to see.
\<close>

section \<open>An answer at the robot\<close>

text \<open>\<open>AmrAgentNode::onRegisterResponse\<close>: the map manager first, then the node asks it whether it is ready.\<close>

definition robot_register_answer ::
  "map_world \<Rightarrow> int \<Rightarrow> agent_register_response \<Rightarrow> file_system \<times> map_manager \<times> agent_node
     \<Rightarrow> map_info option \<times> agent_output list \<times> file_system \<times> map_manager \<times> agent_node" where
  "robot_register_answer w ms response st =
     (let (fs, m, a) = st;
          (info, fs', m') = onRegisterResponse_map w response (fs, m);
          (outs, a') = onRegisterResponse (m_map_is_ready m') ms response a in
      (info, outs, fs', m', a'))"

lemma answer_before_map:
  assumes "robot_register_answer w ms response (fs, m, a) = (info, outs, fs', m', a')" and "\<not> m_map_is_ready m'"
  shows "info = None \<and> outs = [] \<and> n_initial_pose_published a' = n_initial_pose_published a"
  using assms
  by (auto simp: robot_register_answer_def onRegisterResponse_def onRegisterResponse_map_def publishMapInfo_def Let_def
      dest: updateMap_manager split: if_splits prod.splits bool.splits)

section \<open>The version that the agent reports\<close>

inductive agent_step :: "agent_node \<times> pending_file \<Rightarrow> agent_node \<times> pending_file \<Rightarrow> bool" where
  message: "agent_consume env tm (a, f) = (outs, cmd, a', f') \<Longrightarrow> agent_step (a, f) (a', f')"
| navigation: "agent_step (a, f) (on_navigation_status s a, f)"
| behaviour: "agent_step (a, f) (on_behavior_status s a, f)"

inductive_cases agent_stepE: "agent_step s t"

definition configured :: "bootstrap_info \<Rightarrow> agent_node \<times> pending_file \<Rightarrow> bool" where
  "configured info s \<longleftrightarrow> n_robot_id (fst s) = b_robot_id info \<and> n_warehouse_id (fst s) = b_warehouse_id info \<and>
     n_map_version (fst s) = mc_version (b_map info)"

lemma agent_consume_version:
  "agent_consume env tm (a, f) = (outs, cmd, a', f') \<Longrightarrow> n_map_version a' = n_map_version a"
  by (cases tm)
    (auto simp: agent_consume_def onEdgeStatusMessage_def onRegisterResponse_def publishInitialPoseIfReady_def Let_def
      split: option.splits agent_handler.splits if_splits prod.splits)

interpretation agents: stepping "\<lambda>s. fst s = agent_of_bootstrap info" agent_step "configured info" for info
proof
  fix s :: "agent_node \<times> pending_file"
  assume "fst s = agent_of_bootstrap info"
  then show "configured info s" by (simp add: configured_def agent_of_bootstrap_def)
next
  fix s t
  assume "configured info s" and "agent_step s t"
  then show "configured info t"
    by (auto elim!: agent_stepE dest: agent_consume_identity agent_consume_version
        simp: configured_def on_navigation_status_def on_behavior_status_def)
qed

lemma read_register_request:
  "decodeRegisterReq (Some (register_request_json ms1 ms2 a)) = Some req \<Longrightarrow>
    rq_robot_id req = n_robot_id a \<and> rq_warehouse_id req = n_warehouse_id a \<and> rq_map_version req = n_map_version a"
  by (auto simp: decodeRegisterReq_def register_request_json_def decoded_def split: if_splits sum.splits option.splits)

lemma handleRegister_asks_update:
  assumes "handleRegister maps env alloc req sys = (True, resp, evs, sys')" and "rp_code resp = 0"
  shows "\<exists>package. GetActiveMap (faults (map_env env) 0) (rq_warehouse_id req) (database sys') = Some package \<and>
    rp_map_version resp = mp_version package \<and> (rp_map_update resp \<longleftrightarrow> mp_version package \<noteq> rq_map_version req)"
  using assms
  by (auto simp: handleRegister_def checkMapUpdate_def empty_response_def Let_def
      split: if_splits option.splits prod.splits)


definition same_maps :: "db_tables \<Rightarrow> db_tables \<Rightarrow> bool" where
  "same_maps t t' \<longleftrightarrow> tbl_map_package t' = tbl_map_package t \<and> tbl_active_map t' = tbl_active_map t"

lemma upsert_same_maps:
  "upsert_robot_row now base t = Some t' \<Longrightarrow> same_maps t t'"
  "upsert_robot_instance now base t = Some t' \<Longrightarrow> same_maps t t'"
  "upsert_robot_status now base status t = Some t' \<Longrightarrow> same_maps t t'"
  by (auto simp: upsert_robot_row_def upsert_robot_instance_def upsert_robot_status_def same_maps_def Let_def)

lemma UpsertRobot_keeps_maps:
  assumes "idle db"
  shows "opened (snd (UpsertRobot eng now base status db)) = opened db \<and>
    tbl_map_package (tables (snd (UpsertRobot eng now base status db))) = tbl_map_package (tables db) \<and>
    tbl_active_map (tables (snd (UpsertRobot eng now base status db))) = tbl_active_map (tables db)"
proof -
  obtain ok db' where run: "UpsertRobot eng now base status db = (ok, db')" by fastforce
  have "tbl_map_package (tables db') = tbl_map_package (tables db) \<and> tbl_active_map (tables db') = tbl_active_map (tables db)"
  proof (cases ok)
    case True
    then obtain t1 t2 where "upsert_robot_row now base (tables db) = Some t1"
      and "if rb_instance_id base \<noteq> [] then upsert_robot_instance now base t1 = Some t2 else t2 = t1"
      and "upsert_robot_status now base status t2 = Some (tables db')"
      using UpsertRobot_success [OF assms] run by metis
    then have "same_maps (tables db) t1 \<and> same_maps t1 t2 \<and> same_maps t2 (tables db')"
      by (metis upsert_same_maps same_maps_def)
    then show ?thesis by (simp add: same_maps_def)
  qed (use upsert.noop_unless [OF assms run] in simp)
  with upsert.keeps_opened [OF assms run] run show ?thesis by simp
qed

text \<open>
  A robot configured with version v1 that has been given v2, with v2 active at the edge server: it is asked
  to update once more.
\<close>

definition sample_bootstrap :: bootstrap_info where
  "sample_bootstrap = \<lparr>b_robot_id = ''amr-1'', b_warehouse_id = ''W1'', b_edge_host = ''edge'', b_edge_port = 8080,
     b_initial_x = 0, b_initial_y = 0, b_initial_yaw = 0,
     b_mqtt = \<lparr>mq_url = [], mq_client_id = [], mq_user = [], mq_pwd = [], mq_ca_file = [], mq_keepalive = 60,
       mq_reconnect_interval = 5, mq_tls_enable = False, mq_will_msg_enable = True, mq_will = ([], [])\<rparr>,
     b_map = \<lparr>mc_path = ''/m'', mc_version = ''v1'', mc_mapName = [], mc_imageName = [], mc_zoneName = [], mc_stationName = []\<rparr>\<rparr>"

definition sample_mapped :: "idle_allocator robot_system" where
  "sample_mapped = (fresh_system sample_points)\<lparr>database := fresh_db\<lparr>tables := empty_tables\<lparr>
     tbl_map_package := [\<lparr>mp_id = 1, mp_warehouse_id = ''W1'', mp_version = ''v2'', mp_package_name = [], mp_package_path = [],
       mp_package_size = 0, mp_upload_time = [], mp_activate = True\<rparr>],
     tbl_active_map := [\<lparr>am_warehouse_id = ''W1'', am_package_id = 1, am_version = ''v2'', am_update_time = []\<rparr>]\<rparr>\<rparr>\<rparr>"

definition sample_answer_json :: json where
  "sample_answer_json = encodeRegisterResp \<lparr>rp_code = 0, rp_message = [], rp_robot_id = ''amr-1'', rp_request_id = ''q1'',
     rp_map_version = ''v2'', rp_map_download_url = ''/maps'', rp_map_update = True, rp_initial_pose = zero_pose,
     rp_has_initial_pose = True\<rparr>"

lemma sample_mapped_db [simp]: "idle (database sample_mapped)" "opened (database sample_mapped)"
  by (simp_all add: sample_mapped_def idle_def fresh_db_def)

lemma sample_mapped_registered:
  assumes "rq_robot_id req = ''amr-1''"
  obtains evs mgr pts b st where
    "registerRobot (reg_ctx sample_register_env) (Some allocate) (requested_robot (pose0 sample_register_env) req)
       (manager sample_mapped, allocator sample_mapped) = (True, evs, mgr, pts)"
    and "getRobotBaseInfo ''amr-1'' mgr = Some b" and "getRobotStatus ''amr-1'' mgr = Some st"
  using assms
  by (simp add: sample_mapped_def sample_register_env_def fresh_system_def requested_robot_def registerRobot_def
      no_robots_def getRobotBaseInfo_def getRobotStatus_def Let_def allocate_def sample_points_def find_upt_Suc)

lemma sample_mapped_registers:
  assumes "rq_robot_id req = ''amr-1''" and "rq_warehouse_id req = ''W1''"
  shows "\<exists>resp evs sys' package. handleRegister sample_maps sample_register_env (Some allocate) req sample_mapped =
     (True, resp, evs, sys') \<and> rp_code resp = 0 \<and>
     GetActiveMap (faults (map_env sample_register_env) 0) ''W1'' (database sys') = Some package \<and> mp_version package = ''v2''"
proof -
  obtain evs mgr pts b st where reg:
    "registerRobot (reg_ctx sample_register_env) (Some allocate) (requested_robot (pose0 sample_register_env) req)
       (manager sample_mapped, allocator sample_mapped) = (True, evs, mgr, pts)"
    "getRobotBaseInfo ''amr-1'' mgr = Some b" "getRobotStatus ''amr-1'' mgr = Some st"
    by (rule sample_mapped_registered [OF assms(1)])
  define db where "db = snd (UpsertRobot (upsert_engine sample_register_env) (now_ms sample_register_env) b st (database sample_mapped))"
  have db: "opened db" "tbl_map_package (tables db) = tbl_map_package (tables (database sample_mapped))"
      "tbl_active_map (tables db) = tbl_active_map (tables (database sample_mapped))"
    using UpsertRobot_keeps_maps [OF sample_mapped_db(1)] sample_mapped_db(2) unfolding db_def by blast+
  have active: "\<exists>package. GetActiveMap (faults (map_env sample_register_env) 0) ''W1'' db = Some package \<and> mp_version package = ''v2''"
    by (simp add: GetActiveMap_def db sample_mapped_def sample_register_env_def calm_def)
  then show ?thesis
    using reg assms
    by (auto simp: handleRegister_def checkMapUpdate_def sample_maps_def Let_def simp flip: db_def)
qed

lemma sample_agent_steps:
  "\<exists>a f. agent_step\<^sup>*\<^sup>* (agent_of_bootstrap sample_bootstrap, Absent) (a, f) \<and> n_registered a \<and>
     n_robot_id a = ''amr-1'' \<and> n_warehouse_id a = ''W1''"
proof -
  let ?a0 = "agent_of_bootstrap sample_bootstrap"
  obtain outs cmd a f where step:
    "agent_consume sample_agent_env (ROBOT_REGISTER_RSP_PREFIX @ ''amr-1'', Some sample_answer_json) (?a0, Absent) = (outs, cmd, a, f)"
    by (rule prod_cases4 [of "agent_consume sample_agent_env (ROBOT_REGISTER_RSP_PREFIX @ ''amr-1'', Some sample_answer_json) (?a0, Absent)"])
  have found: "agentRouter (agent_handlers ''amr-1'' ''W1'') (ROBOT_REGISTER_RSP_PREFIX @ ''amr-1'') = Some robotRegisterRespHandler"
    by (simp add: agentRouter_def agent_handlers_def registerHandler_def update_conv' topic_defs del: update.simps)
  obtain resp where resp: "decodeRobotRegisterResp (Some sample_answer_json) = Some resp" "ar_code resp = 0"
    by (simp add: sample_answer_json_def decodeRobotRegisterResp_def encodeRegisterResp_def pose_json_def
        read_initial_pose_def with_initial_pose_def)
  have ids: "n_robot_id ?a0 = ''amr-1''" "n_warehouse_id ?a0 = ''W1''"
    by (simp_all add: agent_of_bootstrap_def sample_bootstrap_def)
  have "n_registered a"
    using step [unfolded agent_consume_def] found resp ids
    by (auto simp: onRegisterResponse_def publishInitialPoseIfReady_def Let_def split: if_splits prod.splits)
  moreover from agent_consume_identity [OF step] have "n_robot_id a = ''amr-1'' \<and> n_warehouse_id a = ''W1''"
    by (simp add: ids)
  ultimately show ?thesis using r_into_rtranclp [of agent_step, OF message [OF step]] by blast
qed


end
