(* ===== verification/Simulation_Models.thy ===== *)
theory Simulation_Models
  imports Complex_Main Prelude
begin

text \<open>
  The parts of \<open>simulation_ws/src/simulation_manager\<close> that the lifecycle of simulated robots rests on:
  \<open>data_define.h\<close>, \<open>common_func.cpp\<close>, \<open>gazebo_client.cpp\<close>, \<open>amr_process_manager.cpp\<close> and
  \<open>controller_checker.cpp\<close>. The services of Gazebo and of the controller manager, the fork and the signal
  are outside: what they answer are arguments.
\<close>

section \<open>Data\<close>

datatype sim_state =
    UNKNOWN | WAITING_CREATE | LAUNCHING | WAIT_GAZEBO_MODEL | WAIT_CONTROLLER | SIM_ACTIVE | SIM_FAILED | DELETING

record robot_info =
  si_robot_id :: string
  si_instance_id :: string
  si_x :: real
  si_y :: real
  si_yaw :: real

record gazebo_model =
  gm_model_name :: string
  gm_robot_id :: string
  gm_instance_id :: string

record managed_robot =
  mr_info :: robot_info
  mr_state :: sim_state

section \<open>Model names\<close>

definition makeModelName :: "string \<Rightarrow> string \<Rightarrow> string" where
  "makeModelName robot_id instance_id = ''amr_'' @ robot_id @ ''_'' @ instance_id"

text \<open>\<open>value.find('_')\<close>.\<close>

definition find_char :: "char \<Rightarrow> string \<Rightarrow> nat option" where
  "find_char c s = (if c \<in> set s then Some (length (takeWhile (\<lambda>x. x \<noteq> c) s)) else None)"

definition parseModelName :: "string \<Rightarrow> gazebo_model option" where
  "parseModelName model_name =
     (if take 4 model_name \<noteq> ''amr_'' then None
      else
        let value = drop 4 model_name in
        (case find_char CHR ''_'' value of
           None \<Rightarrow> None
         | Some pos \<Rightarrow>
             if pos = 0 \<or> pos = length value - 1 then None
             else Some \<lparr>gm_model_name = model_name, gm_robot_id = take pos value,
                    gm_instance_id = drop (pos + 1) value\<rparr>))"

lemma find_char_append:
  "c \<notin> set s \<Longrightarrow> find_char c (s @ c # t) = Some (length s)"
  by (induction s) (auto simp: find_char_def)

lemma find_char_before:
  assumes "c \<in> set s"
  obtains p where "find_char c (s @ t) = Some p" and "p < length s"
proof -
  have eq: "takeWhile (\<lambda>x. x \<noteq> c) (s @ t) = takeWhile (\<lambda>x. x \<noteq> c) s"
    using assms by (intro takeWhile_append1) auto
  have "length (takeWhile (\<lambda>x. x \<noteq> c) s) < length s"
  proof (rule ccontr)
    assume "\<not> length (takeWhile (\<lambda>x. x \<noteq> c) s) < length s"
    then have "length (takeWhile (\<lambda>x. x \<noteq> c) s) = length s"
      using length_takeWhile_le [of "\<lambda>x. x \<noteq> c" s] by simp
    then have "takeWhile (\<lambda>x. x \<noteq> c) s = s" by (metis takeWhile_eq_take take_all order_refl)
    with assms show False by (metis set_takeWhileD)
  qed
  with assms show thesis by (intro that) (simp_all add: find_char_def eq)
qed

lemma parse_made_name:
  "parseModelName (makeModelName r i) = Some \<lparr>gm_model_name = makeModelName r i, gm_robot_id = r, gm_instance_id = i\<rparr> \<longleftrightarrow>
    r \<noteq> [] \<and> i \<noteq> [] \<and> CHR ''_'' \<notin> set r"
proof (cases "CHR ''_'' \<in> set r")
  case True
  obtain p where p: "find_char CHR ''_'' (r @ CHR ''_'' # i) = Some p" "p < length r"
    by (rule find_char_before [OF True])
  then have "take p r \<noteq> r" by (metis length_take min_less_iff_conj nat_less_le)
  with True p show ?thesis by (simp add: parseModelName_def makeModelName_def Let_def)
next
  case False
  then have p: "find_char CHR ''_'' (r @ CHR ''_'' # i) = Some (length r)" by (rule find_char_append)
  with False show ?thesis by (simp add: parseModelName_def makeModelName_def Let_def)
qed

text \<open>With an underscore in the robot id, the name is read as that of another robot.\<close>

lemma parse_name_underscore:
  assumes "CHR ''_'' \<in> set r" and "hd r \<noteq> CHR ''_''" and "i \<noteq> []"
  obtains m where "parseModelName (makeModelName r i) = Some m" and "gm_robot_id m \<noteq> r"
    and "gm_model_name m = makeModelName r i" and "makeModelName (gm_robot_id m) (gm_instance_id m) = makeModelName r i"
proof -
  obtain p where p: "find_char CHR ''_'' (r @ CHR ''_'' # i) = Some p" "p < length r"
    by (rule find_char_before [OF assms(1)])
  have pos: "p = length (takeWhile (\<lambda>x. x \<noteq> CHR ''_'') r)"
    using p(1) assms(1) by (auto simp: find_char_def takeWhile_append1)
  have "p \<noteq> 0" using pos assms(1,2) by (cases r) auto
  moreover have "r ! p = CHR ''_''" using p(2) pos nth_length_takeWhile [of "\<lambda>x. x \<noteq> CHR ''_''" r] by simp
  then have split: "take p r @ CHR ''_'' # drop (Suc p) r = r" using p(2) by (metis id_take_nth_drop)
  moreover have "take p r \<noteq> r" using p(2) by (metis length_take min_less_iff_conj nat_less_le)
  ultimately show thesis
    using p that [of "\<lparr>gm_model_name = makeModelName r i, gm_robot_id = take p r, gm_instance_id = drop (Suc p) r @ CHR ''_'' # i\<rparr>"]
    by (simp add: parseModelName_def makeModelName_def Let_def)
qed

section \<open>The Gazebo client\<close>

text \<open>
  \<open>updateModels\<close>: whether the service is there, and its answer (none for an exception or a failure).
\<close>

definition updateModels :: "bool \<Rightarrow> string list option \<Rightarrow> gazebo_model list \<Rightarrow> gazebo_model list" where
  "updateModels service_ready answer models =
     (if \<not> service_ready then models
      else case answer of None \<Rightarrow> models | Some names \<Rightarrow> List.map_filter parseModelName names)"

definition hasModel :: "string \<Rightarrow> gazebo_model list \<Rightarrow> bool" where
  "hasModel model_name models = list_ex (\<lambda>m. model_name = gm_model_name m) models"

section \<open>Processes\<close>

definition spawn :: "int \<Rightarrow> robot_info \<Rightarrow> (string \<Rightarrow> int option) \<Rightarrow> bool \<times> (string \<Rightarrow> int option)" where
  "spawn pid robot processes =
     (let key = makeModelName (si_robot_id robot) (si_instance_id robot) in
      if processes key \<noteq> None then (False, processes)
      else if pid < 0 then (False, processes)
      else (True, processes(key \<mapsto> pid)))"

definition stop :: "bool \<Rightarrow> string \<Rightarrow> string \<Rightarrow> (string \<Rightarrow> int option) \<Rightarrow> bool \<times> (string \<Rightarrow> int option)" where
  "stop signalled robot_id instance_id processes =
     (let key = makeModelName robot_id instance_id in
      case processes key of
        None \<Rightarrow> (True, processes)
      | Some pid \<Rightarrow> if \<not> signalled then (False, processes(key := None)) else (True, processes(key := None)))"

section \<open>The controller checker\<close>

record controller =
  co_name :: string
  co_state :: string

definition isControllerReady :: "controller list \<Rightarrow> bool" where
  "isControllerReady response =
     list_ex (\<lambda>c. co_name c = ''amr_diff_drive_controller'' \<and> co_state c = ''active'') response"

text \<open>
  The two loops. A list holds what successive rounds meet (the time since the start, and whether the service
  is there or the answer within 200 ms, if any); its end is the end of ROS.
\<close>

fun wait_for_service :: "int \<Rightarrow> (bool \<times> int) list \<Rightarrow> bool" where
  "wait_for_service timeout [] = False"
| "wait_for_service timeout ((available, elapsed) # rounds) =
     (if available then True else if elapsed \<ge> timeout then False else wait_for_service timeout rounds)"

fun poll_controllers :: "int \<Rightarrow> (int \<times> controller list option) list \<Rightarrow> bool" where
  "poll_controllers timeout [] = False"
| "poll_controllers timeout ((elapsed, answer) # rounds) =
     (if elapsed \<ge> timeout then False
      else case answer of
        None \<Rightarrow> poll_controllers timeout rounds
      | Some response \<Rightarrow> if isControllerReady response then True else poll_controllers timeout rounds)"

definition check_controller :: "int \<Rightarrow> (bool \<times> int) list \<Rightarrow> (int \<times> controller list option) list \<Rightarrow> bool" where
  "check_controller timeout services controllers \<longleftrightarrow>
     wait_for_service timeout services \<and> poll_controllers timeout controllers"

text \<open>The controllers count as ready exactly when some answer that came in time lists the drive as active.\<close>

lemma poll_controllers_ready:
  "poll_controllers timeout rounds \<longleftrightarrow>
    list_ex (\<lambda>(_, answer). \<exists>response. answer = Some response \<and> isControllerReady response)
      (takeWhile (\<lambda>(elapsed, _). elapsed < timeout) rounds)"
  by (induction timeout rounds rule: poll_controllers.induct) (auto split: option.splits)

end
