(* ===== verification/Simulation_Lifecycle.thy ===== *)
theory Simulation_Lifecycle
  imports Simulation_Models
begin

text \<open>
  \<open>simulation_manager/src/robot_lifecycle_manager.cpp\<close> and \<open>robot_sync_manager.cpp\<close>: the simulated robots
  follow the robot list of the edge server. \<open>sync\<close> compares the list with the models of Gazebo and queues
  requests, and one worker thread processes the queue.
\<close>

section \<open>State\<close>

datatype lifecycle_request =
    CREATE robot_info
  | DELETE gazebo_model
  | REPLACE robot_info gazebo_model

text \<open>
  Robots, queue, processes, the models that the Gazebo client has cached, and the deletions that Gazebo has
  not answered yet, each with the robot that its callback erases.
\<close>

record simulation =
  sm_robots :: "string \<Rightarrow> managed_robot option"
  sm_queue :: "lifecycle_request list"
  sm_processes :: "string \<Rightarrow> int option"
  sm_models :: "gazebo_model list"
  sm_deleting :: "(string \<times> string option) list"

definition fresh_simulation :: simulation where
  "fresh_simulation = \<lparr>sm_robots = (\<lambda>_. None), sm_queue = [], sm_processes = (\<lambda>_. None), sm_models = [], sm_deleting = []\<rparr>"

text \<open>
  What a request meets: the result of \<open>fork\<close>, the rounds of the wait for the model (the cached models and
  the time since the start), those of the controller checker, whether the signal can be sent, whether the
  deletion service is there, and its answer where the worker waits for it.
\<close>

record worker_env =
  forked :: int
  model_rounds :: "(gazebo_model list \<times> int) list"
  service_rounds :: "(bool \<times> int) list"
  controller_rounds :: "(int \<times> controller list option) list"
  signalled :: bool
  delete_service :: bool
  delete_answer :: bool

section \<open>Requests\<close>

definition setState :: "string \<Rightarrow> sim_state \<Rightarrow> simulation \<Rightarrow> simulation" where
  "setState robot_id st s =
     (case sm_robots s robot_id of
        None \<Rightarrow> s
      | Some m \<Rightarrow> s\<lparr>sm_robots := (sm_robots s)(robot_id \<mapsto> m\<lparr>mr_state := st\<rparr>)\<rparr>)"

definition requestCreate :: "robot_info \<Rightarrow> simulation \<Rightarrow> simulation" where
  "requestCreate robot s =
     (if \<exists>m. sm_robots s (si_robot_id robot) = Some m \<and> mr_state m \<noteq> SIM_FAILED then s
      else s\<lparr>sm_robots := (sm_robots s)(si_robot_id robot \<mapsto> \<lparr>mr_info = robot, mr_state = WAITING_CREATE\<rparr>),
             sm_queue := sm_queue s @ [CREATE robot]\<rparr>)"

definition requestDelete :: "gazebo_model \<Rightarrow> simulation \<Rightarrow> simulation" where
  "requestDelete model s = s\<lparr>sm_queue := sm_queue s @ [DELETE model]\<rparr>"

definition requestReplace :: "robot_info \<Rightarrow> gazebo_model \<Rightarrow> simulation \<Rightarrow> simulation" where
  "requestReplace robot old_model s = s\<lparr>sm_queue := sm_queue s @ [REPLACE robot old_model]\<rparr>"

section \<open>The worker\<close>

text \<open>The loop that waits for the model, with the cache that it sees last; no round left means that ROS ends.\<close>

fun waitGazeboModel ::
  "string \<Rightarrow> int \<Rightarrow> (gazebo_model list \<times> int) list \<Rightarrow> gazebo_model list \<Rightarrow> bool \<times> gazebo_model list" where
  "waitGazeboModel model_name timeout [] models = (False, models)"
| "waitGazeboModel model_name timeout ((models, elapsed) # rounds) old =
     (if hasModel model_name models then (True, models)
      else if elapsed > timeout then (False, models)
      else waitGazeboModel model_name timeout rounds models)"

text \<open>\<open>deleteModelAsync\<close>: without the service the callback is called with false at once.\<close>

definition deleteModelAsync :: "worker_env \<Rightarrow> string \<Rightarrow> string option \<Rightarrow> simulation \<Rightarrow> simulation" where
  "deleteModelAsync env model_name erased s =
     (if \<not> delete_service env then s else s\<lparr>sm_deleting := sm_deleting s @ [(model_name, erased)]\<rparr>)"

definition stop_process :: "worker_env \<Rightarrow> string \<Rightarrow> string \<Rightarrow> simulation \<Rightarrow> simulation" where
  "stop_process env robot_id instance_id s =
     s\<lparr>sm_processes := snd (stop (signalled env) robot_id instance_id (sm_processes s))\<rparr>"

definition cleanupRobot :: "worker_env \<Rightarrow> robot_info \<Rightarrow> simulation \<Rightarrow> simulation" where
  "cleanupRobot env robot s =
     deleteModelAsync env (makeModelName (si_robot_id robot) (si_instance_id robot)) None
       (stop_process env (si_robot_id robot) (si_instance_id robot) s)"

definition createRobot :: "worker_env \<Rightarrow> robot_info \<Rightarrow> simulation \<Rightarrow> bool \<times> simulation" where
  "createRobot env robot s =
     (let rid = si_robot_id robot;
          s1 = setState rid LAUNCHING s in
      case spawn (forked env) robot (sm_processes s1) of
        (False, _) \<Rightarrow> (False, s1)
      | (True, processes) \<Rightarrow>
          let s2 = setState rid WAIT_GAZEBO_MODEL (s1\<lparr>sm_processes := processes\<rparr>) in
          (case waitGazeboModel (makeModelName rid (si_instance_id robot)) 30000 (model_rounds env) (sm_models s2) of
             (False, models) \<Rightarrow> (False, cleanupRobot env robot (s2\<lparr>sm_models := models\<rparr>))
           | (True, models) \<Rightarrow>
               let s3 = setState rid WAIT_CONTROLLER (s2\<lparr>sm_models := models\<rparr>) in
               if \<not> check_controller 6000 (service_rounds env) (controller_rounds env)
               then (False, cleanupRobot env robot s3)
               else (True, setState rid SIM_ACTIVE s3)))"

definition deleteRobot :: "worker_env \<Rightarrow> gazebo_model \<Rightarrow> simulation \<Rightarrow> simulation" where
  "deleteRobot env model s =
     deleteModelAsync env (gm_model_name model) (Some (gm_robot_id model))
       (stop_process env (gm_robot_id model) (gm_instance_id model) (setState (gm_robot_id model) DELETING s))"

definition create_or_fail :: "worker_env \<Rightarrow> robot_info \<Rightarrow> simulation \<Rightarrow> bool \<times> simulation" where
  "create_or_fail env robot s =
     (case createRobot env robot s of
        (True, s1) \<Rightarrow> (True, s1)
      | (False, s1) \<Rightarrow> (False, setState (si_robot_id robot) SIM_FAILED s1))"

definition replaceRobot :: "worker_env \<Rightarrow> robot_info \<Rightarrow> gazebo_model \<Rightarrow> simulation \<Rightarrow> bool \<times> simulation" where
  "replaceRobot env robot old_model s =
     (let s1 = stop_process env (gm_robot_id old_model) (gm_instance_id old_model) s in
      if \<not> delete_answer env then (False, s1) else create_or_fail env robot s1)"

definition processRequest :: "worker_env \<Rightarrow> lifecycle_request \<Rightarrow> simulation \<Rightarrow> simulation" where
  "processRequest env req s =
     (case req of
        CREATE robot \<Rightarrow> snd (create_or_fail env robot s)
      | DELETE model \<Rightarrow> deleteRobot env model s
      | REPLACE robot model \<Rightarrow> snd (replaceRobot env robot model s))"

text \<open>One round of \<open>workerLoop\<close>; with an empty queue the worker waits.\<close>

definition worker :: "worker_env \<Rightarrow> simulation \<Rightarrow> simulation" where
  "worker env s =
     (case sm_queue s of [] \<Rightarrow> s | req # rest \<Rightarrow> processRequest env req (s\<lparr>sm_queue := rest\<rparr>))"

text \<open>Gazebo answers the oldest deletion: the callbacks of \<open>deleteRobot\<close> and \<open>cleanupRobot\<close>.\<close>

definition deletion_answered :: "bool \<Rightarrow> simulation \<Rightarrow> simulation" where
  "deletion_answered success s =
     (case sm_deleting s of
        [] \<Rightarrow> s
      | (name, erased) # rest \<Rightarrow>
          let s1 = s\<lparr>sm_deleting := rest\<rparr> in
          (case erased of
             Some robot_id \<Rightarrow> if success then s1\<lparr>sm_robots := (sm_robots s1)(robot_id := None)\<rparr> else s1
           | None \<Rightarrow> s1))"

definition models_answered :: "bool \<Rightarrow> string list option \<Rightarrow> simulation \<Rightarrow> simulation" where
  "models_answered service_ready answer s = s\<lparr>sm_models := updateModels service_ready answer (sm_models s)\<rparr>"

section \<open>Synchronisation\<close>

definition sync_robot :: "gazebo_model list \<Rightarrow> robot_info \<Rightarrow> simulation \<Rightarrow> simulation" where
  "sync_robot models robot s =
     (case find (\<lambda>m. gm_robot_id m = si_robot_id robot) models of
        None \<Rightarrow> requestCreate robot s
      | Some m \<Rightarrow> if gm_instance_id m \<noteq> si_instance_id robot then requestReplace robot m s else s)"

definition sync_model :: "robot_info list \<Rightarrow> gazebo_model \<Rightarrow> simulation \<Rightarrow> simulation" where
  "sync_model edge_robots model s =
     (if find (\<lambda>r. si_robot_id r = gm_robot_id model) edge_robots = None then requestDelete model s else s)"

definition sync :: "robot_info list \<Rightarrow> simulation \<Rightarrow> simulation" where
  "sync edge_robots s =
     (let models = sm_models s in
      fold (sync_model edge_robots) models (fold (sync_robot models) edge_robots s))"

end
