(* ===== verification/Simulation_Rules.thy ===== *)
theory Simulation_Rules
  imports Simulation_Lifecycle
begin

text \<open>
  What the lifecycle manager of the simulation keeps and where it settles, when \<open>sync\<close> is quiet, and what
  happens to robots whose id contains an underscore.
\<close>

section \<open>One request\<close>

lemma setState_fields [simp]:
  "sm_queue (setState r st s) = sm_queue s" "sm_processes (setState r st s) = sm_processes s"
  "sm_models (setState r st s) = sm_models s" "sm_deleting (setState r st s) = sm_deleting s"
  by (simp_all add: setState_def split: option.splits)

definition put_state :: "string \<Rightarrow> sim_state \<Rightarrow> (string \<Rightarrow> managed_robot option) \<Rightarrow> string \<Rightarrow> managed_robot option" where
  "put_state r st robots = (case robots r of None \<Rightarrow> robots | Some m \<Rightarrow> robots(r \<mapsto> m\<lparr>mr_state := st\<rparr>))"

lemma setState_robots [simp]: "sm_robots (setState r st s) = put_state r st (sm_robots s)"
  by (simp add: setState_def put_state_def split: option.splits)

lemma put_state_twice [simp]: "put_state r st (put_state r st' robots) = put_state r st robots"
  by (auto simp: put_state_def split: option.splits)

lemma put_state_other [simp]: "q \<noteq> r \<Longrightarrow> put_state r st robots q = robots q"
  by (simp add: put_state_def split: option.splits)

lemma put_state_same: "put_state r st robots r = map_option (\<lambda>m. m\<lparr>mr_state := st\<rparr>) (robots r)"
  by (simp add: put_state_def split: option.splits)

lemma cleanup_fields [simp]:
  "sm_queue (cleanupRobot env robot s) = sm_queue s" "sm_robots (cleanupRobot env robot s) = sm_robots s"
  by (simp_all add: cleanupRobot_def deleteModelAsync_def stop_process_def)

lemma create_or_fail_effect:
  "create_or_fail env robot s = (ok, s') \<Longrightarrow> sm_queue s' = sm_queue s \<and>
    sm_robots s' = put_state (si_robot_id robot) (if ok then SIM_ACTIVE else SIM_FAILED) (sm_robots s)"
  by (auto simp: create_or_fail_def createRobot_def Let_def split: prod.splits bool.splits if_splits)

lemma deleteRobot_effect:
  "sm_queue (deleteRobot env model s) = sm_queue s \<and>
    sm_robots (deleteRobot env model s) = put_state (gm_robot_id model) DELETING (sm_robots s)"
  by (simp add: deleteRobot_def deleteModelAsync_def stop_process_def)

text \<open>A processed request leaves the queue alone, and settles the robot of a creation.\<close>

lemma processRequest_effect:
  "sm_queue (processRequest env req s) = sm_queue s \<and>
    (sm_robots (processRequest env req s) = sm_robots s \<or>
     (\<exists>r st. st \<in> {SIM_ACTIVE, SIM_FAILED, DELETING} \<and> sm_robots (processRequest env req s) = put_state r st (sm_robots s))) \<and>
    (\<forall>robot. req = CREATE robot \<longrightarrow>
      (\<exists>st\<in>{SIM_ACTIVE, SIM_FAILED}. sm_robots (processRequest env req s) = put_state (si_robot_id robot) st (sm_robots s)))"
proof (cases req)
  case (CREATE robot)
  obtain ok s' where "create_or_fail env robot s = (ok, s')" by fastforce
  with create_or_fail_effect [OF this] CREATE show ?thesis by (cases ok) (auto simp: processRequest_def)
next
  case (DELETE model)
  with deleteRobot_effect [of env model s] show ?thesis by (auto simp: processRequest_def)
next
  case (REPLACE robot model)
  obtain ok s' where run: "replaceRobot env robot model s = (ok, s')" by fastforce
  then have "sm_queue s' = sm_queue s \<and> (sm_robots s' = sm_robots s \<or>
      sm_robots s' = put_state (si_robot_id robot) (if ok then SIM_ACTIVE else SIM_FAILED) (sm_robots s))"
    by (auto simp: replaceRobot_def stop_process_def Let_def split: if_splits dest: create_or_fail_effect)
  with run REPLACE show ?thesis by (cases ok) (auto simp: processRequest_def)
qed

section \<open>States at rest\<close>

definition at_rest :: "sim_state \<Rightarrow> bool" where
  "at_rest st \<longleftrightarrow> st = SIM_ACTIVE \<or> st = SIM_FAILED \<or> st = DELETING"

text \<open>Between two steps a robot is at rest, or it waits for a creation that is queued.\<close>

definition simulation_ok :: "simulation \<Rightarrow> bool" where
  "simulation_ok s \<longleftrightarrow> (\<forall>r m. sm_robots s r = Some m \<longrightarrow>
     at_rest (mr_state m) \<or>
     (mr_state m = WAITING_CREATE \<and> (\<exists>robot. CREATE robot \<in> set (sm_queue s) \<and> si_robot_id robot = r)))"

inductive sim_step :: "simulation \<Rightarrow> simulation \<Rightarrow> bool" where
  synchronised: "sim_step s (sync edge_robots s)"
| worked: "sim_step s (worker env s)"
| deleted: "sim_step s (deletion_answered success s)"
| listed: "sim_step s (models_answered service_ready answer s)"

inductive_cases sim_stepE: "sim_step s t"

lemma requestCreate_ok: "simulation_ok s \<Longrightarrow> simulation_ok (requestCreate robot s)"
  by (auto simp: simulation_ok_def requestCreate_def)

lemma more_queue_ok: "simulation_ok s \<Longrightarrow> simulation_ok (s\<lparr>sm_queue := sm_queue s @ reqs\<rparr>)"
  by (fastforce simp: simulation_ok_def)

lemma sync_robot_ok: "simulation_ok s \<Longrightarrow> simulation_ok (sync_robot models robot s)"
  using more_queue_ok [of s] by (auto simp: sync_robot_def requestReplace_def requestCreate_ok split: option.splits)

lemma sync_model_ok: "simulation_ok s \<Longrightarrow> simulation_ok (sync_model edge_robots model s)"
  using more_queue_ok [of s] by (auto simp: sync_model_def requestDelete_def)

lemma fold_ok: "(\<And>x s. simulation_ok s \<Longrightarrow> simulation_ok (f x s)) \<Longrightarrow> simulation_ok s \<Longrightarrow> simulation_ok (fold f xs s)"
  by (induction xs arbitrary: s) auto

lemma sync_ok: "simulation_ok s \<Longrightarrow> simulation_ok (sync edge_robots s)"
  by (simp add: sync_def Let_def fold_ok sync_robot_ok sync_model_ok)

lemma worker_ok:
  assumes "simulation_ok s"
  shows "simulation_ok (worker env s) \<and> sm_queue (worker env s) = tl (sm_queue s)"
proof (cases "sm_queue s")
  case Nil
  with assms show ?thesis by (simp add: worker_def)
next
  case (Cons req rest)
  let ?s0 = "s\<lparr>sm_queue := rest\<rparr>" and ?s' = "processRequest env req (s\<lparr>sm_queue := rest\<rparr>)"
  have effect: "sm_queue ?s' = rest"
      "sm_robots ?s' = sm_robots s \<or> (\<exists>q st. st \<in> {SIM_ACTIVE, SIM_FAILED, DELETING} \<and> sm_robots ?s' = put_state q st (sm_robots s))"
      "\<And>robot. req = CREATE robot \<Longrightarrow> \<exists>st\<in>{SIM_ACTIVE, SIM_FAILED}. sm_robots ?s' = put_state (si_robot_id robot) st (sm_robots s)"
    using processRequest_effect [of env req ?s0] by simp_all
  have "at_rest (mr_state m) \<or>
      (mr_state m = WAITING_CREATE \<and> (\<exists>robot. CREATE robot \<in> set (sm_queue ?s') \<and> si_robot_id robot = r))"
    if m: "sm_robots ?s' r = Some m" for r m
  proof (cases "sm_robots ?s' r = sm_robots s r")
    case False
    from False effect(2) obtain q st where q: "st \<in> {SIM_ACTIVE, SIM_FAILED, DELETING}" "sm_robots ?s' = put_state q st (sm_robots s)"
      by metis
    with False m have "q = r" by (metis put_state_other)
    with q m show ?thesis by (auto simp: put_state_same at_rest_def)
  next
    case True
    with m assms have old: "at_rest (mr_state m) \<or>
        (mr_state m = WAITING_CREATE \<and> (\<exists>robot. CREATE robot \<in> set (sm_queue s) \<and> si_robot_id robot = r))"
      by (simp add: simulation_ok_def)
    have "req \<noteq> CREATE robot" if waiting: "mr_state m = WAITING_CREATE" and rid: "si_robot_id robot = r" for robot
    proof
      assume "req = CREATE robot"
      from effect(3) [OF this] obtain st where "st \<in> {SIM_ACTIVE, SIM_FAILED}" "sm_robots ?s' = put_state r st (sm_robots s)"
        using rid by metis
      with m waiting show False by (auto simp: put_state_same)
    qed
    with old effect(1) Cons show ?thesis by auto
  qed
  with effect(1) Cons show ?thesis by (simp add: worker_def simulation_ok_def)
qed

interpretation simulations: stepping "\<lambda>s. s = fresh_simulation" sim_step simulation_ok
proof
  fix s
  assume "s = fresh_simulation"
  then show "simulation_ok s" by (simp add: simulation_ok_def fresh_simulation_def)
next
  fix s t
  assume "simulation_ok s" and "sim_step s t"
  then show "simulation_ok t"
    by (auto elim!: sim_stepE simp: sync_ok worker_ok)
      (auto simp: simulation_ok_def deletion_answered_def models_answered_def Let_def split: list.splits option.splits if_splits)
qed

lemma drained:
  "simulation_ok s \<Longrightarrow> length (sm_queue s) \<le> length envs \<Longrightarrow>
    simulation_ok (fold worker envs s) \<and> sm_queue (fold worker envs s) = []"
proof (induction envs arbitrary: s)
  case (Cons env envs)
  with worker_ok [OF Cons.prems(1), of env] show ?case by simp
qed simp

lemma empty_queue_rest:
  "simulation_ok s \<Longrightarrow> sm_queue s = [] \<Longrightarrow> sm_robots s r = Some m \<Longrightarrow> mr_state m \<in> {SIM_ACTIVE, SIM_FAILED, DELETING}"
  by (fastforce simp: simulation_ok_def at_rest_def)


text \<open>A robot whose model never appears: two synchronisations queue one creation, which fails.\<close>

definition sample_robot_info :: "string \<Rightarrow> robot_info" where
  "sample_robot_info rid = \<lparr>si_robot_id = rid, si_instance_id = ''A1'', si_x = 0, si_y = 0, si_yaw = 0\<rparr>"

definition sample_worker_env :: worker_env where
  "sample_worker_env = \<lparr>forked = 77, model_rounds = [([], 0), ([], 30200)], service_rounds = [(True, 0)],
     controller_rounds = [(0, Some [\<lparr>co_name = ''amr_diff_drive_controller'', co_state = ''active''\<rparr>])],
     signalled = True, delete_service = True, delete_answer = True\<rparr>"


section \<open>Quiet synchronisation\<close>

lemma fold_same: "(\<And>x. x \<in> set xs \<Longrightarrow> f x s = s) \<Longrightarrow> fold f xs s = s"
  by (induction xs) auto

text \<open>Nothing is requested while every robot has a model of its instance and every model a robot.\<close>

lemma sync_quiet:
  assumes "\<forall>r\<in>set edge_robots. \<exists>m. find (\<lambda>m. gm_robot_id m = si_robot_id r) (sm_models s) = Some m \<and>
      gm_instance_id m = si_instance_id r"
    and "\<forall>m\<in>set (sm_models s). \<exists>r\<in>set edge_robots. si_robot_id r = gm_robot_id m"
  shows "sync edge_robots s = s"
proof -
  have "fold (sync_robot (sm_models s)) edge_robots s = s"
    using assms(1) by (intro fold_same) (fastforce simp: sync_robot_def)
  moreover have "fold (sync_model edge_robots) (sm_models s) s = s"
    using assms(2) by (intro fold_same) (force simp: sync_model_def find_None_iff)
  ultimately show ?thesis by (simp add: sync_def Let_def)
qed

text \<open>Rounds come at least 200 ms apart, so the wait for a model sees at most 152 of them.\<close>

lemma wait_rounds:
  assumes "\<forall>k<length rounds. 200 * (int k + int n) \<le> snd (rounds ! k)" and "n \<le> 151"
  shows "waitGazeboModel name 30000 rounds old = waitGazeboModel name 30000 (take (152 - n) rounds) old"
  using assms
proof (induction rounds arbitrary: n old)
  case (Cons round rounds)
  obtain models elapsed where round: "round = (models, elapsed)" by fastforce
  have elapsed: "200 * int n \<le> elapsed" using Cons.prems(1)[rule_format, of 0] round by simp
  have later: "\<forall>k<length rounds. 200 * (int k + int (Suc n)) \<le> snd (rounds ! k)"
  proof (intro allI impI)
    fix k
    assume "k < length rounds"
    then have "200 * (int (Suc k) + int n) \<le> snd ((round # rounds) ! Suc k)"
      by (intro Cons.prems(1) [rule_format]) simp
    then show "200 * (int k + int (Suc n)) \<le> snd (rounds ! k)" by simp
  qed
  show ?case
  proof (cases "n = 151")
    case True
    with elapsed round show ?thesis by simp
  next
    case False
    with Cons.prems(2) have "152 - n = Suc (152 - Suc n)" by simp
    have "waitGazeboModel name 30000 rounds models = waitGazeboModel name 30000 (take (152 - Suc n) rounds) models"
      using False Cons.prems(2) by (intro Cons.IH [OF later]) simp
    then show ?thesis by (simp only: round \<open>152 - n = Suc (152 - Suc n)\<close> take_Suc_Cons waitGazeboModel.simps)
  qed
qed simp

section \<open>Robots with an underscore in their id\<close>

text \<open>
  The simulation removes robots whose id contains an underscore, for good. Let such a robot be managed
  and not failed, and let its model be the only one in Gazebo, with no request pending. The next
  synchronisation with a list that holds just this robot queues the deletion of its model; the worker then
  forgets its process and asks Gazebo to delete the model; the robot still counts as managed in its old
  state, so that no later synchronisation with an empty Gazebo asks for its creation.
\<close>

theorem underscore_robot_removed:
  assumes "CHR ''_'' \<in> set (si_robot_id robot)" and "hd (si_robot_id robot) \<noteq> CHR ''_''" and "si_instance_id robot \<noteq> []"
    and "name = makeModelName (si_robot_id robot) (si_instance_id robot)"
    and "sm_models s = List.map_filter parseModelName [name]" and "sm_queue s = []"
    and "sm_robots s (si_robot_id robot) = Some m" and "mr_state m \<noteq> SIM_FAILED" and "delete_service env"
  shows "\<exists>model. sm_queue (sync [robot] s) = [DELETE model] \<and>
    (let s' = worker env (sync [robot] s) in
     sm_queue s' = [] \<and> sm_processes s' name = None \<and> (name, Some (gm_robot_id model)) \<in> set (sm_deleting s') \<and>
     sm_robots s' (si_robot_id robot) = Some m \<and>
     sync [robot] (s'\<lparr>sm_models := []\<rparr>) = s'\<lparr>sm_models := []\<rparr>)"
proof -
  obtain model where model: "parseModelName name = Some model" "gm_robot_id model \<noteq> si_robot_id robot" "gm_model_name model = name"
      "makeModelName (gm_robot_id model) (gm_instance_id model) = name"
    using parse_name_underscore [OF assms(1-3)] assms(4) by metis
  have "sm_models s = [model]" using assms(5) model(1) by (simp add: List.map_filter_def)
  then have sync: "sync [robot] s = s\<lparr>sm_queue := [DELETE model]\<rparr>"
    using model(2) assms(6-8) by (simp add: sync_def sync_robot_def sync_model_def requestCreate_def requestDelete_def)
  let ?s' = "worker env (sync [robot] s)"
  have s': "?s' = deleteRobot env model (s\<lparr>sm_queue := []\<rparr>)"
    by (simp add: sync worker_def processRequest_def)
  have robots: "sm_robots ?s' (si_robot_id robot) = Some m"
    using deleteRobot_effect [of env model "s\<lparr>sm_queue := []\<rparr>"] model(2) assms(7) by (simp add: s')
  moreover have "sm_queue ?s' = []"
    using deleteRobot_effect [of env model "s\<lparr>sm_queue := []\<rparr>"] by (simp add: s')
  moreover have "sm_processes ?s' name = None"
    using model(4) by (simp add: s' deleteRobot_def deleteModelAsync_def stop_process_def stop_def Let_def split: option.splits)
  moreover have "(name, Some (gm_robot_id model)) \<in> set (sm_deleting ?s')"
    using model(3) assms(9) by (simp add: s' deleteRobot_def deleteModelAsync_def stop_process_def)
  moreover have "sync [robot] (?s'\<lparr>sm_models := []\<rparr>) = ?s'\<lparr>sm_models := []\<rparr>"
    using robots assms(8) by (simp add: sync_def sync_robot_def requestCreate_def)
  ultimately show ?thesis using sync by (intro exI [of _ model]) (simp add: Let_def)
qed

lemma underscore_robot_removed_witness:
  "\<exists>model. sm_queue (sync [sample_robot_info ''robot_01''] (fresh_simulation\<lparr>
     sm_models := List.map_filter parseModelName [''amr_robot_01_A1''],
     sm_robots := (\<lambda>_. None)(''robot_01'' \<mapsto> \<lparr>mr_info = sample_robot_info ''robot_01'', mr_state = SIM_ACTIVE\<rparr>)\<rparr>)) = [DELETE model]"
proof -
  let ?s = "fresh_simulation\<lparr>sm_models := List.map_filter parseModelName [''amr_robot_01_A1''],
     sm_robots := (\<lambda>_. None)(''robot_01'' \<mapsto> \<lparr>mr_info = sample_robot_info ''robot_01'', mr_state = SIM_ACTIVE\<rparr>)\<rparr>"
  have "\<exists>model. sm_queue (sync [sample_robot_info ''robot_01''] ?s) = [DELETE model] \<and>
    (let s' = worker sample_worker_env (sync [sample_robot_info ''robot_01''] ?s) in
     sm_queue s' = [] \<and> sm_processes s' ''amr_robot_01_A1'' = None \<and> (''amr_robot_01_A1'', Some (gm_robot_id model)) \<in> set (sm_deleting s') \<and>
     sm_robots s' (si_robot_id (sample_robot_info ''robot_01'')) = Some \<lparr>mr_info = sample_robot_info ''robot_01'', mr_state = SIM_ACTIVE\<rparr> \<and>
     sync [sample_robot_info ''robot_01''] (s'\<lparr>sm_models := []\<rparr>) = s'\<lparr>sm_models := []\<rparr>)"
    by (rule underscore_robot_removed)
      (simp_all add: sample_robot_info_def makeModelName_def fresh_simulation_def sample_worker_env_def)
  then show ?thesis by blast
qed

end
