(* ===== verification/Websocket_Server.thy ===== *)
theory Websocket_Server
  imports Topics
begin

text \<open>
  \<open>edge_server/src/websocket/websocket_session.cpp\<close>, \<open>websocket_server.cpp\<close> and \<open>identifierGenerator.h\<close>:
  the sessions of the WebSocket clients, their queues and their heartbeat. A message is of any type, with
  a test for the empty text. Times are nanoseconds of the steady clock and arguments; a connection of
  libwebsockets is a number; what the handlers ask of that library is their output, and whether its writes
  succeed is an argument. \<open>lws_cancel_service\<close> only wakes the service thread and is left out.
\<close>

section \<open>Sessions\<close>

definition max_send_queue :: nat where
  "max_send_queue = 2000"

definition seconds :: "int \<Rightarrow> int" where
  "seconds n = n * 1000000000"

record 'm ws_session =
  ws_wsi :: "nat option"
  ws_client_id :: int
  ws_client_ip :: string
  ws_send_queue :: "'m list"
  ws_last_pong :: int
  ws_last_ping :: int
  ws_ping_outstanding :: bool

definition new_session :: "int \<Rightarrow> nat \<Rightarrow> int \<Rightarrow> 'm ws_session" where
  "new_session now wsi clientId = \<lparr>ws_wsi = Some wsi, ws_client_id = clientId, ws_client_ip = [], ws_send_queue = [],
     ws_last_pong = now, ws_last_ping = now, ws_ping_outstanding = False\<rparr>"

definition pushMessage :: "'m \<Rightarrow> 'm ws_session \<Rightarrow> bool \<times> 'm ws_session" where
  "pushMessage message s =
     (if length (ws_send_queue s) \<ge> max_send_queue then (False, s)
      else (True, s\<lparr>ws_send_queue := ws_send_queue s @ [message]\<rparr>))"

definition popMessage :: "'m ws_session \<Rightarrow> 'm option \<times> 'm ws_session" where
  "popMessage s =
     (case ws_send_queue s of [] \<Rightarrow> (None, s) | message # rest \<Rightarrow> (Some message, s\<lparr>ws_send_queue := rest\<rparr>))"

definition isEmptyMessage :: "'m ws_session \<Rightarrow> bool" where
  "isEmptyMessage s \<longleftrightarrow> ws_send_queue s = []"

definition setWsiInvalid :: "'m ws_session \<Rightarrow> 'm ws_session" where
  "setWsiInvalid s = s\<lparr>ws_wsi := None\<rparr>"

definition isWsiValid :: "'m ws_session \<Rightarrow> bool" where
  "isWsiValid s \<longleftrightarrow> ws_wsi s \<noteq> None"

definition updatePong :: "int \<Rightarrow> 'm ws_session \<Rightarrow> 'm ws_session" where
  "updatePong now s = s\<lparr>ws_last_pong := now, ws_ping_outstanding := False\<rparr>"

definition markPingSent :: "int \<Rightarrow> 'm ws_session \<Rightarrow> 'm ws_session" where
  "markPingSent now s = s\<lparr>ws_last_ping := now, ws_ping_outstanding := True\<rparr>"

section \<open>The server\<close>

record ws_options =
  heartbeatInterval :: int
  heartbeatTimeout :: int

definition default_ws_options :: ws_options where
  "default_ws_options = \<lparr>heartbeatInterval = 30, heartbeatTimeout = 10\<rparr>"

text \<open>
  Besides the members of the class: whether a context exists, the counter of the id generator, and the time
  of the last heartbeat check, a variable of the service thread.
\<close>

record 'm ws_server =
  wv_running :: bool
  wv_context :: bool
  wv_options :: ws_options
  wv_sessions :: "(int \<times> 'm ws_session) list"
  wv_need_send :: "int list"
  wv_receive :: "(int \<times> 'm) list"
  wv_callback :: bool
  wv_next_id :: int
  wv_last_check :: int

definition fresh_ws_server :: "'m ws_server" where
  "fresh_ws_server = \<lparr>wv_running = False, wv_context = False, wv_options = default_ws_options, wv_sessions = [],
     wv_need_send = [], wv_receive = [], wv_callback = False, wv_next_id = 1, wv_last_check = 0\<rparr>"

datatype 'm ws_output =
    On_Writable "nat option"
  | Write_Ping nat
  | Write_Text "nat option" 'm
  | Close_Later nat

text \<open>\<open>IdentifierGenerator<uint64_t>::generate\<close> with its \<open>fetch_add\<close>: zero is skipped.\<close>

definition generate :: "int \<Rightarrow> int \<times> int" where
  "generate m_id =
     (let next = to_uint64 (m_id + 1) in if m_id \<noteq> 0 then (m_id, next) else (next, to_uint64 (next + 1)))"

definition start_ws :: "bool \<Rightarrow> int \<Rightarrow> ws_options \<Rightarrow> 'm ws_server \<Rightarrow> bool \<times> 'm ws_server" where
  "start_ws created now options srv =
     (if wv_running srv then (False, srv)
      else
        let srv1 = srv\<lparr>wv_options := options, wv_context := created\<rparr> in
        if \<not> created then (False, srv1)
        else (True, srv1\<lparr>wv_running := True, wv_last_check := now\<rparr>))"

definition stop_ws :: "'m ws_server \<Rightarrow> 'm ws_server" where
  "stop_ws srv = srv\<lparr>wv_running := False, wv_context := False, wv_sessions := []\<rparr>"

definition setMessageCallback :: "'m ws_server \<Rightarrow> 'm ws_server" where
  "setMessageCallback srv = srv\<lparr>wv_callback := True\<rparr>"

definition getClientSession :: "int \<Rightarrow> 'm ws_server \<Rightarrow> 'm ws_session option" where
  "getClientSession clientSessionId srv = map_of (wv_sessions srv) clientSessionId"

definition on_session :: "int \<Rightarrow> ('m ws_session \<Rightarrow> 'm ws_session) \<Rightarrow> 'm ws_server \<Rightarrow> 'm ws_server" where
  "on_session clientSessionId f srv = srv\<lparr>wv_sessions := AList.map_entry clientSessionId f (wv_sessions srv)\<rparr>"

text \<open>\<open>emplace\<close> does not replace an entry.\<close>

definition addClientSession :: "int \<Rightarrow> nat \<Rightarrow> string \<Rightarrow> 'm ws_server \<Rightarrow> int \<times> 'm ws_server" where
  "addClientSession now wsi clientIp srv =
     (case generate (wv_next_id srv) of (clientId, next) \<Rightarrow>
        let session = (new_session now wsi clientId)\<lparr>ws_client_ip := clientIp\<rparr> in
        (clientId, srv\<lparr>wv_next_id := next,
           wv_sessions := (if getClientSession clientId srv = None then (clientId, session) # wv_sessions srv
                           else wv_sessions srv)\<rparr>))"

definition removeClientSession :: "int \<Rightarrow> 'm ws_server \<Rightarrow> 'm ws_session option \<times> 'm ws_server" where
  "removeClientSession clientSessionId srv =
     (getClientSession clientSessionId srv,
      srv\<lparr>wv_sessions := AList.delete clientSessionId (wv_sessions srv)\<rparr>)"

definition pushReceiveMessage :: "int \<Rightarrow> 'm \<Rightarrow> 'm ws_server \<Rightarrow> 'm ws_server" where
  "pushReceiveMessage clientSessionId message srv =
     srv\<lparr>wv_receive := wv_receive srv @ [(clientSessionId, message)]\<rparr>"

text \<open>The result of \<open>pushMessage\<close>, whether there was room, is not looked at.\<close>

definition pushSendMsg :: "int \<Rightarrow> 'm \<Rightarrow> 'm ws_server \<Rightarrow> bool \<times> 'm ws_server" where
  "pushSendMsg clientSessionId message srv =
     (getClientSession clientSessionId srv \<noteq> None, on_session clientSessionId (snd \<circ> pushMessage message) srv)"

definition popSendMsg :: "int \<Rightarrow> 'm ws_server \<Rightarrow> 'm option \<times> 'm ws_server" where
  "popSendMsg clientSessionId srv =
     (case getClientSession clientSessionId srv of
        None \<Rightarrow> (None, srv)
      | Some s \<Rightarrow> (fst (popMessage s), on_session clientSessionId (snd \<circ> popMessage) srv))"

definition hasMoreSendMsg :: "int \<Rightarrow> 'm ws_server \<Rightarrow> bool" where
  "hasMoreSendMsg clientSessionId srv =
     (case getClientSession clientSessionId srv of None \<Rightarrow> False | Some s \<Rightarrow> \<not> isEmptyMessage s)"

definition sendToWSClient :: "int \<Rightarrow> 'm \<Rightarrow> 'm ws_server \<Rightarrow> bool \<times> 'm ws_server" where
  "sendToWSClient clientSessionId message srv =
     (case pushSendMsg clientSessionId message srv of
        (False, srv1) \<Rightarrow> (False, srv1)
      | (True, srv1) \<Rightarrow> (True, srv1\<lparr>wv_need_send := List.insert clientSessionId (wv_need_send srv1)\<rparr>))"

section \<open>Callbacks of the library\<close>

definition onConnected :: "int \<Rightarrow> nat \<Rightarrow> string \<Rightarrow> 'm ws_server \<Rightarrow> int \<times> 'm ws_server" where
  "onConnected now wsi peerIp srv = addClientSession now wsi (stripIpv4MappedPrefix peerIp) srv"

definition onDisconnected :: "int \<Rightarrow> 'm ws_server \<Rightarrow> 'm ws_server" where
  "onDisconnected clientSessionId srv = snd (removeClientSession clientSessionId srv)"

text \<open>A removed session is shared with nobody, so that its \<open>setWsiInvalid\<close> leaves no trace.\<close>

definition cleanupSession :: "int \<Rightarrow> 'm ws_server \<Rightarrow> 'm ws_output list \<times> 'm ws_server" where
  "cleanupSession clientSessionId srv =
     (case removeClientSession clientSessionId srv of
        (None, srv1) \<Rightarrow> ([], srv1)
      | (Some session, srv1) \<Rightarrow>
          ((case ws_wsi session of None \<Rightarrow> [] | Some wsi \<Rightarrow> [Close_Later wsi]), srv1))"

definition more_to_send :: "int \<Rightarrow> 'm ws_session \<Rightarrow> 'm ws_server \<Rightarrow> 'm ws_output list" where
  "more_to_send clientSessionId session srv =
     (if hasMoreSendMsg clientSessionId srv then [On_Writable (ws_wsi session)] else [])"

text \<open>\<open>now\<close> is the time of the comparison, \<open>now2\<close> the one that \<open>markPingSent\<close> takes.\<close>

definition onWriteable ::
  "('m \<Rightarrow> bool) \<Rightarrow> int \<Rightarrow> int \<Rightarrow> bool \<Rightarrow> int \<Rightarrow> 'm ws_server \<Rightarrow> 'm ws_output list \<times> 'm ws_server" where
  "onWriteable blank now now2 ping_written clientSessionId srv =
     (case getClientSession clientSessionId srv of
        None \<Rightarrow> ([], srv)
      | Some session \<Rightarrow>
          if \<not> ws_ping_outstanding session \<and>
             now - ws_last_pong session \<ge> seconds (heartbeatInterval (wv_options srv))
          then
            (case ws_wsi session of
               None \<Rightarrow> (more_to_send clientSessionId session srv, srv)
             | Some wsi \<Rightarrow>
                 let srv1 = (if ping_written then on_session clientSessionId (markPingSent now2) srv else srv) in
                 (Write_Ping wsi # more_to_send clientSessionId session srv1, srv1))
          else
            (case popSendMsg clientSessionId srv of (msg, srv1) \<Rightarrow>
               ((case msg of
                   None \<Rightarrow> []
                 | Some m \<Rightarrow> if blank m then [] else [Write_Text (ws_wsi session) m]) @
                more_to_send clientSessionId session srv1, srv1)))"

definition onReceive :: "int \<Rightarrow> int \<Rightarrow> 'm \<Rightarrow> 'm ws_server \<Rightarrow> 'm ws_server" where
  "onReceive now clientSessionId message srv =
     pushReceiveMessage clientSessionId message (on_session clientSessionId (updatePong now) srv)"

definition onPong :: "int \<Rightarrow> int \<Rightarrow> 'm ws_server \<Rightarrow> 'm ws_server" where
  "onPong now clientSessionId srv = on_session clientSessionId (updatePong now) srv"

section \<open>The two threads\<close>

definition ping_timed_out :: "int \<Rightarrow> ws_options \<Rightarrow> 'm ws_session \<Rightarrow> bool" where
  "ping_timed_out now options session \<longleftrightarrow>
     isWsiValid session \<and> ws_ping_outstanding session \<and>
     now - ws_last_ping session \<ge> seconds (heartbeatTimeout options)"

definition ping_due :: "int \<Rightarrow> ws_options \<Rightarrow> 'm ws_session \<Rightarrow> bool" where
  "ping_due now options session \<longleftrightarrow>
     isWsiValid session \<and> \<not> ws_ping_outstanding session \<and>
     now - ws_last_pong session \<ge> seconds (heartbeatInterval options)"

fun cleanup_all :: "int list \<Rightarrow> 'm ws_server \<Rightarrow> 'm ws_output list \<times> 'm ws_server" where
  "cleanup_all [] srv = ([], srv)"
| "cleanup_all (clientId # rest) srv =
     (case cleanupSession clientId srv of (outs, srv1) \<Rightarrow>
        case cleanup_all rest srv1 of (outs2, srv2) \<Rightarrow> (outs @ outs2, srv2))"

definition checkHeartbeat :: "int \<Rightarrow> 'm ws_server \<Rightarrow> 'm ws_output list \<times> 'm ws_server" where
  "checkHeartbeat now srv =
     (let timeoutClients = map fst (filter (\<lambda>(clientId, s). ping_timed_out now (wv_options srv) s) (wv_sessions srv));
          needWritableWsi = map (\<lambda>(clientId, s). ws_wsi s)
            (filter (\<lambda>(clientId, s). ping_due now (wv_options srv) s) (wv_sessions srv))
      in case cleanup_all timeoutClients srv of (outs, srv1) \<Rightarrow> (map On_Writable needWritableWsi @ outs, srv1))"

text \<open>One round of \<open>serviceThread\<close> after \<open>lws_service\<close> has called its callbacks.\<close>

definition service_round :: "int \<Rightarrow> 'm ws_server \<Rightarrow> 'm ws_output list \<times> 'm ws_server" where
  "service_round now srv =
     (if \<not> (wv_running srv \<and> wv_context srv) then ([], srv)
      else
        let wanted = concat (map (\<lambda>clientId. case getClientSession clientId srv of
              None \<Rightarrow> []
            | Some s \<Rightarrow> (case ws_wsi s of None \<Rightarrow> [] | Some wsi \<Rightarrow> [On_Writable (Some wsi)])) (wv_need_send srv));
            srv1 = srv\<lparr>wv_need_send := []\<rparr> in
        if now - wv_last_check srv \<ge> seconds 5
        then case checkHeartbeat now srv1 of (outs, srv2) \<Rightarrow> (wanted @ outs, srv2\<lparr>wv_last_check := now\<rparr>)
        else (wanted, srv1))"

text \<open>One round of \<open>messageThread\<close>: the message that the callback is given.\<close>

definition message_round :: "'m ws_server \<Rightarrow> (int \<times> 'm) option \<times> 'm ws_server" where
  "message_round srv =
     (if \<not> wv_running srv then (None, srv)
      else case wv_receive srv of
        [] \<Rightarrow> (None, srv)
      | message # rest \<Rightarrow>
          (if wv_callback srv then Some message else None, srv\<lparr>wv_receive := rest\<rparr>))"

end
