(* ===== verification/Websocket_Rules.thy ===== *)
theory Websocket_Rules
  imports Websocket_Server
begin

text \<open>
  What the WebSocket server promises: sessions and queues stay consistent, the messages to a client leave
  in the order in which they were accepted, and a client is dropped by the heartbeat exactly when it leaves
  a ping unanswered.
\<close>

section \<open>Events\<close>

text \<open>
  The callbacks of the library, a round of either thread, and a message that the business layer sends. Each
  is one atomic step: callbacks and rounds run in the service thread, and the queues are behind locks.
\<close>

datatype 'm ws_event =
    Established nat string
  | Received int 'm
  | Closed int
  | Writeable int int bool
  | Pong int
  | Serviced
  | Dispatched
  | Sent int 'm

fun ws_handle :: "('m \<Rightarrow> bool) \<Rightarrow> int \<Rightarrow> 'm ws_event \<Rightarrow> 'm ws_server \<Rightarrow> 'm ws_output list \<times> 'm ws_server" where
  "ws_handle blank now (Established wsi ip) srv = ([], snd (onConnected now wsi ip srv))"
| "ws_handle blank now (Received c m) srv = ([], onReceive now c m srv)"
| "ws_handle blank now (Closed c) srv = ([], onDisconnected c srv)"
| "ws_handle blank now (Writeable c now2 ok) srv = onWriteable blank now now2 ok c srv"
| "ws_handle blank now (Pong c) srv = ([], onPong now c srv)"
| "ws_handle blank now Serviced srv = service_round now srv"
| "ws_handle blank now Dispatched srv = ([], snd (message_round srv))"
| "ws_handle blank now (Sent c m) srv = ([], snd (sendToWSClient c m srv))"

lemma on_session_fields [simp]:
  "wv_running (on_session c f srv) = wv_running srv" "wv_context (on_session c f srv) = wv_context srv"
  "wv_options (on_session c f srv) = wv_options srv" "wv_next_id (on_session c f srv) = wv_next_id srv"
  "wv_last_check (on_session c f srv) = wv_last_check srv" "wv_need_send (on_session c f srv) = wv_need_send srv"
  by (simp_all add: on_session_def)

lemma get_on_session:
  "getClientSession d (on_session c f srv) =
     (if d = c then map_option f (getClientSession c srv) else getClientSession d srv)"
  by (simp add: getClientSession_def on_session_def map_of_map_entry split: option.splits)

lemma get_other [simp]:
  "getClientSession d (srv\<lparr>wv_need_send := x\<rparr>) = getClientSession d srv"
  "getClientSession d (srv\<lparr>wv_receive := y\<rparr>) = getClientSession d srv"
  "getClientSession d (srv\<lparr>wv_last_check := z\<rparr>) = getClientSession d srv"
  by (simp_all add: getClientSession_def)

lemma get_removed:
  "getClientSession d (snd (removeClientSession c srv)) = (if d = c then None else getClientSession d srv)"
  by (simp add: getClientSession_def removeClientSession_def delete_conv')

lemma cleanup_effect:
  "getClientSession d (snd (cleanupSession c srv)) = (if d = c then None else getClientSession d srv) \<and>
   wv_options (snd (cleanupSession c srv)) = wv_options srv \<and> wv_next_id (snd (cleanupSession c srv)) = wv_next_id srv \<and>
   (distinct (map fst (wv_sessions srv)) \<longrightarrow> distinct (map fst (wv_sessions (snd (cleanupSession c srv)))))"
  using get_removed [of d c srv]
  by (auto simp: cleanupSession_def removeClientSession_def distinct_delete split: option.splits)

lemma cleanup_all_effect:
  "getClientSession d (snd (cleanup_all cs srv)) = (if d \<in> set cs then None else getClientSession d srv) \<and>
   wv_options (snd (cleanup_all cs srv)) = wv_options srv \<and> wv_next_id (snd (cleanup_all cs srv)) = wv_next_id srv \<and>
   (distinct (map fst (wv_sessions srv)) \<longrightarrow> distinct (map fst (wv_sessions (snd (cleanup_all cs srv)))))"
proof (induction cs arbitrary: srv)
  case (Cons c cs)
  from Cons.IH [of "snd (cleanupSession c srv)"] cleanup_effect [of d c srv] show ?case
    by (auto simp: split_beta)
qed simp

lemma member_session:
  "distinct (map fst (wv_sessions srv)) \<Longrightarrow> (c, s) \<in> set (wv_sessions srv) \<longleftrightarrow> getClientSession c srv = Some s"
  by (auto simp: getClientSession_def)

text \<open>A heartbeat check removes the sessions whose ping has timed out, and touches no other.\<close>

lemma checkHeartbeat_effect:
  assumes "distinct (map fst (wv_sessions srv))"
  shows "getClientSession d (snd (checkHeartbeat now srv)) =
      (case getClientSession d srv of None \<Rightarrow> None
       | Some s \<Rightarrow> if ping_timed_out now (wv_options srv) s then None else Some s)"
    and "wv_options (snd (checkHeartbeat now srv)) = wv_options srv"
    and "wv_next_id (snd (checkHeartbeat now srv)) = wv_next_id srv"
    and "distinct (map fst (wv_sessions (snd (checkHeartbeat now srv))))"
proof -
  let ?cs = "map fst (filter (\<lambda>(clientId, s). ping_timed_out now (wv_options srv) s) (wv_sessions srv))"
  have "snd (checkHeartbeat now srv) = snd (cleanup_all ?cs srv)"
    by (simp add: checkHeartbeat_def Let_def split_beta)
  moreover have "d \<in> set ?cs \<longleftrightarrow> (\<exists>s. getClientSession d srv = Some s \<and> ping_timed_out now (wv_options srv) s)"
    using member_session [OF assms, of d] by force
  ultimately show "getClientSession d (snd (checkHeartbeat now srv)) =
      (case getClientSession d srv of None \<Rightarrow> None
       | Some s \<Rightarrow> if ping_timed_out now (wv_options srv) s then None else Some s)"
      "wv_options (snd (checkHeartbeat now srv)) = wv_options srv"
      "wv_next_id (snd (checkHeartbeat now srv)) = wv_next_id srv"
      "distinct (map fst (wv_sessions (snd (checkHeartbeat now srv))))"
    using cleanup_all_effect [of d ?cs srv] assms by (auto split: option.splits)
qed

section \<open>The invariant\<close>

definition session_ok :: "int \<Rightarrow> int \<Rightarrow> 'm ws_session \<Rightarrow> bool" where
  "session_ok next c s \<longleftrightarrow> ws_client_id s = c \<and> 0 < c \<and> c < next \<and> isWsiValid s \<and> length (ws_send_queue s) \<le> max_send_queue"

definition ws_ok :: "'m ws_server \<Rightarrow> bool" where
  "ws_ok srv \<longleftrightarrow> distinct (map fst (wv_sessions srv)) \<and> 0 < wv_next_id srv \<and>
     (\<forall>c s. getClientSession c srv = Some s \<longrightarrow> session_ok (wv_next_id srv) c s)"

text \<open>What each event does to one session.\<close>

definition removed_by :: "int \<Rightarrow> 'm ws_event \<Rightarrow> 'm ws_server \<Rightarrow> int \<Rightarrow> 'm ws_session \<Rightarrow> bool" where
  "removed_by now ev srv c s \<longleftrightarrow> ev = Closed c \<or>
     (ev = Serviced \<and> wv_running srv \<and> wv_context srv \<and> now - wv_last_check srv \<ge> seconds 5 \<and>
      ping_timed_out now (wv_options srv) s)"

definition session_after :: "int \<Rightarrow> 'm ws_event \<Rightarrow> 'm ws_server \<Rightarrow> int \<Rightarrow> 'm ws_session \<Rightarrow> 'm ws_session" where
  "session_after now ev srv c s =
     (case ev of
        Received d m \<Rightarrow> if d = c then updatePong now s else s
      | Pong d \<Rightarrow> if d = c then updatePong now s else s
      | Writeable d now2 ok \<Rightarrow>
          if d \<noteq> c then s
          else if ping_due now (wv_options srv) s then (if ok then markPingSent now2 s else s)
          else snd (popMessage s)
      | Sent d m \<Rightarrow> if d = c then snd (pushMessage m s) else s
      | _ \<Rightarrow> s)"

lemma ok_session: "ws_ok srv \<Longrightarrow> getClientSession c srv = Some s \<Longrightarrow> session_ok (wv_next_id srv) c s"
  by (simp add: ws_ok_def)

lemma ok_wsi: "ws_ok srv \<Longrightarrow> getClientSession c srv = Some s \<Longrightarrow> \<exists>wsi. ws_wsi s = Some wsi"
  using ok_session [of srv c s] by (auto simp: session_ok_def isWsiValid_def)

lemma generate_id: "0 < n \<Longrightarrow> n < 2 ^ 64 - 1 \<Longrightarrow> generate n = (n, n + 1)"
  by (simp add: generate_def Let_def)

lemma onWriteable_effect:
  assumes "ws_ok srv"
  shows "getClientSession c (snd (onWriteable blank now now2 ok d srv)) =
      map_option (session_after now (Writeable d now2 ok) srv c) (getClientSession c srv)"
proof (cases "getClientSession d srv")
  case None
  then show ?thesis
    by (cases "getClientSession c srv") (auto simp: onWriteable_def session_after_def)
next
  case (Some s)
  with ok_wsi [OF assms] obtain wsi where "ws_wsi s = Some wsi" by blast
  with Some show ?thesis
    by (cases "getClientSession c srv")
      (auto simp: onWriteable_def session_after_def ping_due_def isWsiValid_def popSendMsg_def Let_def get_on_session)
qed

lemma service_effect:
  assumes "ws_ok srv"
  shows "getClientSession c (snd (service_round now srv)) =
      (case getClientSession c srv of None \<Rightarrow> None | Some s \<Rightarrow> if removed_by now Serviced srv c s then None else Some s)"
    and "wv_options (snd (service_round now srv)) = wv_options srv"
    and "wv_next_id (snd (service_round now srv)) = wv_next_id srv"
    and "distinct (map fst (wv_sessions (snd (service_round now srv))))"
proof -
  have d: "distinct (map fst (wv_sessions (srv\<lparr>wv_need_send := []\<rparr>)))" using assms by (simp add: ws_ok_def)
  note check = checkHeartbeat_effect [OF d, where now = now, simplified]
  show "getClientSession c (snd (service_round now srv)) =
      (case getClientSession c srv of None \<Rightarrow> None | Some s \<Rightarrow> if removed_by now Serviced srv c s then None else Some s)"
    using check(1) [where d = c] by (auto simp: service_round_def removed_by_def Let_def split_beta split: option.splits)
  show "wv_options (snd (service_round now srv)) = wv_options srv"
    "wv_next_id (snd (service_round now srv)) = wv_next_id srv"
    "distinct (map fst (wv_sessions (snd (service_round now srv))))"
    using check(2-4) d by (simp_all add: service_round_def Let_def split_beta)
qed

lemma handle_effect:
  assumes ok: "ws_ok srv" and ids: "wv_next_id srv < 2 ^ 64 - 1"
  shows "getClientSession c (snd (ws_handle blank now ev srv)) =
      (case getClientSession c srv of
         Some s \<Rightarrow> if removed_by now ev srv c s then None else Some (session_after now ev srv c s)
       | None \<Rightarrow> (case ev of
           Established wsi ip \<Rightarrow> if c = wv_next_id srv
             then Some ((new_session now wsi c)\<lparr>ws_client_ip := stripIpv4MappedPrefix ip\<rparr>) else None
         | _ \<Rightarrow> None))"
proof (cases ev)
  case (Established wsi ip)
  have "getClientSession (wv_next_id srv) srv = None"
    using ok_session [OF ok, of "wv_next_id srv"] by (cases "getClientSession (wv_next_id srv) srv") (auto simp: session_ok_def)
  with Established ok ids show ?thesis
    by (auto simp: onConnected_def addClientSession_def generate_id ws_ok_def removed_by_def session_after_def
        getClientSession_def Let_def split: option.splits)
next
  case (Writeable d now2 ok')
  then show ?thesis
    using onWriteable_effect [OF ok, of c blank now now2 ok' d] by (auto simp: removed_by_def split: option.splits)
next
  case Serviced
  then show ?thesis
    using service_effect(1) [OF ok] by (auto simp: session_after_def split: option.splits)
next
  case Dispatched
  then show ?thesis
    by (auto simp: message_round_def removed_by_def session_after_def split: option.splits list.splits)
qed (auto simp: onReceive_def pushReceiveMessage_def onPong_def onDisconnected_def get_on_session get_removed
    sendToWSClient_def pushSendMsg_def removed_by_def session_after_def split: option.splits bool.splits)

lemma handle_frame:
  assumes "ws_ok srv" and "wv_next_id srv < 2 ^ 64 - 1"
  shows "wv_options (snd (ws_handle blank now ev srv)) = wv_options srv"
    and "wv_next_id (snd (ws_handle blank now ev srv)) = wv_next_id srv + (case ev of Established _ _ \<Rightarrow> 1 | _ \<Rightarrow> 0)"
    and "distinct (map fst (wv_sessions (snd (ws_handle blank now ev srv))))"
proof -
  have d: "distinct (map fst (wv_sessions srv))" using assms(1) by (simp add: ws_ok_def)
  have new: "getClientSession (wv_next_id srv) srv = None \<longleftrightarrow> wv_next_id srv \<notin> fst ` set (wv_sessions srv)"
    by (simp add: getClientSession_def map_of_eq_None_iff)
  have on: "distinct (map fst (wv_sessions (on_session c f srv)))" for c f
    using d by (simp add: on_session_def distinct_map_entry)
  show "wv_options (snd (ws_handle blank now ev srv)) = wv_options srv"
    using service_effect(2) [OF assms(1), of now]
    by (cases ev) (auto simp: onConnected_def addClientSession_def onReceive_def pushReceiveMessage_def onPong_def
        onDisconnected_def removeClientSession_def onWriteable_def popSendMsg_def sendToWSClient_def pushSendMsg_def
        message_round_def Let_def split: prod.splits option.splits list.splits bool.splits)
  show "wv_next_id (snd (ws_handle blank now ev srv)) = wv_next_id srv + (case ev of Established _ _ \<Rightarrow> 1 | _ \<Rightarrow> 0)"
    using service_effect(3) [OF assms(1), of now] assms
    by (cases ev) (auto simp: onConnected_def addClientSession_def generate_id ws_ok_def onReceive_def pushReceiveMessage_def onPong_def
        onDisconnected_def removeClientSession_def onWriteable_def popSendMsg_def sendToWSClient_def pushSendMsg_def
        message_round_def Let_def split: prod.splits option.splits list.splits bool.splits)
  show "distinct (map fst (wv_sessions (snd (ws_handle blank now ev srv))))"
    using service_effect(4) [OF assms(1), of now] assms d on new
    by (cases ev) (auto simp: onConnected_def addClientSession_def generate_id ws_ok_def onReceive_def pushReceiveMessage_def onPong_def
        onDisconnected_def removeClientSession_def distinct_delete onWriteable_def popSendMsg_def sendToWSClient_def pushSendMsg_def
        message_round_def Let_def split: prod.splits option.splits list.splits bool.splits)
qed

section \<open>Reachable states\<close>

lemma session_after_ok: "session_ok n c s \<Longrightarrow> session_ok n c (session_after now ev srv c s)"
  by (auto simp: session_ok_def session_after_def updatePong_def markPingSent_def popMessage_def pushMessage_def
      isWsiValid_def split: ws_event.splits list.splits)

lemma new_session_ok:
  "0 < c \<Longrightarrow> session_ok (c + 1) c ((new_session now wsi c)\<lparr>ws_client_ip := ip\<rparr>)"
  by (simp add: session_ok_def new_session_def isWsiValid_def)

lemma handle_ok:
  assumes "ws_ok srv" and "wv_next_id srv < 2 ^ 64 - 1"
  shows "ws_ok (snd (ws_handle blank now ev srv))"
proof -
  have "session_ok (wv_next_id (snd (ws_handle blank now ev srv))) c s"
    if "getClientSession c (snd (ws_handle blank now ev srv)) = Some s" for c s
  proof (cases "getClientSession c srv")
    case None
    with that handle_effect [OF assms, of c blank now ev] obtain wsi ip where "ev = Established wsi ip" "c = wv_next_id srv"
        "s = (new_session now wsi c)\<lparr>ws_client_ip := stripIpv4MappedPrefix ip\<rparr>"
      by (auto split: ws_event.splits if_splits)
    with handle_frame(2) [OF assms, of blank now ev] assms(1) show ?thesis
      using new_session_ok [of c] by (simp add: ws_ok_def)
  next
    case (Some s0)
    with that handle_effect [OF assms, of c blank now ev] have "s = session_after now ev srv c s0"
      by (auto split: if_splits)
    moreover have "session_ok (wv_next_id (snd (ws_handle blank now ev srv))) c s0"
      using ok_session [OF assms(1) Some] handle_frame(2) [OF assms, of blank now ev]
      by (auto simp: session_ok_def split: ws_event.splits)
    ultimately show ?thesis by (simp add: session_after_ok)
  qed
  then show ?thesis
    using handle_frame(2,3) [OF assms, of blank now ev] assms(1) by (auto simp: ws_ok_def split: ws_event.splits)
qed

text \<open>Starting, stopping and setting the callback are steps as well; the 64-bit ids must not be exhausted.\<close>

inductive ws_step :: "'m ws_server \<Rightarrow> 'm ws_server \<Rightarrow> bool" where
  handled: "wv_next_id srv < 2 ^ 64 - 1 \<Longrightarrow> ws_step srv (snd (ws_handle blank now ev srv))"
| started: "ws_step srv (snd (start_ws created now options srv))"
| stopped: "ws_step srv (stop_ws srv)"
| callback: "ws_step srv (setMessageCallback srv)"

inductive_cases ws_stepE: "ws_step srv srv'"

interpretation websockets: stepping "\<lambda>srv. srv = fresh_ws_server" ws_step ws_ok
proof
  fix srv :: "'m ws_server"
  assume "srv = fresh_ws_server"
  then show "ws_ok srv" by (simp add: ws_ok_def fresh_ws_server_def getClientSession_def)
next
  fix srv srv' :: "'m ws_server"
  assume "ws_ok srv" and "ws_step srv srv'"
  then show "ws_ok srv'"
    by (auto elim!: ws_stepE simp: handle_ok)
      (auto simp: ws_ok_def start_ws_def stop_ws_def setMessageCallback_def getClientSession_def Let_def)
qed

section \<open>Messages leave in order\<close>

text \<open>
  For one client: the messages that an event accepts for it (there was room in its queue), and the texts
  that are written to it.
\<close>

definition accepted_by :: "int \<Rightarrow> 'm ws_event \<Rightarrow> 'm ws_server \<Rightarrow> 'm list" where
  "accepted_by c ev srv =
     (case (ev, getClientSession c srv) of
        (Sent d m, Some s) \<Rightarrow> if d = c \<and> fst (pushMessage m s) then [m] else []
      | _ \<Rightarrow> [])"

definition texts :: "'m ws_output list \<Rightarrow> 'm list" where
  "texts outs = concat (map (\<lambda>out. case out of Write_Text wsi m \<Rightarrow> [m] | _ \<Rightarrow> []) outs)"

definition written_by :: "('m \<Rightarrow> bool) \<Rightarrow> int \<Rightarrow> int \<Rightarrow> 'm ws_event \<Rightarrow> 'm ws_server \<Rightarrow> 'm list" where
  "written_by blank c now ev srv =
     (case ev of
        Writeable d now2 ok \<Rightarrow> if d = c then texts (fst (ws_handle blank now ev srv)) else []
      | _ \<Rightarrow> [])"

text \<open>A run of timed events: what it accepts for the client, what it writes to it, and where it ends.\<close>

fun ws_run ::
  "('m \<Rightarrow> bool) \<Rightarrow> int \<Rightarrow> (int \<times> 'm ws_event) list \<Rightarrow> 'm ws_server \<Rightarrow> 'm list \<times> 'm list \<times> 'm ws_server" where
  "ws_run blank c [] srv = ([], [], srv)"
| "ws_run blank c ((now, ev) # evs) srv =
     (case ws_run blank c evs (snd (ws_handle blank now ev srv)) of (acc, wr, srv') \<Rightarrow>
        (accepted_by c ev srv @ acc, written_by blank c now ev srv @ wr, srv'))"

lemma texts_simps [simp]:
  "texts [] = []" "texts (out # outs) = (case out of Write_Text wsi m \<Rightarrow> [m] | _ \<Rightarrow> []) @ texts outs"
  "texts (outs @ outs') = texts outs @ texts outs'"
  by (simp_all add: texts_def)

lemma texts_more [simp]: "texts (more_to_send c s srv) = []"
  by (simp add: more_to_send_def)

text \<open>One event keeps: texts written, then the queue, is the old queue, then the messages accepted.\<close>

lemma queue_step:
  assumes ok: "ws_ok srv" and s: "getClientSession c srv = Some s"
  shows "written_by blank c now ev srv @ filter (Not \<circ> blank) (ws_send_queue (session_after now ev srv c s)) =
      filter (Not \<circ> blank) (ws_send_queue s @ accepted_by c ev srv)"
proof (cases ev)
  case (Writeable d now2 w)
  obtain wsi where "ws_wsi s = Some wsi" using ok_wsi [OF ok s] by blast
  with Writeable s show ?thesis
    by (auto simp: written_by_def accepted_by_def session_after_def onWriteable_def ping_due_def isWsiValid_def
        popSendMsg_def popMessage_def markPingSent_def Let_def split: list.splits)
next
  case (Sent d m)
  with s show ?thesis
    by (auto simp: written_by_def accepted_by_def session_after_def pushMessage_def)
qed (use s in \<open>auto simp: written_by_def accepted_by_def session_after_def updatePong_def\<close>)

lemma run_absent:
  "ws_ok srv \<Longrightarrow> wv_next_id srv + int (length evs) < 2 ^ 64 \<Longrightarrow> c < wv_next_id srv \<Longrightarrow> getClientSession c srv = None \<Longrightarrow>
   getClientSession c (snd (snd (ws_run blank c evs srv))) = None"
proof (induction evs arbitrary: srv)
  case (Cons e evs)
  obtain now ev where e: "e = (now, ev)" by fastforce
  have ids: "wv_next_id srv < 2 ^ 64 - 1" using Cons.prems(2) by simp
  let ?srv = "snd (ws_handle blank now ev srv)"
  have "getClientSession c ?srv = None"
    using handle_effect [OF Cons.prems(1) ids, of c blank now ev] Cons.prems(3,4) by (auto split: ws_event.splits)
  moreover have "wv_next_id ?srv + int (length evs) < 2 ^ 64" "c < wv_next_id ?srv"
    using handle_frame(2) [OF Cons.prems(1) ids, of blank now ev] Cons.prems(2,3) by (auto split: ws_event.splits)
  ultimately show ?case
    using Cons.IH [OF handle_ok [OF Cons.prems(1) ids]] by (simp add: e split_beta)
qed simp

lemma run_queue:
  "ws_ok srv \<Longrightarrow> wv_next_id srv + int (length evs) < 2 ^ 64 \<Longrightarrow> getClientSession c srv = Some s \<Longrightarrow>
   ws_run blank c evs srv = (acc, wr, srv') \<Longrightarrow> getClientSession c srv' = Some s' \<Longrightarrow>
   wr @ filter (Not \<circ> blank) (ws_send_queue s') = filter (Not \<circ> blank) (ws_send_queue s @ acc) \<and> ws_ok srv'"
proof (induction evs arbitrary: srv s acc wr)
  case (Cons e evs)
  obtain now ev where e: "e = (now, ev)" by fastforce
  have ids: "wv_next_id srv < 2 ^ 64 - 1" using Cons.prems(2) by simp
  let ?srv = "snd (ws_handle blank now ev srv)"
  have ok: "ws_ok ?srv" by (rule handle_ok [OF Cons.prems(1) ids])
  have bound: "wv_next_id ?srv + int (length evs) < 2 ^ 64" "wv_next_id srv \<le> wv_next_id ?srv"
    using handle_frame(2) [OF Cons.prems(1) ids, of blank now ev] Cons.prems(2) by (auto split: ws_event.splits)
  have c: "c < wv_next_id ?srv"
    using ok_session [OF Cons.prems(1,3)] bound(2) by (simp add: session_ok_def)
  obtain acc1 wr1 where rest: "ws_run blank c evs ?srv = (acc1, wr1, srv')"
    and acc: "acc = accepted_by c ev srv @ acc1" "wr = written_by blank c now ev srv @ wr1"
    using Cons.prems(4) by (auto simp: e split: prod.splits)
  have "\<not> removed_by now ev srv c s"
    using run_absent [OF ok bound(1) c, of blank] handle_effect [OF Cons.prems(1) ids, of c blank now ev]
      Cons.prems(3,5) rest by auto
  then have "getClientSession c ?srv = Some (session_after now ev srv c s)"
    using handle_effect [OF Cons.prems(1) ids, of c blank now ev] Cons.prems(3) by simp
  note IH = Cons.IH [OF ok bound(1) this rest Cons.prems(5)]
  let ?F = "filter (Not \<circ> blank)" and ?w = "written_by blank c now ev srv" and ?a = "accepted_by c ev srv"
  let ?q = "ws_send_queue (session_after now ev srv c s)"
  have "wr @ ?F (ws_send_queue s') = ?w @ ?F (?q @ acc1)"
    using conjunct1 [OF IH] by (simp only: acc append_assoc)
  also have "\<dots> = (?w @ ?F ?q) @ ?F acc1" by simp
  also have "\<dots> = ?F (ws_send_queue s @ ?a) @ ?F acc1" by (simp only: queue_step [OF Cons.prems(1,3)])
  also have "\<dots> = ?F (ws_send_queue s @ acc)" by (simp add: acc)
  finally show ?case using conjunct2 [OF IH] by (rule conjI)
qed simp

lemma connected:
  assumes "ws_ok srv" and "wv_next_id srv < 2 ^ 64 - 1" and "onConnected now wsi ip srv = (c, srv0)"
  shows "ws_ok srv0 \<and> wv_next_id srv0 = wv_next_id srv + 1 \<and>
    (\<exists>s. getClientSession c srv0 = Some s \<and> ws_send_queue s = [])"
proof -
  have srv0: "srv0 = snd (ws_handle (\<lambda>_. False) now (Established wsi ip) srv)" using assms(3) by simp
  have c: "c = wv_next_id srv"
    using assms by (auto simp: onConnected_def addClientSession_def generate_id ws_ok_def Let_def)
  then have "getClientSession c srv = None"
    using ok_session [OF assms(1), of c] by (cases "getClientSession c srv") (auto simp: session_ok_def)
  with c show ?thesis
    using handle_effect [OF assms(1,2), of c "\<lambda>_. False" now "Established wsi ip"]
      handle_frame(2) [OF assms(1,2), of "\<lambda>_. False" now "Established wsi ip"]
      handle_ok [OF assms(1,2), of "\<lambda>_. False" now "Established wsi ip"]
    by (simp add: srv0 new_session_def)
qed

text \<open>
  C17: the messages of a client leave in order, none lost and none twice. Let a client connect to a server
  in any state that it can reach, let any events follow, and let the client still be connected at the end.
  Then what was written to its connection, followed by its queue, is what was accepted for it (what the
  business layer sent while its queue had room), in that order and without the empty messages; and the
  queue never holds more than 2000 messages.
\<close>

theorem messages_leave_in_order:
  assumes "ws_step\<^sup>*\<^sup>* fresh_ws_server srv" and "wv_next_id srv + int (length evs) < 2 ^ 64 - 1"
    and "onConnected now wsi ip srv = (c, srv0)" and "ws_run blank c evs srv0 = (acc, wr, srv')"
    and "getClientSession c srv' = Some s"
  shows "wr @ filter (Not \<circ> blank) (ws_send_queue s) = filter (Not \<circ> blank) acc \<and>
    length (ws_send_queue s) \<le> max_send_queue"
proof -
  have ok: "ws_ok srv" by (rule websockets.reached [OF refl assms(1)])
  have ids: "wv_next_id srv < 2 ^ 64 - 1" using assms(2) by simp
  from connected [OF ok ids assms(3)] obtain s0 where s0: "ws_ok srv0" "wv_next_id srv0 = wv_next_id srv + 1"
      "getClientSession c srv0 = Some s0" "ws_send_queue s0 = []" by blast
  have "wv_next_id srv0 + int (length evs) < 2 ^ 64" using assms(2) s0(2) by simp
  from run_queue [OF s0(1) this s0(3) assms(4,5)] s0(4) show ?thesis
    using ok_session [of srv' c s] assms(5) by (simp add: session_ok_def)
qed

text \<open>Two messages, of which one is written; the second waits in the queue.\<close>

definition sample_ws_events :: "(int \<times> string ws_event) list" where
  "sample_ws_events = [(1, Sent 1 ''a''), (2, Sent 1 ''b''), (3, Serviced), (4, Writeable 1 4 True)]"

lemma messages_leave_in_order_witness:
  "\<exists>(srv0 :: string ws_server) srv' s. onConnected 0 7 ''::ffff:10.0.0.1'' fresh_ws_server = (1, srv0) \<and>
     ws_run (\<lambda>m. m = []) 1 sample_ws_events srv0 = ([''a'', ''b''], [''a''], srv') \<and>
     getClientSession 1 srv' = Some s \<and> [''a''] @ filter (Not \<circ> (\<lambda>m. m = [])) (ws_send_queue s) = [''a'', ''b''] \<and>
     ws_client_ip s = ''10.0.0.1''"
proof -
  let ?srv0 = "snd (onConnected 0 7 ''::ffff:10.0.0.1'' (fresh_ws_server :: string ws_server))"
  have c: "onConnected 0 7 ''::ffff:10.0.0.1'' fresh_ws_server = (1, ?srv0)"
    by (simp add: onConnected_def addClientSession_def generate_def fresh_ws_server_def Let_def getClientSession_def)
  obtain srv' s where run: "ws_run (\<lambda>m. m = []) 1 sample_ws_events ?srv0 = ([''a'', ''b''], [''a''], srv')"
    and s: "getClientSession 1 srv' = Some s" "ws_client_ip s = ''10.0.0.1''"
    by (simp add: sample_ws_events_def onConnected_def addClientSession_def generate_def fresh_ws_server_def Let_def
        getClientSession_def stripIpv4MappedPrefix_def new_session_def default_ws_options_def seconds_def
        sendToWSClient_def pushSendMsg_def on_session_def pushMessage_def max_send_queue_def accepted_by_def
        service_round_def written_by_def onWriteable_def popSendMsg_def popMessage_def more_to_send_def
        hasMoreSendMsg_def isEmptyMessage_def)
  have "[''a''] @ filter (Not \<circ> (\<lambda>m. m = [])) (ws_send_queue s) = filter (Not \<circ> (\<lambda>m. m = [])) [''a'', ''b''] \<and>
      length (ws_send_queue s) \<le> max_send_queue"
    by (rule messages_leave_in_order [OF rtranclp.rtrancl_refl _ c run s(1)])
      (simp add: fresh_ws_server_def sample_ws_events_def)
  with c run s show ?thesis by auto
qed

section \<open>The heartbeat\<close>

definition answers :: "int \<Rightarrow> 'm ws_event \<Rightarrow> bool" where
  "answers c ev = (case ev of Received d m \<Rightarrow> d = c | Pong d \<Rightarrow> d = c | _ \<Rightarrow> False)"

lemma silent_step:
  assumes "\<not> answers c ev" and "ws_ping_outstanding s"
  shows "ws_ping_outstanding (session_after now ev srv c s) \<and>
    ws_last_ping (session_after now ev srv c s) = ws_last_ping s"
  using assms by (auto simp: answers_def session_after_def ping_due_def popMessage_def pushMessage_def
      split: ws_event.splits list.splits)

lemma silent_run:
  "ws_ok srv \<Longrightarrow> wv_next_id srv + int (length evs) < 2 ^ 64 \<Longrightarrow> c < wv_next_id srv \<Longrightarrow>
   list_all (\<lambda>(t, ev). \<not> answers c ev) evs \<Longrightarrow>
   (\<forall>s. getClientSession c srv = Some s \<longrightarrow> ws_ping_outstanding s \<and> ws_last_ping s = t) \<Longrightarrow>
   ws_run blank c evs srv = (acc, wr, srv') \<Longrightarrow>
   ws_ok srv' \<and> wv_options srv' = wv_options srv \<and> c < wv_next_id srv' \<and>
   wv_next_id srv' \<le> wv_next_id srv + int (length evs) \<and>
   (\<forall>s. getClientSession c srv' = Some s \<longrightarrow> ws_ping_outstanding s \<and> ws_last_ping s = t)"
proof (induction evs arbitrary: srv acc wr)
  case (Cons e evs)
  obtain now ev where e: "e = (now, ev)" by fastforce
  have ids: "wv_next_id srv < 2 ^ 64 - 1" using Cons.prems(2) by simp
  let ?srv = "snd (ws_handle blank now ev srv)"
  have ok: "ws_ok ?srv" by (rule handle_ok [OF Cons.prems(1) ids])
  have bound: "wv_next_id ?srv + int (length evs) < 2 ^ 64" "c < wv_next_id ?srv" "wv_next_id ?srv \<le> wv_next_id srv + 1"
    using handle_frame(2) [OF Cons.prems(1) ids, of blank now ev] Cons.prems(2,3) by (auto split: ws_event.splits)
  have silent: "\<not> answers c ev" "list_all (\<lambda>(t, ev). \<not> answers c ev) evs"
    using Cons.prems(4) by (simp_all add: e)
  have keep: "\<forall>s. getClientSession c ?srv = Some s \<longrightarrow> ws_ping_outstanding s \<and> ws_last_ping s = t"
    using handle_effect [OF Cons.prems(1) ids, of c blank now ev] Cons.prems(3,5) silent_step [OF silent(1)]
    by (auto split: option.splits ws_event.splits if_splits)
  obtain acc1 wr1 where rest: "ws_run blank c evs ?srv = (acc1, wr1, srv')"
    using Cons.prems(6) by (auto simp: e split: prod.splits)
  from Cons.IH [OF ok bound(1,2) silent(2) keep rest] bound(3) handle_frame(1) [OF Cons.prems(1) ids, of blank now ev]
  show ?case by simp
qed simp

text \<open>
  A client that leaves a ping unanswered is disconnected. Let a ping be due for a connected client when
  its connection is writable at time \<open>t1\<close>, and let the ping be written. Let any events follow in which the
  client neither sends a message nor a pong. If the service thread then makes a heartbeat check at a time
  that is at least the heartbeat timeout after the ping, the client has no session any more.
\<close>

theorem unanswered_ping_disconnects:
  assumes "ws_step\<^sup>*\<^sup>* fresh_ws_server srv" and "wv_next_id srv + int (length evs) < 2 ^ 64 - 1"
    and "getClientSession c srv = Some s" and "ping_due t1 (wv_options srv) s"
    and "list_all (\<lambda>(t, ev). \<not> answers c ev) evs"
    and "ws_run blank c ((t1, Writeable c t2 True) # evs) srv = (acc, wr, srv')"
    and "wv_running srv' \<and> wv_context srv'" and "t3 - wv_last_check srv' \<ge> seconds 5"
    and "t3 - t2 \<ge> seconds (heartbeatTimeout (wv_options srv))"
  shows "getClientSession c (snd (ws_handle blank t3 Serviced srv')) = None"
proof -
  have ok: "ws_ok srv" by (rule websockets.reached [OF refl assms(1)])
  have ids: "wv_next_id srv < 2 ^ 64 - 1" using assms(2) by simp
  let ?ev = "Writeable c t2 True" and ?srv = "snd (ws_handle blank t1 (Writeable c t2 True) srv)"
  have frame: "wv_options ?srv = wv_options srv" "wv_next_id ?srv = wv_next_id srv"
    using handle_frame(1,2) [OF ok ids, of blank t1 ?ev] by simp_all
  have ok1: "ws_ok ?srv" by (rule handle_ok [OF ok ids])
  have c: "c < wv_next_id srv" using ok_session [OF ok assms(3)] by (simp add: session_ok_def)
  have pinged: "\<forall>s. getClientSession c ?srv = Some s \<longrightarrow> ws_ping_outstanding s \<and> ws_last_ping s = t2"
    using handle_effect [OF ok ids, of c blank t1 ?ev] assms(3,4)
    by (simp add: removed_by_def session_after_def markPingSent_def)
  obtain acc1 wr1 where rest: "ws_run blank c evs ?srv = (acc1, wr1, srv')"
    using assms(6) by (auto split: prod.splits)
  have bound: "wv_next_id ?srv + int (length evs) < 2 ^ 64" "c < wv_next_id ?srv" using assms(2) c frame(2) by simp_all
  note last = silent_run [OF ok1 bound assms(5) pinged rest]
  show ?thesis
  proof (cases "getClientSession c srv'")
    case (Some s')
    have "isWsiValid s'" using ok_session [of srv' c s'] last Some by (simp add: session_ok_def)
    with Some last assms(7,8,9) frame(1) have "removed_by t3 Serviced srv' c s'"
      by (simp add: removed_by_def ping_timed_out_def)
    with Some last show ?thesis using service_effect(1) [of srv' c t3] by simp
  qed (use last service_effect(1) [of srv' c t3] in simp)
qed

text \<open>A server that is running with one client, connected at time 0; the ping goes out after 30 seconds.\<close>

definition sample_ws_server :: "string ws_server" where
  "sample_ws_server = snd (onConnected 0 7 ''10.0.0.1'' (snd (start_ws True 0 default_ws_options fresh_ws_server)))"

lemma sample_ws_reached: "ws_step\<^sup>*\<^sup>* fresh_ws_server sample_ws_server"
proof -
  let ?s1 = "snd (start_ws True 0 default_ws_options (fresh_ws_server :: string ws_server))"
  have one: "ws_step fresh_ws_server ?s1" by (rule started)
  have "wv_next_id ?s1 < 2 ^ 64 - 1" by (simp add: start_ws_def fresh_ws_server_def Let_def)
  then have "ws_step ?s1 sample_ws_server"
    using handled [of ?s1 "\<lambda>_. False" 0 "Established 7 ''10.0.0.1''"] by (simp add: sample_ws_server_def)
  with one show ?thesis by (rule rtranclp.rtrancl_into_rtrancl [of ws_step, OF r_into_rtranclp [of ws_step]])
qed

lemma unanswered_ping_disconnects_witness:
  "getClientSession 1 sample_ws_server \<noteq> None \<and>
   getClientSession 1 (snd (ws_handle (\<lambda>m. m = []) (seconds 41) Serviced
     (snd (snd (ws_run (\<lambda>m. m = []) 1 [(seconds 30, Writeable 1 (seconds 30) True), (seconds 35, Serviced)]
        sample_ws_server))))) = None"
proof -
  let ?evs = "[(seconds 30, Writeable 1 (seconds 30) True), (seconds 35, Serviced)]"
  obtain s where s: "getClientSession 1 sample_ws_server = Some s" "ping_due (seconds 30) (wv_options sample_ws_server) s"
    by (simp add: sample_ws_server_def start_ws_def onConnected_def addClientSession_def generate_def fresh_ws_server_def
        Let_def getClientSession_def new_session_def default_ws_options_def ping_due_def isWsiValid_def)
  obtain acc wr srv' where run: "ws_run (\<lambda>m. m = []) 1 ?evs sample_ws_server = (acc, wr, srv')"
    by (rule prod_cases3 [of "ws_run (\<lambda>m. m = []) 1 ?evs sample_ws_server"])
  have after: "wv_running srv' \<and> wv_context srv'" "seconds 41 - wv_last_check srv' \<ge> seconds 5"
    using run
    by (auto simp: sample_ws_server_def start_ws_def onConnected_def addClientSession_def generate_def fresh_ws_server_def
        Let_def getClientSession_def new_session_def default_ws_options_def onWriteable_def seconds_def
        on_session_def service_round_def checkHeartbeat_def ping_timed_out_def markPingSent_def)
  have "getClientSession 1 (snd (ws_handle (\<lambda>m. m = []) (seconds 41) Serviced srv')) = None"
    by (rule unanswered_ping_disconnects [OF sample_ws_reached _ s _ run after])
      (simp_all add: sample_ws_server_def start_ws_def onConnected_def addClientSession_def generate_def fresh_ws_server_def
        Let_def answers_def default_ws_options_def seconds_def)
  with run s show ?thesis by simp
qed

end
