(* ===== verification/Topic_Manager.thy ===== *)
theory Topic_Manager
  imports Robot_Manager Websocket_Rules Json
begin

text \<open>
  \<open>edge_server/src/topic/topic_manager.cpp\<close>, \<open>websocket_message_router.cpp\<close> and
  \<open>robot_list_publisher.cpp\<close>: who subscribes to which topic, and how the robot list reaches the
  subscribers. What the topic manager needs of the WebSocket server is an interface.
\<close>

section \<open>State and operations\<close>

text \<open>
  \<open>m_subscribers\<close>: a list of topics, each with the list of its clients. The order of the clients is that in
  which the unordered set is traversed.
\<close>

record topic_manager =
  tp_subscribers :: "(string \<times> int list) list"

definition no_topics :: topic_manager where
  "no_topics = \<lparr>tp_subscribers = []\<rparr>"

definition clients_of :: "string \<Rightarrow> topic_manager \<Rightarrow> int list" where
  "clients_of topic tm = (case map_of (tp_subscribers tm) topic of None \<Rightarrow> [] | Some clients \<Rightarrow> clients)"

definition topic_subscribe :: "int \<Rightarrow> string \<Rightarrow> topic_manager \<Rightarrow> topic_manager" where
  "topic_subscribe clientId topic tm =
     tm\<lparr>tp_subscribers := AList.update topic (List.insert clientId (clients_of topic tm)) (tp_subscribers tm)\<rparr>"

definition topic_unsubscribe :: "int \<Rightarrow> string \<Rightarrow> topic_manager \<Rightarrow> topic_manager" where
  "topic_unsubscribe clientId topic tm =
     tm\<lparr>tp_subscribers := AList.map_entry topic (removeAll clientId) (tp_subscribers tm)\<rparr>"

definition hasSubscriber :: "string \<Rightarrow> topic_manager \<Rightarrow> bool" where
  "hasSubscriber topic tm \<longleftrightarrow> clients_of topic tm \<noteq> []"

text \<open>The loop over a copy of the clients: a client to which nothing can be sent is unsubscribed.\<close>

fun publish_loop ::
  "(int \<Rightarrow> 'm \<Rightarrow> 's \<Rightarrow> bool \<times> 's) \<Rightarrow> string \<Rightarrow> 'm \<Rightarrow> int list \<Rightarrow> topic_manager \<times> 's \<Rightarrow> topic_manager \<times> 's" where
  "publish_loop send topic message [] st = st"
| "publish_loop send topic message (clientId # rest) (tm, srv) =
     (case send clientId message srv of
        (False, srv') \<Rightarrow> publish_loop send topic message rest (topic_unsubscribe clientId topic tm, srv')
      | (True, srv') \<Rightarrow> publish_loop send topic message rest (tm, srv'))"

definition topic_publish ::
  "(int \<Rightarrow> 'm \<Rightarrow> 's \<Rightarrow> bool \<times> 's) \<Rightarrow> string \<Rightarrow> 'm \<Rightarrow> topic_manager \<times> 's \<Rightarrow> topic_manager \<times> 's" where
  "topic_publish send topic message st = publish_loop send topic message (clients_of topic (fst st)) st"

section \<open>Requests of the clients\<close>

text \<open>
  \<open>for(item : j)\<close> over any document: the elements of an array, the values of an object, nothing for null,
  and a primitive value itself.
\<close>

definition loop_items :: "json \<Rightarrow> json list" where
  "loop_items j = (case j of JArr xs \<Rightarrow> xs | JObj kvs \<Rightarrow> map snd kvs | JNull \<Rightarrow> [] | _ \<Rightarrow> [j])"

text \<open>The first element that is not a string throws, after the topics before it were subscribed.\<close>

fun subscribe_items :: "int \<Rightarrow> json list \<Rightarrow> topic_manager \<Rightarrow> topic_manager" where
  "subscribe_items clientId [] tm = tm"
| "subscribe_items clientId (topic # rest) tm =
     (case get_string topic of
        Inl e \<Rightarrow> tm
      | Inr t \<Rightarrow> subscribe_items clientId rest (topic_subscribe clientId t tm))"

definition handleSubscribe :: "int \<Rightarrow> json option \<Rightarrow> topic_manager \<Rightarrow> topic_manager" where
  "handleSubscribe clientId message tm =
     (case bind_result (parse message) (\<lambda>j. subscript j ''topics'') of
        Inl e \<Rightarrow> tm
      | Inr topics \<Rightarrow> subscribe_items clientId (loop_items topics) tm)"

definition onMessage :: "int \<Rightarrow> json option \<Rightarrow> topic_manager \<Rightarrow> topic_manager" where
  "onMessage clientId message tm =
     (case parse message of
        Inl e \<Rightarrow> tm
      | Inr j \<Rightarrow>
          (case member j ''msgType'' of
             None \<Rightarrow> tm
           | Some type \<Rightarrow> if type = JStr ''subscribe'' then handleSubscribe clientId message tm else tm))"

section \<open>The robot list\<close>

definition robot_item_json :: "robot_instance_info \<Rightarrow> json" where
  "robot_item_json robot = JObj
     [(''robot_id'', JStr (ri_robot_id robot)), (''instance_id'', JStr (ri_instance_id robot)),
      (''x'', JReal (pose_x (ri_pose robot))), (''y'', JReal (pose_y (ri_pose robot))),
      (''yaw'', JReal (pose_yaw (ri_pose robot)))]"

definition robot_list_json :: "robot_instance_info list \<Rightarrow> json" where
  "robot_list_json robots = JObj
     [(''msgType'', JStr ''subscribe''), (''topic'', JStr ''robot_list''),
      (''robots'', JArr (map robot_item_json robots))]"

definition publish_robot_list ::
  "(int \<Rightarrow> json option \<Rightarrow> 's \<Rightarrow> bool \<times> 's) \<Rightarrow> robot_manager \<Rightarrow> topic_manager \<times> 's \<Rightarrow> topic_manager \<times> 's" where
  "publish_robot_list send mgr st =
     (if \<not> hasSubscriber ''robot_list'' (fst st) then st
      else topic_publish send ''robot_list'' (Some (robot_list_json (getRobotList mgr))) st)"

text \<open>Which robot events make the publisher's timer run at once (the callback of \<open>EdgeServerApp::init\<close>).\<close>

fun triggers_publish :: "robot_event \<Rightarrow> bool" where
  "triggers_publish EVENT_REGISTER = True"
| "triggers_publish EVENT_OFFLINE = True"
| "triggers_publish EVENT_STATUS_CHANGED = False"
| "triggers_publish EVENT_POSE_CHANGED = False"

section \<open>Subscribers\<close>

lemma clients_subscribe:
  "clients_of t (topic_subscribe c topic tm) = (if t = topic then List.insert c (clients_of topic tm) else clients_of t tm)"
  by (simp add: clients_of_def topic_subscribe_def update_conv' del: update.simps)

lemma clients_unsubscribe:
  "clients_of t (topic_unsubscribe c topic tm) = (if t = topic then removeAll c (clients_of topic tm) else clients_of t tm)"
  by (simp add: clients_of_def topic_unsubscribe_def map_of_map_entry split: option.splits)

definition topics_ok :: "topic_manager \<Rightarrow> bool" where
  "topics_ok tm \<longleftrightarrow> (\<forall>topic. distinct (clients_of topic tm))"

lemma subscribe_ok: "topics_ok tm \<Longrightarrow> topics_ok (topic_subscribe c topic tm)"
  by (simp add: topics_ok_def clients_subscribe)

lemma unsubscribe_ok: "topics_ok tm \<Longrightarrow> topics_ok (topic_unsubscribe c topic tm)"
  by (simp add: topics_ok_def clients_unsubscribe distinct_removeAll)

lemma subscribe_items_ok: "topics_ok tm \<Longrightarrow> topics_ok (subscribe_items c items tm)"
  by (induction items arbitrary: tm) (auto simp: subscribe_ok split: sum.splits)

lemma onMessage_ok: "topics_ok tm \<Longrightarrow> topics_ok (onMessage c message tm)"
  by (auto simp: onMessage_def handleSubscribe_def subscribe_items_ok split: sum.splits option.splits)

lemma publish_loop_ok: "topics_ok tm \<Longrightarrow> topics_ok (fst (publish_loop send topic message cs (tm, srv)))"
proof (induction cs arbitrary: tm srv)
  case (Cons c cs)
  then show ?case
    by (cases "send c message srv"; cases "fst (send c message srv)") (simp_all add: unsubscribe_ok)
qed simp

text \<open>The topic manager takes steps: a message of a client, and a publication.\<close>

inductive topic_step :: "topic_manager \<Rightarrow> topic_manager \<Rightarrow> bool" where
  requested: "topic_step tm (onMessage c message tm)"
| published: "topic_step tm (fst (topic_publish sendToWSClient topic (message :: json option) (tm, srv)))"

inductive_cases topic_stepE: "topic_step tm tm'"

interpretation topics: stepping "\<lambda>tm. tm = no_topics" topic_step topics_ok
proof
  fix tm
  assume "tm = no_topics"
  then show "topics_ok tm" by (simp add: topics_ok_def no_topics_def clients_of_def)
next
  fix tm tm'
  assume "topics_ok tm" and "topic_step tm tm'"
  then show "topics_ok tm'"
    by (auto elim!: topic_stepE simp: onMessage_ok topic_publish_def publish_loop_ok)
qed

section \<open>Publishing through a message server\<close>

text \<open>
  What the topic manager relies on: a message can be sent exactly to the clients that are connected; it is
  put behind the messages of that client while there are fewer than \<open>room\<close>; nothing else changes.
\<close>

locale message_server =
  fixes send :: "int \<Rightarrow> 'm \<Rightarrow> 's \<Rightarrow> bool \<times> 's"
    and live :: "'s \<Rightarrow> int \<Rightarrow> bool"
    and waiting :: "'s \<Rightarrow> int \<Rightarrow> 'm list"
    and room :: nat
  assumes send_result: "fst (send c m s) \<longleftrightarrow> live s c"
    and send_live: "live (snd (send c m s)) d \<longleftrightarrow> live s d"
    and send_waiting: "waiting (snd (send c m s)) d =
      (if d = c \<and> live s c \<and> length (waiting s c) < room then waiting s c @ [m] else waiting s d)"
begin

lemma loop_effect:
  "distinct cs \<Longrightarrow> publish_loop send topic m cs (tm, s) = (tm', s') \<Longrightarrow>
    (\<forall>d. live s' d = live s d) \<and>
    (\<forall>d. waiting s' d = (if d \<in> set cs \<and> live s d \<and> length (waiting s d) < room then waiting s d @ [m] else waiting s d)) \<and>
    (\<forall>t. clients_of t tm' = (if t = topic then filter (\<lambda>c. c \<in> set cs \<longrightarrow> live s c) (clients_of t tm) else clients_of t tm))"
proof (induction cs arbitrary: tm s)
  case (Cons c cs)
  let ?s1 = "snd (send c m s)"
  define tm1 where "tm1 = (if live s c then tm else topic_unsubscribe c topic tm)"
  have run: "publish_loop send topic m cs (tm1, ?s1) = (tm', s')"
    using Cons.prems(2) send_result [of c m s]
    by (cases "send c m s"; cases "fst (send c m s)") (auto simp: tm1_def)
  have c: "c \<notin> set cs" "distinct cs" using Cons.prems(1) by simp_all
  note IH = Cons.IH [OF c(2) run]
  have "clients_of t tm' = (if t = topic then filter (\<lambda>d. d \<in> set (c # cs) \<longrightarrow> live s d) (clients_of t tm) else clients_of t tm)" for t
    using IH send_live by (auto simp: tm1_def clients_unsubscribe removeAll_filter_not_eq intro!: filter_cong)
  with IH c(1) show ?case by (auto simp: send_live send_waiting)
qed simp

lemma publish_effect:
  assumes "topics_ok tm" and "topic_publish send topic m (tm, s) = (tm', s')"
  shows "clients_of t tm' = (if t = topic then filter (live s) (clients_of t tm) else clients_of t tm)"
    and "waiting s' d = (if d \<in> set (clients_of topic tm) \<and> live s d \<and> length (waiting s d) < room
      then waiting s d @ [m] else waiting s d)"
    and "live s' d = live s d"
proof -
  have "distinct (clients_of topic tm)" using assms(1) by (simp add: topics_ok_def)
  from loop_effect [OF this, of topic m tm s tm' s'] assms(2) show
    "clients_of t tm' = (if t = topic then filter (live s) (clients_of t tm) else clients_of t tm)"
    "waiting s' d = (if d \<in> set (clients_of topic tm) \<and> live s d \<and> length (waiting s d) < room
      then waiting s d @ [m] else waiting s d)"
    "live s' d = live s d"
    by (auto simp: topic_publish_def intro!: filter_cong)
qed

end

definition ws_live :: "'m ws_server \<Rightarrow> int \<Rightarrow> bool" where
  "ws_live srv c \<longleftrightarrow> getClientSession c srv \<noteq> None"

definition ws_waiting :: "'m ws_server \<Rightarrow> int \<Rightarrow> 'm list" where
  "ws_waiting srv c = (case getClientSession c srv of None \<Rightarrow> [] | Some s \<Rightarrow> ws_send_queue s)"

interpretation ws: message_server sendToWSClient ws_live ws_waiting max_send_queue
  by standard
    (auto simp: sendToWSClient_def pushSendMsg_def ws_live_def ws_waiting_def get_on_session pushMessage_def
      split: bool.splits option.splits)

text \<open>
  The robot list reaches its subscribers. Let the clients have subscribed in any way, and the server
  be in any state. When the list is published, every client that has subscribed to it and is connected
  gets one message with the list of all robots behind the messages that it has not been sent yet, unless
  2000 of them are waiting; no other client gets anything; and the subscribers that are left are those that
  are connected.
\<close>

theorem robot_list_reaches_subscribers:
  assumes "topic_step\<^sup>*\<^sup>* no_topics tm" and "publish_robot_list sendToWSClient mgr (tm, srv) = (tm', srv')"
  shows "clients_of ''robot_list'' tm' = filter (ws_live srv) (clients_of ''robot_list'' tm) \<and>
    (\<forall>c. ws_waiting srv' c =
      (if c \<in> set (clients_of ''robot_list'' tm) \<and> ws_live srv c \<and> length (ws_waiting srv c) < max_send_queue
       then ws_waiting srv c @ [Some (robot_list_json (getRobotList mgr))] else ws_waiting srv c))"
proof (cases "hasSubscriber ''robot_list'' tm")
  case True
  with assms(2) have "topic_publish sendToWSClient ''robot_list'' (Some (robot_list_json (getRobotList mgr))) (tm, srv) = (tm', srv')"
    by (simp add: publish_robot_list_def)
  from ws.publish_effect(1,2) [OF topics.reached [OF refl assms(1)] this] show ?thesis by simp
next
  case False
  with assms(2) show ?thesis by (auto simp: publish_robot_list_def hasSubscriber_def)
qed

text \<open>Two clients subscribe, one of them is connected: it gets the list and the other is forgotten.\<close>

definition sample_topics :: topic_manager where
  "sample_topics = onMessage 2 (Some (JObj [(''msgType'', JStr ''subscribe''), (''topics'', JArr [JStr ''robot_list''])]))
     (onMessage 1 (Some (JObj [(''msgType'', JStr ''subscribe''), (''topics'', JArr [JStr ''robot_list''])])) no_topics)"

lemma robot_list_reaches_subscribers_witness:
  "\<exists>tm' (srv' :: json option ws_server).
     publish_robot_list sendToWSClient no_robots (sample_topics, snd (onConnected 0 7 [] fresh_ws_server)) = (tm', srv') \<and>
     clients_of ''robot_list'' sample_topics = [2, 1] \<and> clients_of ''robot_list'' tm' = [1] \<and>
     ws_waiting srv' 1 = [Some (robot_list_json [])]"
proof -
  let ?srv = "snd (onConnected 0 7 [] (fresh_ws_server :: json option ws_server))"
  obtain tm' srv' where run: "publish_robot_list sendToWSClient no_robots (sample_topics, ?srv) = (tm', srv')" by fastforce
  have reached: "topic_step\<^sup>*\<^sup>* no_topics sample_topics"
    unfolding sample_topics_def
    by (rule rtranclp.rtrancl_into_rtrancl [of topic_step, OF r_into_rtranclp [of topic_step, OF requested] requested])
  have clients: "clients_of ''robot_list'' sample_topics = [2, 1]"
    by (simp add: sample_topics_def onMessage_def handleSubscribe_def loop_items_def clients_subscribe no_topics_def clients_of_def)
      (simp add: topic_subscribe_def clients_of_def)
  have live: "ws_live ?srv 1 \<and> \<not> ws_live ?srv 2 \<and> ws_waiting ?srv 1 = []"
    by (simp add: ws_live_def ws_waiting_def onConnected_def addClientSession_def generate_def fresh_ws_server_def
        Let_def getClientSession_def new_session_def)
  have "getRobotList no_robots = []" by (simp add: getRobotList_def no_robots_def)
  with robot_list_reaches_subscribers [OF reached run] clients live run show ?thesis
    by (auto simp: max_send_queue_def)
qed

end
