(* ===== verification/Websocket_Client.thy ===== *)
theory Websocket_Client
  imports Prelude
begin

text \<open>
  \<open>simulation_manager/src/websocket_client.cpp\<close>: the connection of the simulation to the edge server, with
  its queue, heartbeat and reconnection. Times are nanoseconds of the steady clock and arguments; a
  connection of libwebsockets is a number; what is asked of that library is output, and what it answers
  is an argument.
\<close>

section \<open>Text functions of the standard library\<close>

text \<open>\<open>find\<close> with a text, from a position on.\<close>

definition find_text :: "string \<Rightarrow> nat \<Rightarrow> string \<Rightarrow> nat option" where
  "find_text pat start s = find (\<lambda>i. take (length pat) (drop i s) = pat) [start..<Suc (length s - length pat)]"

definition is_digit :: "char \<Rightarrow> bool" where
  "is_digit c \<longleftrightarrow> of_char c \<ge> (48 :: nat) \<and> of_char c \<le> (57 :: nat)"

definition is_space :: "char \<Rightarrow> bool" where
  "is_space c \<longleftrightarrow> c = CHR '' '' \<or> (of_char c \<ge> (9 :: nat) \<and> of_char c \<le> (13 :: nat))"

definition digits_value :: "string \<Rightarrow> int" where
  "digits_value ds = foldl (\<lambda>n d. 10 * n + (of_char d - 48)) 0 ds"

text \<open>
  \<open>std::stoi\<close>: white space, a sign, digits up to the first other character; no digits and a value that is no
  \<open>int\<close> throw.
\<close>

definition stoi :: "string \<Rightarrow> int option" where
  "stoi s =
     (let s1 = dropWhile is_space s;
          negative = (s1 \<noteq> [] \<and> hd s1 = CHR ''-'');
          s2 = (if s1 \<noteq> [] \<and> (hd s1 = CHR ''-'' \<or> hd s1 = CHR ''+'') then tl s1 else s1);
          ds = takeWhile is_digit s2;
          n = (if negative then - digits_value ds else digits_value ds)
      in if ds = [] \<or> to_int32 n \<noteq> n then None else Some n)"

section \<open>State\<close>

record client_options =
  co_heartbeatInterval :: int
  co_heartbeatTimeout :: int
  reconnectInitialDelay :: int
  reconnectMaxDelay :: int

definition default_client_options :: client_options where
  "default_client_options = \<lparr>co_heartbeatInterval = 30, co_heartbeatTimeout = 10, reconnectInitialDelay = 1,
     reconnectMaxDelay = 30\<rparr>"

datatype 'm client_event = CONNECTED | DISCONNECTED | MESSAGE 'm | CLIENT_ERROR

record 'm ws_client =
  wc_running :: bool
  wc_connected :: bool
  wc_context :: bool
  wc_wsi :: "nat option"
  wc_url :: string
  wc_host :: string
  wc_port :: int
  wc_path :: string
  wc_options :: client_options
  wc_send_queue :: "'m list"
  wc_receive_queue :: "'m client_event list"
  wc_delay :: int
  wc_next_reconnect :: int
  wc_last_ping :: int
  wc_last_pong :: int
  wc_ping_outstanding :: bool

definition fresh_ws_client :: "'m ws_client" where
  "fresh_ws_client = \<lparr>wc_running = False, wc_connected = False, wc_context = False, wc_wsi = None, wc_url = [],
     wc_host = [], wc_port = 80, wc_path = [], wc_options = default_client_options, wc_send_queue = [],
     wc_receive_queue = [], wc_delay = 1000, wc_next_reconnect = 0, wc_last_ping = 0, wc_last_pong = 0,
     wc_ping_outstanding = False\<rparr>"

datatype 'm client_output =
    Try_Connect string int string
  | Client_Writable nat
  | Client_Ping nat
  | Client_Text nat 'm
  | Client_Close nat

text \<open>Delays are milliseconds, options seconds, times nanoseconds.\<close>

definition millis :: "int \<Rightarrow> int" where
  "millis n = n * 1000000"

definition secs :: "int \<Rightarrow> int" where
  "secs n = n * 1000000000"

section \<open>Connecting\<close>

text \<open>What a call that may throw leaves: \<open>None\<close> in the first place is the exception of \<open>std::stoi\<close>.\<close>

definition parseUrl :: "string \<Rightarrow> 'm ws_client \<Rightarrow> bool option \<times> 'm ws_client" where
  "parseUrl url c =
     (case find_text ''://'' 0 url of
        None \<Rightarrow> (Some False, c)
      | Some pos \<Rightarrow>
          let start = pos + 3;
              slash = find_text ''/'' start url;
              hostport = (case slash of None \<Rightarrow> drop start url | Some k \<Rightarrow> take (k - start) (drop start url));
              path = (case slash of None \<Rightarrow> ''/'' | Some k \<Rightarrow> drop k url);
              c1 = c\<lparr>wc_path := path\<rparr>
          in case find_text '':'' 0 hostport of
               None \<Rightarrow> (Some True, c1\<lparr>wc_host := hostport, wc_port := 80\<rparr>)
             | Some colon \<Rightarrow>
                 let c2 = c1\<lparr>wc_host := take colon hostport\<rparr> in
                 (case stoi (drop (Suc colon) hostport) of
                    None \<Rightarrow> (None, c2)
                  | Some port \<Rightarrow> (Some True, c2\<lparr>wc_port := port\<rparr>)))"

definition normal_options :: "client_options \<Rightarrow> client_options" where
  "normal_options options =
     (let o1 = (if reconnectInitialDelay options \<le> 0 then options\<lparr>reconnectInitialDelay := 1\<rparr> else options)
      in if reconnectMaxDelay o1 < reconnectInitialDelay o1
         then o1\<lparr>reconnectMaxDelay := reconnectInitialDelay o1\<rparr> else o1)"

definition initial_delay :: "'m ws_client \<Rightarrow> int" where
  "initial_delay c = 1000 * reconnectInitialDelay (wc_options c)"

definition max_delay :: "'m ws_client \<Rightarrow> int" where
  "max_delay c = 1000 * reconnectMaxDelay (wc_options c)"

text \<open>\<open>connect\<close> starts the threads; the first lines of \<open>run\<close> make the context and set the time of the first attempt.\<close>

definition client_connect :: "string \<Rightarrow> client_options \<Rightarrow> 'm ws_client \<Rightarrow> bool option \<times> 'm ws_client" where
  "client_connect url options c =
     (if wc_running c then (Some False, c)
      else case parseUrl url c of
        (Some True, c1) \<Rightarrow>
          let c2 = c1\<lparr>wc_url := url, wc_options := normal_options options\<rparr> in
          (Some True, c2\<lparr>wc_delay := initial_delay c2, wc_connected := False, wc_running := True\<rparr>)
      | (res, c1) \<Rightarrow> (res, c1))"

definition run_begins :: "bool \<Rightarrow> int \<Rightarrow> 'm ws_client \<Rightarrow> 'm ws_client" where
  "run_begins created now c =
     (if \<not> created then c\<lparr>wc_running := False\<rparr> else c\<lparr>wc_context := True, wc_next_reconnect := now\<rparr>)"

definition client_close :: "'m ws_client \<Rightarrow> 'm ws_client" where
  "client_close c = c\<lparr>wc_running := False, wc_connected := False, wc_context := False, wc_wsi := None\<rparr>"

definition scheduleReconnect :: "int \<Rightarrow> 'm ws_client \<Rightarrow> 'm ws_client" where
  "scheduleReconnect now c =
     (if \<not> wc_running c then c
      else c\<lparr>wc_next_reconnect := now + millis (wc_delay c), wc_delay := min (wc_delay c * 2) (max_delay c)\<rparr>)"

section \<open>Messages and events\<close>

definition client_send :: "'m \<Rightarrow> 'm ws_client \<Rightarrow> 'm ws_client" where
  "client_send message c = c\<lparr>wc_send_queue := wc_send_queue c @ [message]\<rparr>"

definition pushEventMessage :: "'m client_event \<Rightarrow> 'm ws_client \<Rightarrow> 'm ws_client" where
  "pushEventMessage ev c = c\<lparr>wc_receive_queue := wc_receive_queue c @ [ev]\<rparr>"

definition client_message_round :: "'m ws_client \<Rightarrow> 'm client_event option \<times> 'm ws_client" where
  "client_message_round c =
     (if \<not> wc_running c then (None, c)
      else case wc_receive_queue c of
        [] \<Rightarrow> (None, c)
      | ev # rest \<Rightarrow> (Some ev, c\<lparr>wc_receive_queue := rest\<rparr>))"

section \<open>Callbacks of the library\<close>

definition client_onConnected :: "int \<Rightarrow> 'm ws_client \<Rightarrow> 'm ws_client" where
  "client_onConnected now c =
     pushEventMessage CONNECTED (c\<lparr>wc_connected := True, wc_delay := initial_delay c, wc_last_ping := now\<rparr>)"

definition onConnectionClosed :: "int \<Rightarrow> 'm ws_client \<Rightarrow> 'm ws_client" where
  "onConnectionClosed now c =
     (let c1 = scheduleReconnect now (c\<lparr>wc_wsi := None, wc_ping_outstanding := False\<rparr>);
          c2 = c1\<lparr>wc_connected := False\<rparr>
      in if wc_connected c1 then pushEventMessage DISCONNECTED c2 else c2)"

definition onConnectionError :: "int \<Rightarrow> 'm ws_client \<Rightarrow> 'm ws_client" where
  "onConnectionError now c =
     (let c1 = pushEventMessage CLIENT_ERROR (c\<lparr>wc_wsi := None, wc_connected := False\<rparr>)
      in scheduleReconnect now (c1\<lparr>wc_ping_outstanding := False\<rparr>))"

definition client_onReceive :: "'m \<Rightarrow> 'm ws_client \<Rightarrow> 'm ws_client" where
  "client_onReceive message c = pushEventMessage (MESSAGE message) c"

definition onUpdateHeartStatus :: "int \<Rightarrow> 'm ws_client \<Rightarrow> 'm ws_client" where
  "onUpdateHeartStatus now c = c\<lparr>wc_last_pong := now, wc_ping_outstanding := False\<rparr>"

definition client_more :: "nat \<Rightarrow> 'm ws_client \<Rightarrow> 'm client_output list" where
  "client_more wsi c = (if wc_send_queue c \<noteq> [] then [Client_Writable wsi] else [])"

definition onWrite :: "('m \<Rightarrow> bool) \<Rightarrow> int \<Rightarrow> bool \<Rightarrow> 'm ws_client \<Rightarrow> 'm client_output list \<times> 'm ws_client" where
  "onWrite blank now ping_written c =
     (case wc_wsi c of
        None \<Rightarrow> ([], c)
      | Some wsi \<Rightarrow>
          if \<not> wc_connected c then ([], c)
          else if \<not> wc_ping_outstanding c \<and> now - wc_last_ping c \<ge> secs (co_heartbeatInterval (wc_options c))
          then
            let c1 = (if ping_written then c\<lparr>wc_last_ping := now, wc_ping_outstanding := True\<rparr> else c) in
            (Client_Ping wsi # client_more wsi c1, c1)
          else
            case wc_send_queue c of
              [] \<Rightarrow> ([], c)
            | message # rest \<Rightarrow>
                let c1 = c\<lparr>wc_send_queue := rest\<rparr> in
                ((if blank message then [] else [Client_Text wsi message]) @ client_more wsi c1, c1))"

section \<open>The service loop\<close>

definition client_checkHeartbeat :: "int \<Rightarrow> 'm ws_client \<Rightarrow> 'm client_output list \<times> 'm ws_client" where
  "client_checkHeartbeat now c =
     (if \<not> wc_connected c then ([], c)
      else
        let due = (\<not> wc_ping_outstanding c \<and> now - wc_last_ping c \<ge> secs (co_heartbeatInterval (wc_options c)));
            late = (wc_ping_outstanding c \<and> now - wc_last_ping c \<ge> secs (co_heartbeatTimeout (wc_options c)));
            wsi = (case wc_wsi c of None \<Rightarrow> [] | Some w \<Rightarrow> [w])
        in ((if due then map Client_Writable wsi else []) @ (if late then map Client_Close wsi else []),
            if late then c\<lparr>wc_ping_outstanding := False\<rparr> else c))"

text \<open>
  The part of a round before \<open>lws_service\<close>, with the connection that the library gives and the time at
  which a failure is noted, and the part after it.
\<close>

definition try_connect :: "int \<Rightarrow> int \<Rightarrow> nat option \<Rightarrow> 'm ws_client \<Rightarrow> 'm client_output list \<times> 'm ws_client" where
  "try_connect now now2 given c =
     (if wc_connected c \<or> now < wc_next_reconnect c \<or> wc_wsi c \<noteq> None then ([], c)
      else ([Try_Connect (wc_host c) (wc_port c) (wc_path c)],
            case given of Some wsi \<Rightarrow> c\<lparr>wc_wsi := Some wsi\<rparr> | None \<Rightarrow> scheduleReconnect now2 c))"

definition after_service :: "int \<Rightarrow> 'm ws_client \<Rightarrow> 'm client_output list \<times> 'm ws_client" where
  "after_service now c =
     (case client_checkHeartbeat now c of (outs, c1) \<Rightarrow>
        ((case wc_wsi c of Some wsi \<Rightarrow> client_more wsi c | None \<Rightarrow> []) @ outs, c1))"

end
