(* ===== verification/Websocket_Client_Rules.thy ===== *)
theory Websocket_Client_Rules
  imports Websocket_Client
begin

text \<open>
  What the WebSocket client promises: an address is taken apart as it was put together, the waits between
  attempts double up to their bound, and no message is lost or overtaken.
\<close>

section \<open>Numbers as text\<close>

lemma digit_char: "(n :: nat) < 10 \<Longrightarrow> is_digit (char_of (48 + n)) \<and> of_char (char_of (48 + n)) = 48 + n"
  by (simp add: is_digit_def)

lemma digits_step: "digits n = (if n < 10 then [char_of (48 + n)] else digits (n div 10) @ [char_of (48 + n mod 10)])"
  by (rule digits.simps)

lemma digits_are_digits: "list_all is_digit (digits n) \<and> digits n \<noteq> []"
proof (induction n rule: digits.induct)
  case (1 n)
  then show ?case using digit_char [of n] digit_char [of "n mod 10"] by (subst (1 2) digits_step) simp
qed

lemma digits_value_append: "digits_value (ds @ [d]) = 10 * digits_value ds + (of_char d - 48)"
  by (simp add: digits_value_def)

lemma digit_value: "n < 10 \<Longrightarrow> (of_char (char_of (48 + n) :: char) :: int) = 48 + int n"
proof -
  assume "n < 10"
  then have "(of_char (char_of (48 + n) :: char) :: nat) = 48 + n" by simp
  then show ?thesis by (metis of_char_of of_nat_add of_nat_numeral of_nat_of_char)
qed

lemma value_of_digits: "digits_value (digits n) = int n"
proof (induction n rule: digits.induct)
  case (1 n)
  show ?case
  proof (cases "n < 10")
    case True
    then show ?thesis using digit_value [of n] by (subst digits_step) (simp add: digits_value_def)
  next
    case False
    with 1 have "digits_value (digits n) = 10 * int (n div 10) + int (n mod 10)"
      using digit_value [of "n mod 10"] by (subst digits_step) (simp add: digits_value_append)
    then show ?thesis by presburger
  qed
qed

lemma digit_no_space: "is_digit c \<Longrightarrow> \<not> is_space c \<and> c \<noteq> CHR ''-'' \<and> c \<noteq> CHR ''+'' \<and> c \<noteq> CHR '':'' \<and> c \<noteq> CHR ''/''"
  by (auto simp: is_digit_def is_space_def)

lemma stoi_to_string:
  assumes "0 \<le> n" and "n < 2 ^ 31"
  shows "stoi (to_string n) = Some n"
proof -
  obtain d ds where ds: "digits (nat n) = d # ds" "is_digit d" "list_all is_digit ds"
    using digits_are_digits [of "nat n"] by (cases "digits (nat n)") auto
  have all: "takeWhile is_digit ds = ds" using ds(3) by (simp add: takeWhile_eq_all_conv list_all_iff)
  have "digits_value (d # ds) = n" using value_of_digits [of "nat n"] ds(1) assms(1) by simp
  with ds(1,2) digit_no_space [OF ds(2)] assms show ?thesis
    by (simp add: all stoi_def to_string_def Let_def)
qed

section \<open>Addresses\<close>

lemma find_textI:
  assumes "start \<le> i" and "take (length pat) (drop i s) = pat" and "pat \<noteq> []"
    and "\<And>j. start \<le> j \<Longrightarrow> j < i \<Longrightarrow> take (length pat) (drop j s) \<noteq> pat"
  shows "find_text pat start s = Some i"
proof -
  have "length (take (length pat) (drop i s)) = length pat" by (simp only: assms(2))
  then have "i + length pat \<le> length s" using assms(3) by (cases "i \<le> length s") (auto simp: min_def split: if_splits)
  then have i: "i \<le> length s - length pat" by simp
  show ?thesis
    unfolding find_text_def find_Some_iff
  proof (intro exI [of _ "i - start"] conjI allI impI)
    show "i - start < length [start..<Suc (length s - length pat)]" using i assms(1) by simp
    have nth: "[start..<Suc (length s - length pat)] ! (i - start) = i" using i assms(1) by (subst nth_upt) simp_all
    then show "i = [start..<Suc (length s - length pat)] ! (i - start)" by simp
    show "take (length pat) (drop ([start..<Suc (length s - length pat)] ! (i - start)) s) = pat"
      unfolding nth by (rule assms(2))
    fix j assume "j < i - start"
    moreover from this i have "[start..<Suc (length s - length pat)] ! j = start + j" by (subst nth_upt) simp_all
    ultimately show "take (length pat) (drop ([start..<Suc (length s - length pat)] ! j) s) \<noteq> pat"
      using assms(4) [of "start + j"] by simp
  qed
qed

lemma find_text_none: "(\<And>j. start \<le> j \<Longrightarrow> take (length pat) (drop j s) \<noteq> pat) \<Longrightarrow> find_text pat start s = None"
  by (auto simp: find_text_def find_None_iff)

lemma no_match: "c \<notin> set (take (j + length pat) s) \<Longrightarrow> c \<in> set pat \<Longrightarrow> take (length pat) (drop j s) \<noteq> pat"
  by (metis add.commute in_set_dropD take_drop)

lemma no_char: "j < length pre \<Longrightarrow> c \<notin> set pre \<Longrightarrow> take (length [c]) (drop j (pre @ s)) \<noteq> [c]"
  by (rule no_match) (auto dest: in_set_takeD)

lemma find_char_text: "c \<notin> set pre \<Longrightarrow> find_text [c] 0 (pre @ c # post) = Some (length pre)"
  using no_char [of _ pre c] by (intro find_textI) auto

lemma find_char_none: "c \<notin> set s \<Longrightarrow> find_text [c] 0 s = None"
  using no_match [of c _ "[c]" s] by (auto simp: find_text_def find_None_iff dest: in_set_takeD)

lemma digits_no_char: "c \<in> set (digits n) \<Longrightarrow> is_digit c"
  using digits_are_digits [of n] by (simp add: list_all_iff)

text \<open>
  An address is read as it was written. For any scheme without a colon, any host without a colon or a
  slash, any port that is an \<open>int\<close>, and any path that is empty or begins with a slash, the client takes from
  \<open>scheme://host:port/path\<close> this host, port and path, the empty path standing for the root; without a port it
  takes port 80.
\<close>

theorem url_roundtrip:
  assumes "CHR '':'' \<notin> set scheme" and "CHR '':'' \<notin> set host" and "CHR ''/'' \<notin> set host"
    and "0 \<le> port" and "port < 2 ^ 31" and "path = [] \<or> hd path = CHR ''/''"
  shows "parseUrl (scheme @ ''://'' @ host @ '':'' @ to_string port @ path) c =
      (Some True, c\<lparr>wc_host := host, wc_port := port, wc_path := (if path = [] then ''/'' else path)\<rparr>) \<and>
    parseUrl (scheme @ ''://'' @ host @ path) c =
      (Some True, c\<lparr>wc_host := host, wc_port := 80, wc_path := (if path = [] then ''/'' else path)\<rparr>)"
proof -
  have scheme: "find_text ''://'' 0 (scheme @ ''://'' @ rest) = Some (length scheme)" for rest
  proof (rule find_textI)
    fix j
    assume "j < length scheme"
    then have "hd (take (length ''://'') (drop j (scheme @ ''://'' @ rest))) = scheme ! j"
      by (simp add: hd_append hd_drop_conv_nth nth_append)
    moreover have "scheme ! j \<noteq> CHR '':''" using assms(1) \<open>j < length scheme\<close> nth_mem by metis
    ultimately show "take (length ''://'') (drop j (scheme @ ''://'' @ rest)) \<noteq> ''://''" by (metis list.sel(1))
  qed simp_all
  have path: "find_text ''/'' (length scheme + 3) (scheme @ ''://'' @ hp @ path) =
      (if path = [] then None else Some (length scheme + 3 + length hp))" if hp: "CHR ''/'' \<notin> set hp" for hp
  proof (cases "path = []")
    case True
    have "find_text ''/'' (length scheme + 3) (scheme @ ''://'' @ hp) = None"
    proof (rule find_text_none)
      fix j
      assume "length scheme + 3 \<le> j"
      then obtain k where "j = length scheme + 3 + k" by (auto simp: le_iff_add)
      then have "drop j (scheme @ ''://'' @ hp) = drop k hp" by (simp add: numeral_3_eq_3)
      with no_match [of "CHR ''/''" k "''/''" hp] hp
      show "take (length ''/'') (drop j (scheme @ ''://'' @ hp)) \<noteq> ''/''" by (auto dest: in_set_takeD)
    qed
    with True show ?thesis by simp
  next
    case False
    with assms(6) obtain rest where rest: "path = CHR ''/'' # rest" by (cases path) auto
    have "find_text ''/'' (length scheme + 3) (scheme @ ''://'' @ hp @ path) = Some (length scheme + 3 + length hp)"
    proof (rule find_textI)
      fix j
      assume j: "length scheme + 3 \<le> j" "j < length scheme + 3 + length hp"
      then obtain k where k: "j = length scheme + 3 + k" by (auto simp: le_iff_add)
      with j(2) have "take (length ''/'') (drop k (hp @ path)) \<noteq> ''/''" using hp by (intro no_char) simp_all
      moreover have "drop j (scheme @ ''://'' @ hp @ path) = drop k (hp @ path)"
        using k by (simp add: numeral_3_eq_3)
      ultimately show "take (length ''/'') (drop j (scheme @ ''://'' @ hp @ path)) \<noteq> ''/''" by simp
    qed (simp_all add: rest numeral_3_eq_3)
    with False show ?thesis by simp
  qed
  have port: "CHR ''/'' \<notin> set (to_string port)" "CHR '':'' \<notin> set (to_string port)"
    using assms(4) digits_no_char [of _ "nat port"] digit_no_space by (auto simp: to_string_def)
  let ?hp = "host @ '':'' @ to_string port"
  have hp: "CHR ''/'' \<notin> set ?hp" using assms(3) port(1) by simp
  have hostport: "(case (if path = [] then None else Some (length scheme + 3 + length h)) of
        None \<Rightarrow> drop (length scheme + 3) (scheme @ ''://'' @ h @ path)
      | Some k \<Rightarrow> take (k - (length scheme + 3)) (drop (length scheme + 3) (scheme @ ''://'' @ h @ path))) = h" for h
    by simp
  have pth: "(case (if path = [] then None else Some (length scheme + 3 + length h)) of
        None \<Rightarrow> ''/'' | Some k \<Rightarrow> drop k (scheme @ ''://'' @ h @ path)) = (if path = [] then ''/'' else path)" for h
    by (simp add: numeral_3_eq_3)
  have colon: "find_text '':'' 0 ?hp = Some (length host)" using find_char_text [OF assms(2)] by simp
  have "parseUrl (scheme @ ''://'' @ ?hp @ path) c =
      (Some True, c\<lparr>wc_host := host, wc_port := port, wc_path := (if path = [] then ''/'' else path)\<rparr>)"
    unfolding parseUrl_def scheme option.case Let_def path [OF hp] hostport pth colon
    by (simp add: stoi_to_string [OF assms(4,5)])
  moreover have "parseUrl (scheme @ ''://'' @ host @ path) c =
      (Some True, c\<lparr>wc_host := host, wc_port := 80, wc_path := (if path = [] then ''/'' else path)\<rparr>)"
    unfolding parseUrl_def scheme option.case Let_def path [OF assms(3)] hostport pth find_char_none [OF assms(2)]
    by simp
  ultimately show ?thesis by simp
qed

lemma url_roundtrip_witness:
  "parseUrl ''ws://edge:9002/robots'' fresh_ws_client =
     (Some True, fresh_ws_client\<lparr>wc_host := ''edge'', wc_port := 9002, wc_path := ''/robots''\<rparr>)"
proof -
  have "to_string 9002 = ''9002''" by (simp add: to_string_def digits.simps char_of_def bit_0)
  then show ?thesis
    using conjunct1 [OF url_roundtrip [of "''ws''" "''edge''" 9002 "''/robots''" fresh_ws_client]] by simp
qed

section \<open>Runs of the client\<close>

text \<open>Everything that happens to a client: its callbacks, the two halves of a round, and the calls of its user.\<close>

datatype 'm client_input =
    Do_Connect string client_options
  | Run_Begins bool
  | Do_Close
  | Do_Send 'm
  | Take_Event
  | Lib_Connected
  | Lib_Closed
  | Lib_Error
  | Lib_Receive 'm
  | Lib_Pong
  | Lib_Writable bool
  | Before_Service int "nat option"
  | After_Service

fun client_handle ::
  "('m \<Rightarrow> bool) \<Rightarrow> int \<Rightarrow> 'm client_input \<Rightarrow> 'm ws_client \<Rightarrow> 'm client_output list \<times> 'm ws_client" where
  "client_handle blank now (Do_Connect url options) c = ([], snd (client_connect url options c))"
| "client_handle blank now (Run_Begins created) c = ([], run_begins created now c)"
| "client_handle blank now Do_Close c = ([], client_close c)"
| "client_handle blank now (Do_Send m) c = ([], client_send m c)"
| "client_handle blank now Take_Event c = ([], snd (client_message_round c))"
| "client_handle blank now Lib_Connected c = ([], client_onConnected now c)"
| "client_handle blank now Lib_Closed c = ([], onConnectionClosed now c)"
| "client_handle blank now Lib_Error c = ([], onConnectionError now c)"
| "client_handle blank now (Lib_Receive m) c = ([], client_onReceive m c)"
| "client_handle blank now Lib_Pong c = ([], onUpdateHeartStatus now c)"
| "client_handle blank now (Lib_Writable ok) c = onWrite blank now ok c"
| "client_handle blank now (Before_Service now2 given) c = try_connect now now2 given c"
| "client_handle blank now After_Service c = after_service now c"

lemmas client_defs = client_connect_def run_begins_def client_close_def client_send_def client_message_round_def
  client_onConnected_def onConnectionClosed_def onConnectionError_def client_onReceive_def onUpdateHeartStatus_def
  pushEventMessage_def scheduleReconnect_def

lemma parse_url_keeps:
  "wc_options (snd (parseUrl url c)) = wc_options c \<and> wc_delay (snd (parseUrl url c)) = wc_delay c \<and>
   wc_send_queue (snd (parseUrl url c)) = wc_send_queue c"
  by (simp add: parseUrl_def Let_def split: option.splits)

text \<open>The delay lies between its two bounds, which are positive and in order.\<close>

definition delays_ok :: "'m ws_client \<Rightarrow> bool" where
  "delays_ok c \<longleftrightarrow> 0 < initial_delay c \<and> initial_delay c \<le> wc_delay c \<and> wc_delay c \<le> max_delay c"

lemma normal_options_ok:
  "0 < reconnectInitialDelay (normal_options options) \<and>
   reconnectInitialDelay (normal_options options) \<le> reconnectMaxDelay (normal_options options)"
  by (simp add: normal_options_def Let_def)

lemma client_connect_ok: "delays_ok c \<Longrightarrow> delays_ok (snd (client_connect url options c))"
  using parse_url_keeps [of url c] normal_options_ok [of options]
  by (auto simp: client_connect_def delays_ok_def initial_delay_def max_delay_def Let_def split: prod.splits option.splits bool.splits)

lemma schedule_fields [simp]:
  "wc_options (scheduleReconnect now c) = wc_options c" "wc_running (scheduleReconnect now c) = wc_running c"
  "wc_delay (scheduleReconnect now c) = (if wc_running c then min (wc_delay c * 2) (max_delay c) else wc_delay c)"
  "wc_send_queue (scheduleReconnect now c) = wc_send_queue c"
  by (simp_all add: scheduleReconnect_def)

lemma client_handle_ok:
  assumes "delays_ok c"
  shows "delays_ok (snd (client_handle blank now input c))"
proof (cases input)
  case (Do_Connect url options)
  then show ?thesis using client_connect_ok [OF assms] by simp
next
  case Lib_Connected
  with assms show ?thesis by (simp add: client_defs delays_ok_def initial_delay_def max_delay_def)
next
  case (Before_Service now2 given)
  with assms show ?thesis
    by (auto simp: try_connect_def delays_ok_def initial_delay_def max_delay_def split: option.splits)
qed (use assms in \<open>auto simp: client_defs onWrite_def after_service_def client_checkHeartbeat_def Let_def
    delays_ok_def initial_delay_def max_delay_def split: prod.splits option.splits list.splits\<close>)

inductive client_step :: "'m ws_client \<Rightarrow> 'm ws_client \<Rightarrow> bool" where
  "client_step c (snd (client_handle blank now input c))"

inductive_cases client_stepE: "client_step c c'"

interpretation clients: stepping "\<lambda>c. c = fresh_ws_client" client_step delays_ok
proof
  fix c :: "'m ws_client"
  assume "c = fresh_ws_client"
  then show "delays_ok c"
    by (simp add: delays_ok_def fresh_ws_client_def initial_delay_def max_delay_def default_client_options_def)
next
  fix c c' :: "'m ws_client"
  assume "delays_ok c" and "client_step c c'"
  then show "delays_ok c'" by (auto elim!: client_stepE simp: client_handle_ok)
qed

section \<open>Waiting longer and longer\<close>

text \<open>Attempts that fail, or connections that are closed, one after the other, and how long each makes wait.\<close>

fun losses :: "(int \<times> bool) list \<Rightarrow> 'm ws_client \<Rightarrow> int list" where
  "losses [] c = []"
| "losses ((now, closed) # rest) c =
     (let c1 = (if closed then onConnectionClosed now c else onConnectionError now c)
      in (wc_next_reconnect c1 - now) # losses rest c1)"

lemma min_doubling:
  assumes "0 \<le> (a :: int)" and "0 \<le> m"
  shows "min (min a m * 2 ^ i) m = min (a * 2 ^ i) m"
proof (cases "a \<le> m")
  case False
  have one: "m \<le> m * 2 ^ i" using mult_left_mono [of 1 "2 ^ i" m] assms(2) by simp
  have "m * 2 ^ i \<le> a * 2 ^ i" using False by (intro mult_right_mono) simp_all
  with one have "m \<le> a * 2 ^ i" by (rule order_trans)
  with one False show ?thesis by (simp add: min_absorb2)
qed simp

lemma losses_waits:
  "delays_ok c \<Longrightarrow> wc_running c \<Longrightarrow>
   losses evs c = map (\<lambda>i. millis (min (wc_delay c * 2 ^ i) (max_delay c))) [0..<length evs]"
proof (induction evs arbitrary: c)
  case (Cons e evs)
  obtain now closed where e: "e = (now, closed)" by fastforce
  define c1 where "c1 = (if closed then onConnectionClosed now c else onConnectionError now c)"
  have c1: "wc_running c1" "wc_delay c1 = min (wc_delay c * 2) (max_delay c)" "max_delay c1 = max_delay c"
      "wc_next_reconnect c1 - now = millis (wc_delay c)"
    using Cons.prems(2) by (simp_all add: c1_def client_defs Let_def max_delay_def)
  have "delays_ok c1"
    using client_handle_ok [OF Cons.prems(1), of "\<lambda>_. True" now "if closed then Lib_Closed else Lib_Error"]
    by (simp add: c1_def split: if_splits)
  from Cons.IH [OF this c1(1)] have tail: "losses evs c1 =
      map (\<lambda>i. millis (min (min (wc_delay c * 2) (max_delay c) * 2 ^ i) (max_delay c))) [0..<length evs]"
    by (simp add: c1(2,3))
  have pos: "0 \<le> wc_delay c * 2" "0 \<le> max_delay c" "wc_delay c \<le> max_delay c"
    using Cons.prems(1) by (simp_all add: delays_ok_def)
  have "[0..<length (e # evs)] = 0 # map Suc [0..<length evs]" by (simp add: upt_conv_Cons map_Suc_upt del: upt_Suc)
  then show ?case
    using pos(3) c1(4) by (simp add: e c1_def [symmetric] tail min_doubling [OF pos(1,2)] mult.assoc del: upt_Suc)
qed simp

text \<open>
  The waits between attempts to reconnect. Let a client of any history connect, and let the connection
  then be closed and further attempts fail, any number of times and at any times. The wait after the i-th of
  these (from 0) is the initial delay times \<open>2^i\<close>, but at most the maximal delay.
\<close>

theorem reconnect_backoff:
  assumes "client_step\<^sup>*\<^sup>* fresh_ws_client c" and "wc_running c"
  shows "losses evs (client_onConnected now c) =
    map (\<lambda>i. millis (min (initial_delay c * 2 ^ i) (max_delay c))) [0..<length evs]"
proof -
  have "delays_ok c" by (rule clients.reached [OF refl assms(1)])
  then have "delays_ok (client_onConnected now c)"
    using client_handle_ok [of c "\<lambda>_. True" now Lib_Connected] by simp
  moreover have "wc_running (client_onConnected now c)" "wc_delay (client_onConnected now c) = initial_delay c"
      "max_delay (client_onConnected now c) = max_delay c"
    using assms(2) by (simp_all add: client_defs max_delay_def)
  ultimately show ?thesis using losses_waits by fastforce
qed

lemma reconnect_backoff_witness:
  "\<exists>c :: string ws_client. wc_running c \<and>
     losses [(0, True), (5000, False), (9000, False), (20000, False), (40000, False), (80000, False)] (client_onConnected 0 c)
       = map millis [1000, 2000, 4000, 8000, 16000, 30000]"
proof -
  define c :: "string ws_client" where "c = snd (client_connect ''ws://edge'' default_client_options fresh_ws_client)"
  have fields: "wc_running c" "initial_delay c = 1000" "max_delay c = 30000"
    using conjunct2 [OF url_roundtrip [of "''ws''" "''edge''" 0 "[]" "fresh_ws_client :: string ws_client"]]
    by (simp_all add: c_def client_connect_def fresh_ws_client_def normal_options_def default_client_options_def
        initial_delay_def max_delay_def Let_def)
  have "client_step fresh_ws_client c"
    using client_step.intros [of fresh_ws_client "\<lambda>_. True" 0 "Do_Connect ''ws://edge'' default_client_options"]
    by (simp add: c_def)
  from reconnect_backoff [OF r_into_rtranclp [of client_step, OF this] fields(1),
      of "[(0, True), (5000, False), (9000, False), (20000, False), (40000, False), (80000, False)]" 0] fields
  show ?thesis by (intro exI [of _ c]) (simp add: upt_rec)
qed

end
