(* ===== verification/Robot_List.thy ===== *)
theory Robot_List
  imports Topic_Manager Websocket_Client_Rules Simulation_Rules
begin

text \<open>
  \<open>simulation_manager/src/edge_client.cpp\<close> and \<open>simulation_manager_node.cpp\<close>: the simulation subscribes to the
  robot list of the edge server and follows it. A message is the document of its text, \<open>None\<close> for a text
  that is no document.
\<close>

section \<open>The client of the edge server\<close>

record edge_client =
  ec_robotList :: "robot_info list"
  ec_updated :: bool

definition fresh_edge_client :: edge_client where
  "fresh_edge_client = \<lparr>ec_robotList = [], ec_updated = False\<rparr>"

definition subscribe_json :: json where
  "subscribe_json = JObj [(''msgType'', JStr ''subscribe''), (''topics'', JArr [JStr ''robot_list''])]"

text \<open>A member read with \<open>item[key]\<close> and converted.\<close>

definition item_member :: "(json \<Rightarrow> 'a result) \<Rightarrow> json \<Rightarrow> string \<Rightarrow> 'a result" where
  "item_member get item key = bind_result (subscript item key) get"

definition robot_info_of :: "json \<Rightarrow> robot_info result" where
  "robot_info_of item =
     bind_result (item_member get_string item ''robot_id'') (\<lambda>robot_id.
     bind_result (item_member get_string item ''instance_id'') (\<lambda>instance_id.
     bind_result (item_member get_double item ''x'') (\<lambda>x.
     bind_result (item_member get_double item ''y'') (\<lambda>y.
     bind_result (item_member get_double item ''yaw'') (\<lambda>yaw.
       Inr \<lparr>si_robot_id = robot_id, si_instance_id = instance_id, si_x = x, si_y = y, si_yaw = yaw\<rparr>)))))"

definition handleRobotList :: "json option \<Rightarrow> edge_client \<Rightarrow> edge_client" where
  "handleRobotList message c =
     (case bind_result (parse message) (\<lambda>j. bind_result (subscript j ''robots'') (\<lambda>items.
            map_result robot_info_of (loop_items items))) of
        Inl e \<Rightarrow> c
      | Inr robots \<Rightarrow> c\<lparr>ec_robotList := robots, ec_updated := True\<rparr>)"

definition handleMessage :: "json option \<Rightarrow> edge_client \<Rightarrow> edge_client" where
  "handleMessage message c =
     (case parse message of
        Inl e \<Rightarrow> c
      | Inr j \<Rightarrow>
          (case (member j ''msgType'', member j ''topic'') of
             (Some type, Some topic) \<Rightarrow>
               if type = JStr ''subscribe'' \<and> topic = JStr ''robot_list'' then handleRobotList message c else c
           | _ \<Rightarrow> c))"

definition onEventCallback ::
  "json option client_event \<Rightarrow> edge_client \<times> json option ws_client \<Rightarrow> edge_client \<times> json option ws_client" where
  "onEventCallback event st =
     (case st of (c, ws) \<Rightarrow>
        case event of
          CONNECTED \<Rightarrow> (c, client_send (Some subscribe_json) ws)
        | MESSAGE message \<Rightarrow> (handleMessage message c, ws)
        | DISCONNECTED \<Rightarrow> (c, ws)
        | CLIENT_ERROR \<Rightarrow> (c, ws))"

text \<open>A round of \<open>notifyDealThread\<close>, with the callback of \<open>SimulationManagerNode::init\<close>.\<close>

definition notify_round :: "edge_client \<times> simulation \<Rightarrow> edge_client \<times> simulation" where
  "notify_round st =
     (case st of (c, s) \<Rightarrow>
        if ec_updated c then (c\<lparr>ec_updated := False\<rparr>, sync (ec_robotList c) s) else (c, s))"

section \<open>What a synchronisation requests\<close>

definition robot_request :: "simulation \<Rightarrow> robot_info \<Rightarrow> lifecycle_request list" where
  "robot_request s robot =
     (case find (\<lambda>m. gm_robot_id m = si_robot_id robot) (sm_models s) of
        None \<Rightarrow>
          if \<exists>m. sm_robots s (si_robot_id robot) = Some m \<and> mr_state m \<noteq> SIM_FAILED then [] else [CREATE robot]
      | Some m \<Rightarrow> if gm_instance_id m \<noteq> si_instance_id robot then [REPLACE robot m] else [])"

lemma sync_robot_effect:
  "sm_queue (sync_robot (sm_models s) r s) = sm_queue s @ robot_request s r \<and>
   sm_models (sync_robot (sm_models s) r s) = sm_models s \<and>
   (\<forall>q. q \<noteq> si_robot_id r \<longrightarrow> sm_robots (sync_robot (sm_models s) r s) q = sm_robots s q)"
  by (auto simp: sync_robot_def robot_request_def requestCreate_def requestReplace_def split: option.splits)

lemma robot_request_cong:
  "sm_models s' = sm_models s \<Longrightarrow> sm_robots s' (si_robot_id r) = sm_robots s (si_robot_id r) \<Longrightarrow>
   robot_request s' r = robot_request s r"
  by (simp only: robot_request_def)

lemma sync_robots_queue:
  "distinct (map si_robot_id rs) \<Longrightarrow>
   sm_queue (fold (sync_robot (sm_models s)) rs s) = sm_queue s @ concat (map (robot_request s) rs)"
proof (induction rs arbitrary: s)
  case (Cons r rs)
  let ?s1 = "sync_robot (sm_models s) r s"
  have one: "sm_queue ?s1 = sm_queue s @ robot_request s r" "sm_models ?s1 = sm_models s"
      "\<And>q. q \<noteq> si_robot_id r \<Longrightarrow> sm_robots ?s1 q = sm_robots s q"
    using sync_robot_effect [of s r] by simp_all
  have "map (robot_request ?s1) rs = map (robot_request s) rs"
    using Cons.prems one(2,3) by (intro map_cong robot_request_cong) (auto simp: image_iff)
  with Cons.IH [of ?s1] Cons.prems one(1,2) show ?case by simp
qed simp

lemma unknown_robot: "find (\<lambda>r. si_robot_id r = q) rs = None \<longleftrightarrow> q \<notin> si_robot_id ` set rs"
  by (auto simp: find_None_iff)

lemma sync_models_queue:
  "sm_queue (fold (sync_model rs) models s) =
     sm_queue s @ map DELETE (filter (\<lambda>m. gm_robot_id m \<notin> si_robot_id ` set rs) models)"
  by (induction models arbitrary: s) (simp_all add: sync_model_def requestDelete_def unknown_robot)

lemma sync_queue:
  "distinct (map si_robot_id rs) \<Longrightarrow> sm_queue (sync rs s) =
     sm_queue s @ concat (map (robot_request s) rs) @
     map DELETE (filter (\<lambda>m. gm_robot_id m \<notin> si_robot_id ` set rs) (sm_models s))"
  by (simp add: sync_def Let_def sync_models_queue sync_robots_queue)

section \<open>From the edge server to the simulation\<close>

definition simulated :: "robot_instance_info \<Rightarrow> robot_info" where
  "simulated r = \<lparr>si_robot_id = ri_robot_id r, si_instance_id = ri_instance_id r, si_x = pose_x (ri_pose r),
     si_y = pose_y (ri_pose r), si_yaw = pose_yaw (ri_pose r)\<rparr>"

lemma robot_item_read: "robot_info_of (robot_item_json r) = Inr (simulated r)"
  by (simp add: robot_info_of_def item_member_def robot_item_json_def simulated_def)

lemma robot_list_read:
  "handleMessage (Some (robot_list_json rs)) c = c\<lparr>ec_robotList := map simulated rs, ec_updated := True\<rparr>"
  by (simp add: handleMessage_def handleRobotList_def robot_list_json_def loop_items_def
      map_result_map [of rs robot_info_of robot_item_json simulated, OF robot_item_read])

lemma simulated_ids [simp]: "si_robot_id (simulated r) = ri_robot_id r"
  by (simp add: simulated_def)

text \<open>
  C38: the simulation follows the robots of the edge server. When a client of the simulation receives the
  robot list that the edge server publishes (no two robots of which have the same id), the next notification
  compares exactly these robots with the models of Gazebo: behind the requests that are waiting it queues,
  in the order of the list, the creation of every robot that has no model and is not managed or has failed,
  and the replacement of every robot whose model is of another instance; then the deletion of every model
  whose robot is not in the list.
\<close>

theorem robot_list_is_followed:
  assumes "distinct (map ri_robot_id (getRobotList mgr))"
    and "notify_round (handleMessage (Some (robot_list_json (getRobotList mgr))) c, s) = (c', s')"
  shows "ec_robotList c' = map simulated (getRobotList mgr) \<and> \<not> ec_updated c' \<and>
    sm_queue s' = sm_queue s @ concat (map (robot_request s \<circ> simulated) (getRobotList mgr)) @
      map DELETE (filter (\<lambda>m. gm_robot_id m \<notin> ri_robot_id ` set (getRobotList mgr)) (sm_models s))"
proof -
  have "distinct (map si_robot_id (map simulated (getRobotList mgr)))" using assms(1) by (simp add: comp_def)
  from sync_queue [OF this, of s] assms(2) show ?thesis
    by (auto simp: notify_round_def robot_list_read comp_def image_image)
qed

text \<open>
  Robot r1 has a model of an older instance, r2 has none, and the model of r9 belongs to no robot.
\<close>

definition sample_entity :: "string \<Rightarrow> string \<times> robot_entity" where
  "sample_entity rid = (rid,
     \<lparr>m_info = \<lparr>rb_robot_id = rid, rb_instance_id = ''B'', rb_warehouse_id = ''W1'', rb_map_version = [],
        rb_register_timestamp = 0, rb_initial_pose = zero_pose\<rparr>,
      m_status = \<lparr>rs_robot_id = rid, rs_state = IDLE, rs_online = True, rs_timestamp = 0, rs_battery = 1,
        rs_pose = zero_pose, rs_task_id = []\<rparr>\<rparr>)"

definition sample_model :: "string \<Rightarrow> string \<Rightarrow> gazebo_model" where
  "sample_model rid inst = \<lparr>gm_model_name = makeModelName rid inst, gm_robot_id = rid, gm_instance_id = inst\<rparr>"

lemma robot_list_is_followed_witness:
  "\<exists>(mgr :: robot_manager) c' s' r1 r2.
     notify_round (handleMessage (Some (robot_list_json (getRobotList mgr))) fresh_edge_client,
       fresh_simulation\<lparr>sm_models := [sample_model ''r1'' ''A'', sample_model ''r9'' ''A'']\<rparr>) = (c', s') \<and>
     map si_robot_id [r1, r2] = [''r1'', ''r2''] \<and>
     sm_queue s' = [REPLACE r1 (sample_model ''r1'' ''A''), CREATE r2, DELETE (sample_model ''r9'' ''A'')]"
proof -
  let ?mgr = "\<lparr>m_robots = [sample_entity ''r1'', sample_entity ''r2''], m_event_callback = True\<rparr>"
  let ?s = "fresh_simulation\<lparr>sm_models := [sample_model ''r1'' ''A'', sample_model ''r9'' ''A'']\<rparr>"
  let ?info = "\<lambda>rid. \<lparr>ri_robot_id = rid, ri_instance_id = ''B'', ri_pose = zero_pose\<rparr>"
  have list: "getRobotList ?mgr = [?info ''r1'', ?info ''r2'']"
    by (simp add: getRobotList_def sample_entity_def getInstanceInfo_def)
  obtain c' s' where run: "notify_round (handleMessage (Some (robot_list_json (getRobotList ?mgr))) fresh_edge_client, ?s) = (c', s')"
    by fastforce
  have "sm_queue s' = [REPLACE (simulated (?info ''r1'')) (sample_model ''r1'' ''A''), CREATE (simulated (?info ''r2'')),
      DELETE (sample_model ''r9'' ''A'')]"
    using robot_list_is_followed [OF _ run] list
    by (simp add: fresh_simulation_def robot_request_def sample_model_def simulated_def)
  with run show ?thesis
    by (intro exI [of _ ?mgr] exI [of _ c'] exI [of _ s'] exI [of _ "simulated (?info ''r1'')"] exI [of _ "simulated (?info ''r2'')"])
      simp
qed

text \<open>A message without robots is an empty list, after which every model is deleted.\<close>

lemma missing_list_is_empty:
  "handleMessage (Some (JObj [(''msgType'', JStr ''subscribe''), (''topic'', JStr ''robot_list'')])) c =
     c\<lparr>ec_robotList := [], ec_updated := True\<rparr>"
  by (simp add: handleMessage_def handleRobotList_def loop_items_def)

end
