(* ===== verification/Http_Server.thy ===== *)
theory Http_Server
  imports Map_Rules Task_Rules Agent_Codec
begin

text \<open>
  \<open>edge_server/src/http/http_server.cpp\<close> and \<open>service/bootstrap_service.cpp\<close>: the HTTP interface of the
  edge server, one function a route, and the dispatch of a request. Parsing of requests, routing by exact
  match of the whole path and the default status 200 are those of the httplib library; a body is the document of its
  text, \<open>None\<close> for a text that is none.
\<close>

section \<open>Requests and responses\<close>

record api_request =
  rq_method :: string
  rq_path :: string
  rq_params :: "(string \<times> string) list"
  rq_body :: "json option"

text \<open>A response without content, with a document, or with the content of a file.\<close>

datatype api_content = No_Content | Doc json | File_Bytes string

record api_response =
  ap_status :: int
  ap_content :: api_content

definition param :: "string \<Rightarrow> api_request \<Rightarrow> string" where
  "param key req = (case map_of (rq_params req) key of None \<Rightarrow> [] | Some v \<Rightarrow> v)"

definition reply_doc :: "int \<Rightarrow> json \<Rightarrow> api_response" where
  "reply_doc status doc = \<lparr>ap_status = status, ap_content = Doc doc\<rparr>"

definition reply_msg :: "int \<Rightarrow> int \<Rightarrow> string \<Rightarrow> api_response" where
  "reply_msg status c message = reply_doc status (JObj [(''code'', JInt c), (''msg'', JStr message)])"

definition reply_empty :: "int \<Rightarrow> api_response" where
  "reply_empty status = \<lparr>ap_status = status, ap_content = No_Content\<rparr>"

section \<open>Bootstrap\<close>

record mqtt_cfg =
  cf_url :: string
  cf_user :: string
  cf_pwd :: string
  cf_keepalive :: int
  cf_reconnect_interval :: int
  cf_tls_enable :: bool

record edge_config =
  cf_warehouse_id :: string
  cf_edge_amr_mqtt :: mqtt_cfg

definition getBootstrap :: "edge_config \<Rightarrow> string \<Rightarrow> json" where
  "getBootstrap config robot_id =
     (let mqtt = cf_edge_amr_mqtt config in JObj
        [(''code'', JInt 0),
         (''data'', JObj
           [(''warehouse_id'', JStr (cf_warehouse_id config)),
            (''mqtt'', JObj
              [(''url'', JStr (cf_url mqtt)), (''client_id'', JStr robot_id), (''username'', JStr (cf_user mqtt)),
               (''password'', JStr (cf_pwd mqtt)), (''tls_enable'', JBool (cf_tls_enable mqtt)),
               (''keepalive'', JInt (cf_keepalive mqtt)),
               (''reconnect_interval'', JInt (cf_reconnect_interval mqtt))])])])"

definition bootstrap_route :: "edge_config option \<Rightarrow> api_request \<Rightarrow> api_response" where
  "bootstrap_route service req =
     (let robot_id = param ''robot_id'' req in
      if robot_id = [] then reply_msg 400 (-1) ''robot_id empty''
      else case service of
        None \<Rightarrow> reply_doc 200 (JObj [(''code'', JInt (-1))])
      | Some config \<Rightarrow> reply_doc 200 (getBootstrap config robot_id))"

section \<open>Maps\<close>

text \<open>
  What an upload meets: whether the temporary directory and file can be made, the bytes that reach the
  file, whether all arrive, and the flags of \<open>uploadMap\<close>.
\<close>

record upload_world =
  uw_tmp_dir :: bool
  uw_tmp_file :: bool
  uw_bytes :: string
  uw_complete :: bool
  uw_created :: bool
  uw_copied :: bool

definition upload_tmp_file :: "string \<Rightarrow> string \<Rightarrow> string" where
  "upload_tmp_file warehouse_id version =
     ''/opt/amr/data/upload_tmp'' @ ''/'' @ warehouse_id @ ''_'' @ version @ ''.zip''"

definition upload_request :: "string \<Rightarrow> string \<Rightarrow> bool \<Rightarrow> string \<Rightarrow> map_upload_request" where
  "upload_request warehouse_id version activate tmp =
     \<lparr>mu_warehouse_id = warehouse_id, mu_version = version, mu_package_name = filename tmp,
       mu_activate = activate, mu_upload_file_path = tmp\<rparr>"

definition uploaded_json :: "string \<Rightarrow> string \<Rightarrow> json" where
  "uploaded_json warehouse_id version = JObj
     [(''code'', JInt 0), (''msg'', JStr ''success''),
      (''data'', JObj [(''warehouse_id'', JStr warehouse_id), (''version'', JStr version)])]"

definition upload_route ::
  "map_service \<Rightarrow> environment \<Rightarrow> upload_world \<Rightarrow> api_request \<Rightarrow> file_system \<times> sqlite
   \<Rightarrow> api_response \<times> map_package option \<times> file_system \<times> sqlite" where
  "upload_route svc env w req state =
     (let (fs, db) = state;
          warehouse_id = param ''warehouse_id'' req;
          version = param ''version'' req;
          activate = (param ''activate'' req = ''true'') in
      if warehouse_id = [] \<or> version = [] then (reply_msg 400 400 ''param empty'', None, fs, db)
      else if \<not> uw_tmp_dir w then (reply_msg 500 500 ''exception'', None, fs, db)
      else
        let tmp_file = upload_tmp_file warehouse_id version in
        if \<not> uw_tmp_file w then (reply_msg 500 500 ''open file failed'', None, fs, db)
        else
          let fs1 = fs(tmp_file \<mapsto> uw_bytes w) in
          if \<not> uw_complete w then (reply_msg 500 500 ''receive file failed'', None, fs1(tmp_file := None), db)
          else case uploadMap svc env (uw_created w) (uw_copied w)
                      (upload_request warehouse_id version activate tmp_file) (fs1, db) of
            (False, changed, fs2, db2) \<Rightarrow>
              (reply_msg 500 500 ''upload map failed'', changed, fs2(tmp_file := None), db2)
          | (True, changed, fs2, db2) \<Rightarrow>
              (reply_doc 200 (uploaded_json warehouse_id version), changed, fs2, db2))"

definition download_route :: "map_service \<Rightarrow> environment \<Rightarrow> api_request \<Rightarrow> file_system \<times> sqlite \<Rightarrow> api_response" where
  "download_route svc env req state =
     (let (fs, db) = state; warehouse_id = param ''warehouse_id'' req in
      case getActiveMap svc env warehouse_id db of
        None \<Rightarrow> reply_empty 404
      | Some package \<Rightarrow>
          if warehouse_id = [] then reply_msg 400 400 ''warehouse_id empty''
          else case fs (mp_package_path package) of
            None \<Rightarrow> reply_empty 404
          | Some content \<Rightarrow> \<lparr>ap_status = 200, ap_content = File_Bytes content\<rparr>)"

definition active_map_json :: "map_package \<Rightarrow> json" where
  "active_map_json package = JObj
     [(''code'', JInt 0),
      (''data'', JObj
        [(''warehouse_id'', JStr (mp_warehouse_id package)), (''version'', JStr (mp_version package)),
         (''package_name'', JStr (mp_package_name package)), (''package_size'', JInt (mp_package_size package))])]"

definition active_map_route :: "map_service \<Rightarrow> environment \<Rightarrow> api_request \<Rightarrow> sqlite \<Rightarrow> api_response" where
  "active_map_route svc env req db =
     (let warehouse_id = param ''warehouse_id'' req in
      if warehouse_id = [] then reply_msg 400 400 ''warehouse_id empty''
      else case getActiveMap svc env warehouse_id db of
        None \<Rightarrow> reply_empty 404
      | Some package \<Rightarrow> reply_doc 200 (active_map_json package))"

definition activate_route ::
  "map_service \<Rightarrow> environment \<Rightarrow> api_request \<Rightarrow> sqlite \<Rightarrow> api_response \<times> map_package option \<times> sqlite" where
  "activate_route svc env req db =
     (case bind_result (parse (rq_body req)) (\<lambda>body.
           bind_result (value_string body ''warehouse_id'' []) (\<lambda>warehouse_id.
           bind_result (value_string body ''version'' []) (\<lambda>version.
           Inr (warehouse_id, version)))) of
        Inl e \<Rightarrow> (reply_msg 400 400 ''invalid json'', None, db)
      | Inr (warehouse_id, version) \<Rightarrow>
          if warehouse_id = [] \<or> version = [] then (reply_msg 400 400 ''param empty'', None, db)
          else case activateMap svc env warehouse_id version db of
            (True, changed, db') \<Rightarrow> (reply_msg 200 0 ''success'', changed, db')
          | (False, changed, db') \<Rightarrow> (reply_msg 500 (-1) ''activate failed'', changed, db'))"

section \<open>Tasks\<close>

definition posted_goods :: "json \<Rightarrow> task_goods result" where
  "posted_goods j =
     bind_result (value_string j ''goods_id'' []) (\<lambda>goods_id.
     bind_result (value_string j ''goods_name'' []) (\<lambda>goods_name.
     bind_result (value_int j ''quantity'' 0) (\<lambda>quantity.
       Inr \<lparr>g_goods_id = goods_id, g_goods_name = goods_name, g_total_quantity = quantity\<rparr>)))"

text \<open>The members that the request does not give are those of a fresh \<open>TransportTask\<close>.\<close>

definition posted_task :: "json option \<Rightarrow> transport_task result" where
  "posted_task text =
     bind_result (parse text) (\<lambda>body.
     bind_result (value_string body ''task_id'' []) (\<lambda>task_id.
     bind_result (value_string body ''task_type'' []) (\<lambda>task_type.
     bind_result (map_result get_string (array_items body ''robot_ids'')) (\<lambda>robot_ids.
     bind_result (map_result posted_goods (array_items body ''goods'')) (\<lambda>goods.
       Inr \<lparr>t_task_id = task_id, t_warehouse_id = [], t_task_type = task_type, t_robot_ids = robot_ids,
         t_goods = goods, t_state = ''PENDING'', t_goal = [], t_reason = [], t_created_at = [],
         t_updated_at = []\<rparr>)))))"

definition task_reply :: "string \<Rightarrow> string \<Rightarrow> string \<Rightarrow> json" where
  "task_reply message task_id state = JObj
     [(''code'', JInt 0), (''msg'', JStr message),
      (''data'', JObj [(''task_id'', JStr task_id), (''state'', JStr state)])]"

definition create_task_route ::
  "task_service option \<Rightarrow> environment \<Rightarrow> api_request \<Rightarrow> sqlite \<Rightarrow> api_response \<times> message list \<times> sqlite" where
  "create_task_route service env req db =
     (case service of
        None \<Rightarrow> (reply_msg 500 50001 ''task service unavailable'', [], db)
      | Some svc \<Rightarrow>
          (case posted_task (rq_body req) of
             Inl e \<Rightarrow> (reply_msg 400 40001 ''invalid json'', [], db)
           | Inr task \<Rightarrow>
               (case createTask svc env task db of (r, msgs, db') \<Rightarrow>
                  (if \<not> success r
                   then reply_msg (if code r \<ge> 50000 then 500 else 400) (code r) (message_text r)
                   else reply_doc 200 (task_reply ''success'' (t_task_id task) ''PENDING''), msgs, db'))))"

definition goods_data :: "task_goods \<Rightarrow> json" where
  "goods_data g = JObj
     [(''goods_id'', JStr (g_goods_id g)), (''goods_name'', JStr (g_goods_name g)),
      (''quantity'', JInt (g_total_quantity g))]"

definition task_data :: "transport_task \<Rightarrow> json" where
  "task_data task = JObj
     [(''task_id'', JStr (t_task_id task)), (''warehouse_id'', JStr (t_warehouse_id task)),
      (''task_type'', JStr (t_task_type task)), (''state'', JStr (t_state task)),
      (''robot_ids'', JArr (map JStr (t_robot_ids task))), (''goods'', JArr (map goods_data (t_goods task))),
      (''reason'', JStr (t_reason task)), (''updated_at'', JStr (t_updated_at task))]"

definition get_task_route :: "task_service option \<Rightarrow> environment \<Rightarrow> string \<Rightarrow> sqlite \<Rightarrow> api_response" where
  "get_task_route service env task_id db =
     (case service of
        None \<Rightarrow> reply_msg 500 50001 ''task service unavailable''
      | Some svc \<Rightarrow>
          (case getTask env task_id db of
             None \<Rightarrow> reply_msg 404 41005 ''task not found''
           | Some task \<Rightarrow> reply_doc 200
               (JObj [(''code'', JInt 0), (''msg'', JStr ''success''), (''data'', task_data task)])))"

definition cancel_task_route ::
  "task_service option \<Rightarrow> environment \<Rightarrow> string \<Rightarrow> sqlite \<Rightarrow> api_response \<times> message list \<times> sqlite" where
  "cancel_task_route service env task_id db =
     (case service of
        None \<Rightarrow> (reply_msg 500 50001 ''task service unavailable'', [], db)
      | Some svc \<Rightarrow>
          (case cancelTask svc env task_id db of (r, msgs, db') \<Rightarrow>
             (if \<not> success r
              then reply_msg (if code r = 41006 then 409 else 404) (code r) (message_text r)
              else reply_doc 200 (task_reply ''cancel requested'' task_id ''CANCELLED''), msgs, db')))"

section \<open>Dispatch\<close>

text \<open>The expressions of the task routes: one or more letters, digits, underscores and hyphens.\<close>

definition task_id_char :: "char \<Rightarrow> bool" where
  "task_id_char c \<longleftrightarrow> (let n = (of_char c :: nat) in
     (97 \<le> n \<and> n \<le> 122) \<or> (65 \<le> n \<and> n \<le> 90) \<or> (48 \<le> n \<and> n \<le> 57) \<or> c = CHR ''_'' \<or> c = CHR ''-'')"

definition strip_prefix :: "string \<Rightarrow> string \<Rightarrow> string option" where
  "strip_prefix pre s = (if take (length pre) s = pre then Some (drop (length pre) s) else None)"

definition strip_suffix :: "string \<Rightarrow> string \<Rightarrow> string option" where
  "strip_suffix suf s = map_option rev (strip_prefix (rev suf) (rev s))"

definition task_of_path :: "string \<Rightarrow> string option" where
  "task_of_path path =
     (case strip_prefix ''/api/tasks/'' path of
        None \<Rightarrow> None
      | Some tid \<Rightarrow> if tid \<noteq> [] \<and> list_all task_id_char tid then Some tid else None)"

definition cancel_of_path :: "string \<Rightarrow> string option" where
  "cancel_of_path path = (case strip_suffix ''/cancel'' path of None \<Rightarrow> None | Some p \<Rightarrow> task_of_path p)"

record edge_services =
  sv_config :: "edge_config option"
  sv_maps :: map_service
  sv_tasks :: "task_service option"

text \<open>
  The routes in the order of \<open>registerRoutes\<close>; a request that matches none is answered with 404. The third
  component is the package that the callback of a changed active map is given.
\<close>

definition http_serve ::
  "edge_services \<Rightarrow> environment \<Rightarrow> upload_world \<Rightarrow> api_request \<Rightarrow> file_system \<times> sqlite
   \<Rightarrow> api_response \<times> message list \<times> map_package option \<times> file_system \<times> sqlite" where
  "http_serve services env w req state =
     (let (fs, db) = state; path = rq_path req in
      if rq_method req = ''GET'' then
        ((if path = ''/api/amr/bootstrap'' then bootstrap_route (sv_config services) req
          else if path = ''/api/maps/download'' then download_route (sv_maps services) env req (fs, db)
          else if path = ''/api/maps/active'' then active_map_route (sv_maps services) env req db
          else case task_of_path path of
            Some task_id \<Rightarrow> get_task_route (sv_tasks services) env task_id db
          | None \<Rightarrow> reply_empty 404), [], None, fs, db)
      else if rq_method req = ''POST'' then
        (if path = ''/api/maps/upload'' then
           (case upload_route (sv_maps services) env w req (fs, db) of
              (r, changed, fs', db') \<Rightarrow> (r, [], changed, fs', db'))
         else if path = ''/api/maps/activate'' then
           (case activate_route (sv_maps services) env req db of (r, changed, db') \<Rightarrow> (r, [], changed, fs, db'))
         else if path = ''/api/tasks'' then
           (case create_task_route (sv_tasks services) env req db of (r, msgs, db') \<Rightarrow> (r, msgs, None, fs, db'))
         else case cancel_of_path path of
           Some task_id \<Rightarrow>
             (case cancel_task_route (sv_tasks services) env task_id db of (r, msgs, db') \<Rightarrow> (r, msgs, None, fs, db'))
         | None \<Rightarrow> (reply_empty 404, [], None, fs, db))
      else (reply_empty 404, [], None, fs, db))"

end
