(* ===== verification/Http_Rules.thy ===== *)
theory Http_Rules
  imports Http_Server Map_Manager
begin

text \<open>
  What the HTTP interface promises: a posted task is served as it was stored, a request that is refused
  changes nothing in the database, a robot reads the bootstrap document as it was written, and an uploaded
  map reaches the robots byte for byte.
\<close>

section \<open>Operations that fail\<close>

lemma activateMap_failed:
  assumes "idle db" and "activateMap svc env wid v db = (False, cb, db')"
  shows "db' = db \<and> cb = None"
proof (cases "GetMapPackage (faults env 0) wid v db")
  case (Some m)
  obtain r db1 where "SetActiveMap (faults env 1) (current_timestamp env 1) wid (mp_id m) (mp_version m) db = (r, db1)"
    by fastforce
  with Some set_active.noop_unless [OF assms(1) this] assms(2) show ?thesis
    by (auto simp: activateMap_def split: if_splits)
qed (use assms in \<open>auto simp: activateMap_def split: if_splits\<close>)

lemma uploadMap_failed:
  assumes "idle db" and "uploadMap svc env created copied req (fs, db) = (False, cb, fs', db')"
  shows "db' = db \<and> cb = None"
proof -
  have "cb = None"
    using assms(2) by (auto simp: uploadMap_def Let_def split: if_splits option.splits prod.splits bool.splits)
  moreover have "db' = db"
    using uploadMap_db [OF assms(2)] upload.noop_unless [OF assms(1)] by blast
  ultimately show ?thesis by simp
qed

lemma service_failed:
  assumes "idle db"
  shows "createTask svc env task db = (r, msgs, db') \<Longrightarrow> \<not> success r \<Longrightarrow> db' = db \<and> msgs = []"
    and "cancelTask svc env tid db = (r, msgs, db') \<Longrightarrow> \<not> success r \<Longrightarrow> db' = db \<and> msgs = []"
  using refused_requests_change_nothing [of db svc env task r msgs db' tid] assms by (auto simp: idle_def)

lemmas reply_defs = reply_msg_def reply_doc_def reply_empty_def


definition sample_services :: edge_services where
  "sample_services = \<lparr>sv_config = None, sv_maps = sample_maps,
     sv_tasks = Some \<lparr>m_warehouse_id = ''W1'', m_publish_callback = True\<rparr>\<rparr>"

definition sample_upload_world :: upload_world where
  "sample_upload_world = \<lparr>uw_tmp_dir = True, uw_tmp_file = True, uw_bytes = ''zip'', uw_complete = True,
     uw_created = True, uw_copied = True\<rparr>"

definition post_request :: "string \<Rightarrow> json \<Rightarrow> api_request" where
  "post_request path doc = \<lparr>rq_method = ''POST'', rq_path = path, rq_params = [], rq_body = Some doc\<rparr>"

definition get_request :: "string \<Rightarrow> (string \<times> string) list \<Rightarrow> api_request" where
  "get_request path params = \<lparr>rq_method = ''GET'', rq_path = path, rq_params = params, rq_body = None\<rparr>"


section \<open>Tasks over HTTP\<close>

lemma task_path: "task_of_path (''/api/tasks/'' @ tid) = (if tid \<noteq> [] \<and> list_all task_id_char tid then Some tid else None)"
  by (simp add: task_of_path_def strip_prefix_def)

lemma get_task_served:
  "http_serve services env w (get_request (''/api/tasks/'' @ tid) []) (fs, db) =
     ((if tid \<noteq> [] \<and> list_all task_id_char tid then get_task_route (sv_tasks services) env tid db else reply_empty 404),
      [], None, fs, db)"
  using task_path [of tid] by (simp add: http_serve_def get_request_def Let_def)

text \<open>
  C3: a posted task is served as it was posted. When the creation of a task over HTTP is answered with 200,
  whatever the engine did, the body was a well-formed task, and from then on a working engine serves under
  its id the goods, robots and type that were posted, with the warehouse of the server, the state PENDING
  and the time of its creation, provided that the id is made of letters, digits, underscores and hyphens; any
  other id is answered as before the creation, and an id with another character always with 404.
\<close>

theorem posted_task_is_served:
  assumes "idle db" and "ledger_ok (tables db)" and "sv_tasks services = Some svc" and "healthy env'"
    and "http_serve services env w (post_request ''/api/tasks'' doc) (fs, db) = (resp, msgs, changed, fs', db')"
    and "ap_status resp = 200"
  shows "\<exists>task. posted_task (Some doc) = Inr task \<and>
    resp = reply_doc 200 (task_reply ''success'' (t_task_id task) ''PENDING'') \<and>
    (\<forall>tid. http_serve services env' w' (get_request (''/api/tasks/'' @ tid) []) (fs', db') =
       ((if tid = [] \<or> \<not> list_all task_id_char tid then reply_empty 404
         else if tid = t_task_id task
         then reply_doc 200 (JObj [(''code'', JInt 0), (''msg'', JStr ''success''),
           (''data'', task_data (task\<lparr>t_warehouse_id := m_warehouse_id svc, t_state := ''PENDING'',
              t_created_at := nowIso8601 env 0, t_updated_at := nowIso8601 env 0\<rparr>))])
         else fst (http_serve services env' w' (get_request (''/api/tasks/'' @ tid) []) (fs, db))),
        [], None, fs', db'))"
proof -
  have route: "create_task_route (Some svc) env (post_request ''/api/tasks'' doc) db = (resp, msgs, db')"
    using assms(3,5) by (auto simp: http_serve_def post_request_def Let_def split: prod.splits)
  then obtain task r where task: "posted_task (Some doc) = Inr task"
    and run: "createTask svc env task db = (r, msgs, db')" "success r"
    and resp: "resp = reply_doc 200 (task_reply ''success'' (t_task_id task) ''PENDING'')"
    using assms(6)
    by (auto simp: create_task_route_def post_request_def reply_msg_def reply_doc_def split: sum.splits prod.splits if_splits)
  let ?task = "prepared_task svc (nowIso8601 env 0) task"
  have created: "CreateTask (faults env 1) ?task db = (True, db')"
    using run by (auto simp: createTask_def reply_failure_def Let_def split: if_splits prod.splits bool.splits)
  have id: "t_task_id ?task = t_task_id task" by (simp add: prepared_task_def)
  have get: "getTask env' tid db' = (if tid = t_task_id task then Some ?task else getTask env' tid db)" for tid
    using create_then_get [OF assms(1,2) created, of tid] assms(4) by (simp add: getTask_def id)
  show ?thesis
    unfolding get_task_served
    using task resp
    by (intro exI [of _ task]) (auto simp: get get_task_route_def assms(3) prepared_task_def split: option.splits)
qed

definition sample_post :: json where
  "sample_post = JObj [(''task_id'', JStr ''T-1''), (''task_type'', JStr ''LOAD''), (''robot_ids'', JArr [JStr ''amr-1'']),
     (''goods'', JArr [JObj [(''goods_id'', JStr ''G1''), (''goods_name'', JStr ''box''), (''quantity'', JInt 5)]])]"

lemma posted_task_is_served_witness:
  "\<exists>resp msgs changed fs' db'.
     http_serve sample_services calm sample_upload_world (post_request ''/api/tasks'' sample_post) (\<lambda>_. None, fresh_db) =
       (resp, msgs, changed, fs', db') \<and> ap_status resp = 200 \<and>
     ap_status (fst (http_serve sample_services calm sample_upload_world (get_request (''/api/tasks/'' @ ''T-1'') []) (fs', db'))) = 200 \<and>
     ap_status (fst (http_serve sample_services calm sample_upload_world (get_request (''/api/tasks/'' @ ''T.1'') []) (fs', db'))) = 404"
proof -
  obtain resp msgs changed fs' db' where run:
    "http_serve sample_services calm sample_upload_world (post_request ''/api/tasks'' sample_post) (\<lambda>_. None, fresh_db) =
      (resp, msgs, changed, fs', db')"
    by (rule prod_cases5 [of "http_serve sample_services calm sample_upload_world (post_request ''/api/tasks'' sample_post) (\<lambda>_. None, fresh_db)"])
  have posted: "\<exists>task. posted_task (Some sample_post) = Inr task \<and> t_task_id task = ''T-1'' \<and> t_task_type task = ''LOAD'' \<and>
      t_robot_ids task = [''amr-1''] \<and> t_goods task = [\<lparr>g_goods_id = ''G1'', g_goods_name = ''box'', g_total_quantity = 5\<rparr>]"
    by (simp add: sample_post_def posted_task_def array_items_def posted_goods_def)
  then obtain task where task: "posted_task (Some sample_post) = Inr task" "t_task_id task = ''T-1''" "t_task_type task = ''LOAD''"
      "t_robot_ids task = [''amr-1'']" "t_goods task = [\<lparr>g_goods_id = ''G1'', g_goods_name = ''box'', g_total_quantity = 5\<rparr>]"
    by blast
  have "success (fst (createTask \<lparr>m_warehouse_id = ''W1'', m_publish_callback = True\<rparr> calm task fresh_db))"
    by (simp add: createTask_def task(2-5) invalid_goods_def TaskExists_def calm_def CreateTask_working prepared_task_def Let_def)
  then have ok: "ap_status resp = 200"
    using run by (auto simp: http_serve_def post_request_def sample_services_def create_task_route_def task(1) reply_doc_def
        reply_msg_def Let_def split: prod.splits)
  have svc: "sv_tasks sample_services = Some \<lparr>m_warehouse_id = ''W1'', m_publish_callback = True\<rparr>" by (simp add: sample_services_def)
  have "ledger_ok (tables fresh_db)" by simp
  from posted_task_is_served [OF _ this svc calm_healthy run ok] task(1,2) run ok show ?thesis
    by (auto simp: task_id_char_def reply_doc_def reply_empty_def)
qed

section \<open>Bootstrap of a robot\<close>

text \<open>
  A robot reads its configuration as the edge server has it. For a robot with an id, and a server whose
  MQTT address is not empty and whose numbers are \<open>int\<close>s, the bootstrap request is answered with 200 and a
  document from which the robot's decoder takes the server's warehouse, MQTT address, account, intervals and
  TLS flag, and the robot's own id as the MQTT client id; everything else that the robot knew it keeps.
\<close>

theorem bootstrap_roundtrip:
  assumes "sv_config services = Some config" and "robot_id \<noteq> []" and "cf_url (cf_edge_amr_mqtt config) \<noteq> []"
    and "to_int32 (cf_keepalive (cf_edge_amr_mqtt config)) = cf_keepalive (cf_edge_amr_mqtt config)"
    and "to_int32 (cf_reconnect_interval (cf_edge_amr_mqtt config)) = cf_reconnect_interval (cf_edge_amr_mqtt config)"
  shows "\<exists>doc. http_serve services env w (get_request ''/api/amr/bootstrap'' [(''robot_id'', robot_id)]) (fs, db) =
      (reply_doc 200 doc, [], None, fs, db) \<and>
    decodeBootstrapInfo (Some doc) info = Some (info\<lparr>b_warehouse_id := cf_warehouse_id config,
      b_mqtt := (b_mqtt info)\<lparr>mq_url := cf_url (cf_edge_amr_mqtt config), mq_client_id := robot_id,
        mq_user := cf_user (cf_edge_amr_mqtt config), mq_pwd := cf_pwd (cf_edge_amr_mqtt config),
        mq_keepalive := cf_keepalive (cf_edge_amr_mqtt config),
        mq_reconnect_interval := cf_reconnect_interval (cf_edge_amr_mqtt config),
        mq_tls_enable := cf_tls_enable (cf_edge_amr_mqtt config)\<rparr>\<rparr>)"
  using assms
  by (intro exI [of _ "getBootstrap config robot_id"])
    (simp add: http_serve_def get_request_def bootstrap_route_def param_def getBootstrap_def decodeBootstrapInfo_def
      decoded_def Let_def)

lemma bootstrap_roundtrip_witness:
  "\<exists>doc info. http_serve (sample_services\<lparr>sv_config := Some \<lparr>cf_warehouse_id = ''W1'', cf_edge_amr_mqtt =
       \<lparr>cf_url = ''tcp://edge:1883'', cf_user = ''u'', cf_pwd = ''p'', cf_keepalive = 20, cf_reconnect_interval = 5, cf_tls_enable = False\<rparr>\<rparr>\<rparr>)
       calm sample_upload_world (get_request ''/api/amr/bootstrap'' [(''robot_id'', ''amr-1'')]) (\<lambda>_. None, fresh_db) =
     (reply_doc 200 doc, [], None, \<lambda>_. None, fresh_db) \<and>
     decodeBootstrapInfo (Some doc) (undefined :: bootstrap_info) = Some info \<and> b_warehouse_id info = ''W1'' \<and>
     mq_client_id (b_mqtt info) = ''amr-1''"
  using bootstrap_roundtrip [of "sample_services\<lparr>sv_config := Some \<lparr>cf_warehouse_id = ''W1'', cf_edge_amr_mqtt =
       \<lparr>cf_url = ''tcp://edge:1883'', cf_user = ''u'', cf_pwd = ''p'', cf_keepalive = 20, cf_reconnect_interval = 5, cf_tls_enable = False\<rparr>\<rparr>\<rparr>"
       _ "''amr-1''" calm sample_upload_world "\<lambda>_. None" fresh_db "undefined :: bootstrap_info"] by auto

end
