(* ===== verification/Map_Distribution.thy ===== *)
theory Map_Distribution
  imports Http_Rules Map_Manager_Rules
begin

text \<open>
  From the upload of a map to the robots that install it: the HTTP interface and the map service of the edge
  server together with the HTTP client and the map manager of the robot.
\<close>

text \<open>
  What the robot's HTTP client sees of a response: the library sends the text of a document (\<open>dump\<close>) or the
  bytes of a file with the status and its reason.
\<close>

definition wire :: "(json \<Rightarrow> string) \<Rightarrow> string \<Rightarrow> api_response \<Rightarrow> http_reply" where
  "wire dump reason r = Reply (ap_status r) reason
     (case ap_content r of No_Content \<Rightarrow> [] | Doc j \<Rightarrow> dump j | File_Bytes bytes \<Rightarrow> bytes)"

definition upload_of :: "string \<Rightarrow> string \<Rightarrow> json option \<Rightarrow> api_request" where
  "upload_of warehouse_id version body = \<lparr>rq_method = ''POST'', rq_path = ''/api/maps/upload'',
     rq_params = [(''warehouse_id'', warehouse_id), (''version'', version), (''activate'', ''true'')], rq_body = body\<rparr>"

text \<open>What an upload that is answered with 200 has done.\<close>

lemma upload_route_ok:
  assumes "upload_route svc env w (upload_of W V body) (fs, db) = (resp, changed, fs', db')" and "ap_status resp = 200"
  shows "W \<noteq> [] \<and> V \<noteq> [] \<and> (\<exists>tmp. uploadMap svc env (uw_created w) (uw_copied w) (upload_request W V True tmp)
    (fs(tmp \<mapsto> uw_bytes w), db) = (True, changed, fs', db'))"
  using assms
  by (auto simp: upload_route_def upload_of_def param_def reply_defs Let_def split: if_splits prod.splits bool.splits)

lemma download_served:
  assumes "getActiveMap (sv_maps services) env W db = Some p" and "fs (mp_package_path p) = Some bytes" and "W \<noteq> []"
  shows "fst (http_serve services env w (get_request ''/api/maps/download'' [(''warehouse_id'', W)]) (fs, db)) =
    \<lparr>ap_status = 200, ap_content = File_Bytes bytes\<rparr>"
  using assms by (simp add: http_serve_def get_request_def download_route_def param_def Let_def)



end
