(* ===== verification/Timer.thy ===== *)
theory Timer
  imports Prelude
begin

text \<open>
  \<open>edge_server/src/utils/timer.cpp\<close>: a thread that calls a function periodically or once, at once or after
  an interval, earlier when it is triggered. The thread is a state machine whose steps interleave with the
  calls of other threads; the count of the calls is kept besides the members of the class.
\<close>

section \<open>State\<close>

text \<open>
  Where the loop is: at its head, in the first callback, in the wait, in the callback after the wait, over.
  A thread object is joinable from its start until it is joined or detached.
\<close>

datatype loop_phase = At_Head | First_Call | In_Wait | In_Call | Over

record timer =
  ti_joinable :: bool
  ti_running :: bool
  ti_repeat :: bool
  ti_immediate :: bool
  ti_triggered :: bool
  ti_interval :: int
  ti_phase :: loop_phase
  ti_calls :: nat

definition new_timer :: timer where
  "new_timer = \<lparr>ti_joinable = False, ti_running = False, ti_repeat = False, ti_immediate = False,
     ti_triggered = False, ti_interval = 0, ti_phase = Over, ti_calls = 0\<rparr>"

section \<open>Operations\<close>

text \<open>
  \<open>stop\<close> from another thread joins, which waits for the end of the loop: it returns in a state in which the
  loop is over. From the callback itself it detaches. Where there is no thread, \<open>detach\<close> throws: \<open>None\<close>.
  The wait of \<open>join\<close> is a precondition of the transition, \<open>join_returns\<close>.
\<close>

definition request_stop :: "timer \<Rightarrow> timer" where
  "request_stop t = t\<lparr>ti_running := False\<rparr>"

definition join_returns :: "timer \<Rightarrow> bool" where
  "join_returns t \<longleftrightarrow> ti_phase t = Over"

definition stop_finish :: "timer \<Rightarrow> timer option" where
  "stop_finish t =
     (if ti_joinable t then Some (t\<lparr>ti_joinable := False\<rparr>) else None)"

definition start_timer :: "int \<Rightarrow> bool \<Rightarrow> bool \<Rightarrow> timer \<Rightarrow> timer" where
  "start_timer interval immediate repeat t =
     t\<lparr>ti_interval := interval, ti_repeat := repeat, ti_running := True, ti_immediate := immediate,
       ti_triggered := False, ti_joinable := True, ti_phase := At_Head, ti_calls := 0\<rparr>"

definition trigger :: "timer \<Rightarrow> timer" where
  "trigger t = (if \<not> ti_running t then t else t\<lparr>ti_triggered := True\<rparr>)"

definition isRunning :: "timer \<Rightarrow> bool" where
  "isRunning t = ti_running t"

text \<open>After a callback: the loop ends unless it repeats.\<close>

definition after_call :: "loop_phase \<Rightarrow> timer \<Rightarrow> timer" where
  "after_call next t =
     (if \<not> ti_repeat t then t\<lparr>ti_running := False, ti_phase := Over\<rparr> else t\<lparr>ti_phase := next\<rparr>)"

text \<open>
  One step of \<open>runLoop\<close>. In the wait, \<open>elapsed\<close> says that the interval is over; otherwise the thread goes
  on only when it is stopped or triggered. A first callback that throws leaves the trigger.
\<close>

definition loop_step :: "bool \<Rightarrow> bool \<Rightarrow> timer \<Rightarrow> timer" where
  "loop_step elapsed threw t =
     (case ti_phase t of
        At_Head \<Rightarrow>
          if \<not> ti_running t then t\<lparr>ti_phase := Over\<rparr>
          else if ti_immediate t then t\<lparr>ti_immediate := False, ti_phase := First_Call, ti_calls := Suc (ti_calls t)\<rparr>
          else t\<lparr>ti_phase := In_Wait\<rparr>
      | First_Call \<Rightarrow> after_call In_Wait (if threw then t else t\<lparr>ti_triggered := False\<rparr>)
      | In_Wait \<Rightarrow>
          if \<not> (elapsed \<or> \<not> ti_running t \<or> ti_triggered t) then t
          else if \<not> ti_running t then t\<lparr>ti_phase := Over\<rparr>
          else t\<lparr>ti_triggered := False, ti_phase := In_Call, ti_calls := Suc (ti_calls t)\<rparr>
      | In_Call \<Rightarrow> after_call At_Head t
      | Over \<Rightarrow> t)"

section \<open>Runs\<close>

text \<open>
  A timer is started when it has no thread; another thread stops it in two steps, the request and, once the
  loop is over, the join.
\<close>

inductive timer_step :: "timer \<Rightarrow> timer \<Rightarrow> bool" where
  started: "\<not> ti_joinable t \<Longrightarrow> ti_phase t = Over \<Longrightarrow> timer_step t (start_timer interval immediate repeat t)"
| looped: "timer_step t (loop_step elapsed threw t)"
| triggered: "timer_step t (trigger t)"
| stop_requested: "timer_step t (request_stop t)"
| joined: "join_returns t \<Longrightarrow> stop_finish t = Some t' \<Longrightarrow> timer_step t t'"

inductive_cases timer_stepE: "timer_step t t'"

definition timer_ok :: "timer \<Rightarrow> bool" where
  "timer_ok t \<longleftrightarrow>
     (\<not> ti_repeat t \<longrightarrow> ti_calls t \<le> 1 \<and>
        (ti_phase t = At_Head \<longrightarrow> ti_calls t = 0) \<and> (ti_phase t = In_Wait \<longrightarrow> ti_calls t = 0) \<and>
        (ti_phase t = First_Call \<longrightarrow> ti_calls t = 1) \<and> (ti_phase t = In_Call \<longrightarrow> ti_calls t = 1)) \<and>
     (ti_phase t \<noteq> Over \<longrightarrow> ti_joinable t) \<and>
     (ti_phase t = Over \<longrightarrow> \<not> ti_running t)"

lemma loop_step_ok: "timer_ok t \<Longrightarrow> timer_ok (loop_step elapsed threw t)"
  by (auto simp: timer_ok_def loop_step_def after_call_def split: loop_phase.splits)

interpretation timers: stepping "\<lambda>t. t = new_timer" timer_step timer_ok
proof
  fix t
  assume "t = new_timer"
  then show "timer_ok t" by (simp add: timer_ok_def new_timer_def)
next
  fix t t'
  assume "timer_ok t" and "timer_step t t'"
  then show "timer_ok t'"
    by (auto elim!: timer_stepE simp: loop_step_ok)
      (auto simp: timer_ok_def start_timer_def trigger_def request_stop_def stop_finish_def join_returns_def split: if_splits)
qed

section \<open>What a timer promises\<close>

lemma no_call_when_stopped:
  "\<not> ti_running t \<Longrightarrow> \<not> ti_running (loop_step elapsed threw t) \<and> ti_calls (loop_step elapsed threw t) = ti_calls t"
  by (auto simp: loop_step_def after_call_def split: loop_phase.splits)

text \<open>
  \<open>stop\<close> is not idempotent: on a timer that was never started, and on one that was stopped, it throws. The
  destructor calls \<open>stop\<close> again, so that stopping a timer before it is destroyed ends the program.
\<close>

lemma second_stop_throws:
  "stop_finish (request_stop new_timer) = None \<and>
   (stop_finish (request_stop t) = Some t' \<longrightarrow> stop_finish (request_stop t') = None)"
  by (auto simp: stop_finish_def request_stop_def new_timer_def split: if_splits)

text \<open>A running timer that does not repeat, and the most steps that are left of its loop.\<close>

definition one_shot :: "timer \<Rightarrow> bool" where
  "one_shot t \<longleftrightarrow> \<not> ti_repeat t \<and>
     (if ti_phase t \<in> {At_Head, In_Wait} then ti_running t \<and> ti_calls t = 0 else ti_calls t = 1)"

definition left :: "timer \<Rightarrow> nat" where
  "left t = (case ti_phase t of At_Head \<Rightarrow> 3 | In_Wait \<Rightarrow> 2 | First_Call \<Rightarrow> 1 | In_Call \<Rightarrow> 1 | Over \<Rightarrow> 0)"

lemma one_shot_step:
  "one_shot t \<Longrightarrow> one_shot (loop_step True threw t) \<and> left (loop_step True threw t) \<le> left t - 1"
  by (cases "ti_phase t") (auto simp: one_shot_def left_def loop_step_def after_call_def)

lemma one_shot_steps:
  "one_shot t \<Longrightarrow> one_shot ((loop_step True threw ^^ n) t) \<and> left ((loop_step True threw ^^ n) t) \<le> left t - n"
proof (induction n)
  case (Suc n)
  then have step: "one_shot (loop_step True threw ((loop_step True threw ^^ n) t))"
      "left (loop_step True threw ((loop_step True threw ^^ n) t)) \<le> left ((loop_step True threw ^^ n) t) - 1"
    using one_shot_step [of "(loop_step True threw ^^ n) t" threw] by simp_all
  have "left ((loop_step True threw ^^ n) t) \<le> left t - n" using Suc by simp
  then have "left ((loop_step True threw ^^ n) t) - 1 \<le> left t - Suc n" by arith
  with step show ?case by (simp add: order_trans [OF step(2)])
qed simp

text \<open>
  A timer that does not repeat calls its function once. In every state that starting, triggering and
  stopping can reach, it has called it at most once since it was started; and while it is running, as soon
  as its interval is over at every wait, at most four steps of its thread take it to the end of the loop
  with exactly one call, whether or not the function throws.
\<close>

theorem one_shot_timer:
  assumes "timer_step\<^sup>*\<^sup>* new_timer t" and "\<not> ti_repeat t"
  shows "ti_calls t \<le> 1 \<and>
    (ti_running t \<longrightarrow> ti_calls ((loop_step True threw ^^ 4) t) = 1 \<and> ti_phase ((loop_step True threw ^^ 4) t) = Over)"
proof -
  have ok: "timer_ok t" by (rule timers.reached [OF refl assms(1)])
  show ?thesis
  proof (cases "ti_running t")
    case True
    with ok assms(2) have "one_shot t" by (cases "ti_phase t") (simp_all add: timer_ok_def one_shot_def)
    moreover have "left t \<le> 3" by (simp add: left_def split: loop_phase.splits)
    ultimately have "one_shot ((loop_step True threw ^^ 4) t) \<and> left ((loop_step True threw ^^ 4) t) = 0"
      using one_shot_steps [of t 4 threw] by simp
    then have "ti_calls ((loop_step True threw ^^ 4) t) = 1 \<and> ti_phase ((loop_step True threw ^^ 4) t) = Over"
      by (simp add: one_shot_def left_def split: loop_phase.splits)
    with ok assms(2) show ?thesis by (simp add: timer_ok_def)
  qed (use ok assms(2) in \<open>simp add: timer_ok_def\<close>)
qed

lemma one_shot_timer_witness:
  "ti_running (start_timer 50 False False new_timer) \<and>
   ti_calls ((loop_step True False ^^ 4) (start_timer 50 False False new_timer)) = 1"
proof -
  have "timer_step new_timer (start_timer 50 False False new_timer)"
    by (rule started) (simp_all add: new_timer_def)
  from one_shot_timer [OF r_into_rtranclp [of timer_step, OF this], of False]
  show ?thesis by (simp add: start_timer_def)
qed

end
