(* ===== verification/Yaml.thy ===== *)
theory Yaml
  imports Complex_Main File_Paths Zone_Stations Idle_Points
begin

text \<open>
  YAML documents as the sources see them through the yaml-cpp library, which is outside: its node type
  and accessors are a parameter, a record of functions. \<open>None\<close> is an exception of the library, which every
  caller catches as \<open>std::exception\<close>. The events of the emitter are those that the sources write.
\<close>

section \<open>The library\<close>

text \<open>
  \<open>node[key]\<close>, \<open>node[i]\<close>, the range of a loop over a node, the test \<open>if(node)\<close>, the conversions \<open>as<T>()\<close>,
  \<open>YAML::Load\<close> of a text, and the text of an emitter.
\<close>

datatype yaml_event =
    Begin_Map | End_Map | Begin_Seq | End_Seq | Flow | Key | Value_Of
  | Scalar_Str string
  | Scalar_Num real

record 'n yaml_lib =
  yl_get :: "'n \<Rightarrow> string \<Rightarrow> 'n option"
  yl_at :: "'n \<Rightarrow> nat \<Rightarrow> 'n option"
  yl_items :: "'n \<Rightarrow> 'n list"
  yl_defined :: "'n \<Rightarrow> bool"
  yl_string :: "'n \<Rightarrow> string option"
  yl_double :: "'n \<Rightarrow> real option"
  yl_int :: "'n \<Rightarrow> int option"
  yl_bool :: "'n \<Rightarrow> bool option"
  yl_parse :: "string \<Rightarrow> 'n option"
  yl_emit :: "yaml_event list \<Rightarrow> string"

text \<open>\<open>YAML::LoadFile\<close> throws for a file that cannot be read.\<close>

definition load_file :: "'n yaml_lib \<Rightarrow> file_system \<Rightarrow> string \<Rightarrow> 'n option" where
  "load_file lib fs path = Option.bind (fs path) (yl_parse lib)"

definition str_at :: "'n yaml_lib \<Rightarrow> 'n \<Rightarrow> string \<Rightarrow> string option" where
  "str_at lib n key = Option.bind (yl_get lib n key) (yl_string lib)"

definition num_at :: "'n yaml_lib \<Rightarrow> 'n \<Rightarrow> string \<Rightarrow> real option" where
  "num_at lib n key = Option.bind (yl_get lib n key) (yl_double lib)"

definition int_at :: "'n yaml_lib \<Rightarrow> 'n \<Rightarrow> string \<Rightarrow> int option" where
  "int_at lib n key = Option.bind (yl_get lib n key) (yl_int lib)"

definition bool_at :: "'n yaml_lib \<Rightarrow> 'n \<Rightarrow> string \<Rightarrow> bool option" where
  "bool_at lib n key = Option.bind (yl_get lib n key) (yl_bool lib)"

text \<open>\<open>node[key]\<close> where the key is present; the outer \<open>None\<close> is an exception.\<close>

definition find_at :: "'n yaml_lib \<Rightarrow> 'n \<Rightarrow> string \<Rightarrow> 'n option option" where
  "find_at lib n key = map_option (\<lambda>m. if yl_defined lib m then Some m else None) (yl_get lib n key)"

lemmas yaml_accessors = str_at_def num_at_def int_at_def bool_at_def find_at_def

section \<open>Documents\<close>

text \<open>
  The documents that the sources write: scalars, sequences (in flow style or not) and maps, with the
  events that write them.
\<close>

datatype yaml_tree =
    T_Str string
  | T_Num real
  | T_Seq bool "yaml_tree list"
  | T_Map "(string \<times> yaml_tree) list"

fun tree_events :: "yaml_tree \<Rightarrow> yaml_event list" where
  "tree_events (T_Str s) = [Scalar_Str s]"
| "tree_events (T_Num r) = [Scalar_Num r]"
| "tree_events (T_Seq flow ts) = (if flow then [Flow] else []) @ Begin_Seq # concat (map tree_events ts) @ [End_Seq]"
| "tree_events (T_Map kvs) =
     Begin_Map # concat (map (\<lambda>(k, t). [Key, Scalar_Str k, Value_Of] @ tree_events t) kvs) @ [End_Map]"

text \<open>A node that has the content of a document.\<close>

inductive represents :: "'n yaml_lib \<Rightarrow> 'n \<Rightarrow> yaml_tree \<Rightarrow> bool" for lib where
  rep_str: "yl_defined lib n \<Longrightarrow> yl_string lib n = Some s \<Longrightarrow> represents lib n (T_Str s)"
| rep_num: "yl_defined lib n \<Longrightarrow> yl_double lib n = Some r \<Longrightarrow> represents lib n (T_Num r)"
| rep_seq: "yl_defined lib n \<Longrightarrow> list_all2 (represents lib) (yl_items lib n) ts \<Longrightarrow>
    (\<And>i. i < length ts \<Longrightarrow> yl_at lib n i = Some (yl_items lib n ! i)) \<Longrightarrow> represents lib n (T_Seq flow ts)"
| rep_map: "yl_defined lib n \<Longrightarrow>
    (\<And>k t. (k, t) \<in> set kvs \<Longrightarrow> \<exists>m. yl_get lib n k = Some m \<and> represents lib m t) \<Longrightarrow>
    (\<And>k. k \<notin> fst ` set kvs \<Longrightarrow> \<exists>m. yl_get lib n k = Some m \<and> \<not> yl_defined lib m) \<Longrightarrow> represents lib n (T_Map kvs)"

inductive_simps represents_simps:
  "represents lib n (T_Str s)"
  "represents lib n (T_Num r)"
  "represents lib n (T_Seq flow ts)"
  "represents lib n (T_Map kvs)"

lemma represents_defined: "represents lib n t \<Longrightarrow> yl_defined lib n"
  by (auto elim: represents.cases)

text \<open>What the documentation of the library promises for one document: it reads what it has written.\<close>

definition reads_back :: "'n yaml_lib \<Rightarrow> yaml_tree \<Rightarrow> bool" where
  "reads_back lib t \<longleftrightarrow> (\<exists>n. yl_parse lib (yl_emit lib (tree_events t)) = Some n \<and> represents lib n t)"

text \<open>Members of a map, for proofs by simplification.\<close>

lemma rep_member:
  assumes "represents lib n (T_Map kvs)" and "(k, t) \<in> set kvs"
  obtains m where "yl_get lib n k = Some m" and "represents lib m t"
proof -
  have "\<exists>m. yl_get lib n k = Some m \<and> represents lib m t" using assms unfolding represents_simps by blast
  then show ?thesis using that by blast
qed

lemma rep_str_at: "represents lib n (T_Map kvs) \<Longrightarrow> (k, T_Str s) \<in> set kvs \<Longrightarrow> str_at lib n k = Some s"
  by (erule (1) rep_member) (simp add: str_at_def represents_simps(1))

lemma rep_num_at: "represents lib n (T_Map kvs) \<Longrightarrow> (k, T_Num r) \<in> set kvs \<Longrightarrow> num_at lib n k = Some r"
  by (erule (1) rep_member) (simp add: num_at_def represents_simps(2))

lemma rep_find_at:
  assumes "represents lib n (T_Map kvs)" and "(k, t) \<in> set kvs"
  obtains m where "find_at lib n k = Some (Some m)" and "yl_get lib n k = Some m" and "represents lib m t"
proof -
  from rep_member [OF assms] obtain m where m: "yl_get lib n k = Some m" "represents lib m t" .
  then have "find_at lib n k = Some (Some m)" using represents_defined [OF m(2)] by (simp add: find_at_def)
  with m show ?thesis using that by blast
qed

lemma rep_items:
  assumes "represents lib n (T_Seq flow (map f xs))" and "\<And>m x. x \<in> set xs \<Longrightarrow> represents lib m (f x) \<Longrightarrow> g m = h x"
  shows "map g (yl_items lib n) = map h xs"
proof -
  have "list_all2 (represents lib) (yl_items lib n) (map f xs)" using assms(1) by (simp add: represents_simps)
  then have "list_all2 (\<lambda>m x. represents lib m (f x)) (yl_items lib n) xs" by (simp add: list_all2_map2)
  then show ?thesis
    using assms(2)
    by (intro nth_equalityI) (auto simp: list_all2_conv_all_nth)
qed

end
