(* ===== verification/Tool_Managers.thy ===== *)
theory Tool_Managers
  imports Yaml
begin

text \<open>
  The map editor's data, \<open>warehouse_tool/data_define.h\<close>, and the classes that keep the zones,
  stations and walls of a map and read and write their files: \<open>yaml_zone_manager.cpp\<close>,
  \<open>yaml_station_manager.cpp\<close>, \<open>yaml_wall_manager.cpp\<close>. Doubles are reals, as everywhere in this development.
\<close>

section \<open>Data\<close>

record zone_data =
  zd_id :: string
  zd_name :: string
  zd_type :: string
  zd_goods_ids :: "string list"
  zd_filename :: string

record map_zone =
  mz_info :: zone_data
  mz_frame_id :: string
  mz_marker_id :: int
  mz_polygon :: "(real \<times> real) list"

record map_location =
  ml_id :: string
  ml_type :: string
  ml_marker_id :: int
  ml_pose :: "real \<times> real \<times> real"

record map_station =
  sta_id :: string
  sta_name :: string
  sta_zone_id :: string
  sta_locations :: "map_location list"

record map_wall =
  mw_marker_id :: int
  mw_id :: string
  mw_line :: "(real \<times> real) list"

section \<open>Lists with an id\<close>

text \<open>\<open>update...\<close> assigns to the first item with the id; \<open>remove...\<close> erases all of them.\<close>

fun replace_item :: "('a \<Rightarrow> string) \<Rightarrow> 'a \<Rightarrow> 'a list \<Rightarrow> 'a list option" where
  "replace_item key x [] = None"
| "replace_item key x (y # ys) =
     (if key y = key x then Some (x # ys) else map_option ((#) y) (replace_item key x ys))"

definition remove_items :: "('a \<Rightarrow> string) \<Rightarrow> string \<Rightarrow> 'a list \<Rightarrow> 'a list option" where
  "remove_items key k xs = (if \<exists>x\<in>set xs. key x = k then Some (filter (\<lambda>x. key x \<noteq> k) xs) else None)"

section \<open>Zones\<close>

record zone_manager =
  zm_filename :: string
  zm_zones :: "map_zone list"

definition read_point :: "'n yaml_lib \<Rightarrow> 'n \<Rightarrow> (real \<times> real) option" where
  "read_point lib node =
     Option.bind (Option.bind (yl_at lib node 0) (yl_double lib)) (\<lambda>x.
     Option.bind (Option.bind (yl_at lib node 1) (yl_double lib)) (\<lambda>y. Some (x, y)))"

definition read_map_zone :: "'n yaml_lib \<Rightarrow> int \<Rightarrow> 'n \<Rightarrow> map_zone option" where
  "read_map_zone lib marker_id node =
     Option.bind (str_at lib node ''id'') (\<lambda>i.
     Option.bind (str_at lib node ''name'') (\<lambda>name.
     Option.bind (str_at lib node ''type'') (\<lambda>type.
     Option.bind (find_at lib node ''goods_ids'') (\<lambda>goods_node.
     Option.bind (case goods_node of None \<Rightarrow> Some []
                  | Some g \<Rightarrow> all_some (map (yl_string lib) (yl_items lib g))) (\<lambda>goods_ids.
     Option.bind (yl_get lib node ''polygon'') (\<lambda>polygon.
     Option.bind (all_some (map (read_point lib) (yl_items lib polygon))) (\<lambda>points.
     Some \<lparr>mz_info = \<lparr>zd_id = i, zd_name = name, zd_type = type, zd_goods_ids = goods_ids, zd_filename = []\<rparr>,
           mz_frame_id = ''map'', mz_marker_id = marker_id, mz_polygon = points\<rparr>)))))))"

text \<open>The loop over the nodes; what was read before an exception is kept.\<close>

definition load_zones :: "'n yaml_lib \<Rightarrow> file_system \<Rightarrow> string \<Rightarrow> zone_manager \<Rightarrow> bool \<times> zone_manager" where
  "load_zones lib fs path m =
     (let m0 = m\<lparr>zm_filename := path\<rparr> in
      if fs path = None then (True, m0)
      else case Option.bind (load_file lib fs path) (\<lambda>root. find_at lib root ''zones'') of
        None \<Rightarrow> (False, m0)
      | Some None \<Rightarrow> (True, m0)
      | Some (Some nodes) \<Rightarrow>
          (case read_until_error (\<lambda>(i, node). read_map_zone lib (int i) node) (enumerate 1 (yl_items lib nodes)) of
             (ok, zones) \<Rightarrow> (ok, m0\<lparr>zm_zones := zones\<rparr>)))"

definition addZone :: "map_zone \<Rightarrow> zone_manager \<Rightarrow> (map_zone \<times> zone_manager) option" where
  "addZone zone m =
     (if \<exists>item\<in>set (zm_zones m). zd_id (mz_info item) = zd_id (mz_info zone) then None
      else let zone' = zone\<lparr>mz_marker_id := int (length (zm_zones m)) + 1\<rparr> in
           Some (zone', m\<lparr>zm_zones := zm_zones m @ [zone']\<rparr>))"

definition updateZone :: "map_zone \<Rightarrow> zone_manager \<Rightarrow> bool \<times> zone_manager" where
  "updateZone zone m =
     (case replace_item (zd_id \<circ> mz_info) zone (zm_zones m) of
        None \<Rightarrow> (False, m) | Some zones \<Rightarrow> (True, m\<lparr>zm_zones := zones\<rparr>))"

definition removeZone :: "string \<Rightarrow> zone_manager \<Rightarrow> bool \<times> zone_manager" where
  "removeZone k m =
     (case remove_items (zd_id \<circ> mz_info) k (zm_zones m) of
        None \<Rightarrow> (False, m) | Some zones \<Rightarrow> (True, m\<lparr>zm_zones := zones\<rparr>))"

definition point_events :: "real \<times> real \<Rightarrow> yaml_event list" where
  "point_events p = [Flow, Begin_Seq, Scalar_Num (fst p), Scalar_Num (snd p), End_Seq]"

definition member_str :: "string \<Rightarrow> string \<Rightarrow> yaml_event list" where
  "member_str key s = [Key, Scalar_Str key, Value_Of, Scalar_Str s]"

definition member_num :: "string \<Rightarrow> real \<Rightarrow> yaml_event list" where
  "member_num key r = [Key, Scalar_Str key, Value_Of, Scalar_Num r]"

definition zone_events :: "map_zone \<Rightarrow> yaml_event list" where
  "zone_events zone =
     [Begin_Map] @ member_str ''id'' (zd_id (mz_info zone)) @ member_str ''name'' (zd_name (mz_info zone)) @
     member_str ''type'' (zd_type (mz_info zone)) @
     [Key, Scalar_Str ''goods_ids'', Value_Of, Begin_Seq] @ map Scalar_Str (zd_goods_ids (mz_info zone)) @ [End_Seq] @
     [Key, Scalar_Str ''polygon'', Value_Of, Begin_Seq] @ concat (map point_events (mz_polygon zone)) @ [End_Seq] @
     [End_Map]"

definition document_events :: "string \<Rightarrow> ('a \<Rightarrow> yaml_event list) \<Rightarrow> 'a list \<Rightarrow> yaml_event list" where
  "document_events key events xs =
     [Begin_Map, Key, Scalar_Str key, Value_Of, Begin_Seq] @ concat (map events xs) @ [End_Seq, End_Map]"

text \<open>\<open>writable\<close>: the file can be opened. What the stream does with the text is not looked at.\<close>

definition save_document ::
  "'n yaml_lib \<Rightarrow> bool \<Rightarrow> string \<Rightarrow> yaml_event list \<Rightarrow> file_system \<Rightarrow> bool \<times> file_system" where
  "save_document lib writable path events fs =
     (if path = [] then (False, fs) else if \<not> writable then (False, fs) else (True, fs(path \<mapsto> yl_emit lib events)))"

definition save_zones :: "'n yaml_lib \<Rightarrow> bool \<Rightarrow> zone_manager \<Rightarrow> file_system \<Rightarrow> bool \<times> file_system" where
  "save_zones lib writable m fs =
     save_document lib writable (zm_filename m) (document_events ''zones'' zone_events (zm_zones m)) fs"

section \<open>Stations\<close>

record station_manager =
  tm_filename :: string
  tm_marker_id :: int
  tm_stations :: "map_station list"

definition read_pose :: "'n yaml_lib \<Rightarrow> 'n \<Rightarrow> (real \<times> real \<times> real) option" where
  "read_pose lib node =
     Option.bind (yl_get lib node ''pose'') (\<lambda>pose.
     Option.bind (num_at lib pose ''x'') (\<lambda>x. Option.bind (num_at lib pose ''y'') (\<lambda>y.
     Option.bind (num_at lib pose ''yaw'') (\<lambda>yaw. Some (x, y, yaw)))))"

text \<open>The counter of marker ids is a member: it keeps what a failing loop has counted.\<close>

fun read_locations :: "'n yaml_lib \<Rightarrow> int \<Rightarrow> 'n list \<Rightarrow> map_location list option \<times> int" where
  "read_locations lib c [] = (Some [], c)"
| "read_locations lib c (node # nodes) =
     (case (str_at lib node ''id'', str_at lib node ''type'') of
        (Some i, Some type) \<Rightarrow>
          (case read_pose lib node of
             None \<Rightarrow> (None, c + 1)
           | Some pose \<Rightarrow>
               (case read_locations lib (c + 1) nodes of (ls, c') \<Rightarrow>
                  (map_option ((#) \<lparr>ml_id = i, ml_type = type, ml_marker_id = c, ml_pose = pose\<rparr>) ls, c')))
      | _ \<Rightarrow> (None, c))"

definition read_map_station :: "'n yaml_lib \<Rightarrow> int \<Rightarrow> 'n \<Rightarrow> map_station option \<times> int" where
  "read_map_station lib c node =
     (case (str_at lib node ''id'', str_at lib node ''name'', str_at lib node ''zone_id'',
            yl_get lib node ''locations'') of
        (Some i, Some name, Some zid, Some locations) \<Rightarrow>
          (case read_locations lib c (yl_items lib locations) of (ls, c') \<Rightarrow>
             (map_option (\<lambda>ls. \<lparr>sta_id = i, sta_name = name, sta_zone_id = zid, sta_locations = ls\<rparr>) ls, c'))
      | _ \<Rightarrow> (None, c))"

fun read_stations :: "'n yaml_lib \<Rightarrow> int \<Rightarrow> 'n list \<Rightarrow> bool \<times> map_station list \<times> int" where
  "read_stations lib c [] = (True, [], c)"
| "read_stations lib c (node # nodes) =
     (case read_map_station lib c node of
        (None, c') \<Rightarrow> (False, [], c')
      | (Some s, c') \<Rightarrow> (case read_stations lib c' nodes of (ok, ss, c'') \<Rightarrow> (ok, s # ss, c'')))"

definition load_stations :: "'n yaml_lib \<Rightarrow> file_system \<Rightarrow> string \<Rightarrow> station_manager \<Rightarrow> bool \<times> station_manager" where
  "load_stations lib fs path m =
     (let m0 = m\<lparr>tm_filename := path\<rparr> in
      if fs path = None then (True, m0)
      else case Option.bind (load_file lib fs path) (\<lambda>root. find_at lib root ''stations'') of
        None \<Rightarrow> (False, m0)
      | Some None \<Rightarrow> (True, m0)
      | Some (Some nodes) \<Rightarrow>
          (case read_stations lib (tm_marker_id m0) (yl_items lib nodes) of
             (ok, stations, c) \<Rightarrow> (ok, m0\<lparr>tm_stations := stations, tm_marker_id := c\<rparr>)))"

fun number_locations :: "int \<Rightarrow> map_location list \<Rightarrow> map_location list" where
  "number_locations c [] = []"
| "number_locations c (l # ls) = l\<lparr>ml_marker_id := c\<rparr> # number_locations (c + 1) ls"

definition addStation :: "map_station \<Rightarrow> station_manager \<Rightarrow> (map_station \<times> station_manager) option" where
  "addStation station m =
     (if \<exists>item\<in>set (tm_stations m). sta_id item = sta_id station then None
      else let station' = station\<lparr>sta_locations := number_locations (tm_marker_id m) (sta_locations station)\<rparr> in
           Some (station', m\<lparr>tm_stations := tm_stations m @ [station'],
             tm_marker_id := tm_marker_id m + int (length (sta_locations station))\<rparr>))"

definition updateStation :: "map_station \<Rightarrow> station_manager \<Rightarrow> bool \<times> station_manager" where
  "updateStation station m =
     (case replace_item sta_id station (tm_stations m) of
        None \<Rightarrow> (False, m) | Some stations \<Rightarrow> (True, m\<lparr>tm_stations := stations\<rparr>))"

definition removeStation :: "string \<Rightarrow> station_manager \<Rightarrow> bool \<times> station_manager" where
  "removeStation k m =
     (case remove_items sta_id k (tm_stations m) of
        None \<Rightarrow> (False, m) | Some stations \<Rightarrow> (True, m\<lparr>tm_stations := stations\<rparr>))"

definition location_events :: "map_location \<Rightarrow> yaml_event list" where
  "location_events l =
     (case ml_pose l of (x, y, yaw) \<Rightarrow>
        [Begin_Map] @ member_str ''id'' (ml_id l) @ member_str ''type'' (ml_type l) @
        [Key, Scalar_Str ''pose'', Value_Of, Begin_Map] @ member_num ''x'' x @ member_num ''y'' y @
        member_num ''yaw'' yaw @ [End_Map, End_Map])"

definition station_events :: "map_station \<Rightarrow> yaml_event list" where
  "station_events s =
     [Begin_Map] @ member_str ''id'' (sta_id s) @ member_str ''name'' (sta_name s) @
     member_str ''zone_id'' (sta_zone_id s) @
     [Key, Scalar_Str ''locations'', Value_Of, Begin_Seq] @ concat (map location_events (sta_locations s)) @ [End_Seq] @
     [End_Map]"

definition save_stations :: "'n yaml_lib \<Rightarrow> bool \<Rightarrow> station_manager \<Rightarrow> file_system \<Rightarrow> bool \<times> file_system" where
  "save_stations lib writable m fs =
     save_document lib writable (tm_filename m) (document_events ''stations'' station_events (tm_stations m)) fs"

section \<open>Walls\<close>

record wall_manager =
  wm_filename :: string
  wm_walls :: "map_wall list"

definition read_wall :: "'n yaml_lib \<Rightarrow> int \<Rightarrow> 'n \<Rightarrow> map_wall option" where
  "read_wall lib marker_id node =
     Option.bind (str_at lib node ''id'') (\<lambda>i.
     Option.bind (yl_get lib node ''line'') (\<lambda>line.
     Option.bind (all_some (map (read_point lib) (yl_items lib line))) (\<lambda>points.
     Some \<lparr>mw_marker_id = marker_id, mw_id = i, mw_line = points\<rparr>)))"

definition load_walls :: "'n yaml_lib \<Rightarrow> file_system \<Rightarrow> string \<Rightarrow> wall_manager \<Rightarrow> bool \<times> wall_manager" where
  "load_walls lib fs path m =
     (let m0 = m\<lparr>wm_filename := path\<rparr> in
      if fs path = None then (True, m0)
      else case Option.bind (load_file lib fs path) (\<lambda>root. find_at lib root ''walls'') of
        None \<Rightarrow> (False, m0)
      | Some None \<Rightarrow> (True, m0)
      | Some (Some nodes) \<Rightarrow>
          (case read_until_error (\<lambda>(i, node). read_wall lib (int i) node) (enumerate 1 (yl_items lib nodes)) of
             (ok, walls) \<Rightarrow> (ok, m0\<lparr>wm_walls := walls\<rparr>)))"

definition addWall :: "map_wall \<Rightarrow> wall_manager \<Rightarrow> (map_wall \<times> wall_manager) option" where
  "addWall wall m =
     (if \<exists>item\<in>set (wm_walls m). mw_id item = mw_id wall then None
      else let wall' = wall\<lparr>mw_marker_id := int (length (wm_walls m)) + 1\<rparr> in
           Some (wall', m\<lparr>wm_walls := wm_walls m @ [wall']\<rparr>))"

definition updateWall :: "map_wall \<Rightarrow> wall_manager \<Rightarrow> bool \<times> wall_manager" where
  "updateWall wall m =
     (case replace_item mw_id wall (wm_walls m) of
        None \<Rightarrow> (False, m) | Some walls \<Rightarrow> (True, m\<lparr>wm_walls := walls\<rparr>))"

definition removeWall :: "string \<Rightarrow> wall_manager \<Rightarrow> bool \<times> wall_manager" where
  "removeWall wall_id m =
     (case remove_items mw_id wall_id (wm_walls m) of
        None \<Rightarrow> (False, m) | Some walls \<Rightarrow> (True, m\<lparr>wm_walls := walls\<rparr>))"

definition wall_events :: "map_wall \<Rightarrow> yaml_event list" where
  "wall_events wall =
     [Begin_Map] @ member_str ''id'' (mw_id wall) @
     [Key, Scalar_Str ''line'', Value_Of, Begin_Seq] @ concat (map point_events (mw_line wall)) @ [End_Seq] @ [End_Map]"

definition save_walls :: "'n yaml_lib \<Rightarrow> bool \<Rightarrow> wall_manager \<Rightarrow> file_system \<Rightarrow> bool \<times> file_system" where
  "save_walls lib writable m fs =
     save_document lib writable (wm_filename m) (document_events ''walls'' wall_events (wm_walls m)) fs"

end
