(* ===== verification/Markers.thy ===== *)
theory Markers
  imports Tool_Managers
begin

text \<open>
  The markers that the map editor shows in RViz: \<open>zone_marker_publisher.cpp\<close>, \<open>wall_marker_publisher.cpp\<close> and
  \<open>station_marker_publisher.cpp\<close>. A publication is the list of the markers of its array, without time
  stamps; members that are not assigned have the zeros of the message type.
\<close>

section \<open>Markers\<close>

datatype marker_action = Marker_Add | Marker_Delete | Marker_Delete_All

datatype marker_type = Arrow | Line_Strip | Line_List | Text_View_Facing | Sphere

record marker =
  mk_frame_id :: string
  mk_ns :: string
  mk_id :: int
  mk_type :: marker_type
  mk_action :: marker_action
  mk_position :: "real \<times> real \<times> real"
  mk_orientation :: "real \<times> real \<times> real \<times> real"
  mk_scale :: "real \<times> real \<times> real"
  mk_color :: "real \<times> real \<times> real \<times> real"
  mk_points :: "(real \<times> real \<times> real) list"
  mk_text :: string

definition new_marker :: marker where
  "new_marker = \<lparr>mk_frame_id = [], mk_ns = [], mk_id = 0, mk_type = Arrow, mk_action = Marker_Add,
     mk_position = (0, 0, 0), mk_orientation = (0, 0, 0, 1), mk_scale = (0, 0, 0), mk_color = (0, 0, 0, 0),
     mk_points = [], mk_text = []\<rparr>"

definition delete_all_marker :: marker where
  "delete_all_marker = new_marker\<lparr>mk_frame_id := ''map'', mk_action := Marker_Delete_All\<rparr>"

definition delete_marker :: "string \<Rightarrow> int \<Rightarrow> marker" where
  "delete_marker ns i = new_marker\<lparr>mk_frame_id := ''map'', mk_ns := ns, mk_id := i, mk_action := Marker_Delete\<rparr>"

definition marker_point :: "real \<times> real \<Rightarrow> real \<times> real \<times> real" where
  "marker_point p = (fst p, snd p, 1 / 20)"

section \<open>Zones\<close>

text \<open>The largest finite double.\<close>

definition dbl_max :: real where
  "dbl_max = (2 - 1 / 2 ^ 52) * 2 ^ 1023"

definition calculateCentroid :: "(real \<times> real) list \<Rightarrow> real \<times> real" where
  "calculateCentroid polygon =
     (let (min_x, max_x, min_y, max_y) =
        foldl (\<lambda>(a, b, c, d) p. (min a (fst p), max b (fst p), min c (snd p), max d (snd p)))
          (dbl_max, - dbl_max, dbl_max, - dbl_max) polygon
      in ((min_x + max_x) / 2, (min_y + max_y) / 2))"

definition zone_line_marker :: "bool \<Rightarrow> map_zone \<Rightarrow> marker" where
  "zone_line_marker preview zone = new_marker\<lparr>mk_frame_id := mz_frame_id zone,
     mk_ns := (if preview then ''preview_zone_line'' else ''zone_line''),
     mk_id := (if preview then 0 else mz_marker_id zone), mk_type := Line_Strip, mk_action := Marker_Add,
     mk_scale := (1 / 20, 0, 0), mk_color := (if preview then (0, 1, 0, 1) else (1, 0, 0, 1)),
     mk_points := map marker_point (mz_polygon zone) @
       (case mz_polygon zone of [] \<Rightarrow> [] | p # _ \<Rightarrow> [marker_point p])\<rparr>"

definition zone_text_marker :: "bool \<Rightarrow> map_zone \<Rightarrow> marker" where
  "zone_text_marker preview zone =
     (case calculateCentroid (mz_polygon zone) of (x, y) \<Rightarrow>
        new_marker\<lparr>mk_frame_id := mz_frame_id zone,
          mk_ns := (if preview then ''preview_zone_text'' else ''zone_text''),
          mk_id := (if preview then 0 else mz_marker_id zone), mk_type := Text_View_Facing, mk_action := Marker_Add,
          mk_position := (x, y, 4 / 5), mk_orientation := (0, 0, 0, 1), mk_scale := (0, 0, 4 / 5),
          mk_color := (0, 0, 1, 1), mk_text := zd_name (mz_info zone)\<rparr>)"

definition publishZone :: "map_zone \<Rightarrow> marker list" where
  "publishZone zone = [zone_line_marker False zone, zone_text_marker False zone]"

definition publishZones :: "map_zone list \<Rightarrow> marker list" where
  "publishZones zones = delete_all_marker # concat (map publishZone zones)"

definition zone_preview :: "map_zone \<Rightarrow> marker list" where
  "zone_preview zone = [zone_line_marker True zone, zone_text_marker True zone]"

definition clear_zone_preview :: "marker list" where
  "clear_zone_preview = [delete_marker ''preview_zone_line'' 0, delete_marker ''preview_zone_text'' 0]"

definition clear_markers :: "marker list" where
  "clear_markers = [delete_all_marker]"

section \<open>Walls\<close>

definition wall_line_marker :: "bool \<Rightarrow> map_wall \<Rightarrow> marker" where
  "wall_line_marker preview wall = new_marker\<lparr>mk_frame_id := ''map'',
     mk_ns := (if preview then ''preview_wall_line'' else ''wall_line''),
     mk_id := (if preview then 0 else mw_marker_id wall), mk_type := Line_List, mk_action := Marker_Add,
     mk_scale := (1 / 20, 0, 0), mk_color := (if preview then (0, 1, 0, 1) else (1, 1, 0, 1)),
     mk_points := map marker_point (mw_line wall)\<rparr>"

definition publishWalls :: "map_wall list \<Rightarrow> marker list" where
  "publishWalls walls = delete_all_marker # map (wall_line_marker False) walls"

definition publishWall :: "map_wall \<Rightarrow> marker list" where
  "publishWall wall = [wall_line_marker False wall]"

definition wall_preview :: "map_wall \<Rightarrow> marker list" where
  "wall_preview wall = [wall_line_marker True wall]"

definition clear_wall_preview :: "marker list" where
  "clear_wall_preview = [delete_marker ''preview_wall_line'' 0]"

section \<open>Stations\<close>

definition station_point_marker :: "bool \<Rightarrow> map_location \<Rightarrow> marker" where
  "station_point_marker preview l =
     (case ml_pose l of (x, y, yaw) \<Rightarrow>
        new_marker\<lparr>mk_frame_id := ''map'', mk_ns := (if preview then ''preview_station_point'' else ''station_point''),
          mk_id := ml_marker_id l, mk_type := Sphere, mk_action := Marker_Add,
          mk_position := (x, y, 1 / 20), mk_orientation := (0, 0, 0, 1), mk_scale := (1 / 4, 1 / 4, 1 / 20),
          mk_color := (if preview then (0, 1, 0, 1) else (1, 1 / 2, 0, 1))\<rparr>)"

definition publishStation :: "map_station \<Rightarrow> marker list" where
  "publishStation s = map (station_point_marker False) (sta_locations s)"

text \<open>Nothing is published for an empty list.\<close>

definition publishStations :: "map_station list \<Rightarrow> marker list option" where
  "publishStations stations = (if stations = [] then None else Some (concat (map publishStation stations)))"

definition station_preview :: "map_station \<Rightarrow> marker list" where
  "station_preview s = map (station_point_marker True) (number_locations 1000 (sta_locations s))"

definition clear_station_preview :: "nat \<Rightarrow> marker list" where
  "clear_station_preview locationTotal =
     map (\<lambda>i. delete_marker ''preview_station_point'' (1000 + int i)) [0..<locationTotal]"

section \<open>What is shown\<close>

text \<open>RViz keeps the markers by namespace and id.\<close>

type_synonym display = "string \<times> int \<Rightarrow> marker option"

definition show_marker :: "marker \<Rightarrow> display \<Rightarrow> display" where
  "show_marker m d =
     (case mk_action m of
        Marker_Add \<Rightarrow> d((mk_ns m, mk_id m) \<mapsto> m)
      | Marker_Delete \<Rightarrow> d((mk_ns m, mk_id m) := None)
      | Marker_Delete_All \<Rightarrow> Map.empty)"

definition show_markers :: "marker list \<Rightarrow> display \<Rightarrow> display" where
  "show_markers ms d = fold show_marker ms d"

lemma show_markers_simps [simp]:
  "show_markers [] d = d"
  "show_markers (m # ms) d = show_markers ms (show_marker m d)"
  "show_markers (ms @ ms') d = show_markers ms' (show_markers ms d)"
  by (simp_all add: show_markers_def)

section \<open>The centre of a polygon\<close>

lemma centroid_fold:
  fixes polygon :: "(real \<times> real) list"
  shows "foldl (\<lambda>(a, b, c, d) p. (min a (fst p), max b (fst p), min c (snd p), max d (snd p))) (a, b, c, d) polygon =
    (foldl min a (map fst polygon), foldl max b (map fst polygon), foldl min c (map snd polygon), foldl max d (map snd polygon))"
  by (induction polygon arbitrary: a b c d) simp_all

lemma foldl_min_max_bounds:
  fixes xs :: "real list"
  assumes "x \<in> set xs"
  shows "foldl min a xs \<le> x" and "x \<le> foldl max b xs"
proof -
  have "foldl min c ys \<le> c" "c \<le> foldl max c ys" for c and ys :: "real list"
    by (induction ys arbitrary: c, simp_all) (meson min.bounded_iff, meson max.bounded_iff)
  then show "foldl min a xs \<le> x" "x \<le> foldl max b xs"
    using assms by (induction xs arbitrary: a b) (auto, (meson min.bounded_iff max.bounded_iff)+)
qed

end
