(* ===== verification/Map_Files.thy ===== *)
theory Map_Files
  imports Tool_Managers
begin

text \<open>
  The files that the map editor writes, and what the three programs that read them make of them: the
  editor itself, the behaviour manager of a robot (\<open>zone_station_loader.cpp\<close>) and the edge server
  (\<open>idle_point_allocator.cpp\<close>).
\<close>

section \<open>The readers\<close>

text \<open>
  The nodes as \<open>ZoneStationLoader::load\<close> reads them. (An access that throws on \<open>goods_ids\<close> or \<open>locations\<close>
  has thrown on \<open>id\<close> before, since both are accesses by name to the same node.)
\<close>

definition zone_node_of :: "'n yaml_lib \<Rightarrow> 'n \<Rightarrow> zone_node" where
  "zone_node_of lib node =
     \<lparr>zn_id = str_at lib node ''id'', zn_name = str_at lib node ''name'', zn_type = str_at lib node ''type'',
      zn_goods_ids = (case find_at lib node ''goods_ids'' of
          Some (Some g) \<Rightarrow> Some (map (yl_string lib) (yl_items lib g)) | _ \<Rightarrow> None)\<rparr>"

definition pose_member :: "'n yaml_lib \<Rightarrow> 'n \<Rightarrow> string \<Rightarrow> real option" where
  "pose_member lib node key = Option.bind (yl_get lib node ''pose'') (\<lambda>pose. num_at lib pose key)"

definition location_node_of :: "'n yaml_lib \<Rightarrow> 'n \<Rightarrow> location_node" where
  "location_node_of lib node =
     \<lparr>ln_id = str_at lib node ''id'', ln_type = str_at lib node ''type'', ln_x = pose_member lib node ''x'',
      ln_y = pose_member lib node ''y'', ln_yaw = pose_member lib node ''yaw''\<rparr>"

definition station_node_of :: "'n yaml_lib \<Rightarrow> 'n \<Rightarrow> station_node" where
  "station_node_of lib node =
     \<lparr>stn_id = str_at lib node ''id'', stn_name = str_at lib node ''name'', stn_zone_id = str_at lib node ''zone_id'',
      stn_locations = (case find_at lib node ''locations'' of
          Some (Some ls) \<Rightarrow> Some (map (location_node_of lib) (yl_items lib ls)) | _ \<Rightarrow> None)\<rparr>"

definition yaml_list_of ::
  "'n yaml_lib \<Rightarrow> ('n \<Rightarrow> 'a) \<Rightarrow> string \<Rightarrow> file_system \<Rightarrow> string \<Rightarrow> 'a yaml_list" where
  "yaml_list_of lib node_of key fs path =
     (case Option.bind (load_file lib fs path) (\<lambda>root. find_at lib root key) of
        None \<Rightarrow> Yaml_Broken
      | Some None \<Rightarrow> Yaml_None
      | Some (Some nodes) \<Rightarrow> Yaml_List (map node_of (yl_items lib nodes)))"

definition robot_load ::
  "'n yaml_lib \<Rightarrow> file_system \<Rightarrow> string \<Rightarrow> string \<Rightarrow> bool \<times> zone_info list \<times> station_info list" where
  "robot_load lib fs zone_file station_file =
     load_zone_stations (yaml_list_of lib (zone_node_of lib) ''zones'' fs zone_file)
       (yaml_list_of lib (station_node_of lib) ''stations'' fs station_file)"

text \<open>\<open>as<std::string>("")\<close> does not throw. A station or a location that is a scalar makes the edge server's loop throw; it is \<open>None\<close>.\<close>

definition str_or_empty :: "'n yaml_lib \<Rightarrow> 'n \<Rightarrow> string \<Rightarrow> string option" where
  "str_or_empty lib node key =
     map_option (\<lambda>m. case yl_string lib m of None \<Rightarrow> [] | Some s \<Rightarrow> s) (yl_get lib node key)"

definition idle_location_of :: "'n yaml_lib \<Rightarrow> 'n \<Rightarrow> yaml_location option" where
  "idle_location_of lib node =
     Option.bind (str_or_empty lib node ''type'') (\<lambda>type.
     Option.bind (str_or_empty lib node ''id'') (\<lambda>i.
     Some \<lparr>location_type = type, yaml_location_id = i,
       location_pose = Option.bind (pose_member lib node ''x'') (\<lambda>x. Option.bind (pose_member lib node ''y'') (\<lambda>y.
         Option.bind (pose_member lib node ''yaw'') (\<lambda>yaw. Some \<lparr>pose_x = x, pose_y = y, pose_yaw = yaw\<rparr>)))\<rparr>))"

definition idle_station_of :: "'n yaml_lib \<Rightarrow> 'n \<Rightarrow> yaml_station option" where
  "idle_station_of lib node =
     Option.bind (str_or_empty lib node ''id'') (\<lambda>i.
     Option.bind (find_at lib node ''locations'') (\<lambda>ls.
     Option.bind (case ls of None \<Rightarrow> Some None
                  | Some l \<Rightarrow> map_option Some (all_some (map (idle_location_of lib) (yl_items lib l)))) (\<lambda>locations.
     Some \<lparr>yaml_station_id = i, station_locations = locations\<rparr>)))"

text \<open>The stations file of a map package, with \<open>None\<close> for one that this view does not cover.\<close>

definition idle_stations :: "'n yaml_lib \<Rightarrow> string \<Rightarrow> yaml_station yaml_doc option" where
  "idle_stations lib content =
     (case Option.bind (yl_parse lib content) (\<lambda>root. find_at lib root ''stations'') of
        None \<Rightarrow> Some Yaml_Error
      | Some None \<Rightarrow> Some Yaml_Missing
      | Some (Some nodes) \<Rightarrow> map_option Yaml_Items (all_some (map (idle_station_of lib) (yl_items lib nodes))))"

section \<open>The documents\<close>

definition point_tree :: "real \<times> real \<Rightarrow> yaml_tree" where
  "point_tree p = T_Seq True [T_Num (fst p), T_Num (snd p)]"

definition zone_tree :: "map_zone \<Rightarrow> yaml_tree" where
  "zone_tree z = T_Map [(''id'', T_Str (zd_id (mz_info z))), (''name'', T_Str (zd_name (mz_info z))),
     (''type'', T_Str (zd_type (mz_info z))), (''goods_ids'', T_Seq False (map T_Str (zd_goods_ids (mz_info z)))),
     (''polygon'', T_Seq False (map point_tree (mz_polygon z)))]"

definition pose_tree :: "real \<times> real \<times> real \<Rightarrow> yaml_tree" where
  "pose_tree p = T_Map [(''x'', T_Num (fst p)), (''y'', T_Num (fst (snd p))), (''yaw'', T_Num (snd (snd p)))]"

definition location_tree :: "map_location \<Rightarrow> yaml_tree" where
  "location_tree l = T_Map [(''id'', T_Str (ml_id l)), (''type'', T_Str (ml_type l)), (''pose'', pose_tree (ml_pose l))]"

definition station_tree :: "map_station \<Rightarrow> yaml_tree" where
  "station_tree s = T_Map [(''id'', T_Str (sta_id s)), (''name'', T_Str (sta_name s)),
     (''zone_id'', T_Str (sta_zone_id s)), (''locations'', T_Seq False (map location_tree (sta_locations s)))]"

definition wall_tree :: "map_wall \<Rightarrow> yaml_tree" where
  "wall_tree w = T_Map [(''id'', T_Str (mw_id w)), (''line'', T_Seq False (map point_tree (mw_line w)))]"

definition document_tree :: "string \<Rightarrow> ('a \<Rightarrow> yaml_tree) \<Rightarrow> 'a list \<Rightarrow> yaml_tree" where
  "document_tree key tree xs = T_Map [(key, T_Seq False (map tree xs))]"

lemma concat_map_strings: "concat (map (tree_events \<circ> T_Str) ss) = map Scalar_Str ss"
  by (induction ss) simp_all

lemmas member_events = member_str_def member_num_def

lemma item_events:
  "zone_events z = tree_events (zone_tree z)"
  "station_events s = tree_events (station_tree s)"
  "wall_events w = tree_events (wall_tree w)"
proof -
  have point: "point_events = tree_events \<circ> point_tree"
    by (rule ext) (simp add: point_events_def point_tree_def)
  have loc: "location_events = tree_events \<circ> location_tree"
    by (rule ext) (simp add: location_events_def location_tree_def pose_tree_def member_events case_prod_unfold)
  show "zone_events z = tree_events (zone_tree z)"
    by (simp add: zone_events_def zone_tree_def member_events point concat_map_strings)
  show "station_events s = tree_events (station_tree s)"
    by (simp add: station_events_def station_tree_def member_events loc)
  show "wall_events w = tree_events (wall_tree w)"
    by (simp add: wall_events_def wall_tree_def member_events point)
qed

lemma document_is_tree:
  assumes "\<And>x. events x = tree_events (tree x)"
  shows "document_events key events xs = tree_events (document_tree key tree xs)"
proof -
  have "events = tree_events \<circ> tree" by (rule ext) (simp add: assms)
  then show ?thesis by (simp add: document_events_def document_tree_def)
qed

lemma saved_document:
  assumes "save_document lib writable path events fs = (True, fs')"
  shows "fs' = fs(path \<mapsto> yl_emit lib events)"
  using assms by (simp add: save_document_def split: if_splits)

end
