(* ===== verification/Map_File_Rules.thy ===== *)
theory Map_File_Rules
  imports Map_Files
begin

text \<open>
  What the map editor writes is what the editor, the robots and the edge server read, provided
  that the YAML library reads back the documents in question.
\<close>

section \<open>Parts of a document\<close>

lemma all_some_map [simp]:
  "all_some (map (\<lambda>x. Some (k x)) xs) = Some (map k xs)"
  "all_some (map Some xs') = Some xs'"
  by (induction xs, auto, induction xs', auto)

lemma rep_seq_items: "represents lib n (T_Seq flow (map f xs)) \<Longrightarrow> list_all2 (\<lambda>m x. represents lib m (f x)) (yl_items lib n) xs"
  by (simp add: represents_simps list_all2_map2)

lemma read_strings: "represents lib n (T_Seq flow (map T_Str ss)) \<Longrightarrow> map (yl_string lib) (yl_items lib n) = map Some ss"
  by (erule rep_items) (simp add: represents_simps)

lemma read_point_tree:
  assumes "represents lib n (point_tree p)"
  shows "read_point lib n = Some p"
proof -
  from assms obtain a b where items: "yl_items lib n = [a, b]"
    and nums: "yl_double lib a = Some (fst p)" "yl_double lib b = Some (snd p)"
    and pos: "\<And>i. i < 2 \<Longrightarrow> yl_at lib n i = Some (yl_items lib n ! i)"
    by (auto simp: point_tree_def represents_simps list_all2_Cons2)
  show ?thesis using pos [of 0] pos [of 1] nums by (simp add: read_point_def items)
qed

lemma read_points:
  "represents lib n (T_Seq flow (map point_tree ps)) \<Longrightarrow> map (read_point lib) (yl_items lib n) = map Some ps"
  by (erule rep_items) (simp add: read_point_tree)

definition restored_zone :: "int \<Rightarrow> map_zone \<Rightarrow> map_zone" where
  "restored_zone i z = z\<lparr>mz_info := (mz_info z)\<lparr>zd_filename := []\<rparr>, mz_frame_id := ''map'', mz_marker_id := i\<rparr>"

definition robot_zone :: "map_zone \<Rightarrow> zone_info" where
  "robot_zone z = \<lparr>z_id = zd_id (mz_info z), z_name = zd_name (mz_info z), z_type = zd_type (mz_info z),
     z_goods_ids = zd_goods_ids (mz_info z)\<rparr>"

lemma read_zone_tree:
  assumes "represents lib n (zone_tree z)"
  shows "read_map_zone lib i n = Some (restored_zone i z)" and "read_zone (zone_node_of lib n) = Some (robot_zone z)"
proof -
  note rep = assms [unfolded zone_tree_def]
  have strs: "str_at lib n ''id'' = Some (zd_id (mz_info z))" "str_at lib n ''name'' = Some (zd_name (mz_info z))"
    "str_at lib n ''type'' = Some (zd_type (mz_info z))"
    by (rule rep_str_at [OF rep]; simp)+
  obtain g where g: "find_at lib n ''goods_ids'' = Some (Some g)"
      "represents lib g (T_Seq False (map T_Str (zd_goods_ids (mz_info z))))"
    by (rule rep_find_at [OF rep, of "''goods_ids''"]) auto
  obtain p where p: "yl_get lib n ''polygon'' = Some p" "represents lib p (T_Seq False (map point_tree (mz_polygon z)))"
    by (rule rep_member [OF rep, of "''polygon''"]) auto
  show "read_map_zone lib i n = Some (restored_zone i z)"
    by (simp add: read_map_zone_def strs g(1) read_strings [OF g(2)] p(1) read_points [OF p(2)] restored_zone_def)
  show "read_zone (zone_node_of lib n) = Some (robot_zone z)"
    by (simp add: read_zone_def zone_node_of_def strs g(1) read_strings [OF g(2)] robot_zone_def)
qed

lemma read_wall_tree:
  assumes "represents lib n (wall_tree w)"
  shows "read_wall lib i n = Some (w\<lparr>mw_marker_id := i\<rparr>)"
proof -
  note rep = assms [unfolded wall_tree_def]
  have i: "str_at lib n ''id'' = Some (mw_id w)" by (rule rep_str_at [OF rep]) simp
  obtain p where "yl_get lib n ''line'' = Some p" "represents lib p (T_Seq False (map point_tree (mw_line w)))"
    by (rule rep_member [OF rep, of "''line''"]) auto
  with i show ?thesis by (simp add: read_wall_def read_points)
qed

section \<open>Stations\<close>

definition robot_location :: "map_location \<Rightarrow> location_info" where
  "robot_location l = (case ml_pose l of (x, y, yaw) \<Rightarrow>
     \<lparr>l_id = ml_id l, l_type = ml_type l, l_x = x, l_y = y, l_yaw = yaw\<rparr>)"

definition robot_station :: "map_station \<Rightarrow> station_info" where
  "robot_station s = \<lparr>sn_id = sta_id s, sn_name = sta_name s, sn_zone_id = sta_zone_id s,
     sn_locations = map robot_location (sta_locations s)\<rparr>"

definition edge_location :: "map_location \<Rightarrow> yaml_location" where
  "edge_location l = (case ml_pose l of (x, y, yaw) \<Rightarrow>
     \<lparr>location_type = ml_type l, yaml_location_id = ml_id l,
      location_pose = Some \<lparr>pose_x = x, pose_y = y, pose_yaw = yaw\<rparr>\<rparr>)"

definition edge_station :: "map_station \<Rightarrow> yaml_station" where
  "edge_station s = \<lparr>yaml_station_id = sta_id s, station_locations = Some (map edge_location (sta_locations s))\<rparr>"

lemma read_location_tree:
  assumes "represents lib n (location_tree l)"
  shows "str_at lib n ''id'' = Some (ml_id l)" and "str_at lib n ''type'' = Some (ml_type l)"
    and "read_pose lib n = Some (ml_pose l)"
    and "read_location (location_node_of lib n) = Some (robot_location l)"
    and "idle_location_of lib n = Some (edge_location l)"
proof -
  note rep = assms [unfolded location_tree_def]
  show strs: "str_at lib n ''id'' = Some (ml_id l)" "str_at lib n ''type'' = Some (ml_type l)"
    by (rule rep_str_at [OF rep]; simp)+
  obtain p where p: "yl_get lib n ''pose'' = Some p" "represents lib p (pose_tree (ml_pose l))"
    by (rule rep_member [OF rep, of "''pose''"]) auto
  note rep_pose = p(2) [unfolded pose_tree_def]
  obtain x y yaw where xyz: "ml_pose l = (x, y, yaw)" by (cases "ml_pose l")
  have nums: "num_at lib p ''x'' = Some x" "num_at lib p ''y'' = Some y" "num_at lib p ''yaw'' = Some yaw"
    by (rule rep_num_at [OF rep_pose]; simp add: xyz)+
  show "read_pose lib n = Some (ml_pose l)" by (simp add: read_pose_def p(1) nums xyz)
  show "read_location (location_node_of lib n) = Some (robot_location l)"
    by (simp add: read_location_def location_node_of_def strs pose_member_def p(1) nums robot_location_def xyz)
  have "str_or_empty lib n ''id'' = Some (ml_id l)" "str_or_empty lib n ''type'' = Some (ml_type l)"
    using strs by (auto simp: str_or_empty_def str_at_def bind_eq_Some_conv)
  then show "idle_location_of lib n = Some (edge_location l)"
    by (simp add: idle_location_of_def pose_member_def p(1) nums edge_location_def xyz)
qed

lemma read_locations_tree:
  "list_all2 (\<lambda>n l. represents lib n (location_tree l)) nodes ls \<Longrightarrow>
    read_locations lib c nodes = (Some (number_locations c ls), c + int (length ls))"
proof (induction nodes ls arbitrary: c rule: list_all2_induct)
  case Nil
  then show ?case by simp
next
  case (Cons n nodes l ls)
  then show ?case
    using read_location_tree(1,2,3) [OF Cons.hyps(1)]
    by (simp add: Cons.IH [of "c + 1"])
qed

lemma list_all2_map_eq: "list_all2 (\<lambda>n x. f n = h x) ns xs \<Longrightarrow> map f ns = map h xs"
  by (induction rule: list_all2_induct) simp_all

lemma read_station_tree:
  assumes "represents lib n (station_tree s)"
  shows "read_map_station lib c n = (Some (s\<lparr>sta_locations := number_locations c (sta_locations s)\<rparr>),
      c + int (length (sta_locations s)))"
    and "read_station (station_node_of lib n) = Some (robot_station s)"
    and "idle_station_of lib n = Some (edge_station s)"
proof -
  note rep = assms [unfolded station_tree_def]
  have strs: "str_at lib n ''id'' = Some (sta_id s)" "str_at lib n ''name'' = Some (sta_name s)"
    "str_at lib n ''zone_id'' = Some (sta_zone_id s)"
    by (rule rep_str_at [OF rep]; simp)+
  obtain l where l: "find_at lib n ''locations'' = Some (Some l)" "yl_get lib n ''locations'' = Some l"
      "represents lib l (T_Seq False (map location_tree (sta_locations s)))"
    by (rule rep_find_at [OF rep, of "''locations''"]) auto
  note items = rep_seq_items [OF l(3)]
  show "read_map_station lib c n = (Some (s\<lparr>sta_locations := number_locations c (sta_locations s)\<rparr>),
      c + int (length (sta_locations s)))"
    by (simp add: read_map_station_def strs l(2) read_locations_tree [OF items])
  have "map (read_location \<circ> location_node_of lib) (yl_items lib l) = map (\<lambda>x. Some (robot_location x)) (sta_locations s)"
    using items by (intro list_all2_map_eq) (auto elim!: list_all2_mono dest: read_location_tree(4))
  then show "read_station (station_node_of lib n) = Some (robot_station s)"
    by (simp add: read_station_def station_node_of_def strs l(1) robot_station_def)
  have "map (idle_location_of lib) (yl_items lib l) = map (\<lambda>x. Some (edge_location x)) (sta_locations s)"
    using items by (intro list_all2_map_eq) (auto elim!: list_all2_mono dest: read_location_tree(5))
  moreover have "str_or_empty lib n ''id'' = Some (sta_id s)"
    using strs(1) by (auto simp: str_or_empty_def str_at_def bind_eq_Some_conv)
  ultimately show "idle_station_of lib n = Some (edge_station s)"
    by (simp add: idle_station_of_def l(1) edge_station_def)
qed

section \<open>Whole documents\<close>

lemma saved_items:
  assumes "save_document lib writable path (document_events key events xs) fs = (True, fs')"
    and "\<And>x. events x = tree_events (tree x)" and "reads_back lib (document_tree key tree xs)"
  obtains root nodes where "load_file lib fs' path = Some root" and "find_at lib root key = Some (Some nodes)"
    and "list_all2 (\<lambda>n x. represents lib n (tree x)) (yl_items lib nodes) xs"
proof -
  from assms(3) obtain root where root: "yl_parse lib (yl_emit lib (tree_events (document_tree key tree xs))) = Some root"
      "represents lib root (document_tree key tree xs)" by (auto simp: reads_back_def)
  have load: "load_file lib fs' path = Some root"
    using saved_document [OF assms(1)] root(1) by (simp add: load_file_def document_is_tree [OF assms(2)])
  obtain nodes where nodes: "find_at lib root key = Some (Some nodes)" "represents lib nodes (T_Seq False (map tree xs))"
    by (rule rep_find_at [OF root(2) [unfolded document_tree_def], of key]) auto
  show ?thesis by (rule that [OF load nodes(1) rep_seq_items [OF nodes(2)]])
qed

lemma read_until_error_all:
  "list_all2 (\<lambda>n x. f n = Some (h x)) ns xs \<Longrightarrow> read_until_error f ns = (True, map h xs)"
  by (induction rule: list_all2_induct) simp_all

lemma list_all2_enumerate:
  "list_all2 P ns xs \<Longrightarrow> (\<And>i n x. P n x \<Longrightarrow> Q (i, n) (i, x)) \<Longrightarrow> list_all2 Q (enumerate k ns) (enumerate k xs)"
  by (induction arbitrary: k rule: list_all2_induct) simp_all

definition numbered_zones :: "map_zone list \<Rightarrow> map_zone list" where
  "numbered_zones zs = map (\<lambda>(i, z). restored_zone (int i) z) (enumerate 1 zs)"

fun numbered_stations :: "int \<Rightarrow> map_station list \<Rightarrow> map_station list" where
  "numbered_stations c [] = []"
| "numbered_stations c (s # ss) = s\<lparr>sta_locations := number_locations c (sta_locations s)\<rparr> #
     numbered_stations (c + int (length (sta_locations s))) ss"

definition location_count :: "map_station list \<Rightarrow> int" where
  "location_count ss = (\<Sum>s\<leftarrow>ss. int (length (sta_locations s)))"

lemma reload_zones:
  assumes "save_zones lib writable zm fs = (True, fs')" and "reads_back lib (document_tree ''zones'' zone_tree (zm_zones zm))"
    and "fs'' (zm_filename zm) = fs' (zm_filename zm)"
  shows "load_zones lib fs'' (zm_filename zm) m =
    (True, m\<lparr>zm_filename := zm_filename zm, zm_zones := numbered_zones (zm_zones zm)\<rparr>)"
proof -
  note saved = assms(1) [unfolded save_zones_def]
  obtain root nodes where r: "load_file lib fs' (zm_filename zm) = Some root" "find_at lib root ''zones'' = Some (Some nodes)"
      "list_all2 (\<lambda>n z. represents lib n (zone_tree z)) (yl_items lib nodes) (zm_zones zm)"
    by (rule saved_items [OF saved item_events(1) assms(2)])
  have "read_until_error (\<lambda>(i, n). read_map_zone lib (int i) n) (enumerate 1 (yl_items lib nodes)) =
      (True, numbered_zones (zm_zones zm))"
    unfolding numbered_zones_def
    by (rule read_until_error_all, rule list_all2_enumerate [OF r(3)]) (simp add: read_zone_tree)
  moreover have "fs'' (zm_filename zm) \<noteq> None" using saved_document [OF saved] assms(3) by simp
  moreover have "load_file lib fs'' (zm_filename zm) = Some root" using r(1) assms(3) by (simp add: load_file_def)
  ultimately show ?thesis using r(2) by (auto simp: load_zones_def Let_def)
qed

lemma read_stations_tree:
  "list_all2 (\<lambda>n s. represents lib n (station_tree s)) nodes ss \<Longrightarrow>
    read_stations lib c nodes = (True, numbered_stations c ss, c + location_count ss)"
proof (induction nodes ss arbitrary: c rule: list_all2_induct)
  case Nil
  then show ?case by (simp add: location_count_def)
next
  case (Cons n nodes s ss)
  show ?case
    using read_station_tree(1) [OF Cons.hyps(1), of c]
    by (simp add: Cons.IH [of "c + int (length (sta_locations s))"] location_count_def)
qed

lemma reload_stations:
  assumes "save_stations lib writable tm fs = (True, fs')"
    and "reads_back lib (document_tree ''stations'' station_tree (tm_stations tm))"
    and "fs'' (tm_filename tm) = fs' (tm_filename tm)"
  shows "load_stations lib fs'' (tm_filename tm) m =
    (True, m\<lparr>tm_filename := tm_filename tm, tm_stations := numbered_stations (tm_marker_id m) (tm_stations tm),
       tm_marker_id := tm_marker_id m + location_count (tm_stations tm)\<rparr>)"
proof -
  note saved = assms(1) [unfolded save_stations_def]
  obtain root nodes where r: "load_file lib fs' (tm_filename tm) = Some root" "find_at lib root ''stations'' = Some (Some nodes)"
      "list_all2 (\<lambda>n s. represents lib n (station_tree s)) (yl_items lib nodes) (tm_stations tm)"
    by (rule saved_items [OF saved item_events(2) assms(2)])
  have "fs'' (tm_filename tm) \<noteq> None" using saved_document [OF saved] assms(3) by simp
  moreover have "load_file lib fs'' (tm_filename tm) = Some root" using r(1) assms(3) by (simp add: load_file_def)
  ultimately show ?thesis
    using r(2) read_stations_tree [OF r(3), of "tm_marker_id m"] by (auto simp: load_stations_def Let_def)
qed

section \<open>The other readers\<close>

lemma robot_reads:
  assumes "save_zones lib w1 zm fs = (True, fs1)" and "save_stations lib w2 tm fs1' = (True, fs2)"
    and "fs3 (zm_filename zm) = fs1 (zm_filename zm)" and "fs3 (tm_filename tm) = fs2 (tm_filename tm)"
    and "reads_back lib (document_tree ''zones'' zone_tree (zm_zones zm))"
    and "reads_back lib (document_tree ''stations'' station_tree (tm_stations tm))"
  shows "robot_load lib fs3 (zm_filename zm) (tm_filename tm) =
    (True, map robot_zone (zm_zones zm), map robot_station (tm_stations tm))"
proof -
  obtain root nodes where z: "load_file lib fs1 (zm_filename zm) = Some root" "find_at lib root ''zones'' = Some (Some nodes)"
      "list_all2 (\<lambda>n z. represents lib n (zone_tree z)) (yl_items lib nodes) (zm_zones zm)"
    by (rule saved_items [OF assms(1) [unfolded save_zones_def] item_events(1) assms(5)])
  obtain root2 nodes2 where t: "load_file lib fs2 (tm_filename tm) = Some root2" "find_at lib root2 ''stations'' = Some (Some nodes2)"
      "list_all2 (\<lambda>n s. represents lib n (station_tree s)) (yl_items lib nodes2) (tm_stations tm)"
    by (rule saved_items [OF assms(2) [unfolded save_stations_def] item_events(2) assms(6)])
  have zs: "read_until_error read_zone (map (zone_node_of lib) (yl_items lib nodes)) = (True, map robot_zone (zm_zones zm))"
    using z(3) by (intro read_until_error_all) (auto simp: list_all2_map1 elim!: list_all2_mono dest: read_zone_tree(2))
  have ts: "read_until_error read_station (map (station_node_of lib) (yl_items lib nodes2)) =
      (True, map robot_station (tm_stations tm))"
    using t(3) by (intro read_until_error_all) (auto simp: list_all2_map1 elim!: list_all2_mono dest: read_station_tree(2))
  have "load_file lib fs3 (zm_filename zm) = Some root" "load_file lib fs3 (tm_filename tm) = Some root2"
    using z(1) t(1) assms(3,4) by (simp_all add: load_file_def)
  then show ?thesis
    using z(2) t(2) zs ts by (simp add: robot_load_def yaml_list_of_def load_zone_stations_def read_document_def)
qed

text \<open>The charging points of a map: the locations of the type IDLE, in the order of the file.\<close>

definition idle_points_of :: "map_station list \<Rightarrow> idle_point list" where
  "idle_points_of ss = concat (map (\<lambda>s. map (\<lambda>l. case ml_pose l of (x, y, yaw) \<Rightarrow>
       \<lparr>station_id = sta_id s, location_id = ml_id l, point_pose = \<lparr>pose_x = x, pose_y = y, pose_yaw = yaw\<rparr>\<rparr>)
     (filter (\<lambda>l. ml_type l = ''IDLE'') (sta_locations s))) ss)"

lemma add_locations_edge:
  "add_locations sid (map edge_location ls) a = (True, a\<lparr>m_points := m_points a @ map (\<lambda>l. case ml_pose l of (x, y, yaw) \<Rightarrow>
       \<lparr>station_id = sid, location_id = ml_id l, point_pose = \<lparr>pose_x = x, pose_y = y, pose_yaw = yaw\<rparr>\<rparr>)
     (filter (\<lambda>l. ml_type l = ''IDLE'') ls),
     m_occupied := m_occupied a @ replicate (length (filter (\<lambda>l. ml_type l = ''IDLE'') ls)) False\<rparr>)"
  by (induction ls arbitrary: a) (auto simp: edge_location_def split: prod.splits)

lemma add_stations_edge:
  "add_stations (map edge_station ss) a = (True, a\<lparr>m_points := m_points a @ idle_points_of ss,
     m_occupied := m_occupied a @ replicate (length (idle_points_of ss)) False\<rparr>)"
  by (induction ss arbitrary: a)
    (simp_all add: edge_station_def add_locations_edge idle_points_of_def replicate_add)

lemma edge_reads:
  assumes "save_stations lib w2 tm fs = (True, fs2)"
    and "reads_back lib (document_tree ''stations'' station_tree (tm_stations tm))"
  shows "\<exists>content doc. fs2 (tm_filename tm) = Some content \<and> idle_stations lib content = Some doc \<and>
    parseStations doc a = (True, a\<lparr>m_points := idle_points_of (tm_stations tm),
      m_occupied := replicate (length (idle_points_of (tm_stations tm))) False\<rparr>)"
proof -
  note saved = assms(1) [unfolded save_stations_def]
  obtain root nodes where r: "load_file lib fs2 (tm_filename tm) = Some root" "find_at lib root ''stations'' = Some (Some nodes)"
      "list_all2 (\<lambda>n s. represents lib n (station_tree s)) (yl_items lib nodes) (tm_stations tm)"
    by (rule saved_items [OF saved item_events(2) assms(2)])
  obtain content where c: "fs2 (tm_filename tm) = Some content" using saved_document [OF saved] by simp
  have "map (idle_station_of lib) (yl_items lib nodes) = map (\<lambda>s. Some (edge_station s)) (tm_stations tm)"
    using r(3) by (intro list_all2_map_eq) (auto elim!: list_all2_mono dest: read_station_tree(3))
  then have "idle_stations lib content = Some (Yaml_Items (map edge_station (tm_stations tm)))"
    using r(1,2) c by (simp add: idle_stations_def load_file_def)
  moreover have "parseStations (Yaml_Items (map edge_station (tm_stations tm))) a =
      (True, a\<lparr>m_points := idle_points_of (tm_stations tm), m_occupied := replicate (length (idle_points_of (tm_stations tm))) False\<rparr>)"
    by (simp add: parseStations_def add_stations_edge)
  ultimately show ?thesis using c by blast
qed

text \<open>
  C40: An edited map means the same to everyone. Let the map editors save their zones and their stations, to two files, and
  let the library read back these two documents. Then the loader of a robot reads exactly these zones and
  stations; the edge server finds as charging points exactly the locations of type IDLE, all free; and the
  editor itself reads the zones and stations again, with the marker ids counted anew.
\<close>

theorem edited_map_is_read:
  assumes "save_zones lib w1 zm fs = (True, fs1)" and "save_stations lib w2 tm fs1 = (True, fs2)"
    and "zm_filename zm \<noteq> tm_filename tm"
    and "reads_back lib (document_tree ''zones'' zone_tree (zm_zones zm))"
    and "reads_back lib (document_tree ''stations'' station_tree (tm_stations tm))"
  shows "robot_load lib fs2 (zm_filename zm) (tm_filename tm) =
      (True, map robot_zone (zm_zones zm), map robot_station (tm_stations tm)) \<and>
    (\<exists>content doc. fs2 (tm_filename tm) = Some content \<and> idle_stations lib content = Some doc \<and>
      parseStations doc no_points = (True, no_points\<lparr>m_points := idle_points_of (tm_stations tm),
        m_occupied := replicate (length (idle_points_of (tm_stations tm))) False\<rparr>)) \<and>
    load_zones lib fs2 (zm_filename zm) zm' =
      (True, zm'\<lparr>zm_filename := zm_filename zm, zm_zones := numbered_zones (zm_zones zm)\<rparr>) \<and>
    load_stations lib fs2 (tm_filename tm) tm' =
      (True, tm'\<lparr>tm_filename := tm_filename tm, tm_stations := numbered_stations (tm_marker_id tm') (tm_stations tm),
         tm_marker_id := tm_marker_id tm' + location_count (tm_stations tm)\<rparr>)"
proof -
  have other: "fs2 (zm_filename zm) = fs1 (zm_filename zm)"
    using saved_document [OF assms(2) [unfolded save_stations_def]] assms(3) by simp
  show ?thesis
    by (intro conjI robot_reads [OF assms(1,2) other refl assms(4,5)] edge_reads [OF assms(2,5)]
        reload_zones [where fs'' = fs2, OF assms(1,4)] reload_stations [where fs'' = fs2, OF assms(2,5)] other refl)
qed

section \<open>A library that reads back\<close>

text \<open>An instance over the documents themselves, with texts for two of them, for the examples.\<close>

fun tree_get :: "yaml_tree option \<Rightarrow> string \<Rightarrow> yaml_tree option option" where
  "tree_get (Some (T_Map kvs)) key = Some (map_of kvs key)"
| "tree_get (Some (T_Str s)) key = None"
| "tree_get (Some (T_Num r)) key = None"
| "tree_get _ key = Some None"

definition tree_lib :: "yaml_tree \<Rightarrow> yaml_tree \<Rightarrow> yaml_tree option yaml_lib" where
  "tree_lib d1 d2 = \<lparr>yl_get = tree_get,
     yl_at = (\<lambda>n i. case n of Some (T_Seq flow ts) \<Rightarrow> Some (if i < length ts then Some (ts ! i) else None) | _ \<Rightarrow> None),
     yl_items = (\<lambda>n. case n of Some (T_Seq flow ts) \<Rightarrow> map Some ts | _ \<Rightarrow> []),
     yl_defined = (\<lambda>n. n \<noteq> None),
     yl_string = (\<lambda>n. case n of Some (T_Str s) \<Rightarrow> Some s | _ \<Rightarrow> None),
     yl_double = (\<lambda>n. case n of Some (T_Num r) \<Rightarrow> Some r | _ \<Rightarrow> None),
     yl_int = (\<lambda>n. None), yl_bool = (\<lambda>n. None),
     yl_parse = (\<lambda>text. if text = ''1'' then Some (Some d1) else if text = ''2'' then Some (Some d2) else None),
     yl_emit = (\<lambda>evs. if evs = tree_events d1 then ''1'' else ''2'')\<rparr>"

inductive wf_tree :: "yaml_tree \<Rightarrow> bool" where
  wf_str: "wf_tree (T_Str s)"
| wf_num: "wf_tree (T_Num r)"
| wf_seq: "(\<And>t. t \<in> set ts \<Longrightarrow> wf_tree t) \<Longrightarrow> wf_tree (T_Seq flow ts)"
| wf_map: "distinct (map fst kvs) \<Longrightarrow> (\<And>k t. (k, t) \<in> set kvs \<Longrightarrow> wf_tree t) \<Longrightarrow> wf_tree (T_Map kvs)"

lemma tree_lib_represents: "wf_tree t \<Longrightarrow> represents (tree_lib d1 d2) (Some t) t"
proof (induction rule: wf_tree.induct)
  case (wf_seq ts flow)
  then show ?case
    by (auto simp: represents_simps tree_lib_def list_all2_conv_all_nth)
next
  case (wf_map kvs)
  show ?case
    unfolding represents_simps
  proof (intro conjI allI impI)
    fix k t
    assume kt: "(k, t) \<in> set kvs"
    have "map_of kvs k = Some t" using wf_map(1) kt by simp
    with wf_map(3) [OF kt] show "\<exists>m. yl_get (tree_lib d1 d2) (Some (T_Map kvs)) k = Some m \<and> represents (tree_lib d1 d2) m t"
      by (simp add: tree_lib_def)
  next
    fix k
    assume "k \<notin> fst ` set kvs"
    then have "map_of kvs k = None" by (simp add: map_of_eq_None_iff)
    then show "\<exists>m. yl_get (tree_lib d1 d2) (Some (T_Map kvs)) k = Some m \<and> \<not> yl_defined (tree_lib d1 d2) m"
      by (simp add: tree_lib_def)
  qed (simp add: tree_lib_def)
qed (simp_all add: represents_simps tree_lib_def)

lemma wf_trees [simp]:
  "wf_tree (document_tree ''zones'' zone_tree zs)"
  "wf_tree (document_tree ''stations'' station_tree ss)"
  by (auto simp: document_tree_def zone_tree_def station_tree_def location_tree_def pose_tree_def point_tree_def
      intro!: wf_tree.intros)

lemma tree_lib_reads_back:
  assumes "wf_tree d1" and "wf_tree d2" and "tree_events d2 \<noteq> tree_events d1"
  shows "reads_back (tree_lib d1 d2) d1" and "reads_back (tree_lib d1 d2) d2"
  using assms tree_lib_represents [OF assms(1), of d1 d2] tree_lib_represents [OF assms(2), of d1 d2]
  by (simp_all add: reads_back_def tree_lib_def)

definition sample_zones :: zone_manager where
  "sample_zones = \<lparr>zm_filename = ''/m/zones.yaml'', zm_zones = [\<lparr>mz_info = \<lparr>zd_id = ''z1'', zd_name = ''Dock'', zd_type = ''UNLOAD'',
     zd_goods_ids = [''g1'', ''g2''], zd_filename = []\<rparr>, mz_frame_id = ''map'', mz_marker_id = 7,
     mz_polygon = [(0, 0), (1, 0), (1, 2)]\<rparr>]\<rparr>"

definition sample_stations :: station_manager where
  "sample_stations = \<lparr>tm_filename = ''/m/stations.yaml'', tm_marker_id = 3, tm_stations = [\<lparr>sta_id = ''s1'', sta_name = ''Dock'',
     sta_zone_id = ''z1'', sta_locations = [\<lparr>ml_id = ''s1_location_1'', ml_type = ''WORK'', ml_marker_id = 1, ml_pose = (1, 1, 0)\<rparr>,
       \<lparr>ml_id = ''s1_location_2'', ml_type = ''IDLE'', ml_marker_id = 2, ml_pose = (2, 3, 1)\<rparr>]\<rparr>]\<rparr>"

definition sample_yaml :: "yaml_tree option yaml_lib" where
  "sample_yaml = tree_lib (document_tree ''zones'' zone_tree (zm_zones sample_zones))
     (document_tree ''stations'' station_tree (tm_stations sample_stations))"

lemma sample_reads_back:
  "reads_back sample_yaml (document_tree ''zones'' zone_tree (zm_zones sample_zones))"
  "reads_back sample_yaml (document_tree ''stations'' station_tree (tm_stations sample_stations))"
proof -
  let ?d1 = "document_tree ''zones'' zone_tree (zm_zones sample_zones)"
  let ?d2 = "document_tree ''stations'' station_tree (tm_stations sample_stations)"
  have "tree_events ?d2 \<noteq> tree_events ?d1" by (simp add: document_tree_def)
  note both = tree_lib_reads_back [OF wf_trees this]
  show "reads_back sample_yaml ?d1" "reads_back sample_yaml ?d2" unfolding sample_yaml_def by (rule both)+
qed

lemma edited_map_is_read_witness:
  "\<exists>fs1 fs2. save_zones sample_yaml True sample_zones Map.empty = (True, fs1) \<and>
     save_stations sample_yaml True sample_stations fs1 = (True, fs2) \<and>
     robot_load sample_yaml fs2 ''/m/zones.yaml'' ''/m/stations.yaml'' =
       (True, map robot_zone (zm_zones sample_zones), map robot_station (tm_stations sample_stations))"
proof -
  obtain fs1 where z: "save_zones sample_yaml True sample_zones Map.empty = (True, fs1)"
    by (simp add: save_zones_def save_document_def sample_zones_def)
  obtain fs2 where s: "save_stations sample_yaml True sample_stations fs1 = (True, fs2)"
    by (simp add: save_stations_def save_document_def sample_stations_def)
  have names: "zm_filename sample_zones = ''/m/zones.yaml''" "tm_filename sample_stations = ''/m/stations.yaml''"
    by (simp_all add: sample_zones_def sample_stations_def)
  from edited_map_is_read [OF z s _ sample_reads_back, of sample_zones sample_stations] z s
  show ?thesis by (auto simp: names)
qed

end
