(* ===== verification/Tool_Editors.thy ===== *)
theory Tool_Editors
  imports Markers Map_File_Rules
begin

text \<open>
  The map editor's nodes, \<open>zone_editor_node.cpp\<close>, \<open>wall_editor_node.cpp\<close> and
  \<open>station_editor_node.cpp\<close>, with \<open>clicked_point_receiver.cpp\<close>. A click arrives on the thread of ROS, a command on
  the terminal thread; each is one step. A step returns the marker arrays it publishes. What the user
  types in answer to the questions of a command is an argument, with the number that a loop over
  \<open>std::cin >> index\<close> reads at last.
\<close>

section \<open>Answers of the user\<close>

definition c_isspace :: "char \<Rightarrow> bool" where
  "c_isspace c \<longleftrightarrow> of_char c \<in> {32 :: nat, 9, 10, 11, 12, 13}"

fun split_at :: "char \<Rightarrow> string \<Rightarrow> string list" where
  "split_at d [] = [[]]"
| "split_at d (c # cs) =
     (if c = d then [] # split_at d cs
      else case split_at d cs of [] \<Rightarrow> [[c]] | s # ss \<Rightarrow> (c # s) # ss)"

text \<open>The part after a last comma, which \<open>getline\<close> does not give when it is empty, is dropped in any case.\<close>

definition splitGoodsIds :: "string \<Rightarrow> string list" where
  "splitGoodsIds line = filter (\<lambda>item. item \<noteq> []) (map (filter (\<lambda>c. \<not> c_isspace c)) (split_at (CHR '','') line))"

definition selectZoneType :: "int \<Rightarrow> string" where
  "selectZoneType index =
     (if index = 1 then ''UNLOAD'' else if index = 2 then ''LOAD'' else if index = 3 then ''STORAGE''
      else if index = 4 then ''IDLE'' else ''UNLOAD'')"

definition selectLocationType :: "int \<Rightarrow> string" where
  "selectLocationType index =
     (if index = 1 then ''WORK'' else if index = 2 then ''WAIT'' else if index = 3 then ''IDLE'' else ''WORK'')"

definition selectZone :: "map_zone list \<Rightarrow> int \<Rightarrow> string" where
  "selectZone zones index =
     (if zones = [] then ''default_zone''
      else if index \<le> 0 \<or> index > int (length zones) then ''default_zone''
      else zd_id (mz_info (zones ! nat (index - 1))))"

record zone_form =
  zf_id :: string
  zf_name :: string
  zf_type_index :: int
  zf_goods_line :: string

definition inputZoneInfo :: "zone_form \<Rightarrow> map_zone" where
  "inputZoneInfo form =
     \<lparr>mz_info = \<lparr>zd_id = zf_id form, zd_name = zf_name form, zd_type = selectZoneType (zf_type_index form),
        zd_goods_ids = splitGoodsIds (zf_goods_line form), zd_filename = []\<rparr>,
      mz_frame_id = ''map'', mz_marker_id = -1, mz_polygon = []\<rparr>"

definition preview_zone :: "(real \<times> real) list \<Rightarrow> map_zone" where
  "preview_zone points =
     \<lparr>mz_info = \<lparr>zd_id = ''preview'', zd_name = ''drawing'', zd_type = [], zd_goods_ids = [], zd_filename = []\<rparr>,
      mz_frame_id = ''map'', mz_marker_id = -1, mz_polygon = points\<rparr>"

section \<open>The zone editor\<close>

record zone_editor =
  ze_zones :: zone_manager
  ze_points :: "(real \<times> real) list"
  ze_receiving :: bool
  ze_collecting :: bool
  ze_running :: bool

definition new_zone_editor :: zone_editor where
  "new_zone_editor = \<lparr>ze_zones = \<lparr>zm_filename = [], zm_zones = []\<rparr>, ze_points = [], ze_receiving = False,
     ze_collecting = False, ze_running = True\<rparr>"

text \<open>Without a directory the node does nothing. A file that cannot be loaded is logged, and the editor goes on.\<close>

definition zone_editor_init ::
  "'n yaml_lib \<Rightarrow> file_system \<Rightarrow> string \<Rightarrow> (marker list list \<times> zone_editor) option" where
  "zone_editor_init lib fs map_dir =
     (if map_dir = [] then None
      else case load_zones lib fs (map_dir @ ''/zones.yaml'') (ze_zones new_zone_editor) of
        (_, m) \<Rightarrow> Some ([publishZones (zm_zones m)], new_zone_editor\<lparr>ze_zones := m\<rparr>))"

definition zone_start :: "zone_editor \<Rightarrow> zone_editor" where
  "zone_start e = (if ze_collecting e then e else e\<lparr>ze_points := [], ze_receiving := True, ze_collecting := True\<rparr>)"

definition zone_click :: "string \<Rightarrow> real \<times> real \<Rightarrow> zone_editor \<Rightarrow> marker list list \<times> zone_editor" where
  "zone_click frame_id point e =
     (if \<not> ze_receiving e \<or> frame_id \<noteq> ''map'' then ([], e)
      else let points = ze_points e @ [point] in
           ([zone_preview (preview_zone points)], e\<lparr>ze_points := points\<rparr>))"

definition zone_finish ::
  "'n yaml_lib \<Rightarrow> bool \<Rightarrow> zone_form \<Rightarrow> zone_editor \<times> file_system \<Rightarrow> marker list list \<times> zone_editor \<times> file_system" where
  "zone_finish lib writable form st =
     (case st of (e, fs) \<Rightarrow>
        if \<not> ze_collecting e then ([], e, fs)
        else
          let e1 = e\<lparr>ze_receiving := False, ze_collecting := False\<rparr> in
          if length (ze_points e) < 3 then ([clear_zone_preview], e1, fs)
          else case addZone ((inputZoneInfo form)\<lparr>mz_polygon := ze_points e\<rparr>) (ze_zones e) of
            None \<Rightarrow> ([], e1, fs)
          | Some (zone, m) \<Rightarrow>
              (case save_zones lib writable m fs of
                 (True, fs') \<Rightarrow> ([clear_zone_preview, publishZone zone], e1\<lparr>ze_zones := m\<rparr>, fs')
               | (False, fs') \<Rightarrow> ([], e1\<lparr>ze_zones := m\<rparr>, fs')))"

text \<open>A line of the terminal; after \<open>q\<close> the loop ends.\<close>

definition zone_terminal ::
  "'n yaml_lib \<Rightarrow> bool \<Rightarrow> zone_form \<Rightarrow> string \<Rightarrow> zone_editor \<times> file_system
   \<Rightarrow> marker list list \<times> zone_editor \<times> file_system" where
  "zone_terminal lib writable form cmd st =
     (case st of (e, fs) \<Rightarrow>
        if \<not> ze_running e then ([], e, fs)
        else if cmd = ''start'' then ([], zone_start e, fs)
        else if cmd = ''finish'' then zone_finish lib writable form (e, fs)
        else if cmd = ''q'' then ([], e\<lparr>ze_running := False\<rparr>, fs)
        else ([], e, fs))"

section \<open>The wall editor\<close>

record wall_editor =
  we_walls :: wall_manager
  we_points :: "(real \<times> real) list"
  we_receiving :: bool
  we_collecting :: bool
  we_running :: bool

definition new_wall_editor :: wall_editor where
  "new_wall_editor = \<lparr>we_walls = \<lparr>wm_filename = [], wm_walls = []\<rparr>, we_points = [], we_receiving = False,
     we_collecting = False, we_running = True\<rparr>"

definition wall_editor_init ::
  "'n yaml_lib \<Rightarrow> file_system \<Rightarrow> string \<Rightarrow> (marker list list \<times> wall_editor) option" where
  "wall_editor_init lib fs map_dir =
     (if map_dir = [] then None
      else case load_walls lib fs (map_dir @ ''/walls.yaml'') (we_walls new_wall_editor) of
        (_, m) \<Rightarrow> Some ([publishWalls (wm_walls m)], new_wall_editor\<lparr>we_walls := m\<rparr>))"

definition wall_start :: "wall_editor \<Rightarrow> wall_editor" where
  "wall_start e = (if we_collecting e then e else e\<lparr>we_points := [], we_receiving := True, we_collecting := True\<rparr>)"

definition wall_click :: "string \<Rightarrow> real \<times> real \<Rightarrow> wall_editor \<Rightarrow> marker list list \<times> wall_editor" where
  "wall_click frame_id point e =
     (if \<not> we_receiving e \<or> frame_id \<noteq> ''map'' then ([], e)
      else let points = we_points e @ [point] in
           ([wall_preview \<lparr>mw_marker_id = -1, mw_id = ''preview'', mw_line = points\<rparr>], e\<lparr>we_points := points\<rparr>))"

definition wall_finish ::
  "'n yaml_lib \<Rightarrow> bool \<Rightarrow> string \<Rightarrow> wall_editor \<times> file_system \<Rightarrow> marker list list \<times> wall_editor \<times> file_system" where
  "wall_finish lib writable wall_id st =
     (case st of (e, fs) \<Rightarrow>
        if \<not> we_collecting e then ([], e, fs)
        else
          let e1 = e\<lparr>we_receiving := False, we_collecting := False\<rparr> in
          if length (we_points e) \<noteq> 2 then ([clear_wall_preview], e1, fs)
          else case addWall \<lparr>mw_marker_id = -1, mw_id = wall_id, mw_line = we_points e\<rparr> (we_walls e) of
            None \<Rightarrow> ([], e1, fs)
          | Some (wall, m) \<Rightarrow>
              (case save_walls lib writable m fs of
                 (True, fs') \<Rightarrow> ([clear_wall_preview, publishWall wall], e1\<lparr>we_walls := m\<rparr>, fs')
               | (False, fs') \<Rightarrow> ([], e1\<lparr>we_walls := m\<rparr>, fs')))"

definition wall_terminal ::
  "'n yaml_lib \<Rightarrow> bool \<Rightarrow> string \<Rightarrow> string \<Rightarrow> wall_editor \<times> file_system
   \<Rightarrow> marker list list \<times> wall_editor \<times> file_system" where
  "wall_terminal lib writable wall_id cmd st =
     (case st of (e, fs) \<Rightarrow>
        if \<not> we_running e then ([], e, fs)
        else if cmd = ''start'' then ([], wall_start e, fs)
        else if cmd = ''finish'' then wall_finish lib writable wall_id (e, fs)
        else if cmd = ''q'' then ([], e\<lparr>we_running := False\<rparr>, fs)
        else ([], e, fs))"

section \<open>The station editor\<close>

record station_editor =
  se_zones :: zone_manager
  se_stations :: station_manager
  se_preview :: map_station
  se_receiving :: bool
  se_running :: bool
  se_collecting :: bool
  se_pending_location :: bool
  se_editing :: bool
  se_pending :: "real \<times> real"

definition new_station_editor :: station_editor where
  "new_station_editor = \<lparr>se_zones = \<lparr>zm_filename = [], zm_zones = []\<rparr>,
     se_stations = \<lparr>tm_filename = [], tm_marker_id = 0, tm_stations = []\<rparr>,
     se_preview = \<lparr>sta_id = [], sta_name = [], sta_zone_id = [], sta_locations = []\<rparr>, se_receiving = False, se_running = True,
     se_collecting = False, se_pending_location = False, se_editing = False, se_pending = (0, 0)\<rparr>"

definition station_editor_init ::
  "'n yaml_lib \<Rightarrow> file_system \<Rightarrow> string \<Rightarrow> (marker list list \<times> station_editor) option" where
  "station_editor_init lib fs map_dir =
     (if map_dir = [] then None
      else
        let zones = snd (load_zones lib fs (map_dir @ ''/zones.yaml'') (se_zones new_station_editor));
            stations = snd (load_stations lib fs (map_dir @ ''/stations.yaml'') (se_stations new_station_editor)) in
        Some (publishZones (zm_zones zones) #
                (case publishStations (tm_stations stations) of None \<Rightarrow> [] | Some ms \<Rightarrow> [ms]),
              new_station_editor\<lparr>se_zones := zones, se_stations := stations\<rparr>))"

record station_form =
  sf_id :: string
  sf_name :: string
  sf_zone_index :: int

definition inputStationInfo :: "map_zone list \<Rightarrow> station_form \<Rightarrow> map_station" where
  "inputStationInfo zones form = \<lparr>sta_id = sf_id form, sta_name = sf_name form,
     sta_zone_id = selectZone zones (sf_zone_index form), sta_locations = []\<rparr>"

definition createStation :: "station_form \<Rightarrow> station_editor \<Rightarrow> station_editor" where
  "createStation form e = e\<lparr>se_preview := inputStationInfo (zm_zones (se_zones e)) form,
     se_pending_location := False, se_collecting := False, se_editing := True\<rparr>"

definition startLocationCollect :: "station_editor \<Rightarrow> station_editor" where
  "startLocationCollect e =
     (if \<not> se_editing e then e else if se_collecting e then e
      else e\<lparr>se_receiving := True, se_collecting := True\<rparr>)"

definition stopLocationCollect :: "station_editor \<Rightarrow> station_editor" where
  "stopLocationCollect e =
     (if \<not> se_collecting e then e
      else e\<lparr>se_receiving := False, se_collecting := False, se_pending_location := False\<rparr>)"

definition saveStation ::
  "'n yaml_lib \<Rightarrow> bool \<Rightarrow> station_editor \<times> file_system \<Rightarrow> marker list list \<times> station_editor \<times> file_system" where
  "saveStation lib writable st =
     (case st of (e, fs) \<Rightarrow>
        if \<not> se_editing e then ([], e, fs)
        else
          let e1 = stopLocationCollect e; locations = sta_locations (se_preview e1) in
          if locations = [] then ([], e1, fs)
          else case addStation (se_preview e1) (se_stations e1) of
            None \<Rightarrow> ([clear_station_preview (length locations)], e1\<lparr>se_editing := False\<rparr>, fs)
          | Some (station, m) \<Rightarrow>
              (case save_stations lib writable m fs of (saved, fs') \<Rightarrow>
                 (clear_station_preview (length locations) # (if saved then [publishStation station] else []),
                  e1\<lparr>se_stations := m, se_preview := station, se_editing := False\<rparr>, fs')))"

definition station_click :: "string \<Rightarrow> real \<times> real \<Rightarrow> station_editor \<Rightarrow> station_editor" where
  "station_click frame_id point e =
     (if \<not> se_receiving e \<or> frame_id \<noteq> ''map'' then e
      else e\<lparr>se_receiving := False, se_pending := point, se_pending_location := True\<rparr>)"

text \<open>The yaw is \<open>None\<close> for a line that \<open>std::stod\<close> rejects.\<close>

definition pending_location :: "int \<Rightarrow> real option \<Rightarrow> station_editor \<Rightarrow> map_location" where
  "pending_location type_index yaw e =
     \<lparr>ml_id = sta_id (se_preview e) @ ''_location_'' @ to_string (int (length (sta_locations (se_preview e))) + 1),
      ml_type = selectLocationType type_index, ml_marker_id = 0,
      ml_pose = (fst (se_pending e), snd (se_pending e), case yaw of None \<Rightarrow> 0 | Some r \<Rightarrow> r)\<rparr>"

definition processPendingLocation ::
  "int \<Rightarrow> real option \<Rightarrow> station_editor \<Rightarrow> marker list list \<times> station_editor" where
  "processPendingLocation type_index yaw e =
     (if \<not> se_pending_location e then ([], e)
      else
        let station = (se_preview e)\<lparr>sta_locations := sta_locations (se_preview e) @ [pending_location type_index yaw e]\<rparr> in
        ([station_preview station],
         e\<lparr>se_preview := station, se_pending_location := False,
           se_receiving := (if se_collecting e then True else se_receiving e)\<rparr>))"

record station_answers =
  sa_type_index :: int
  sa_yaw :: "real option"
  sa_form :: station_form
  sa_writable :: bool

text \<open>
  One turn of \<open>terminalLoop\<close>: a pending location first, then the line that is there, if any.
\<close>

definition station_terminal ::
  "'n yaml_lib \<Rightarrow> station_answers \<Rightarrow> string option \<Rightarrow> station_editor \<times> file_system
   \<Rightarrow> marker list list \<times> station_editor \<times> file_system" where
  "station_terminal lib ans line st =
     (case st of (e0, fs) \<Rightarrow>
        if \<not> se_running e0 then ([], e0, fs)
        else
          let (outs, e) = processPendingLocation (sa_type_index ans) (sa_yaw ans) e0 in
          case line of
            None \<Rightarrow> (outs, e, fs)
          | Some cmd \<Rightarrow>
              if cmd = ''new'' then (outs, createStation (sa_form ans) e, fs)
              else if cmd = ''collect'' \<or> cmd = ''start'' then (outs, startLocationCollect e, fs)
              else if cmd = ''finish'' then (outs, stopLocationCollect e, fs)
              else if cmd = ''save'' then
                (case saveStation lib (sa_writable ans) (e, fs) of (outs', e', fs') \<Rightarrow> (outs @ outs', e', fs'))
              else if cmd = ''q'' then (outs, e\<lparr>se_running := False\<rparr>, fs)
              else (outs, e, fs))"

end
