(* ===== verification/Editor_Rules.thy ===== *)
theory Editor_Rules
  imports Tool_Editors
begin

text \<open>What the editors keep: ids, marker ids, points, and what is in the files.\<close>

section \<open>Lists with unique ids\<close>

text \<open>
  The contract of the three managers: adding refuses an id that is there and appends otherwise. The clients are the editors.
\<close>

locale keyed_store =
  fixes items :: "'m \<Rightarrow> 'a list"
    and key :: "'a \<Rightarrow> string"
    and add_item :: "'a \<Rightarrow> 'm \<Rightarrow> ('a \<times> 'm) option"
  assumes add_refused: "add_item x m = None \<longleftrightarrow> (\<exists>y\<in>set (items m). key y = key x)"
    and add_done: "add_item x m = Some (y, m') \<Longrightarrow> items m' = items m @ [y] \<and> key y = key x"
begin

definition unique_ids :: "'m \<Rightarrow> bool" where
  "unique_ids m \<longleftrightarrow> distinct (map key (items m))"

lemma add_unique: "add_item x m = Some (y, m') \<Longrightarrow> unique_ids m \<Longrightarrow> unique_ids m'"
  using add_done [of x m y m'] add_refused [of x m] by (auto simp: unique_ids_def)

end

interpretation zone_store: keyed_store zm_zones "zd_id \<circ> mz_info" addZone
  by unfold_locales (auto simp: addZone_def Let_def split: if_splits)

interpretation station_store: keyed_store tm_stations sta_id addStation
  by unfold_locales (auto simp: addStation_def Let_def split: if_splits)

interpretation wall_store: keyed_store wm_walls mw_id addWall
  by unfold_locales (auto simp: addWall_def Let_def split: if_splits)

section \<open>The zone editor\<close>

text \<open>What happens to an editor: clicks, and lines of the terminal.\<close>

datatype zone_event =
    Zone_Click string "real \<times> real"
  | Zone_Line string zone_form bool

fun zone_step :: "'n yaml_lib \<Rightarrow> zone_event \<Rightarrow> zone_editor \<times> file_system \<Rightarrow> zone_editor \<times> file_system" where
  "zone_step lib (Zone_Click frame_id point) (e, fs) = (snd (zone_click frame_id point e), fs)"
| "zone_step lib (Zone_Line cmd form writable) st = snd (zone_terminal lib writable form cmd st)"

definition zones_text :: "'n yaml_lib \<Rightarrow> map_zone list \<Rightarrow> string" where
  "zones_text lib zs = yl_emit lib (tree_events (document_tree ''zones'' zone_tree zs))"

text \<open>A zone that the editor adds.\<close>

definition drawn_zone :: "map_zone \<Rightarrow> bool" where
  "drawn_zone z \<longleftrightarrow> 3 \<le> length (mz_polygon z) \<and> zd_type (mz_info z) \<in> {''UNLOAD'', ''LOAD'', ''STORAGE'', ''IDLE''} \<and>
     (\<forall>g\<in>set (zd_goods_ids (mz_info z)). g \<noteq> [] \<and> (\<forall>c\<in>set g. c \<noteq> CHR '','' \<and> \<not> c_isspace c))"

definition markers_counted :: "map_zone list \<Rightarrow> bool" where
  "markers_counted zs \<longleftrightarrow> map mz_marker_id zs = map int [1..<length zs + 1]"

lemma markers_counted_append:
  "markers_counted zs \<Longrightarrow> mz_marker_id z = int (length zs) + 1 \<Longrightarrow> markers_counted (zs @ [z])"
  by (simp add: markers_counted_def)

text \<open>
  From the zones \<open>loaded\<close> and the file system \<open>fs0\<close> of the start: the zones are extended only, by drawn zones, with
  unique ids and consecutive marker ids; the file is that of the start, or holds the loaded zones and
  some of the new ones; no other file is touched.
\<close>

definition zone_editor_ok ::
  "'n yaml_lib \<Rightarrow> string \<Rightarrow> map_zone list \<Rightarrow> file_system \<Rightarrow> zone_editor \<times> file_system \<Rightarrow> bool" where
  "zone_editor_ok lib path loaded fs0 st \<longleftrightarrow>
     (case st of (e, fs) \<Rightarrow>
        zm_filename (ze_zones e) = path \<and> ze_receiving e = ze_collecting e \<and>
        markers_counted (zm_zones (ze_zones e)) \<and>
        zone_store.unique_ids (ze_zones e) \<and>
        (\<exists>new. zm_zones (ze_zones e) = loaded @ new \<and> (\<forall>z\<in>set new. drawn_zone z) \<and>
           (fs = fs0 \<or> (\<exists>k. fs = fs0(path \<mapsto> zones_text lib (loaded @ take k new))))))"

text \<open>The file after a save, in terms of the file at the start.\<close>

lemma file_extended:
  assumes "fs = fs0 \<or> (\<exists>k. fs = fs0(path \<mapsto> text (loaded @ take k new)))"
    and "fs' = fs \<or> fs' = fs(path \<mapsto> text (loaded @ take (length (new @ [x])) (new @ [x])))"
  shows "fs' = fs0 \<or> (\<exists>k. fs' = fs0(path \<mapsto> text (loaded @ take k (new @ [x]))))"
proof (cases "fs' = fs \<and> fs \<noteq> fs0")
  case True
  then obtain k where "fs = fs0(path \<mapsto> text (loaded @ take k new))" using assms(1) by blast
  moreover have "take k new = take (min k (length new)) (new @ [x])" by (simp add: min_def)
  ultimately show ?thesis using True by metis
next
  case False
  then show ?thesis using assms by (metis fun_upd_upd)
qed

lemma split_at_parts: "s \<in> set (split_at d line) \<Longrightarrow> c \<in> set s \<Longrightarrow> c \<noteq> d"
  by (induction line arbitrary: s) (fastforce split: if_splits list.splits)+

lemma splitGoodsIds_parts:
  "g \<in> set (splitGoodsIds line) \<Longrightarrow> g \<noteq> [] \<and> (\<forall>c\<in>set g. c \<noteq> CHR '','' \<and> \<not> c_isspace c)"
  by (auto simp: splitGoodsIds_def dest: split_at_parts)

lemma input_drawn: "3 \<le> length points \<Longrightarrow> drawn_zone ((inputZoneInfo form)\<lparr>mz_polygon := points, mz_marker_id := i\<rparr>)"
  using splitGoodsIds_parts by (auto simp: drawn_zone_def inputZoneInfo_def selectZoneType_def)

lemma zone_finish_ok:
  assumes ok: "zone_editor_ok lib path loaded fs0 (e, fs)"
  shows "zone_editor_ok lib path loaded fs0 (snd (zone_finish lib writable form (e, fs)))"
proof -
  let ?zone = "(inputZoneInfo form)\<lparr>mz_polygon := ze_points e\<rparr>"
  from ok obtain new where new: "zm_zones (ze_zones e) = loaded @ new" "\<forall>z\<in>set new. drawn_zone z"
      "fs = fs0 \<or> (\<exists>k. fs = fs0(path \<mapsto> zones_text lib (loaded @ take k new)))"
    by (auto simp: zone_editor_ok_def)
  show ?thesis
  proof (cases "ze_collecting e \<and> \<not> length (ze_points e) < 3")
    case False
    then show ?thesis using ok by (auto simp: zone_finish_def zone_editor_ok_def Let_def)
  next
    case True
    show ?thesis
    proof (cases "addZone ?zone (ze_zones e)")
      case None
      then show ?thesis using True ok by (auto simp: zone_finish_def zone_editor_ok_def Let_def)
    next
      case (Some zm)
      obtain z m where zm: "zm = (z, m)" by (cases zm)
      note added = Some [unfolded zm]
      have z: "z = ?zone\<lparr>mz_marker_id := int (length (zm_zones (ze_zones e))) + 1\<rparr>"
        and m: "m = (ze_zones e)\<lparr>zm_zones := zm_zones (ze_zones e) @ [z]\<rparr>"
        using added by (auto simp: addZone_def Let_def split: if_splits)
      have drawn: "drawn_zone z" unfolding z using True by (simp add: input_drawn)
      have m_zones: "zm_zones m = loaded @ (new @ [z])" "zm_filename m = path"
        using m new(1) ok by (simp_all add: zone_editor_ok_def)
      have unique: "zone_store.unique_ids m" using zone_store.add_unique [OF added] ok by (simp add: zone_editor_ok_def)
      have ids: "markers_counted (zm_zones m)"
        using ok by (auto simp: zone_editor_ok_def m z intro!: markers_counted_append)
      obtain saved fs' where saved: "save_zones lib writable m fs = (saved, fs')" by (cases "save_zones lib writable m fs")
      have doc: "document_events ''zones'' zone_events zs = tree_events (document_tree ''zones'' zone_tree zs)" for zs
        by (rule document_is_tree) (rule item_events(1))
      have written: "fs' = fs \<or> fs' = fs(path \<mapsto> zones_text lib (loaded @ take (length (new @ [z])) (new @ [z])))"
        using saved doc by (auto simp: save_zones_def save_document_def zones_text_def m_zones split: if_splits)
      have "fs' = fs0 \<or> (\<exists>k. fs' = fs0(path \<mapsto> zones_text lib (loaded @ take k (new @ [z]))))"
        by (rule file_extended [OF new(3) written])
      moreover have "zone_finish lib writable form (e, fs) =
          ((if saved then [clear_zone_preview, publishZone z] else []),
           e\<lparr>ze_receiving := False, ze_collecting := False, ze_zones := m\<rparr>, fs')"
        using True added saved by (simp add: zone_finish_def Let_def split: bool.split)
      ultimately show ?thesis
        using m_zones unique ids drawn new(2) by (auto simp: zone_editor_ok_def)
    qed
  qed
qed

lemma zone_step_ok:
  "zone_editor_ok lib path loaded fs0 st \<Longrightarrow> zone_editor_ok lib path loaded fs0 (zone_step lib ev st)"
proof (cases ev; cases st)
  fix frame_id point and e :: zone_editor and fs
  assume "zone_editor_ok lib path loaded fs0 st" "ev = Zone_Click frame_id point" "st = (e, fs)"
  then show ?thesis by (simp add: zone_click_def zone_editor_ok_def Let_def)
next
  fix cmd form writable and e :: zone_editor and fs
  assume "zone_editor_ok lib path loaded fs0 st" "ev = Zone_Line cmd form writable" "st = (e, fs)"
  then show ?thesis
    using zone_finish_ok [of lib path loaded fs0 e fs writable form]
    by (auto simp: zone_terminal_def zone_start_def zone_editor_ok_def)
qed

definition zone_editor_start :: "string \<Rightarrow> map_zone list \<Rightarrow> zone_editor" where
  "zone_editor_start path loaded = new_zone_editor\<lparr>ze_zones := \<lparr>zm_filename = path, zm_zones = loaded\<rparr>\<rparr>"

lemma zone_start_ok:
  "markers_counted loaded \<Longrightarrow> distinct (map (zd_id \<circ> mz_info) loaded) \<Longrightarrow>
    zone_editor_ok lib path loaded fs0 (zone_editor_start path loaded, fs0)"
  by (simp add: zone_editor_ok_def zone_editor_start_def new_zone_editor_def zone_store.unique_ids_def)

interpretation zone_editors: stepping
  "\<lambda>st. markers_counted loaded \<and> distinct (map (zd_id \<circ> mz_info) loaded) \<and> st = (zone_editor_start path loaded, fs0)"
  "\<lambda>s t. \<exists>ev. t = zone_step lib ev s" "zone_editor_ok lib path loaded fs0" for lib path loaded fs0
  by unfold_locales (blast intro: zone_step_ok zone_start_ok)+

lemma read_enumerated:
  "read_until_error (\<lambda>(i, node). read_map_zone lib (int i) node) (enumerate k nodes) = (ok, zs) \<Longrightarrow>
    map mz_marker_id zs = map int [k..<k + length zs]"
proof (induction nodes arbitrary: k ok zs)
  case Nil
  then show ?case by simp
next
  case (Cons node nodes)
  show ?case
  proof (cases "read_map_zone lib (int k) node")
    case None
    then show ?thesis using Cons.prems by simp
  next
    case (Some z)
    obtain ok' zs' where rest: "read_until_error (\<lambda>(i, node). read_map_zone lib (int i) node) (enumerate (Suc k) nodes) = (ok', zs')"
      by fastforce
    have "mz_marker_id z = int k" using Some by (auto simp: read_map_zone_def bind_eq_Some_conv)
    moreover have "zs = z # zs'" using Cons.prems Some rest by simp
    moreover have "[k..<k + length (z # zs')] = k # [Suc k..<Suc k + length zs']" by (simp add: upt_rec [of k] Suc_le_eq)
    ultimately show ?thesis using Cons.IH [OF rest] by (simp del: upt_Suc)
  qed
qed

lemma load_zones_counted:
  assumes "load_zones lib fs path m = (ok, m')" and "zm_zones m = []"
  shows "zm_filename m' = path \<and> markers_counted (zm_zones m')"
  using assms read_enumerated [of lib 1]
  by (auto simp: load_zones_def markers_counted_def Let_def simp del: upt_Suc split: if_splits option.splits prod.splits)

lemma zone_editor_init_start:
  assumes "zone_editor_init lib fs dir = Some (outs, e0)"
  shows "e0 = zone_editor_start (dir @ ''/zones.yaml'') (zm_zones (ze_zones e0)) \<and> markers_counted (zm_zones (ze_zones e0))"
proof -
  obtain ok m where m: "load_zones lib fs (dir @ ''/zones.yaml'') (ze_zones new_zone_editor) = (ok, m)" by fastforce
  from load_zones_counted [OF m] have "zm_filename m = dir @ ''/zones.yaml''" "markers_counted (zm_zones m)"
    by (simp_all add: new_zone_editor_def)
  then show ?thesis using assms m by (auto simp: zone_editor_init_def zone_editor_start_def split: if_splits)
qed

lemma fold_steps: "(\<lambda>s t. \<exists>ev. t = step ev s)\<^sup>*\<^sup>* s (fold step evs s)"
  by (induction evs arbitrary: s) (auto intro: converse_rtranclp_into_rtranclp)

text \<open>
  The zone editor only adds. Start the editor on a directory whose zones have distinct ids, and let any clicks and
  lines of the terminal follow. Then the zones are those that were loaded, unchanged and in order, followed by zones drawn in the
  session, each with at least three corners, a known type and clean goods ids; all ids are distinct, and the markers are
  counted through. The zone file is the one of the start or holds the loaded zones and a first part of
  the drawn ones, and no other file is touched, whichever of the writes fail.
\<close>

theorem zone_editor_only_adds:
  assumes "zone_editor_init lib fs0 dir = Some (outs, e0)" and "loaded = zm_zones (ze_zones e0)"
    and "distinct (map (zd_id \<circ> mz_info) loaded)" and "fold (zone_step lib) evs (e0, fs0) = (e, fs)"
  shows "\<exists>new. zm_zones (ze_zones e) = loaded @ new \<and> (\<forall>z\<in>set new. drawn_zone z) \<and>
    distinct (map (zd_id \<circ> mz_info) (loaded @ new)) \<and> markers_counted (loaded @ new) \<and>
    (fs = fs0 \<or> (\<exists>k. fs = fs0(dir @ ''/zones.yaml'' \<mapsto> zones_text lib (loaded @ take k new))))"
proof -
  have steps: "(\<lambda>s t. \<exists>ev. t = zone_step lib ev s)\<^sup>*\<^sup>* (e0, fs0) (e, fs)"
    using fold_steps [of "zone_step lib" "(e0, fs0)" evs] assms(4) by simp
  have "zone_editor_ok lib (dir @ ''/zones.yaml'') loaded fs0 (e, fs)"
    by (rule zone_editors.reached [OF _ steps])
      (use zone_editor_init_start [OF assms(1)] assms(2,3) in simp)
  then show ?thesis by (auto simp: zone_editor_ok_def zone_store.unique_ids_def)
qed

definition sample_zone_form :: zone_form where
  "sample_zone_form = \<lparr>zf_id = ''z1'', zf_name = ''Dock'', zf_type_index = 1, zf_goods_line = '' g1, g2''\<rparr>"

definition sample_clicks :: "zone_event list" where
  "sample_clicks = [Zone_Line ''start'' sample_zone_form True, Zone_Click ''map'' (0, 0), Zone_Click ''map'' (1, 0),
     Zone_Click ''odom'' (5, 5), Zone_Click ''map'' (1, 2), Zone_Line ''finish'' sample_zone_form True]"

lemma zone_editor_only_adds_witness:
  "\<exists>outs e0 e fs. zone_editor_init sample_yaml Map.empty ''/m'' = Some (outs, e0) \<and>
     fold (zone_step sample_yaml) sample_clicks (e0, Map.empty) = (e, fs) \<and>
     map (zd_goods_ids \<circ> mz_info) (zm_zones (ze_zones e)) = [[''g1'', ''g2'']] \<and>
     (\<forall>z\<in>set (zm_zones (ze_zones e)). drawn_zone z)"
proof -
  let ?e0 = "zone_editor_start ''/m/zones.yaml'' []"
  have init: "zone_editor_init sample_yaml Map.empty ''/m'' = Some ([publishZones []], ?e0)"
    by (simp add: zone_editor_init_def load_zones_def zone_editor_start_def new_zone_editor_def)
  obtain e fs where run: "fold (zone_step sample_yaml) sample_clicks (?e0, Map.empty) = (e, fs)" by fastforce
  have "map (zd_goods_ids \<circ> mz_info) (zm_zones (ze_zones e)) = [[''g1'', ''g2'']]"
    using run
    by (auto simp: sample_clicks_def zone_terminal_def zone_start_def zone_click_def zone_finish_def zone_editor_start_def
        new_zone_editor_def addZone_def inputZoneInfo_def save_zones_def save_document_def sample_zone_form_def
        splitGoodsIds_def c_isspace_def Let_def)
  then show ?thesis
    using zone_editor_only_adds [OF init refl _ run] init run by (auto simp: zone_editor_start_def)
qed

text \<open>
  A zone file that cannot be read to its end is not protected: the editor starts with the zones before the
  damage, and the next zone that is saved replaces the file by these zones and the new one.
\<close>

lemma damaged_file_is_overwritten:
  assumes "fs path = Some text" and "load_zones lib fs path m = (False, m')" and "path \<noteq> []"
    and "addZone zone m' = Some (z, m'')" and "save_zones lib True m'' fs = (True, fs')"
  shows "fs' = fs(path \<mapsto> zones_text lib (zm_zones m' @ [z]))"
proof -
  have "zm_filename m' = path" using assms(2)
    by (auto simp: load_zones_def Let_def split: if_splits option.splits prod.splits)
  moreover have "m'' = m'\<lparr>zm_zones := zm_zones m' @ [z]\<rparr>" using assms(4) by (auto simp: addZone_def Let_def split: if_splits)
  moreover have "document_events ''zones'' zone_events zs = tree_events (document_tree ''zones'' zone_tree zs)" for zs
    by (rule document_is_tree) (rule item_events(1))
  ultimately show ?thesis
    using saved_document [OF assms(5) [unfolded save_zones_def]] by (simp add: zones_text_def)
qed

section \<open>The station editor\<close>

datatype station_event =
    Station_Click string "real \<times> real"
  | Station_Turn station_answers "string option"

fun station_step :: "'n yaml_lib \<Rightarrow> station_event \<Rightarrow> station_editor \<times> file_system \<Rightarrow> station_editor \<times> file_system" where
  "station_step lib (Station_Click frame_id point) (e, fs) = (station_click frame_id point e, fs)"
| "station_step lib (Station_Turn ans line) st = snd (station_terminal lib ans line st)"

text \<open>The locations of a station are numbered from 1, with the id of the station before the number.\<close>

definition numbered_locations :: "map_station \<Rightarrow> bool" where
  "numbered_locations s \<longleftrightarrow>
     map ml_id (sta_locations s) =
       map (\<lambda>i. sta_id s @ ''_location_'' @ to_string (int i)) [1..<length (sta_locations s) + 1] \<and>
     (\<forall>l\<in>set (sta_locations s). ml_type l \<in> {''WORK'', ''WAIT'', ''IDLE''})"

definition stations_text :: "'n yaml_lib \<Rightarrow> map_station list \<Rightarrow> string" where
  "stations_text lib ss = yl_emit lib (tree_events (document_tree ''stations'' station_tree ss))"

definition station_editor_ok ::
  "'n yaml_lib \<Rightarrow> string \<Rightarrow> map_station list \<Rightarrow> file_system \<Rightarrow> station_editor \<times> file_system \<Rightarrow> bool" where
  "station_editor_ok lib path loaded fs0 st \<longleftrightarrow>
     (case st of (e, fs) \<Rightarrow>
        tm_filename (se_stations e) = path \<and> numbered_locations (se_preview e) \<and>
        station_store.unique_ids (se_stations e) \<and>
        (\<exists>new. tm_stations (se_stations e) = loaded @ new \<and>
           (\<forall>s\<in>set new. sta_locations s \<noteq> [] \<and> numbered_locations s) \<and>
           (fs = fs0 \<or> (\<exists>k. fs = fs0(path \<mapsto> stations_text lib (loaded @ take k new))))))"

lemma number_locations_same [simp]:
  "length (number_locations c ls) = length ls"
  "map ml_id (number_locations c ls) = map ml_id ls"
  "(\<forall>l\<in>set (number_locations c ls). ml_type l \<in> T) \<longleftrightarrow> (\<forall>l\<in>set ls. ml_type l \<in> T)"
  by (induction ls arbitrary: c) simp_all

lemma number_locations_Nil [simp]: "number_locations c ls = [] \<longleftrightarrow> ls = []"
  by (cases ls) simp_all

lemma numbered_locations_renumber:
  assumes "numbered_locations s"
  shows "numbered_locations (s\<lparr>sta_locations := number_locations c (sta_locations s)\<rparr>)"
  using assms unfolding numbered_locations_def by (simp del: upt_Suc insert_iff)

lemma pending_numbered:
  assumes "numbered_locations (se_preview e)"
  shows "numbered_locations ((se_preview e)\<lparr>sta_locations := sta_locations (se_preview e) @ [pending_location t yaw e]\<rparr>)"
  using assms by (auto simp: numbered_locations_def pending_location_def selectLocationType_def add.commute)

lemma saveStation_ok:
  assumes ok: "station_editor_ok lib path loaded fs0 (e, fs)"
  shows "station_editor_ok lib path loaded fs0 (snd (saveStation lib writable (e, fs)))"
proof -
  let ?e1 = "stopLocationCollect e"
  have same: "se_stations ?e1 = se_stations e" "se_preview ?e1 = se_preview e"
    by (simp_all add: stopLocationCollect_def)
  from ok obtain new where new: "tm_stations (se_stations e) = loaded @ new"
      "\<forall>s\<in>set new. sta_locations s \<noteq> [] \<and> numbered_locations s"
      "fs = fs0 \<or> (\<exists>k. fs = fs0(path \<mapsto> stations_text lib (loaded @ take k new)))"
    by (auto simp: station_editor_ok_def)
  show ?thesis
  proof (cases "se_editing e \<and> sta_locations (se_preview e) \<noteq> []")
    case False
    then have "snd (saveStation lib writable (e, fs)) = (if se_editing e then ?e1 else e, fs)"
      by (auto simp: saveStation_def same Let_def)
    then show ?thesis using ok by (simp add: station_editor_ok_def same)
  next
    case True
    show ?thesis
    proof (cases "addStation (se_preview e) (se_stations e)")
      case None
      then have "snd (saveStation lib writable (e, fs)) = (?e1\<lparr>se_editing := False\<rparr>, fs)"
        using True by (simp add: saveStation_def same Let_def)
      then show ?thesis using ok by (simp add: station_editor_ok_def same)
    next
      case (Some sm)
      obtain s m where sm: "sm = (s, m)" by (cases sm)
      note added = Some [unfolded sm]
      have s: "s = (se_preview e)\<lparr>sta_locations := number_locations (tm_marker_id (se_stations e)) (sta_locations (se_preview e))\<rparr>"
        and m: "m = (se_stations e)\<lparr>tm_stations := tm_stations (se_stations e) @ [s],
             tm_marker_id := tm_marker_id (se_stations e) + int (length (sta_locations (se_preview e)))\<rparr>"
        using added by (auto simp: addStation_def Let_def split: if_splits)
      have good: "sta_locations s \<noteq> []" "numbered_locations s"
        using True ok unfolding s
        by (simp, intro numbered_locations_renumber, simp add: station_editor_ok_def)
      have m_stations: "tm_stations m = loaded @ (new @ [s])" "tm_filename m = path"
        using m new(1) ok by (simp_all add: station_editor_ok_def)
      have unique: "station_store.unique_ids m" using station_store.add_unique [OF added] ok by (simp add: station_editor_ok_def)
      obtain saved fs' where saved: "save_stations lib writable m fs = (saved, fs')" by (cases "save_stations lib writable m fs")
      have doc: "document_events ''stations'' station_events ss = tree_events (document_tree ''stations'' station_tree ss)" for ss
        by (rule document_is_tree) (rule item_events(2))
      have written: "fs' = fs \<or> fs' = fs(path \<mapsto> stations_text lib (loaded @ take (length (new @ [s])) (new @ [s])))"
        using saved doc by (auto simp: save_stations_def save_document_def stations_text_def m_stations split: if_splits)
      have "fs' = fs0 \<or> (\<exists>k. fs' = fs0(path \<mapsto> stations_text lib (loaded @ take k (new @ [s]))))"
        by (rule file_extended [OF new(3) written])
      moreover have "snd (saveStation lib writable (e, fs)) = (?e1\<lparr>se_stations := m, se_preview := s, se_editing := False\<rparr>, fs')"
        using True added saved by (simp add: saveStation_def same Let_def)
      ultimately show ?thesis
        using m_stations unique good new(2) by (auto simp: station_editor_ok_def)
    qed
  qed
qed

lemma station_editor_ok_cong:
  "station_editor_ok lib path loaded fs0 (e, fs) \<Longrightarrow> se_stations e' = se_stations e \<Longrightarrow>
    numbered_locations (se_preview e') \<Longrightarrow> station_editor_ok lib path loaded fs0 (e', fs)"
  by (simp add: station_editor_ok_def)

lemma processPending_ok:
  assumes "station_editor_ok lib path loaded fs0 (e, fs)"
  shows "station_editor_ok lib path loaded fs0 (snd (processPendingLocation t yaw e), fs)"
proof (rule station_editor_ok_cong [OF assms])
  have "numbered_locations (se_preview e)" using assms by (simp add: station_editor_ok_def)
  then show "numbered_locations (se_preview (snd (processPendingLocation t yaw e)))"
    using pending_numbered by (simp add: processPendingLocation_def Let_def)
qed (simp add: processPendingLocation_def Let_def)

lemma station_terminal_ok:
  assumes "station_editor_ok lib path loaded fs0 (e0, fs)"
  shows "station_editor_ok lib path loaded fs0 (snd (station_terminal lib ans line (e0, fs)))"
proof -
  obtain outs e where pending: "processPendingLocation (sa_type_index ans) (sa_yaw ans) e0 = (outs, e)" by fastforce
  have ok: "station_editor_ok lib path loaded fs0 (e, fs)"
    using processPending_ok [OF assms, of "sa_type_index ans" "sa_yaw ans"] by (simp add: pending)
  then have preview: "numbered_locations (se_preview e)" by (simp add: station_editor_ok_def)
  obtain outs' e' fs' where saved: "saveStation lib (sa_writable ans) (e, fs) = (outs', e', fs')" by (metis prod_cases3)
  have "station_editor_ok lib path loaded fs0 (e', fs')" using saveStation_ok [OF ok, of "sa_writable ans"] by (simp add: saved)
  moreover have "station_editor_ok lib path loaded fs0 (createStation form e, fs)" for form
    by (rule station_editor_ok_cong [OF ok]) (simp_all add: createStation_def inputStationInfo_def numbered_locations_def)
  moreover have "station_editor_ok lib path loaded fs0 (startLocationCollect e, fs)"
    "station_editor_ok lib path loaded fs0 (stopLocationCollect e, fs)"
    "station_editor_ok lib path loaded fs0 (e\<lparr>se_running := False\<rparr>, fs)"
    using preview
    by (auto intro!: station_editor_ok_cong [OF ok] simp: startLocationCollect_def stopLocationCollect_def)
  ultimately show ?thesis
    using assms ok by (simp add: station_terminal_def pending saved split: option.split)
qed

lemma station_step_ok:
  "station_editor_ok lib path loaded fs0 st \<Longrightarrow> station_editor_ok lib path loaded fs0 (station_step lib ev st)"
proof (cases ev; cases st)
  fix frame_id point and e :: station_editor and fs
  assume "station_editor_ok lib path loaded fs0 st" "ev = Station_Click frame_id point" "st = (e, fs)"
  then show ?thesis by (simp add: station_click_def station_editor_ok_def)
next
  fix ans line and e :: station_editor and fs
  assume "station_editor_ok lib path loaded fs0 st" "ev = Station_Turn ans line" "st = (e, fs)"
  then show ?thesis using station_terminal_ok by simp
qed

definition station_editor_start :: "string \<Rightarrow> station_manager \<Rightarrow> zone_manager \<Rightarrow> station_editor" where
  "station_editor_start path stations zones =
     new_station_editor\<lparr>se_zones := zones, se_stations := stations\<lparr>tm_filename := path\<rparr>\<rparr>"

lemma station_start_ok:
  "distinct (map sta_id (tm_stations stations)) \<Longrightarrow>
    station_editor_ok lib path (tm_stations stations) fs0 (station_editor_start path stations zones, fs0)"
  by (simp add: station_editor_ok_def station_editor_start_def new_station_editor_def station_store.unique_ids_def
      numbered_locations_def)

interpretation station_editors: stepping
  "\<lambda>st. distinct (map sta_id (tm_stations stations)) \<and> st = (station_editor_start path stations zones, fs0)"
  "\<lambda>s t. \<exists>ev. t = station_step lib ev s" "station_editor_ok lib path (tm_stations stations) fs0"
  for lib path stations zones fs0
  by unfold_locales (blast intro: station_step_ok station_start_ok)+

lemma station_editor_init_start:
  assumes "station_editor_init lib fs dir = Some (outs, e0)"
  shows "e0 = station_editor_start (dir @ ''/stations.yaml'') (se_stations e0) (se_zones e0)"
proof -
  have "tm_filename (snd (load_stations lib fs path m)) = path" for path m
    by (auto simp: load_stations_def Let_def split: option.splits prod.splits)
  then show ?thesis
    using assms by (auto simp: station_editor_init_def station_editor_start_def Let_def split: if_splits)
qed

text \<open>
  The station editor only adds, and numbers. Start the editor on a directory whose stations have distinct ids, and let any
  clicks and turns of the terminal follow. Then the stations are those that were loaded, unchanged and in order,
  followed by stations with at least one location, whose locations are called after the station and numbered from 1 and have
  one of the three types; the ids of the stations are distinct. The station file is the one of the start or
  holds the loaded stations and a first part of the new ones, and no other file is touched.
\<close>

theorem station_editor_only_adds:
  assumes "station_editor_init lib fs0 dir = Some (outs, e0)" and "loaded = tm_stations (se_stations e0)"
    and "distinct (map sta_id loaded)" and "fold (station_step lib) evs (e0, fs0) = (e, fs)"
  shows "\<exists>new. tm_stations (se_stations e) = loaded @ new \<and> distinct (map sta_id (loaded @ new)) \<and>
    (\<forall>s\<in>set new. sta_locations s \<noteq> [] \<and> numbered_locations s) \<and>
    (fs = fs0 \<or> (\<exists>k. fs = fs0(dir @ ''/stations.yaml'' \<mapsto> stations_text lib (loaded @ take k new))))"
proof -
  have steps: "(\<lambda>s t. \<exists>ev. t = station_step lib ev s)\<^sup>*\<^sup>* (e0, fs0) (e, fs)"
    using fold_steps [of "station_step lib" "(e0, fs0)" evs] assms(4) by simp
  have "station_editor_ok lib (dir @ ''/stations.yaml'') (tm_stations (se_stations e0)) fs0 (e, fs)"
    by (rule station_editors.reached [OF _ steps, where zones = "se_zones e0"])
      (use station_editor_init_start [OF assms(1)] assms(2,3) in simp)
  then show ?thesis using assms(2) by (auto simp: station_editor_ok_def station_store.unique_ids_def)
qed

definition sample_answers :: station_answers where
  "sample_answers = \<lparr>sa_type_index = 3, sa_yaw = None, sa_form = \<lparr>sf_id = ''s1'', sf_name = ''Dock'', sf_zone_index = 1\<rparr>,
     sa_writable = True\<rparr>"

definition sample_turns :: "station_event list" where
  "sample_turns = [Station_Turn sample_answers (Some ''new''), Station_Turn sample_answers (Some ''collect''),
     Station_Click ''map'' (2, 3), Station_Turn sample_answers None, Station_Turn sample_answers (Some ''save'')]"

lemma station_editor_only_adds_witness:
  "\<exists>outs e0 e fs. station_editor_init sample_yaml Map.empty ''/m'' = Some (outs, e0) \<and>
     fold (station_step sample_yaml) sample_turns (e0, Map.empty) = (e, fs) \<and>
     map sta_zone_id (tm_stations (se_stations e)) = [''default_zone''] \<and>
     (\<forall>s\<in>set (tm_stations (se_stations e)). numbered_locations s)"
proof -
  obtain outs e0 where init: "station_editor_init sample_yaml Map.empty ''/m'' = Some (outs, e0)"
    by (simp add: station_editor_init_def Let_def)
  then have e0: "e0 = station_editor_start ''/m/stations.yaml'' \<lparr>tm_filename = ''/m/stations.yaml'', tm_marker_id = 0, tm_stations = []\<rparr>
      \<lparr>zm_filename = ''/m/zones.yaml'', zm_zones = []\<rparr>"
    by (auto simp: station_editor_init_def station_editor_start_def load_stations_def load_zones_def new_station_editor_def Let_def)
  obtain e fs where run: "fold (station_step sample_yaml) sample_turns (e0, Map.empty) = (e, fs)" by fastforce
  have "map sta_zone_id (tm_stations (se_stations e)) = [''default_zone'']"
    using run
    by (auto simp: e0 sample_turns_def station_terminal_def station_click_def createStation_def startLocationCollect_def
        stopLocationCollect_def processPendingLocation_def saveStation_def addStation_def inputStationInfo_def selectZone_def
        station_editor_start_def new_station_editor_def sample_answers_def Let_def split: prod.splits)
  then show ?thesis
    using station_editor_only_adds [OF init refl _ run] init run by (auto simp: e0 station_editor_start_def)
qed

text \<open>A new station does not stop the receiver: a click that comes after it is added to the new station, although no collection was started.\<close>

lemma new_station_keeps_receiving:
  assumes "se_running e" and "se_receiving e" and "\<not> se_pending_location e"
    and "e1 = fst (snd (station_terminal lib ans (Some ''new'') (e, fs)))" and "e2 = station_click ''map'' point e1"
    and "e3 = fst (snd (station_terminal lib ans None (e2, fs)))"
  shows "\<not> se_collecting e3 \<and> length (sta_locations (se_preview e3)) = 1"
  using assms(1-3) unfolding assms(4-6)
  by (simp add: station_terminal_def processPendingLocation_def createStation_def station_click_def
      inputStationInfo_def Let_def)

end
