(* ===== verification/Agent_Bootstrap.thy ===== *)
theory Agent_Bootstrap
  imports Yaml Map_Manager Agent_Codec
begin

text \<open>
  \<open>amr_agent/src/bootstrap/bootstrap.cpp\<close>: how a robot gets its identity, its map and the address of
  the MQTT broker from its configuration file, the metadata of its map and the edge server. The reading of a
  file is a list of assignments, each of which may throw; what was assigned before stays. The map metadata may
  name another map directory, which is read in turn, without a bound: \<open>None\<close> is a run that does not return.
\<close>

section \<open>Assignments\<close>

fun attempt :: "('s \<Rightarrow> 's option) list \<Rightarrow> 's \<Rightarrow> bool \<times> 's" where
  "attempt [] s = (True, s)"
| "attempt (f # fs) s = (case f s of None \<Rightarrow> (False, s) | Some s' \<Rightarrow> attempt fs s')"

text \<open>\<open>if(node[key]) target = node[key].as<T>()\<close>, and the same below a member that is tested first.\<close>

definition assign_member ::
  "'n yaml_lib \<Rightarrow> ('n \<Rightarrow> 'v option) \<Rightarrow> string \<Rightarrow> ('v \<Rightarrow> 's \<Rightarrow> 's) \<Rightarrow> 'n \<Rightarrow> 's \<Rightarrow> 's option" where
  "assign_member lib conv key upd node s =
     (case find_at lib node key of
        None \<Rightarrow> None
      | Some None \<Rightarrow> Some s
      | Some (Some m) \<Rightarrow> map_option (\<lambda>v. upd v s) (conv m))"

definition below ::
  "'n yaml_lib \<Rightarrow> string \<Rightarrow> ('n \<Rightarrow> 's \<Rightarrow> 's option) \<Rightarrow> 'n \<Rightarrow> 's \<Rightarrow> 's option" where
  "below lib key f node s =
     (case find_at lib node key of None \<Rightarrow> None | Some None \<Rightarrow> Some s | Some (Some m) \<Rightarrow> f m s)"

section \<open>The metadata of the map\<close>

definition on_map :: "(map_config \<Rightarrow> map_config) \<Rightarrow> bootstrap_info \<Rightarrow> bootstrap_info" where
  "on_map f info = info\<lparr>b_map := f (b_map info)\<rparr>"

definition metadata_steps :: "'n yaml_lib \<Rightarrow> 'n \<Rightarrow> (bootstrap_info \<Rightarrow> bootstrap_info option) list" where
  "metadata_steps lib config =
     [assign_member lib (yl_string lib) ''version'' (\<lambda>v. on_map (\<lambda>m. m\<lparr>mc_version := v\<rparr>)) config,
      below lib ''files'' (assign_member lib (yl_string lib) ''map'' (\<lambda>v. on_map (\<lambda>m. m\<lparr>mc_mapName := v\<rparr>))) config,
      below lib ''files'' (assign_member lib (yl_string lib) ''image'' (\<lambda>v. on_map (\<lambda>m. m\<lparr>mc_imageName := v\<rparr>))) config,
      below lib ''files'' (assign_member lib (yl_string lib) ''zone'' (\<lambda>v. on_map (\<lambda>m. m\<lparr>mc_zoneName := v\<rparr>))) config,
      below lib ''files'' (assign_member lib (yl_string lib) ''station'' (\<lambda>v. on_map (\<lambda>m. m\<lparr>mc_stationName := v\<rparr>))) config]"

text \<open>\<open>config["map"]["path"]\<close>; the outer \<open>None\<close> is an exception.\<close>

definition nested_path :: "'n yaml_lib \<Rightarrow> 'n \<Rightarrow> string option option" where
  "nested_path lib config =
     (case find_at lib config ''map'' of
        None \<Rightarrow> None
      | Some None \<Rightarrow> Some None
      | Some (Some m) \<Rightarrow>
          (case find_at lib m ''path'' of
             None \<Rightarrow> None | Some None \<Rightarrow> Some None | Some (Some p) \<Rightarrow> map_option Some (yl_string lib p)))"

definition metadata_file :: "bootstrap_info \<Rightarrow> string" where
  "metadata_file info = mc_path (b_map info) @ ''/metadata.yaml''"

text \<open>
  \<open>identified\<close> is whether the robot id and the host of the edge server are known, which are members. The
  result of the inner call is not looked at.
\<close>

partial_function (option) loadMapMetadata ::
  "'n yaml_lib \<Rightarrow> file_system \<Rightarrow> bool \<Rightarrow> bootstrap_info \<Rightarrow> (bool \<times> bootstrap_info) option" where
  "loadMapMetadata lib fs identified info =
     (case load_file lib fs (metadata_file info) of
        None \<Rightarrow> Some (False, info)
      | Some config \<Rightarrow>
          (case attempt (metadata_steps lib config) info of (ok, info1) \<Rightarrow>
             if \<not> ok then Some (False, info1)
             else case nested_path lib config of
               None \<Rightarrow> Some (False, info1)
             | Some None \<Rightarrow> Some (identified, info1)
             | Some (Some path) \<Rightarrow>
                 Option.bind (loadMapMetadata lib fs identified (on_map (\<lambda>m. m\<lparr>mc_path := path\<rparr>) info1))
                   (\<lambda>r. Some (identified, snd r))))"

section \<open>The configuration file\<close>

record bootstrap_state =
  bt_robotId :: string
  bt_edgeHost :: string
  bt_edgePort :: int
  bt_info :: bootstrap_info

definition on_info :: "(bootstrap_info \<Rightarrow> bootstrap_info) \<Rightarrow> bootstrap_state \<Rightarrow> bootstrap_state" where
  "on_info f st = st\<lparr>bt_info := f (bt_info st)\<rparr>"

definition config_steps :: "'n yaml_lib \<Rightarrow> 'n \<Rightarrow> (bootstrap_state \<Rightarrow> bootstrap_state option) list" where
  "config_steps lib config =
     [below lib ''robot'' (assign_member lib (yl_string lib) ''id''
        (\<lambda>v st. on_info (\<lambda>i. i\<lparr>b_robot_id := v\<rparr>) st\<lparr>bt_robotId := v\<rparr>)) config,
      below lib ''robot'' (below lib ''initial_pose'' (assign_member lib (yl_double lib) ''x''
        (\<lambda>v. on_info (\<lambda>i. i\<lparr>b_initial_x := v\<rparr>)))) config,
      below lib ''robot'' (below lib ''initial_pose'' (assign_member lib (yl_double lib) ''y''
        (\<lambda>v. on_info (\<lambda>i. i\<lparr>b_initial_y := v\<rparr>)))) config,
      below lib ''robot'' (below lib ''initial_pose'' (assign_member lib (yl_double lib) ''yaw''
        (\<lambda>v. on_info (\<lambda>i. i\<lparr>b_initial_yaw := v\<rparr>)))) config,
      below lib ''edge_server'' (assign_member lib (yl_string lib) ''host''
        (\<lambda>v st. on_info (\<lambda>i. i\<lparr>b_edge_host := v\<rparr>) st\<lparr>bt_edgeHost := v\<rparr>)) config,
      below lib ''edge_server'' (assign_member lib (yl_int lib) ''port''
        (\<lambda>v st. on_info (\<lambda>i. i\<lparr>b_edge_port := v\<rparr>) st\<lparr>bt_edgePort := v\<rparr>)) config]"

definition loadLocalConfig ::
  "'n yaml_lib \<Rightarrow> file_system \<Rightarrow> string \<Rightarrow> bootstrap_state \<Rightarrow> (bool \<times> bootstrap_state) option" where
  "loadLocalConfig lib fs cfgPath st =
     (case load_file lib fs cfgPath of
        None \<Rightarrow> Some (False, st)
      | Some config \<Rightarrow>
          (case attempt (config_steps lib config) st of
             (False, st1) \<Rightarrow> Some (False, st1)
           | (True, st1) \<Rightarrow>
               let identified = (bt_robotId st1 \<noteq> [] \<and> bt_edgeHost st1 \<noteq> []) in
               case nested_path lib config of
                 None \<Rightarrow> Some (False, st1)
               | Some None \<Rightarrow> Some (identified, st1)
               | Some (Some path) \<Rightarrow>
                   map_option (\<lambda>(ok, info). (identified,
                       st1\<lparr>bt_info := (if ok then info else on_map (\<lambda>m. m\<lparr>mc_version := []\<rparr>) info)\<rparr>))
                     (loadMapMetadata lib fs identified (on_map (\<lambda>m. m\<lparr>mc_path := path\<rparr>) (bt_info st1)))))"

section \<open>The edge server's answer\<close>

definition bootstrap_path :: "string \<Rightarrow> string" where
  "bootstrap_path robot_id = ''/api/amr/bootstrap?robot_id='' @ robot_id"

text \<open>\<open>parse_body\<close> is \<open>json::parse\<close> of the library, \<open>exchange\<close> what comes back for a path.\<close>

definition requestBootstrap ::
  "(string \<Rightarrow> json option) \<Rightarrow> (string \<Rightarrow> http_reply) \<Rightarrow> bootstrap_state \<Rightarrow> bootstrap_info option" where
  "requestBootstrap parse_body exchange st =
     (let response = request exchange (bootstrap_path (bt_robotId st)) in
      if \<not> hr_succeed response then None else decodeBootstrapInfo (parse_body (hr_body response)) (bt_info st))"

definition run_bootstrap ::
  "'n yaml_lib \<Rightarrow> (string \<Rightarrow> json option) \<Rightarrow> (string \<Rightarrow> http_reply) \<Rightarrow> file_system \<Rightarrow> string \<Rightarrow> bootstrap_info
   \<Rightarrow> bootstrap_info option option" where
  "run_bootstrap lib parse_body exchange fs cfgPath info =
     map_option (\<lambda>(ok, st). if ok then requestBootstrap parse_body exchange st else None)
       (loadLocalConfig lib fs cfgPath \<lparr>bt_robotId = [], bt_edgeHost = [], bt_edgePort = 8080, bt_info = info\<rparr>)"

end
