(* ===== verification/Edge_Config.thy ===== *)
theory Edge_Config
  imports Yaml Http_Server Agent_Codec
begin

text \<open>
  \<open>edge_server/src/config/config.cpp\<close>: the configuration of the edge server. A missing member or a
  value of another type throws, and the server does not start; only the success is carried.
\<close>

record edge_settings =
  es_edge_id :: string
  es_warehouse_id :: string
  es_websocket :: "string \<times> int \<times> string"
  es_list_period_ms :: int
  es_log_level :: string
  es_mqtt :: mqtt_config
  es_http :: "string \<times> int"
  es_sqlite_path :: string

definition setting :: "'n yaml_lib \<Rightarrow> ('n \<Rightarrow> 'v option) \<Rightarrow> 'n \<Rightarrow> string \<Rightarrow> string \<Rightarrow> 'v option" where
  "setting lib conv doc section key =
     Option.bind (yl_get lib doc section) (\<lambda>s. Option.bind (yl_get lib s key) conv)"

definition mqtt_url :: "bool \<Rightarrow> string \<Rightarrow> int \<Rightarrow> string" where
  "mqtt_url tls host port = (if tls then ''ssl://'' else ''tcp://'') @ host @ '':'' @ to_string port"

definition read_mqtt_settings :: "'n yaml_lib \<Rightarrow> 'n \<Rightarrow> mqtt_config option" where
  "read_mqtt_settings lib doc =
     Option.bind (setting lib (yl_string lib) doc ''mqtt'' ''host'') (\<lambda>host.
     Option.bind (setting lib (yl_int lib) doc ''mqtt'' ''port'') (\<lambda>port.
     Option.bind (setting lib (yl_bool lib) doc ''mqtt'' ''tls_enable'') (\<lambda>tls.
     Option.bind (setting lib (yl_string lib) doc ''mqtt'' ''username'') (\<lambda>user.
     Option.bind (setting lib (yl_string lib) doc ''mqtt'' ''password'') (\<lambda>pwd.
     Option.bind (setting lib (yl_string lib) doc ''mqtt'' ''client_id'') (\<lambda>client_id.
     Option.bind (setting lib (yl_string lib) doc ''mqtt'' ''ca_file'') (\<lambda>ca_file.
     Option.bind (setting lib (yl_int lib) doc ''mqtt'' ''keepalive'') (\<lambda>keepalive.
     Option.bind (setting lib (yl_int lib) doc ''mqtt'' ''reconnect_interval'') (\<lambda>reconnect.
     Some \<lparr>mq_url = mqtt_url tls host port, mq_client_id = client_id, mq_user = user, mq_pwd = pwd, mq_ca_file = ca_file,
       mq_keepalive = keepalive, mq_reconnect_interval = reconnect, mq_tls_enable = tls, mq_will_msg_enable = True,
       mq_will = (EDGE_SERVER_STATUS, ''{\"status\":\"offline\"}'')\<rparr>)))))))))"

definition load_config :: "'n yaml_lib \<Rightarrow> file_system \<Rightarrow> string \<Rightarrow> edge_settings option" where
  "load_config lib fs path =
     Option.bind (load_file lib fs path) (\<lambda>doc.
     Option.bind (setting lib (yl_string lib) doc ''edge'' ''id'') (\<lambda>edge_id.
     Option.bind (setting lib (yl_string lib) doc ''warehouse'' ''id'') (\<lambda>warehouse_id.
     Option.bind (setting lib (yl_string lib) doc ''websocket'' ''host'') (\<lambda>ws_host.
     Option.bind (setting lib (yl_int lib) doc ''websocket'' ''port'') (\<lambda>ws_port.
     Option.bind (setting lib (yl_string lib) doc ''websocket'' ''protocol'') (\<lambda>ws_protocol.
     Option.bind (setting lib (yl_int lib) doc ''robot'' ''list_period_ms'') (\<lambda>period.
     Option.bind (setting lib (yl_string lib) doc ''log'' ''level'') (\<lambda>level.
     Option.bind (read_mqtt_settings lib doc) (\<lambda>mqtt.
     Option.bind (setting lib (yl_string lib) doc ''http'' ''host'') (\<lambda>http_host.
     Option.bind (setting lib (yl_int lib) doc ''http'' ''port'') (\<lambda>http_port.
     Option.bind (setting lib (yl_string lib) doc ''sqlite_db'' ''path'') (\<lambda>sqlite_path.
     Some \<lparr>es_edge_id = edge_id, es_warehouse_id = warehouse_id, es_websocket = (ws_host, ws_port, ws_protocol),
       es_list_period_ms = period, es_log_level = level, es_mqtt = mqtt, es_http = (http_host, http_port),
       es_sqlite_path = sqlite_path\<rparr>))))))))))))"

text \<open>What the bootstrap service takes of it.\<close>

definition bootstrap_config :: "edge_settings \<Rightarrow> edge_config" where
  "bootstrap_config s = \<lparr>cf_warehouse_id = es_warehouse_id s, cf_edge_amr_mqtt =
     \<lparr>cf_url = mq_url (es_mqtt s), cf_user = mq_user (es_mqtt s), cf_pwd = mq_pwd (es_mqtt s),
      cf_keepalive = mq_keepalive (es_mqtt s), cf_reconnect_interval = mq_reconnect_interval (es_mqtt s),
      cf_tls_enable = mq_tls_enable (es_mqtt s)\<rparr>\<rparr>"

lemma read_mqtt_settings_will:
  assumes "read_mqtt_settings lib doc = Some m"
  shows "(\<exists>host port. mq_url m = mqtt_url (mq_tls_enable m) host port) \<and>
    mq_will_msg_enable m \<and> fst (mq_will m) = EDGE_SERVER_STATUS"
  using assms by (clarsimp simp: read_mqtt_settings_def bind_eq_Some_conv) blast

lemma load_config_mqtt:
  assumes "load_config lib fs path = Some s"
  shows "(\<exists>host port. mq_url (es_mqtt s) = mqtt_url (mq_tls_enable (es_mqtt s)) host port) \<and>
    mq_will_msg_enable (es_mqtt s) \<and> fst (mq_will (es_mqtt s)) = EDGE_SERVER_STATUS"
proof -
  obtain doc where "read_mqtt_settings lib doc = Some (es_mqtt s)"
    using assms by (clarsimp simp: load_config_def bind_eq_Some_conv)
  then show ?thesis by (rule read_mqtt_settings_will)
qed

lemma load_config_url: "load_config lib fs path = Some s \<Longrightarrow> mq_url (es_mqtt s) \<noteq> []"
  using load_config_mqtt [of lib fs path s] by (auto simp: mqtt_url_def)

end
