(* ===== verification/Mqtt_Client.thy ===== *)
theory Mqtt_Client
  imports Agent_Codec
begin

text \<open>
  \<open>mqtt/mqtt_client.cpp\<close> of the edge server and of the robot agent, which share it but for the log
  calls: options, connection, publication, and the subscriptions that are restored at every
  connection. The client library is outside: whether one of its calls is accepted or throws, and whether it is
  connected, are arguments; the accepted calls are results. A call through \<open>m_client\<close> before \<open>init\<close> has created it
  dereferences a null pointer: the operations that do not test it are \<open>None\<close> then.
\<close>

section \<open>State\<close>

record mqtt_options =
  mo_version :: int
  mo_user_name :: string
  mo_password :: string
  mo_keep_alive :: int
  mo_automatic_reconnect :: "(int \<times> int) option"
  mo_clean_session :: bool
  mo_will :: "(string \<times> string \<times> int \<times> bool) option"
  mo_trust_store :: "string option"

record mqtt_client =
  mt_client :: bool
  mt_options :: mqtt_options
  mt_callback :: bool
  mt_url :: string
  mt_will :: "string \<times> string"
  mt_willEnable :: bool
  mt_subscriptionMap :: "(string \<times> int) list"

definition new_mqtt_client :: "mqtt_options \<Rightarrow> mqtt_client" where
  "new_mqtt_client defaults = \<lparr>mt_client = False, mt_options = defaults, mt_callback = False, mt_url = [],
     mt_will = ([], []), mt_willEnable = False, mt_subscriptionMap = []\<rparr>"

datatype mqtt_call =
    Lib_Connect mqtt_options
  | Lib_Disconnect
  | Lib_Subscribe string int
  | Lib_Unsubscribe string
  | Lib_Publish string json int bool

text \<open>\<open>MQTTVERSION_3_1_1\<close>; a will has quality of service 1 and is retained.\<close>

definition mqtt_options_of :: "mqtt_config \<Rightarrow> mqtt_options \<Rightarrow> mqtt_options" where
  "mqtt_options_of cfg o0 =
     (let o1 = o0\<lparr>mo_version := 4, mo_user_name := mq_user cfg, mo_password := mq_pwd cfg,
                 mo_keep_alive := mq_keepalive cfg,
                 mo_automatic_reconnect := Some (1, mq_reconnect_interval cfg), mo_clean_session := False\<rparr>;
          o2 = (if mq_will_msg_enable cfg then o1\<lparr>mo_will := Some (fst (mq_will cfg), snd (mq_will cfg), 1, True)\<rparr>
                else o1) in
      if mq_tls_enable cfg then o2\<lparr>mo_trust_store := Some (mq_ca_file cfg)\<rparr> else o2)"

text \<open>\<open>created\<close>: the constructor of the library's client did not throw.\<close>

definition mqtt_init :: "bool \<Rightarrow> mqtt_config \<Rightarrow> mqtt_client \<Rightarrow> bool \<times> mqtt_client" where
  "mqtt_init created cfg c =
     (if \<not> created then (False, c)
      else (True, c\<lparr>mt_client := True, mt_options := mqtt_options_of cfg (mt_options c), mt_url := mq_url cfg,
              mt_willEnable := mq_will_msg_enable cfg,
              mt_will := (if mq_will_msg_enable cfg then mq_will cfg else mt_will c)\<rparr>))"

datatype connect_outcome = Connect_Throws | Connect_Timeout | Connect_Code int

definition mqtt_connect :: "bool \<Rightarrow> connect_outcome \<Rightarrow> mqtt_client \<Rightarrow> bool \<times> mqtt_call list" where
  "mqtt_connect is_connected outcome c =
     (if \<not> mt_client c then (False, [])
      else if is_connected then (True, [])
      else case outcome of
        Connect_Throws \<Rightarrow> (False, [])
      | Connect_Timeout \<Rightarrow> (False, [Lib_Connect (mt_options c)])
      | Connect_Code rc \<Rightarrow> (rc = 0, [Lib_Connect (mt_options c)]))"

definition mqtt_disconnect :: "bool \<Rightarrow> mqtt_client \<Rightarrow> mqtt_call list" where
  "mqtt_disconnect accepted c = (if mt_client c \<and> accepted then [Lib_Disconnect] else [])"

definition mqtt_isConnected :: "bool \<Rightarrow> mqtt_client \<Rightarrow> bool" where
  "mqtt_isConnected is_connected c \<longleftrightarrow> mt_client c \<and> is_connected"

section \<open>Subscriptions and publication\<close>

definition mqtt_setSubscribe :: "string \<Rightarrow> int \<Rightarrow> mqtt_client \<Rightarrow> mqtt_client" where
  "mqtt_setSubscribe topic qos c = c\<lparr>mt_subscriptionMap := AList.update topic qos (mt_subscriptionMap c)\<rparr>"

definition mqtt_subscribe ::
  "bool \<Rightarrow> bool \<Rightarrow> string \<Rightarrow> int \<Rightarrow> mqtt_client \<Rightarrow> (bool \<times> mqtt_call list \<times> mqtt_client) option" where
  "mqtt_subscribe is_connected accepted topic qos c =
     (if \<not> mt_client c then None
      else if \<not> is_connected then Some (False, [], c)
      else Some (accepted, if accepted then [Lib_Subscribe topic qos] else [], mqtt_setSubscribe topic qos c))"

definition mqtt_unsubscribe :: "bool \<Rightarrow> string \<Rightarrow> mqtt_client \<Rightarrow> (bool \<times> mqtt_call list \<times> mqtt_client) option" where
  "mqtt_unsubscribe accepted topic c =
     (if \<not> mt_client c then None
      else Some (accepted, if accepted then [Lib_Unsubscribe topic] else [],
             c\<lparr>mt_subscriptionMap := AList.delete topic (mt_subscriptionMap c)\<rparr>))"

text \<open>\<open>set_qos\<close> throws for a quality of service other than 0, 1 and 2.\<close>

definition mqtt_publish ::
  "bool \<Rightarrow> string \<Rightarrow> json \<Rightarrow> int \<Rightarrow> bool \<Rightarrow> mqtt_client \<Rightarrow> (bool \<times> mqtt_call list) option" where
  "mqtt_publish accepted topic payload qos retain c =
     (if qos \<notin> {0, 1, 2} then Some (False, [])
      else if \<not> mt_client c then None
      else Some (accepted, if accepted then [Lib_Publish topic payload qos retain] else []))"

definition mqtt_setMessageCallback :: "mqtt_client \<Rightarrow> mqtt_client" where
  "mqtt_setMessageCallback c = c\<lparr>mt_callback := True\<rparr>"

section \<open>Callbacks of the library\<close>

text \<open>A subscription that the library refuses is logged, and the loop goes on.\<close>

definition restoreSubscriptions :: "(string \<Rightarrow> bool) \<Rightarrow> mqtt_client \<Rightarrow> mqtt_call list" where
  "restoreSubscriptions accepts c =
     map (\<lambda>(topic, qos). Lib_Subscribe topic qos) (filter (accepts \<circ> fst) (mt_subscriptionMap c))"

definition online_message :: "int \<Rightarrow> json" where
  "online_message ms = JObj [(''status'', JStr ''online''), (''timestamp'', JInt ms)]"

text \<open>The library calls \<open>connected\<close> on a client that exists; whether the message of the will topic goes out is not looked at.\<close>

definition mqtt_connected :: "bool \<Rightarrow> (string \<Rightarrow> bool) \<Rightarrow> int \<Rightarrow> mqtt_client \<Rightarrow> mqtt_call list" where
  "mqtt_connected published accepts ms c =
     (if mt_willEnable c
      then (case mqtt_publish published (fst (mt_will c)) (online_message ms) 1 True c of
              None \<Rightarrow> [] | Some (_, calls) \<Rightarrow> calls)
      else []) @ restoreSubscriptions accepts c"

definition message_arrived :: "string \<Rightarrow> 'm \<Rightarrow> mqtt_client \<Rightarrow> (string \<times> 'm) option" where
  "message_arrived topic payload c = (if mt_callback c then Some (topic, payload) else None)"

section \<open>The session that the broker keeps\<close>

text \<open>
  Because \<open>clean_session\<close> is false, the subscriptions of a client are kept by the broker when the
  connection is lost (MQTT 3.1.1, section 3.1.2.4). A session maps the topic filters to their quality of service.
\<close>

fun broker_takes :: "mqtt_call \<Rightarrow> (string \<rightharpoonup> int) \<Rightarrow> (string \<rightharpoonup> int)" where
  "broker_takes (Lib_Subscribe topic qos) session = session(topic \<mapsto> qos)"
| "broker_takes (Lib_Unsubscribe topic) session = session(topic := None)"
| "broker_takes _ session = session"

definition broker_session :: "mqtt_call list \<Rightarrow> (string \<rightharpoonup> int) \<Rightarrow> (string \<rightharpoonup> int)" where
  "broker_session calls session = fold broker_takes calls session"

lemma broker_session_simps [simp]:
  "broker_session [] session = session"
  "broker_session (call # calls) session = broker_session calls (broker_takes call session)"
  "broker_session (calls1 @ calls2) session = broker_session calls2 (broker_session calls1 session)"
  by (simp_all add: broker_session_def)

lemma session_after_restore:
  "distinct (map fst subs) \<Longrightarrow>
   broker_session (map (\<lambda>(topic, qos). Lib_Subscribe topic qos) subs) session = session ++ map_of subs"
proof (induction subs arbitrary: session)
  case Nil
  then show ?case by simp
next
  case (Cons sub subs)
  obtain topic qos where sub: "sub = (topic, qos)" by (cases sub)
  from Cons.prems have "topic \<notin> dom (map_of subs)" by (simp add: sub dom_map_of_conv_image_fst)
  with Cons show ?case by (auto simp: sub fun_eq_iff map_add_def split: option.split)
qed

lemma session_after_connected:
  assumes "distinct (map fst (mt_subscriptionMap c))"
  shows "broker_session (mqtt_connected published accepts ms c) session =
    session ++ map_of (filter (accepts \<circ> fst) (mt_subscriptionMap c))"
proof -
  have "distinct (map fst (filter (accepts \<circ> fst) (mt_subscriptionMap c)))"
    using assms by (simp add: distinct_map_filter)
  from session_after_restore [OF this] show ?thesis
    by (auto simp: mqtt_connected_def mqtt_publish_def restoreSubscriptions_def split: option.splits)
qed

lemma map_of_filter_key: "map_of (filter (P \<circ> fst) xs) k = (if P k then map_of xs k else None)"
  by (induction xs) auto

end
