(* ===== verification/Mqtt_Delivery.thy ===== *)
theory Mqtt_Delivery
  imports Edge_Rules Agent_Node Mqtt_Client
begin

text \<open>
  The MQTT side of the two communication classes, \<open>AmrCommunication\<close> of the edge server and
  \<open>EdgeCommunication\<close> with \<open>TaskBridge::init\<close> of the robot: what they subscribe to, and which
  handler a message reaches that the broker delivers.
\<close>

section \<open>A communication class\<close>

record 'h communication =
  co_mqtt :: mqtt_client
  co_router :: "('h, json option) router"

definition new_communication :: "mqtt_options \<Rightarrow> 'h communication" where
  "new_communication defaults =
     \<lparr>co_mqtt = new_mqtt_client defaults, co_router = \<lparr>m_msgHandlers = [], m_msgQueue = []\<rparr>\<rparr>"

text \<open>The message callback that both classes install.\<close>

definition receive_message :: "string \<Rightarrow> json option \<Rightarrow> 'h communication \<Rightarrow> 'h communication" where
  "receive_message topic msg co =
     (case message_arrived topic msg (co_mqtt co) of
        None \<Rightarrow> co
      | Some (t, m) \<Rightarrow> co\<lparr>co_router := onMessageProducer t m (co_router co)\<rparr>)"

definition set_subscriptions :: "string list \<Rightarrow> mqtt_client \<Rightarrow> mqtt_client" where
  "set_subscriptions topics c = fold (\<lambda>topic. mqtt_setSubscribe topic 1) topics c"

text \<open>
  \<open>AmrCommunication::init\<close>: the result, the calls to the library and the new state. The handler table
  is \<open>amr_handlers\<close> because that of a new router is empty.
\<close>

definition amr_init ::
  "bool \<Rightarrow> connect_outcome \<Rightarrow> mqtt_config \<Rightarrow> amr_handler communication
   \<Rightarrow> bool \<times> mqtt_call list \<times> amr_handler communication" where
  "amr_init created outcome cfg co =
     (case mqtt_init created cfg (co_mqtt co) of
        (False, c) \<Rightarrow> (False, [], co\<lparr>co_mqtt := c\<rparr>)
      | (True, c) \<Rightarrow>
          let c1 = mqtt_setMessageCallback (set_subscriptions amr_subscriptions c);
              (connected, calls) = mqtt_connect False outcome c1 in
          (connected, calls, co\<lparr>co_mqtt := c1, co_router := (co_router co)\<lparr>m_msgHandlers := amr_handlers\<rparr>\<rparr>))"

section \<open>The robot's side\<close>

definition will_config :: "string \<Rightarrow> mqtt_config \<Rightarrow> mqtt_config" where
  "will_config robot_id cfg = cfg\<lparr>mq_will_msg_enable := True,
     mq_will := (makeRobotWillTopic robot_id, ''{\"status\":\"offline\"}'')\<rparr>"

definition agent_subscriptions :: "string \<Rightarrow> string list" where
  "agent_subscriptions robot_id = [EDGE_SERVER_STATUS, ROBOT_REGISTER_RSP_PREFIX @ robot_id]"

definition edge_comm_init ::
  "bool \<Rightarrow> connect_outcome \<Rightarrow> bootstrap_info \<Rightarrow> agent_handler communication
   \<Rightarrow> bool \<times> mqtt_call list \<times> agent_handler communication" where
  "edge_comm_init created outcome info co =
     (case mqtt_init created (will_config (b_robot_id info) (b_mqtt info)) (co_mqtt co) of
        (False, c) \<Rightarrow> (False, [], co\<lparr>co_mqtt := c\<rparr>)
      | (True, c) \<Rightarrow>
          let handlers = registerHandler (ROBOT_REGISTER_RSP_PREFIX @ b_robot_id info) robotRegisterRespHandler
                (registerHandler EDGE_SERVER_STATUS edgeSvrStatusHandler (m_msgHandlers (co_router co)));
              c1 = mqtt_setMessageCallback (set_subscriptions (agent_subscriptions (b_robot_id info)) c);
              (connected, calls) = mqtt_connect False outcome c1 in
          (connected, calls, co\<lparr>co_mqtt := c1, co_router := (co_router co)\<lparr>m_msgHandlers := handlers\<rparr>\<rparr>))"

text \<open>A subscription that fails, also because there is no connection, is left for the next one.\<close>

definition setExternalSubscribe ::
  "bool \<times> bool \<Rightarrow> string \<Rightarrow> int \<Rightarrow> mqtt_client \<Rightarrow> (mqtt_call list \<times> mqtt_client) option" where
  "setExternalSubscribe link topic qos c =
     (case mqtt_subscribe (fst link) (snd link) topic qos c of
        None \<Rightarrow> None
      | Some (True, calls, c1) \<Rightarrow> Some (calls, c1)
      | Some (False, calls, c1) \<Rightarrow> Some (calls, mqtt_setSubscribe topic qos c1))"

definition bridge_subscriptions :: "string \<Rightarrow> string \<Rightarrow> string list" where
  "bridge_subscriptions robot_id warehouse_id =
     [makeAmrTaskTopic robot_id, makeWarehouseTaskStateTopic warehouse_id ''+'',
      makeAmrTaskGoodsResponseTopic robot_id, makeAmrTaskStatusAckTopic robot_id]"

definition bridge_handlers :: "string \<Rightarrow> string \<Rightarrow> (string \<times> agent_handler) list \<Rightarrow> (string \<times> agent_handler) list" where
  "bridge_handlers robot_id warehouse_id handlers =
     registerHandler (makeAmrTaskStatusAckTopic robot_id) statusAckHandler
    (registerHandler (makeAmrTaskGoodsResponseTopic robot_id) goodsResponseHandler
    (registerHandler (makeWarehouseTaskStateTopic warehouse_id ''+'') taskStateHandler
    (registerHandler (makeAmrTaskTopic robot_id) amrTaskHandler handlers)))"

text \<open>What each of the subscriptions meets: whether the client is connected, whether the call is accepted.\<close>

fun bridge_subscribe ::
  "(string \<times> bool \<times> bool) list \<Rightarrow> mqtt_client \<Rightarrow> (mqtt_call list \<times> mqtt_client) option" where
  "bridge_subscribe [] c = Some ([], c)"
| "bridge_subscribe ((topic, link) # rest) c =
     (case setExternalSubscribe link topic 1 c of
        None \<Rightarrow> None
      | Some (calls, c1) \<Rightarrow> map_option (\<lambda>(calls', c2). (calls @ calls', c2)) (bridge_subscribe rest c1))"

definition task_bridge_init ::
  "(bool \<times> bool) list \<Rightarrow> string \<Rightarrow> string \<Rightarrow> agent_handler communication
   \<Rightarrow> (mqtt_call list \<times> agent_handler communication) option" where
  "task_bridge_init links robot_id warehouse_id co =
     map_option (\<lambda>(calls, c). (calls, co\<lparr>co_mqtt := c,
         co_router := (co_router co)\<lparr>m_msgHandlers :=
           bridge_handlers robot_id warehouse_id (m_msgHandlers (co_router co))\<rparr>\<rparr>))
       (bridge_subscribe (zip (bridge_subscriptions robot_id warehouse_id) links) (co_mqtt co))"

section \<open>Connections come and go\<close>

datatype link_event =
    Link_Up bool "string list" int
  | Link_Down

text \<open>
  The library reconnects by itself and calls \<open>connected\<close>, which refuses some topics; what the lost
  connection had subscribed stays in the session of the broker.
\<close>

fun link_run :: "mqtt_client \<Rightarrow> link_event list \<Rightarrow> (string \<rightharpoonup> int) \<Rightarrow> (string \<rightharpoonup> int)" where
  "link_run c [] session = session"
| "link_run c (Link_Up published refused ms # evs) session =
     link_run c evs (broker_session (mqtt_connected published (\<lambda>t. t \<notin> set refused) ms c) session)"
| "link_run c (Link_Down # evs) session = link_run c evs session"

text \<open>
  The broker delivers a message to a session that has a matching filter; a filter that begins with a
  wildcard does not match a topic that begins with a dollar sign.
\<close>

definition broker_delivers :: "(string \<rightharpoonup> int) \<Rightarrow> string \<Rightarrow> bool" where
  "broker_delivers session topic \<longleftrightarrow>
     (\<exists>f\<in>dom session. mqtt_match (levels f) (levels topic) \<and>
        \<not> (take 1 topic = ''$'' \<and> take 1 f \<in> {''+'', ''#''}))"

end
