(* ===== verification/Mqtt_Rules.thy ===== *)
theory Mqtt_Rules
  imports Mqtt_Delivery
begin

text \<open>
  What the subscriptions give: after a connection that the library accepted, the broker delivers to
  each side exactly the messages that the side has a handler for, with one exception on the robot's.
\<close>

section \<open>The subscription map\<close>

definition subscribed :: "mqtt_client \<Rightarrow> string set" where
  "subscribed c = fst ` set (mt_subscriptionMap c)"

definition map_ok :: "mqtt_client \<Rightarrow> bool" where
  "map_ok c \<longleftrightarrow> distinct (map fst (mt_subscriptionMap c))"

lemma setSubscribe_keys [simp]:
  "subscribed (mqtt_setSubscribe topic qos c) = insert topic (subscribed c)"
  "map_ok c \<Longrightarrow> map_ok (mqtt_setSubscribe topic qos c)"
  "mt_client (mqtt_setSubscribe topic qos c) = mt_client c"
  "mt_callback (mqtt_setSubscribe topic qos c) = mt_callback c"
  by (simp_all add: mqtt_setSubscribe_def map_ok_def subscribed_def dom_update distinct_update)

lemma set_subscriptions_keys [simp]:
  "subscribed (set_subscriptions topics c) = set topics \<union> subscribed c"
  "map_ok c \<Longrightarrow> map_ok (set_subscriptions topics c)"
  "mt_client (set_subscriptions topics c) = mt_client c"
  by (induction topics arbitrary: c) (simp_all add: set_subscriptions_def)

lemma setMessageCallback_keys [simp]:
  "subscribed (mqtt_setMessageCallback c) = subscribed c"
  "map_ok (mqtt_setMessageCallback c) = map_ok c"
  "mt_callback (mqtt_setMessageCallback c)"
  "mt_client (mqtt_setMessageCallback c) = mt_client c"
  by (simp_all add: mqtt_setMessageCallback_def map_ok_def subscribed_def)

lemma mqtt_init_keys:
  "mqtt_init created cfg (new_mqtt_client defaults) = (True, c) \<Longrightarrow> subscribed c = {} \<and> map_ok c \<and> mt_client c"
  by (auto simp: mqtt_init_def new_mqtt_client_def map_ok_def subscribed_def split: if_splits)

lemma setExternalSubscribe_keys:
  assumes "setExternalSubscribe link topic qos c = Some (calls, c')" and "map_ok c"
  shows "subscribed c' = insert topic (subscribed c) \<and> map_ok c' \<and> mt_callback c' = mt_callback c"
  using assms by (auto simp: setExternalSubscribe_def mqtt_subscribe_def split: option.splits prod.splits bool.splits if_splits)

lemma bridge_subscribe_keys:
  "bridge_subscribe links c = Some (calls, c') \<Longrightarrow> map_ok c \<Longrightarrow>
    subscribed c' = fst ` set links \<union> subscribed c \<and> map_ok c' \<and> mt_callback c' = mt_callback c"
proof (induction links arbitrary: calls c)
  case Nil
  then show ?case by simp
next
  case (Cons l links)
  obtain topic link where l: "l = (topic, link)" by (cases l)
  from Cons.prems(1) obtain calls1 c1 calls2
    where 1: "setExternalSubscribe link topic 1 c = Some (calls1, c1)"
      and 2: "bridge_subscribe links c1 = Some (calls2, c')"
    by (auto simp: l split: option.splits)
  from setExternalSubscribe_keys [OF 1 Cons.prems(2)] Cons.IH [OF 2] show ?case by (simp add: l)
qed

section \<open>The session of the broker\<close>

lemma link_run_append: "link_run c (evs1 @ evs2) session = link_run c evs2 (link_run c evs1 session)"
  by (induction c evs1 session rule: link_run.induct) simp_all

lemma link_run_bounds:
  assumes "map_ok c"
  shows "dom session \<subseteq> dom (link_run c evs session) \<and> dom (link_run c evs session) \<subseteq> dom session \<union> subscribed c"
proof (induction evs arbitrary: session)
  case Nil
  then show ?case by simp
next
  case (Cons ev evs)
  show ?case
  proof (cases ev)
    case (Link_Up published refused ms)
    let ?s = "session ++ map_of (filter ((\<lambda>t. t \<notin> set refused) \<circ> fst) (mt_subscriptionMap c))"
    have s: "dom session \<subseteq> dom ?s \<and> dom ?s \<subseteq> dom session \<union> subscribed c"
      by (auto simp: map_of_filter_key subscribed_def image_iff split: if_splits dest!: map_of_SomeD; force)
    have "link_run c (ev # evs) session = link_run c evs ?s"
      using assms by (simp add: Link_Up session_after_connected map_ok_def)
    with subset_trans [OF conjunct1 [OF s] conjunct1 [OF Cons [of ?s]]]
      subset_trans [OF conjunct2 [OF Cons [of ?s]] Un_least [OF conjunct2 [OF s] Un_upper2]]
    show ?thesis by (simp only: simp_thms)
  next
    case Link_Down
    with Cons show ?thesis by simp
  qed
qed

lemma link_run_after_up:
  assumes "map_ok c"
  shows "dom (link_run c (evs1 @ Link_Up published [] ms # evs2) Map.empty) = subscribed c"
proof -
  let ?s1 = "link_run c evs1 Map.empty"
  let ?s2 = "?s1 ++ map_of (mt_subscriptionMap c)"
  have run: "link_run c (evs1 @ Link_Up published [] ms # evs2) Map.empty = link_run c evs2 ?s2"
    using assms by (simp add: link_run_append session_after_connected map_ok_def comp_def)
  have "dom ?s1 \<subseteq> subscribed c" using link_run_bounds [OF assms, of Map.empty evs1] by simp
  then have s2: "dom ?s2 = subscribed c" by (auto simp: dom_map_of_conv_image_fst subscribed_def)
  show ?thesis
    unfolding run using link_run_bounds [OF assms, of ?s2 evs2] unfolding s2 Un_absorb by (elim conjE subset_antisym)
qed

section \<open>The edge server\<close>

text \<open>The handler that a topic is meant for, read off its levels.\<close>

definition handler_of_levels :: "string list \<Rightarrow> amr_handler option" where
  "handler_of_levels ls =
     (case ls of
        [a, r, k] \<Rightarrow>
          if a \<noteq> ''amr'' then None
          else if r = ''register'' \<and> k = ''request'' then Some robotRegisterReqHandler_of
          else if k = ''status'' then Some robotStatusHandler_of
          else if k = ''will'' then Some robotWillHandler_of else None
      | [a, r, t, k] \<Rightarrow>
          if a = ''amr'' \<and> t = ''task'' \<and> k = ''status'' then Some robotTaskStatusHandler_of else None
      | [a, r, t, g, k] \<Rightarrow>
          if a = ''amr'' \<and> t = ''task'' \<and> g = ''goods'' \<and> k = ''request''
          then Some robotGoodsRequestHandler_of else None
      | _ \<Rightarrow> None)"

lemma level_cases:
  obtains "ls = []" | a where "ls = [a]" | a b where "ls = [a, b]" | a r k where "ls = [a, r, k]"
    | a r t k where "ls = [a, r, t, k]" | a r t g k where "ls = [a, r, t, g, k]"
    | a b c d e f rest where "ls = a # b # c # d # e # f # rest"
  by (metis list.exhaust)

lemma fits_amr:
  "fits (map (map_prod levels (\<lambda>h. h)) amr_handlers) ls = (case handler_of_levels ls of None \<Rightarrow> [] | Some h \<Rightarrow> [h])"
  unfolding amr_handler_levels
  by (cases ls rule: level_cases; simp add: fits_def handler_of_levels_def; blast?)

lemma amr_subscription_levels:
  "levels ` set amr_subscriptions = {[''amr'', ''register'', ''request''], [''amr'', ''+'', ''status''],
     [''amr'', ''+'', ''will''], [''amr'', ''+'', ''task'', ''goods'', ''request''], [''amr'', ''+'', ''task'', ''status'']}"
  by (auto simp: amr_subscriptions_def)

lemma handler_of_levels_match:
  "handler_of_levels ls \<noteq> None \<longleftrightarrow> (\<exists>f\<in>set amr_subscriptions. mqtt_match (levels f) ls)"
proof -
  have "(\<exists>f\<in>set amr_subscriptions. mqtt_match (levels f) ls) \<longleftrightarrow>
      (\<exists>l\<in>levels ` set amr_subscriptions. mqtt_match l ls)" by blast
  also have "\<dots> \<longleftrightarrow> handler_of_levels ls \<noteq> None"
    unfolding amr_subscription_levels
    by (cases ls rule: level_cases; simp add: handler_of_levels_def; blast?)
  finally show ?thesis by simp
qed

lemma messageRouter_amr:
  assumes "mset handlers = mset amr_handlers"
  shows "messageRouter handlers topic = handler_of_levels (levels topic)"
proof (cases "handler_of_levels (levels topic)")
  case None
  then show ?thesis using messageRouter_none [OF assms, of topic] by (simp add: fits_amr)
next
  case (Some h)
  then have "\<exists>f. (f, h) \<in> set amr_handlers \<and> mqtt_match (levels f) (levels topic)"
    by (cases "levels topic" rule: level_cases; simp add: handler_of_levels_def amr_handlers_eq split: if_splits; blast?)
  then show ?thesis using messageRouter_fits [OF assms, of topic h] Some by (auto simp: fits_amr)
qed

lemma amr_init_state:
  assumes "amr_init created outcome cfg (new_communication defaults) = (ok, calls, co)" and "created"
  shows "subscribed (co_mqtt co) = set amr_subscriptions \<and> map_ok (co_mqtt co) \<and> mt_callback (co_mqtt co) \<and>
    m_msgHandlers (co_router co) = amr_handlers \<and> m_msgQueue (co_router co) = []"
  using assms mqtt_init_keys [of created cfg defaults]
  by (auto simp: amr_init_def new_communication_def Let_def mqtt_init_def split: prod.splits bool.splits if_splits)

lemma delivered_to_amr:
  assumes "dom session = set amr_subscriptions"
  shows "broker_delivers session topic \<longleftrightarrow> handler_of_levels (levels topic) \<noteq> None"
proof -
  have "take 1 f \<notin> {''+'', ''#''}" if "f \<in> set amr_subscriptions" for f
    using that by (auto simp: amr_subscriptions_def topic_defs)
  then show ?thesis unfolding handler_of_levels_match broker_delivers_def assms by blast
qed

text \<open>
  C27: the edge server hears its robots. After \<open>init\<close> of the communication with the robots and any changes of the
  connection, one of which is a connection at which the library accepts every subscription, the broker delivers
  a message to the edge server exactly when its topic is one of the five kinds that a robot publishes, read
  off the levels of the topic; and whatever order the hash table of the router has, the consumer then hands the message to
  the handler of this kind. This does not depend on the connection having been lost since.
\<close>

theorem edge_hears_the_robots:
  assumes "amr_init True outcome cfg (new_communication defaults) = (ok, calls, co)"
    and "session = link_run (co_mqtt co) (evs1 @ Link_Up published [] ms # evs2) Map.empty"
    and "mset handlers = mset (m_msgHandlers (co_router co))"
    and "co' = co\<lparr>co_router := (co_router co)\<lparr>m_msgHandlers := handlers\<rparr>\<rparr>"
  shows "(broker_delivers session topic \<longleftrightarrow> handler_of_levels (levels topic) \<noteq> None) \<and>
    fst (messageConsumer (co_router (receive_message topic msg co'))) =
      map_option (\<lambda>h. (h, msg)) (handler_of_levels (levels topic))"
proof -
  from amr_init_state [OF assms(1) TrueI] have co: "subscribed (co_mqtt co) = set amr_subscriptions"
    "map_ok (co_mqtt co)" "mt_callback (co_mqtt co)" "m_msgHandlers (co_router co) = amr_handlers"
    "m_msgQueue (co_router co) = []" by simp_all
  have "dom session = set amr_subscriptions" using link_run_after_up [OF co(2)] by (simp add: assms(2) co(1))
  moreover have "messageRouter handlers topic = handler_of_levels (levels topic)"
    using messageRouter_amr [of handlers] assms(3) co(4) by simp
  ultimately show ?thesis
    using co(3,5)
    by (simp add: delivered_to_amr assms(4) receive_message_def message_arrived_def onMessageProducer_def
        messageConsumer_def)
qed

definition no_mqtt_options :: mqtt_options where
  "no_mqtt_options = \<lparr>mo_version = 0, mo_user_name = [], mo_password = [], mo_keep_alive = 60,
     mo_automatic_reconnect = None, mo_clean_session = True, mo_will = None, mo_trust_store = None\<rparr>"

definition sample_mqtt :: mqtt_config where
  "sample_mqtt = \<lparr>mq_url = ''tcp://b:1883'', mq_client_id = ''edge'', mq_user = [], mq_pwd = [], mq_ca_file = [],
     mq_keepalive = 60, mq_reconnect_interval = 5, mq_tls_enable = False, mq_will_msg_enable = False, mq_will = ([], [])\<rparr>"

lemma edge_hears_the_robots_witness:
  "\<exists>co :: amr_handler communication. snd (snd (amr_init True (Connect_Code 0) sample_mqtt (new_communication no_mqtt_options))) = co \<and>
     broker_delivers (link_run (co_mqtt co) [Link_Up True [] 0, Link_Down] Map.empty) (makeRobotStatusTopic ''amr-1'') \<and>
     fst (messageConsumer (co_router (receive_message (makeRobotStatusTopic ''amr-1'') None co))) =
       Some (robotStatusHandler_of, None)"
proof -
  obtain ok calls and co :: "amr_handler communication"
    where co: "amr_init True (Connect_Code 0) sample_mqtt (new_communication no_mqtt_options) = (ok, calls, co)"
    by (metis prod_cases3)
  have "co = co\<lparr>co_router := (co_router co)\<lparr>m_msgHandlers := m_msgHandlers (co_router co)\<rparr>\<rparr>" by simp
  from edge_hears_the_robots [OF co refl refl this, of "[]" True 0 "[Link_Down]" "makeRobotStatusTopic ''amr-1''" None]
  show ?thesis using co by (simp add: handler_of_levels_def)
qed

section \<open>The robot\<close>

lemma edge_comm_init_state:
  assumes "edge_comm_init True outcome info (new_communication defaults) = (ok, calls, co)"
    and "task_bridge_init links (b_robot_id info) wid co = Some (calls', co')" and "length links = 4"
  shows "subscribed (co_mqtt co') = set (agent_subscriptions (b_robot_id info)) \<union> set (bridge_subscriptions (b_robot_id info) wid) \<and>
    map_ok (co_mqtt co') \<and> m_msgHandlers (co_router co') = agent_handlers (b_robot_id info) wid"
proof -
  have co: "subscribed (co_mqtt co) = set (agent_subscriptions (b_robot_id info)) \<and> map_ok (co_mqtt co) \<and>
      bridge_handlers (b_robot_id info) wid (m_msgHandlers (co_router co)) = agent_handlers (b_robot_id info) wid"
    using assms(1) mqtt_init_keys [of True "will_config (b_robot_id info) (b_mqtt info)" defaults]
    by (auto simp: edge_comm_init_def new_communication_def bridge_handlers_def agent_handlers_def Let_def mqtt_init_def
        split: prod.splits bool.splits if_splits)
  have "length (bridge_subscriptions (b_robot_id info) wid) = length links"
    using assms(3) by (simp add: bridge_subscriptions_def)
  then have keys: "fst ` set (zip (bridge_subscriptions (b_robot_id info) wid) links) = set (bridge_subscriptions (b_robot_id info) wid)"
    by (metis map_fst_zip list.set_map)
  from assms(2) obtain c where c: "bridge_subscribe (zip (bridge_subscriptions (b_robot_id info) wid) links) (co_mqtt co) = Some (calls', c)"
    and co': "co' = co\<lparr>co_mqtt := c, co_router := (co_router co)\<lparr>m_msgHandlers :=
           bridge_handlers (b_robot_id info) wid (m_msgHandlers (co_router co))\<rparr>\<rparr>"
    by (auto simp: task_bridge_init_def)
  from bridge_subscribe_keys [OF c] co keys show ?thesis by (auto simp: co')
qed

text \<open>The messages of the edge server for one robot, with the handlers that are meant for them.\<close>

definition edge_messages :: "string \<Rightarrow> (string \<times> agent_handler) list" where
  "edge_messages robot_id =
     [(EDGE_SERVER_STATUS, edgeSvrStatusHandler), (ROBOT_REGISTER_RSP_PREFIX @ robot_id, robotRegisterRespHandler),
      (makeAmrTaskTopic robot_id, amrTaskHandler), (makeAmrTaskGoodsResponseTopic robot_id, goodsResponseHandler),
      (makeAmrTaskStatusAckTopic robot_id, statusAckHandler)]"

lemma mqtt_match_refl: "''#'' \<notin> set ls \<Longrightarrow> mqtt_match ls ls"
  by (induction ls) (auto intro: mqtt_match.intros)

lemma robot_topic_levels [simp]:
  "levels EDGE_SERVER_STATUS = [''edge_server'', ''status'']"
  "CHR ''/'' \<notin> set rid \<Longrightarrow> levels (ROBOT_REGISTER_RSP_PREFIX @ rid) = [''amr'', ''register'', ''response'', rid]"
  "CHR ''/'' \<notin> set wid \<Longrightarrow> CHR ''/'' \<notin> set t \<Longrightarrow>
    levels (makeWarehouseTaskStateTopic wid t) = [''warehouse'', wid, ''task'', t, ''state'']"
  using levels_append [of wid] levels_append [of t] levels_single [of rid]
  by (simp_all add: topic_defs EDGE_SERVER_STATUS_def ROBOT_REGISTER_RSP_PREFIX_def)

lemma agent_routes:
  assumes "CHR ''/'' \<notin> set rid" and "CHR ''/'' \<notin> set wid"
  shows "\<forall>(topic, h)\<in>set (edge_messages rid). agentRouter (agent_handlers rid wid) topic = Some h"
    and "CHR ''/'' \<notin> set t \<Longrightarrow> t \<noteq> ''+'' \<Longrightarrow> agentRouter (agent_handlers rid wid) (makeWarehouseTaskStateTopic wid t) = None"
proof -
  have neq: "a = b \<longleftrightarrow> False" if "levels a \<noteq> levels b" for a b :: string using that by blast
  show "\<forall>(topic, h)\<in>set (edge_messages rid). agentRouter (agent_handlers rid wid) topic = Some h"
    using assms by (simp add: edge_messages_def agentRouter_def agent_handlers_def registerHandler_def update_conv' neq)
  show "agentRouter (agent_handlers rid wid) (makeWarehouseTaskStateTopic wid t) = None"
    if "CHR ''/'' \<notin> set t" "t \<noteq> ''+''"
    using assms that by (simp add: agentRouter_def agent_handlers_def registerHandler_def update_conv' neq)
qed

text \<open>
  C28: The robot hears the edge server. After the initialisation of its communication and of the task bridge,
  whatever its subscriptions met, and any changes of the connection, one of which is a connection at which the
  library accepts every subscription, the broker delivers each message of the edge server for this robot and the
  router finds the handler meant for it. The state of a task is delivered too, but no handler is found for it.
\<close>

theorem robot_hears_the_edge:
  assumes "edge_comm_init True outcome info (new_communication defaults) = (ok, calls, co)"
    and "task_bridge_init links (b_robot_id info) wid co = Some (calls', co')" and "length links = 4"
    and "session = link_run (co_mqtt co') (evs1 @ Link_Up published [] ms # evs2) Map.empty"
    and "CHR ''/'' \<notin> set (b_robot_id info)" and "b_robot_id info \<noteq> ''#''"
    and "CHR ''/'' \<notin> set wid" and "wid \<noteq> ''#''"
  shows "(\<forall>(topic, h)\<in>set (edge_messages (b_robot_id info)).
      broker_delivers session topic \<and> agentRouter (m_msgHandlers (co_router co')) topic = Some h) \<and>
    (\<forall>task_id. CHR ''/'' \<notin> set task_id \<and> task_id \<noteq> ''+'' \<longrightarrow>
      broker_delivers session (makeWarehouseTaskStateTopic wid task_id) \<and>
      agentRouter (m_msgHandlers (co_router co')) (makeWarehouseTaskStateTopic wid task_id) = None)"
proof -
  let ?rid = "b_robot_id info"
  from edge_comm_init_state [OF assms(1,2,3)] have co:
    "subscribed (co_mqtt co') = set (agent_subscriptions ?rid) \<union> set (bridge_subscriptions ?rid wid)"
    "map_ok (co_mqtt co')" "m_msgHandlers (co_router co') = agent_handlers ?rid wid" by simp_all
  have dom: "dom session = set (agent_subscriptions ?rid) \<union> set (bridge_subscriptions ?rid wid)"
    using link_run_after_up [OF co(2)] by (simp add: assms(4) co(1))
  have own: "broker_delivers session topic" if "(topic, h) \<in> set (edge_messages ?rid)" for topic h
  proof -
    have "topic \<in> dom session" "mqtt_match (levels topic) (levels topic)" "take 1 topic \<noteq> ''$''"
      using that assms(5,6) unfolding dom
      by (auto simp: edge_messages_def agent_subscriptions_def bridge_subscriptions_def intro!: mqtt_match_refl)
        (auto simp: topic_defs EDGE_SERVER_STATUS_def ROBOT_REGISTER_RSP_PREFIX_def)
    then show ?thesis unfolding broker_delivers_def by blast
  qed
  have state: "broker_delivers session (makeWarehouseTaskStateTopic wid task_id)" if "CHR ''/'' \<notin> set task_id" for task_id
  proof -
    have "makeWarehouseTaskStateTopic wid ''+'' \<in> dom session" by (simp add: dom bridge_subscriptions_def)
    moreover have "mqtt_match (levels (makeWarehouseTaskStateTopic wid ''+'')) (levels (makeWarehouseTaskStateTopic wid task_id))"
      using that assms(7,8) by (auto intro!: mqtt_match.intros)
    moreover have "take 1 (makeWarehouseTaskStateTopic wid task_id) \<noteq> ''$''" by (simp add: topic_defs)
    ultimately show ?thesis unfolding broker_delivers_def by blast
  qed
  show ?thesis
    using own state agent_routes [OF assms(5,7)] by (auto simp: co(3))
qed

definition sample_agent_info :: bootstrap_info where
  "sample_agent_info = \<lparr>b_robot_id = ''amr-1'', b_warehouse_id = ''W1'', b_edge_host = ''edge'', b_edge_port = 8080,
     b_initial_x = 0, b_initial_y = 0, b_initial_yaw = 0, b_mqtt = sample_mqtt,
     b_map = \<lparr>mc_path = ''/m'', mc_version = ''v1'', mc_mapName = [], mc_imageName = [], mc_zoneName = [], mc_stationName = []\<rparr>\<rparr>"

lemma setExternalSubscribe_total:
  "mt_client c \<Longrightarrow> \<exists>calls c'. setExternalSubscribe link topic qos c = Some (calls, c') \<and> mt_client c'"
  by (auto simp: setExternalSubscribe_def mqtt_subscribe_def split: option.splits prod.splits bool.splits if_splits)

lemma bridge_subscribe_total: "mt_client c \<Longrightarrow> \<exists>calls c'. bridge_subscribe links c = Some (calls, c')"
proof (induction links arbitrary: c)
  case Nil
  then show ?case by simp
next
  case (Cons l links)
  obtain topic link where l: "l = (topic, link)" by (cases l)
  from setExternalSubscribe_total [OF Cons.prems, of link topic 1] obtain calls1 c1
    where 1: "setExternalSubscribe link topic 1 c = Some (calls1, c1)" "mt_client c1" by blast
  from Cons.IH [OF 1(2)] show ?case using 1(1) by (auto simp: l)
qed

lemma robot_hears_the_edge_witness:
  "\<exists>(co :: agent_handler communication) (co' :: agent_handler communication) ok calls calls'.
     edge_comm_init True (Connect_Code 0) sample_agent_info (new_communication no_mqtt_options) = (ok, calls, co) \<and>
     task_bridge_init [(True, True), (True, False), (False, False), (True, True)] ''amr-1'' ''W1'' co = Some (calls', co') \<and>
     broker_delivers (link_run (co_mqtt co') [Link_Down, Link_Up True [] 0] Map.empty) (makeAmrTaskTopic ''amr-1'') \<and>
     agentRouter (m_msgHandlers (co_router co')) (makeAmrTaskTopic ''amr-1'') = Some amrTaskHandler"
proof -
  let ?links = "[(True, True), (True, False), (False, False), (True, True)]"
  obtain ok calls and co :: "agent_handler communication"
    where co: "edge_comm_init True (Connect_Code 0) sample_agent_info (new_communication no_mqtt_options) = (ok, calls, co)"
    by (metis prod_cases3)
  then have "mt_client (co_mqtt co)"
    by (auto simp: edge_comm_init_def new_communication_def mqtt_init_def Let_def split: prod.splits)
  then obtain calls' co' where co': "task_bridge_init ?links (b_robot_id sample_agent_info) ''W1'' co = Some (calls', co')"
    using bridge_subscribe_total [of "co_mqtt co"] by (fastforce simp: task_bridge_init_def)
  have ids: "b_robot_id sample_agent_info = ''amr-1''" by (simp add: sample_agent_info_def)
  have "(makeAmrTaskTopic ''amr-1'', amrTaskHandler) \<in> set (edge_messages ''amr-1'')" by (simp add: edge_messages_def)
  with robot_hears_the_edge [OF co co' _ refl, of "[Link_Down]" True 0 "[]"] co co'
  show ?thesis unfolding ids by fastforce
qed

text \<open>
  A subscription that falls between two states of the connection is lost until the next one: \<open>subscribe\<close>
  finds no connection, the connection is made and restores the map, and only then is the topic entered into the map.
\<close>

lemma late_subscription_is_not_made:
  assumes "topic \<notin> subscribed c" and "map_ok c" and "mt_client c"
  shows "mqtt_subscribe False accepted topic qos c = Some (False, [], c) \<and>
    topic \<in> subscribed (mqtt_setSubscribe topic qos c) \<and>
    topic \<notin> dom (broker_session (mqtt_connected published accepts ms c) Map.empty)"
proof -
  have "map_of (mt_subscriptionMap c) topic = None" using assms(1) by (simp add: subscribed_def map_of_eq_None_iff)
  then show ?thesis using assms(2,3) by (simp add: mqtt_subscribe_def session_after_connected map_ok_def map_of_filter_key domIff)
qed

end
