(* ===== verification/Bootstrap_Rules.thy ===== *)
theory Bootstrap_Rules
  imports Agent_Bootstrap Edge_Config Http_Rules Map_Distribution Map_File_Rules Mqtt_Rules
begin

text \<open>When the start of a robot returns, and what it has learnt then.\<close>

section \<open>Termination\<close>

text \<open>
  The directory that the metadata of a directory names: there is none when the file cannot be read, when an assignment throws, or
  when the metadata have no \<open>map.path\<close>. Whether an assignment throws does not depend on what it assigns to.
\<close>

lemma attempt_throws_same:
  assumes "\<And>f s s'. f \<in> set fs \<Longrightarrow> (f s = None) = (f s' = None)"
  shows "fst (attempt fs s) = fst (attempt fs s')"
  using assms
proof (induction fs arbitrary: s s')
  case Nil
  then show ?case by simp
next
  case (Cons f fs)
  have same: "(f s = None) = (f s' = None)" using Cons.prems by simp
  have rest: "fst (attempt fs t) = fst (attempt fs t')" for t t' by (rule Cons.IH) (simp add: Cons.prems)
  show ?case using same rest by (auto split: option.split)
qed

definition member_throws :: "'n yaml_lib \<Rightarrow> ('n \<Rightarrow> 'v option) \<Rightarrow> string \<Rightarrow> 'n \<Rightarrow> bool" where
  "member_throws lib conv key node \<longleftrightarrow>
     (case find_at lib node key of None \<Rightarrow> True | Some None \<Rightarrow> False | Some (Some m) \<Rightarrow> conv m = None)"

lemma assign_member_throws: "assign_member lib conv key upd node s = None \<longleftrightarrow> member_throws lib conv key node"
  by (simp add: assign_member_def member_throws_def split: option.split)

lemma below_throws:
  "below lib key (assign_member lib conv key' upd) node s = None \<longleftrightarrow>
    (case find_at lib node key of None \<Rightarrow> True | Some None \<Rightarrow> False | Some (Some m) \<Rightarrow> member_throws lib conv key' m)"
  by (simp add: below_def assign_member_throws split: option.split)

lemma metadata_steps_throw:
  "fst (attempt (metadata_steps lib config) info) = fst (attempt (metadata_steps lib config) info')"
proof (rule attempt_throws_same)
  fix f s s'
  assume f: "f \<in> set (metadata_steps lib config)"
  have "list_all (\<lambda>f. (f s = None) = (f s' = None)) (metadata_steps lib config)"
    by (simp only: metadata_steps_def list.pred_inject assign_member_throws below_throws simp_thms)
  with f show "(f s = None) = (f s' = None)" by (simp add: list_all_iff)
qed

definition metadata_readable :: "'n yaml_lib \<Rightarrow> 'n \<Rightarrow> bool" where
  "metadata_readable lib config \<longleftrightarrow> (\<forall>info. fst (attempt (metadata_steps lib config) info))"

lemma metadata_readable_iff: "metadata_readable lib config \<longleftrightarrow> fst (attempt (metadata_steps lib config) info)"
proof
  assume ok: "fst (attempt (metadata_steps lib config) info)"
  show "metadata_readable lib config"
    unfolding metadata_readable_def
  proof
    fix info'
    show "fst (attempt (metadata_steps lib config) info')"
      using ok metadata_steps_throw [of lib config info info'] by simp
  qed
qed (simp add: metadata_readable_def)

definition next_directory :: "'n yaml_lib \<Rightarrow> file_system \<Rightarrow> string \<Rightarrow> string option" where
  "next_directory lib fs path =
     (case load_file lib fs (path @ ''/metadata.yaml'') of
        None \<Rightarrow> None
      | Some config \<Rightarrow>
          if metadata_readable lib config then (case nested_path lib config of Some p \<Rightarrow> p | None \<Rightarrow> None) else None)"

inductive chain_ends :: "'n yaml_lib \<Rightarrow> file_system \<Rightarrow> string \<Rightarrow> bool" for lib fs where
  chain_stop: "next_directory lib fs path = None \<Longrightarrow> chain_ends lib fs path"
| chain_step: "next_directory lib fs path = Some path' \<Longrightarrow> chain_ends lib fs path' \<Longrightarrow> chain_ends lib fs path"

lemma loadMapMetadata_cases:
  "loadMapMetadata lib fs identified info =
    (case load_file lib fs (metadata_file info) of
       None \<Rightarrow> Some (False, info)
     | Some config \<Rightarrow>
         (let (ok, info1) = attempt (metadata_steps lib config) info in
          case next_directory lib fs (mc_path (b_map info)) of
            None \<Rightarrow> Some (ok \<and> nested_path lib config \<noteq> None \<and> identified, info1)
          | Some path \<Rightarrow> Option.bind (loadMapMetadata lib fs identified (on_map (\<lambda>m. m\<lparr>mc_path := path\<rparr>) info1))
              (\<lambda>r. Some (identified, snd r))))"
proof (cases "load_file lib fs (metadata_file info)")
  case None
  then show ?thesis by (subst loadMapMetadata.simps) simp
next
  case (Some config)
  obtain ok info1 where a: "attempt (metadata_steps lib config) info = (ok, info1)" by fastforce
  have "next_directory lib fs (mc_path (b_map info)) = (if ok then (case nested_path lib config of Some p \<Rightarrow> p | None \<Rightarrow> None) else None)"
    using Some a by (simp add: next_directory_def metadata_file_def metadata_readable_iff [of lib config info])
  then show ?thesis by (subst loadMapMetadata.simps) (simp add: Some a split: option.split)
qed

lemma metadata_returns:
  "chain_ends lib fs path \<Longrightarrow> mc_path (b_map info) = path \<Longrightarrow> \<exists>r. loadMapMetadata lib fs identified info = Some r"
proof (induction arbitrary: info rule: chain_ends.induct)
  case (chain_stop path)
  show ?case
  proof (cases "load_file lib fs (metadata_file info)")
    case None
    then show ?thesis by (subst loadMapMetadata_cases) auto
  next
    case (Some config)
    obtain ok info1 where "attempt (metadata_steps lib config) info = (ok, info1)" by fastforce
    then show ?thesis by (subst loadMapMetadata_cases) (simp add: Some chain_stop)
  qed
next
  case (chain_step path path')
  have ih: "\<exists>r. loadMapMetadata lib fs identified (on_map (\<lambda>m. m\<lparr>mc_path := path'\<rparr>) i) = Some r" for i
    by (rule chain_step.IH) (simp add: on_map_def)
  show ?case
  proof (cases "load_file lib fs (metadata_file info)")
    case None
    then show ?thesis by (subst loadMapMetadata_cases) auto
  next
    case (Some config)
    obtain ok info1 where a: "attempt (metadata_steps lib config) info = (ok, info1)" by fastforce
    from ih [of info1] obtain r where "loadMapMetadata lib fs identified (on_map (\<lambda>m. m\<lparr>mc_path := path'\<rparr>) info1) = Some r" ..
    then show ?thesis by (subst loadMapMetadata_cases) (simp add: Some a chain_step)
  qed
qed

lemma metadata_returned:
  "loadMapMetadata lib fs identified info = Some r \<Longrightarrow> chain_ends lib fs (mc_path (b_map info))"
proof (induction rule: loadMapMetadata.raw_induct [rotated 1, consumes 1, case_names body])
  case (body load lib fs identified info r)
  show ?case
  proof (cases "next_directory lib fs (mc_path (b_map info))")
    case None
    then show ?thesis by (rule chain_stop)
  next
    case (Some path)
    then obtain config where config: "load_file lib fs (metadata_file info) = Some config"
        "metadata_readable lib config" "nested_path lib config = Some (Some path)"
      by (auto simp: next_directory_def metadata_file_def split: option.splits if_splits)
    obtain info1 where info1: "attempt (metadata_steps lib config) info = (True, info1)"
      using config(2) metadata_readable_iff [of lib config info] by (metis prod.collapse)
    from body(2) config info1 obtain r' where "load lib fs identified (on_map (\<lambda>m. m\<lparr>mc_path := path\<rparr>) info1) = Some r'"
      by (auto simp: bind_eq_Some_conv)
    from body(1) [OF this] have "chain_ends lib fs path" by (simp add: on_map_def)
    with Some show ?thesis by (rule chain_step)
  qed
qed

text \<open>
  C31: Reading the metadata of a map returns exactly when the directories that the metadata files name one after
  another come to an end. A metadata file that names its own directory makes the robot hang at its start.
\<close>

theorem map_metadata_returns_iff:
  "(\<exists>r. loadMapMetadata lib fs identified info = Some r) = chain_ends lib fs (mc_path (b_map info))"
  using metadata_returns metadata_returned by blast

lemma own_directory_never_returns:
  assumes "next_directory lib fs (mc_path (b_map info)) = Some (mc_path (b_map info))"
  shows "loadMapMetadata lib fs identified info = None"
proof -
  have "chain_ends lib fs p \<Longrightarrow> next_directory lib fs p = Some p \<Longrightarrow> False" for p
    by (induction rule: chain_ends.induct) auto
  with assms metadata_returned show ?thesis by (metis option.exhaust)
qed

section \<open>Identity\<close>

lemma attempt_keeps:
  assumes "\<And>f s s'. f \<in> set fs \<Longrightarrow> P s \<Longrightarrow> f s = Some s' \<Longrightarrow> P s'" and "P s"
  shows "P (snd (attempt fs s))"
  using assms
proof (induction fs arbitrary: s)
  case Nil
  then show ?case by simp
next
  case (Cons f fs)
  show ?case
  proof (cases "f s")
    case None
    then show ?thesis using Cons.prems by simp
  next
    case (Some s')
    have "P s'" using Cons.prems(1) [of f s s'] Cons.prems(2) Some by simp
    then have "P (snd (attempt fs s'))" using Cons.prems(1) by (intro Cons.IH) (auto simp: list.set_intros)
    then show ?thesis by (simp add: Some)
  qed
qed

definition same_identity :: "bootstrap_info \<Rightarrow> bootstrap_info \<Rightarrow> bool" where
  "same_identity i j \<longleftrightarrow> b_robot_id j = b_robot_id i \<and> b_edge_host j = b_edge_host i \<and> b_edge_port j = b_edge_port i \<and>
     b_mqtt j = b_mqtt i \<and> b_warehouse_id j = b_warehouse_id i"

lemma assign_member_cases:
  "assign_member lib conv key upd node s = Some s' \<Longrightarrow> s' = s \<or> (\<exists>v. s' = upd v s)"
  "below lib key (assign_member lib conv key' upd) node s = Some s' \<Longrightarrow> s' = s \<or> (\<exists>v. s' = upd v s)"
  "below lib key1 (below lib key2 (assign_member lib conv key' upd)) node s = Some s' \<Longrightarrow> s' = s \<or> (\<exists>v. s' = upd v s)"
  by (auto simp: assign_member_def below_def split: option.splits)

lemma metadata_steps_identity: "same_identity info (snd (attempt (metadata_steps lib config) info))"
proof (rule attempt_keeps)
  fix f s s'
  assume "f \<in> set (metadata_steps lib config)" "same_identity info s" "f s = Some s'"
  then show "same_identity info s'"
    unfolding metadata_steps_def
    by (auto dest!: assign_member_cases simp: same_identity_def on_map_def)
qed (simp add: same_identity_def)

lemma loadMapMetadata_identity: "loadMapMetadata lib fs identified info = Some r \<Longrightarrow> same_identity info (snd r)"
proof (induction rule: loadMapMetadata.raw_induct [rotated 1, consumes 1, case_names body])
  case (body load lib fs identified info r)
  show ?case
  proof (cases "load_file lib fs (metadata_file info)")
    case None
    with body(2) show ?thesis by (auto simp: same_identity_def)
  next
    case (Some config)
    obtain ok info1 where a: "attempt (metadata_steps lib config) info = (ok, info1)" by fastforce
    have 1: "same_identity info info1" using metadata_steps_identity [of info lib config] a by simp
    have 2: "same_identity info (snd r')" if "load lib fs identified (on_map (\<lambda>m. m\<lparr>mc_path := p\<rparr>) info1) = Some r'" for p r'
      using body(1) [OF that] 1 by (simp add: same_identity_def on_map_def)
    show ?thesis
      using body(2) 1 2 by (auto simp: Some a bind_eq_Some_conv split: if_splits option.splits)
  qed
qed

lemma local_config_identity:
  assumes "loadLocalConfig lib fs cfg \<lparr>bt_robotId = [], bt_edgeHost = [], bt_edgePort = 8080, bt_info = info\<rparr> = Some (True, st)"
  shows "bt_robotId st \<noteq> [] \<and> bt_edgeHost st \<noteq> [] \<and> b_robot_id (bt_info st) = bt_robotId st \<and>
    b_edge_host (bt_info st) = bt_edgeHost st"
proof -
  let ?st0 = "\<lparr>bt_robotId = [], bt_edgeHost = [], bt_edgePort = 8080, bt_info = info\<rparr>"
  let ?P = "\<lambda>st. (bt_robotId st \<noteq> [] \<longrightarrow> b_robot_id (bt_info st) = bt_robotId st) \<and>
      (bt_edgeHost st \<noteq> [] \<longrightarrow> b_edge_host (bt_info st) = bt_edgeHost st)"
  from assms obtain config st1 where config: "load_file lib fs cfg = Some config"
      and st1: "attempt (config_steps lib config) ?st0 = (True, st1)"
    by (auto simp: loadLocalConfig_def split: option.splits prod.splits bool.splits)
  have "?P (snd (attempt (config_steps lib config) ?st0))"
  proof (rule attempt_keeps)
    fix f s s'
    assume "f \<in> set (config_steps lib config)" "?P s" "f s = Some s'"
    then show "?P s'"
      unfolding config_steps_def
      by (auto dest!: assign_member_cases simp: on_info_def)
  qed simp
  then have P: "?P st1" by (simp add: st1)
  have "bt_robotId st = bt_robotId st1 \<and> bt_edgeHost st = bt_edgeHost st1 \<and> same_identity (bt_info st1) (bt_info st) \<and>
      bt_robotId st1 \<noteq> [] \<and> bt_edgeHost st1 \<noteq> []"
    using assms
    by (auto simp: loadLocalConfig_def config st1 Let_def same_identity_def on_map_def split: option.splits prod.splits
        dest!: loadMapMetadata_identity)
  with P show ?thesis by (simp add: same_identity_def)
qed

text \<open>
  C30: A robot starts with the broker that the edge server is configured for. Let the configuration of the
  edge server be loaded, let the robot load its own configuration file, and let the edge server's HTTP interface answer the robot's
  request. Then the start succeeds: the robot keeps the identity of its file, takes the warehouse, the address and
  the account of the broker from the settings of the edge server, and connects under its own id. (The texts of
  JSON documents are those of the library, which reads this answer back.)
\<close>

theorem robot_starts_with_edge_settings:
  assumes "load_config lib efs epath = Some settings" and "sv_config services = Some (bootstrap_config settings)"
    and "loadLocalConfig lib' fs cfg \<lparr>bt_robotId = [], bt_edgeHost = [], bt_edgePort = 8080, bt_info = info\<rparr> = Some (True, st)"
    and "exchange (bootstrap_path (bt_robotId st)) = wire to_text reason (fst (http_serve services env w
      (get_request ''/api/amr/bootstrap'' [(''robot_id'', bt_robotId st)]) (hfs, db)))"
    and "parse_body (to_text (getBootstrap (bootstrap_config settings) (bt_robotId st))) =
      Some (getBootstrap (bootstrap_config settings) (bt_robotId st))"
    and "to_int32 (mq_keepalive (es_mqtt settings)) = mq_keepalive (es_mqtt settings)"
    and "to_int32 (mq_reconnect_interval (es_mqtt settings)) = mq_reconnect_interval (es_mqtt settings)"
  shows "\<exists>info'. run_bootstrap lib' parse_body exchange fs cfg info = Some (Some info') \<and>
    b_robot_id info' = bt_robotId st \<and> b_edge_host info' = bt_edgeHost st \<and>
    b_warehouse_id info' = es_warehouse_id settings \<and> mq_client_id (b_mqtt info') = bt_robotId st \<and>
    mq_url (b_mqtt info') = mq_url (es_mqtt settings) \<and> mq_user (b_mqtt info') = mq_user (es_mqtt settings) \<and>
    mq_pwd (b_mqtt info') = mq_pwd (es_mqtt settings) \<and> mq_tls_enable (b_mqtt info') = mq_tls_enable (es_mqtt settings)"
proof -
  let ?rid = "bt_robotId st"
  let ?doc = "getBootstrap (bootstrap_config settings) ?rid"
  from local_config_identity [OF assms(3)] have ids: "?rid \<noteq> []" "b_robot_id (bt_info st) = ?rid"
    "b_edge_host (bt_info st) = bt_edgeHost st" by simp_all
  have url: "mq_url (es_mqtt settings) \<noteq> []" by (rule load_config_url [OF assms(1)])
  have served: "fst (http_serve services env w (get_request ''/api/amr/bootstrap'' [(''robot_id'', ?rid)]) (hfs, db)) = reply_doc 200 ?doc"
    using ids(1) assms(2) by (simp add: http_serve_def get_request_def bootstrap_route_def param_def Let_def)
  have response: "request exchange (bootstrap_path ?rid) = \<lparr>hr_succeed = True, hr_body = to_text ?doc, hr_errMsg = []\<rparr>"
    using assms(4) by (simp add: request_def served wire_def reply_doc_def)
  have decoded: "decodeBootstrapInfo (Some ?doc) (bt_info st) = Some ((bt_info st)\<lparr>b_warehouse_id := es_warehouse_id settings,
      b_mqtt := (b_mqtt (bt_info st))\<lparr>mq_url := mq_url (es_mqtt settings), mq_client_id := ?rid,
        mq_user := mq_user (es_mqtt settings), mq_pwd := mq_pwd (es_mqtt settings),
        mq_keepalive := mq_keepalive (es_mqtt settings), mq_reconnect_interval := mq_reconnect_interval (es_mqtt settings),
        mq_tls_enable := mq_tls_enable (es_mqtt settings)\<rparr>\<rparr>)"
    using url assms(6,7)
    by (simp add: getBootstrap_def bootstrap_config_def decodeBootstrapInfo_def decoded_def Let_def)
  show ?thesis
    using ids(2,3) by (simp add: run_bootstrap_def assms(3) requestBootstrap_def response assms(5) decoded)
qed

definition sample_edge_doc :: yaml_tree where
  "sample_edge_doc = T_Map [(''edge'', T_Map [(''id'', T_Str ''e1'')]), (''warehouse'', T_Map [(''id'', T_Str ''W1'')]),
     (''websocket'', T_Map [(''host'', T_Str ''0.0.0.0''), (''port'', T_Str ''60''), (''protocol'', T_Str ''ws'')]),
     (''robot'', T_Map [(''list_period_ms'', T_Str ''60'')]), (''log'', T_Map [(''level'', T_Str ''info'')]),
     (''mqtt'', T_Map [(''host'', T_Str ''broker''), (''port'', T_Str ''60''), (''tls_enable'', T_Str ''true''),
       (''username'', T_Str ''u''), (''password'', T_Str ''p''), (''client_id'', T_Str ''c''), (''ca_file'', T_Str ''ca''),
       (''keepalive'', T_Str ''60''), (''reconnect_interval'', T_Str ''60'')]),
     (''http'', T_Map [(''host'', T_Str ''0.0.0.0''), (''port'', T_Str ''60'')]), (''sqlite_db'', T_Map [(''path'', T_Str ''/db'')])]"

definition sample_robot_doc :: yaml_tree where
  "sample_robot_doc = T_Map [(''robot'', T_Map [(''id'', T_Str ''amr-1'')]), (''edge_server'', T_Map [(''host'', T_Str ''edge'')])]"

definition sample_config_lib :: "yaml_tree option yaml_lib" where
  "sample_config_lib = (tree_lib sample_edge_doc sample_robot_doc)\<lparr>yl_int := (\<lambda>n. if n = Some (T_Str ''60'') then Some 60 else None),
     yl_bool := (\<lambda>n. if n = Some (T_Str ''true'') then Some True else None)\<rparr>"

definition sample_config_files :: file_system where
  "sample_config_files = [''e.yaml'' \<mapsto> ''1'', ''r.yaml'' \<mapsto> ''2'']"

lemma sample_config_loaded:
  "\<exists>settings. load_config sample_config_lib sample_config_files ''e.yaml'' = Some settings \<and>
     es_warehouse_id settings = ''W1'' \<and> mq_keepalive (es_mqtt settings) = 60 \<and> mq_reconnect_interval (es_mqtt settings) = 60"
  by (simp add: load_config_def load_file_def sample_config_files_def sample_config_lib_def tree_lib_def setting_def
      read_mqtt_settings_def sample_edge_doc_def)

lemma sample_local_config:
  "\<exists>st. loadLocalConfig sample_config_lib sample_config_files ''r.yaml''
      \<lparr>bt_robotId = [], bt_edgeHost = [], bt_edgePort = 8080, bt_info = info\<rparr> = Some (True, st) \<and> bt_robotId st = ''amr-1''"
  by (simp add: loadLocalConfig_def load_file_def sample_config_files_def sample_config_lib_def tree_lib_def config_steps_def
      below_def assign_member_def find_at_def nested_path_def sample_robot_doc_def on_info_def Let_def)

lemma robot_starts_with_edge_settings_witness:
  "\<exists>parse_body exchange info'. run_bootstrap sample_config_lib parse_body exchange sample_config_files ''r.yaml'' sample_agent_info =
     Some (Some info') \<and> b_robot_id info' = ''amr-1'' \<and> b_warehouse_id info' = ''W1''"
proof -
  obtain settings where s: "load_config sample_config_lib sample_config_files ''e.yaml'' = Some settings"
      "es_warehouse_id settings = ''W1''" "mq_keepalive (es_mqtt settings) = 60" "mq_reconnect_interval (es_mqtt settings) = 60"
    using sample_config_loaded by blast
  obtain st where st: "loadLocalConfig sample_config_lib sample_config_files ''r.yaml''
      \<lparr>bt_robotId = [], bt_edgeHost = [], bt_edgePort = 8080, bt_info = sample_agent_info\<rparr> = Some (True, st)" "bt_robotId st = ''amr-1''"
    using sample_local_config [of sample_agent_info] by blast
  let ?services = "sample_services\<lparr>sv_config := Some (bootstrap_config settings)\<rparr>"
  let ?exchange = "\<lambda>path. wire (\<lambda>_. ''body'') ''OK'' (fst (http_serve ?services calm sample_upload_world
      (get_request ''/api/amr/bootstrap'' [(''robot_id'', bt_robotId st)]) (Map.empty, fresh_db)))"
  let ?parse = "\<lambda>body. Some (getBootstrap (bootstrap_config settings) (bt_robotId st))"
  have services: "sv_config ?services = Some (bootstrap_config settings)" by simp
  have exchange: "?exchange (bootstrap_path (bt_robotId st)) = wire (\<lambda>_. ''body'') ''OK'' (fst (http_serve ?services calm
      sample_upload_world (get_request ''/api/amr/bootstrap'' [(''robot_id'', bt_robotId st)]) (Map.empty, fresh_db)))" ..
  from robot_starts_with_edge_settings [where exchange = ?exchange and parse_body = ?parse, OF s(1) services st(1) exchange refl] s(2-4) st(2)
  show ?thesis by auto
qed

section \<open>The edge server's return\<close>

lemma edge_status_route: "agentRouter (agent_handlers rid wid) EDGE_SERVER_STATUS = Some edgeSvrStatusHandler"
  by (simp add: agentRouter_def agent_handlers_def registerHandler_def update_conv' topic_defs EDGE_SERVER_STATUS_def
      ROBOT_REGISTER_RSP_PREFIX_def)

text \<open>
  C29: A robot notices that the edge server is back. With the settings of its configuration file, the edge server publishes at every
  connection, first of all and retained, that it is online. A robot that holds the edge server for offline then tells
  its nodes that it is online, forgets its registration and registers again.
\<close>

theorem edge_return_is_noticed:
  assumes "load_config lib fs path = Some settings"
    and "mqtt_init True (es_mqtt settings) (new_mqtt_client defaults) = (ok, c)" and "\<not> n_edge_online a"
  shows "\<exists>calls. mqtt_connected True accepts ms c = Lib_Publish EDGE_SERVER_STATUS (online_message ms) 1 True # calls \<and>
    agent_consume env (EDGE_SERVER_STATUS, Some (online_message ms)) (a, pending) =
      ([Edge_Status True, sendRegisterRequest (now1 env) (now2 env) (a\<lparr>n_edge_online := True, n_registered := False\<rparr>)],
       None, a\<lparr>n_edge_online := True, n_registered := False\<rparr>, pending)"
proof -
  have "mt_willEnable c" "fst (mt_will c) = EDGE_SERVER_STATUS" "mt_client c"
    using assms(2) load_config_mqtt [OF assms(1)] by (auto simp: mqtt_init_def)
  then have "\<exists>calls. mqtt_connected True accepts ms c = Lib_Publish EDGE_SERVER_STATUS (online_message ms) 1 True # calls"
    by (simp add: mqtt_connected_def mqtt_publish_def)
  moreover have "decodeEdgeSvrStatus (Some (online_message ms)) = Some True"
    by (simp add: decodeEdgeSvrStatus_def online_message_def)
  ultimately show ?thesis
    using assms(3) by (simp add: agent_consume_def edge_status_route onEdgeStatusMessage_def Let_def)
qed

lemma edge_return_is_noticed_witness:
  "\<exists>settings c calls. load_config sample_config_lib sample_config_files ''e.yaml'' = Some settings \<and>
     mqtt_connected True (\<lambda>_. True) 5 c = Lib_Publish EDGE_SERVER_STATUS (online_message 5) 1 True # calls \<and> mt_client c"
proof -
  obtain settings where s: "load_config sample_config_lib sample_config_files ''e.yaml'' = Some settings"
    using sample_config_loaded by blast
  obtain ok c where c: "mqtt_init True (es_mqtt settings) (new_mqtt_client no_mqtt_options) = (ok, c)" by fastforce
  then have "mt_client c" by (auto simp: mqtt_init_def)
  moreover have off: "\<not> n_edge_online (agent_of_bootstrap sample_agent_info)" by (simp add: agent_of_bootstrap_def)
  moreover from edge_return_is_noticed [OF s c off, of "\<lambda>_. True" 5] obtain calls
    where "mqtt_connected True (\<lambda>_. True) 5 c = Lib_Publish EDGE_SERVER_STATUS (online_message 5) 1 True # calls" by blast
  ultimately show ?thesis using s by blast
qed

end
