(* ===== verification/Edge_App.thy ===== *)
theory Edge_App
  imports Edge_Config Mqtt_Delivery Robot_List Timer
begin

text \<open>
  \<open>edge_server/src/edge_server_app.cpp\<close>: the edge server as a whole. \<open>init\<close> builds the components, joins
  them by callbacks and starts their threads; afterwards each thread takes turns. One turn of a thread is
  one step here: the components guard their state by mutexes, and what is shared between two of them is the
  database, whose operations are atomic. The threads of the MQTT router, the HTTP server, the WebSocket server and
  the two timers are those of the components.
\<close>

section \<open>State\<close>

text \<open>
  The members of \<open>EdgeServerApp\<close>, with the database and the disk of the machine. \<open>ea_pose_allocator\<close>: whether the
  robot manager has been given the callback that allocates a pose.
\<close>

record edge_app =
  ea_settings :: "edge_settings option"
  ea_robots :: "idle_allocator robot_system"
  ea_pose_allocator :: bool
  ea_maps :: map_service
  ea_tasks :: task_service
  ea_bootstrap :: "edge_config option"
  ea_topics :: topic_manager
  ea_ws :: "json option ws_server"
  ea_list_timer :: timer
  ea_amr :: "amr_handler communication"
  ea_heartbeat_timer :: timer
  ea_http :: "(string \<times> int) option"
  ea_disk :: file_system

text \<open>A process that has not called \<open>init\<close>, on a machine with this disk and these tables in the database file.\<close>

definition new_app :: "mqtt_options \<Rightarrow> file_system \<Rightarrow> db_tables \<Rightarrow> edge_app" where
  "new_app defaults disk t =
     \<lparr>ea_settings = None,
      ea_robots = \<lparr>manager = \<lparr>m_robots = [], m_event_callback = False\<rparr>, allocator = no_points,
        database = \<lparr>opened = False, tables = t, journal = None\<rparr>\<rparr>,
      ea_pose_allocator = False, ea_maps = \<lparr>ms_warehouse_id = [], ms_callback = False\<rparr>,
      ea_tasks = \<lparr>m_warehouse_id = [], m_publish_callback = False\<rparr>, ea_bootstrap = None, ea_topics = no_topics,
      ea_ws = fresh_ws_server, ea_list_timer = new_timer, ea_amr = new_communication defaults,
      ea_heartbeat_timer = new_timer, ea_http = None, ea_disk = disk\<rparr>"

text \<open>
  What a start meets: of SQLite whether opening works, whether it leaves a handle, the answer to the journal
  pragma, and its calls while the tables are created and while the robots are read; whether the context of the
  WebSocket library and the client of the MQTT library can be created, and how the connection to the broker
  ends; the map query's environment and the indeterminate members of fresh robot structures.
\<close>

record app_world =
  aw_open :: bool
  aw_handle :: bool
  aw_wal :: bool
  aw_schema :: engine
  aw_load :: engine
  aw_maps :: environment
  aw_ws_context :: bool
  aw_ws_now :: int
  aw_mqtt_created :: bool
  aw_mqtt_connect :: connect_outcome
  aw_base0 :: robot_base_info
  aw_status0 :: robot_running_status

section \<open>The database file\<close>

definition OpenDb :: "app_world \<Rightarrow> sqlite \<Rightarrow> bool \<times> sqlite" where
  "OpenDb w db = (if \<not> aw_open w then (False, db\<lparr>opened := aw_handle w\<rparr>) else (aw_wal w, db\<lparr>opened := True\<rparr>))"

text \<open>
  Two batches of \<open>CREATE TABLE IF NOT EXISTS\<close>. A table that a new file lacks is the empty table here, and a
  row of an old file without the column \<open>initial_pose\<close> is a row in which it is null, so neither the batches nor the
  added column change the rows.
\<close>

definition InitTables :: "engine \<Rightarrow> sqlite \<Rightarrow> bool \<times> sqlite" where
  "InitTables eng db = (opened db \<and> eng 0 \<and> eng 1, db)"

section \<open>The charging points of a map package\<close>

text \<open>
  What the zip library and the YAML parser make of the bytes of a package is a parameter; a package that is not
  on the disk has neither of the two entries.
\<close>

type_synonym package_reader = "string \<Rightarrow> yaml_zone yaml_doc option \<times> yaml_station yaml_doc option"

definition package_entries :: "package_reader \<Rightarrow> file_system \<Rightarrow> string \<Rightarrow> yaml_zone yaml_doc option \<times> yaml_station yaml_doc option" where
  "package_entries reader disk path = (case disk path of None \<Rightarrow> (None, None) | Some bytes \<Rightarrow> reader bytes)"

definition load_package :: "package_reader \<Rightarrow> file_system \<Rightarrow> string \<Rightarrow> idle_allocator \<Rightarrow> idle_allocator" where
  "load_package reader disk path a =
     (case package_entries reader disk path of (zones, stations) \<Rightarrow> snd (load_points zones stations a))"

section \<open>The start\<close>

text \<open>Up to the WebSocket server: services, topics, robot manager with its event callback, robot list.\<close>

definition create_components :: "edge_settings \<Rightarrow> edge_app \<Rightarrow> edge_app" where
  "create_components s app = app\<lparr>
     ea_maps := \<lparr>ms_warehouse_id = [], ms_callback = False\<rparr>,
     ea_tasks := \<lparr>m_warehouse_id = [], m_publish_callback = False\<rparr>,
     ea_topics := no_topics,
     ea_robots := (ea_robots app)\<lparr>manager := \<lparr>m_robots = [], m_event_callback = True\<rparr>\<rparr>,
     ea_list_timer := start_timer (es_list_period_ms s) False True new_timer,
     ea_ws := setMessageCallback fresh_ws_server\<rparr>"

text \<open>The services get the warehouse; the allocator gets the points of the active map, if there is one.\<close>

definition active_points :: "package_reader \<Rightarrow> environment \<Rightarrow> string \<Rightarrow> file_system \<Rightarrow> sqlite \<Rightarrow> idle_allocator" where
  "active_points reader env warehouse_id disk db =
     (case getActiveMap \<lparr>ms_warehouse_id = warehouse_id, ms_callback = False\<rparr> env warehouse_id db of
        None \<Rightarrow> no_points
      | Some package \<Rightarrow> load_package reader disk (mp_package_path package) no_points)"

definition load_active_map :: "package_reader \<Rightarrow> app_world \<Rightarrow> edge_settings \<Rightarrow> edge_app \<Rightarrow> edge_app" where
  "load_active_map reader w s app =
     app\<lparr>ea_maps := \<lparr>ms_warehouse_id = es_warehouse_id s, ms_callback = True\<rparr>,
       ea_tasks := \<lparr>m_warehouse_id = es_warehouse_id s, m_publish_callback = False\<rparr>,
       ea_robots := (ea_robots app)\<lparr>allocator :=
         active_points reader (aw_maps w) (es_warehouse_id s) (ea_disk app) (database (ea_robots app))\<rparr>,
       ea_pose_allocator := True\<rparr>"

definition restore_app :: "app_world \<Rightarrow> edge_app \<Rightarrow> edge_app" where
  "restore_app w app = app\<lparr>ea_robots := restore_robots (aw_load w) (aw_base0 w) (aw_status0 w) (ea_robots app)\<rparr>"

text \<open>The result of \<open>AmrCommunication::init\<close> is not looked at.\<close>

definition start_communication :: "app_world \<Rightarrow> edge_settings \<Rightarrow> edge_app \<Rightarrow> mqtt_call list \<times> edge_app" where
  "start_communication w s app =
     (case amr_init (aw_mqtt_created w) (aw_mqtt_connect w) (es_mqtt s) (ea_amr app) of
        (_, calls, co) \<Rightarrow>
          (calls, app\<lparr>ea_bootstrap := Some (bootstrap_config s), ea_amr := co,
             ea_heartbeat_timer := start_timer 5000 False True new_timer,
             ea_tasks := (ea_tasks app)\<lparr>m_publish_callback := True\<rparr>, ea_http := Some (es_http s)\<rparr>))"

definition app_init ::
  "'n yaml_lib \<Rightarrow> package_reader \<Rightarrow> string \<Rightarrow> app_world \<Rightarrow> edge_app \<Rightarrow> bool \<times> mqtt_call list \<times> edge_app" where
  "app_init lib reader cfgPath w app =
     (case load_config lib (ea_disk app) cfgPath of
        None \<Rightarrow> (False, [], app)
      | Some s \<Rightarrow>
          let app0 = app\<lparr>ea_settings := Some s\<rparr> in
          case OpenDb w (database (ea_robots app0)) of
            (db_open, db) \<Rightarrow>
              let app1 = app0\<lparr>ea_robots := (ea_robots app0)\<lparr>database := db\<rparr>\<rparr> in
              if \<not> db_open then (False, [], app1)
              else if \<not> fst (InitTables (aw_schema w) db) then (False, [], app1)
              else
                let app2 = create_components s app1 in
                case start_ws (aw_ws_context w) (aw_ws_now w) default_ws_options (ea_ws app2) of
                  (ws_up, srv) \<Rightarrow>
                    let app3 = app2\<lparr>ea_ws := srv\<rparr> in
                    if \<not> ws_up then (False, [], app3)
                    else case start_communication w s (restore_app w (load_active_map reader w s app3)) of
                      (calls, app4) \<Rightarrow> (True, calls, app4))"

section \<open>Turns of the threads\<close>

definition on_robot_events :: "robot_event list \<Rightarrow> edge_app \<Rightarrow> edge_app" where
  "on_robot_events evs app =
     fold (\<lambda>ev app. if triggers_publish ev then app\<lparr>ea_list_timer := trigger (ea_list_timer app)\<rparr> else app) evs app"

definition on_active_map_changed :: "package_reader \<Rightarrow> map_package option \<Rightarrow> edge_app \<Rightarrow> edge_app" where
  "on_active_map_changed reader changed app =
     (case changed of
        None \<Rightarrow> app
      | Some package \<Rightarrow> app\<lparr>ea_robots := (ea_robots app)\<lparr>allocator :=
          load_package reader (ea_disk app) (mp_package_path package) (allocator (ea_robots app))\<rparr>\<rparr>)"

definition pose_allocator_of :: "edge_app \<Rightarrow> (idle_allocator \<Rightarrow> pose2d option \<times> idle_allocator) option" where
  "pose_allocator_of app = (if ea_pose_allocator app then Some allocate else None)"

definition mqtt_turn :: "amr_environment \<Rightarrow> edge_app \<Rightarrow> message list \<times> edge_app" where
  "mqtt_turn env app =
     (let r = co_router (ea_amr app) in
      case m_msgQueue r of
        [] \<Rightarrow> ([], app)
      | tm # rest \<Rightarrow>
          (case edge_consume (ea_maps app) (m_msgHandlers r) env (pose_allocator_of app) tm (ea_robots app) of
             (msgs, evs, sys) \<Rightarrow>
               (msgs, on_robot_events evs
                  (app\<lparr>ea_robots := sys, ea_amr := (ea_amr app)\<lparr>co_router := r\<lparr>m_msgQueue := rest\<rparr>\<rparr>\<rparr>))))"

definition services_of :: "edge_app \<Rightarrow> edge_services" where
  "services_of app = \<lparr>sv_config = ea_bootstrap app, sv_maps = ea_maps app, sv_tasks = Some (ea_tasks app)\<rparr>"

definition http_turn ::
  "package_reader \<Rightarrow> environment \<Rightarrow> upload_world \<Rightarrow> api_request \<Rightarrow> edge_app \<Rightarrow> api_response \<times> message list \<times> edge_app" where
  "http_turn reader env w req app =
     (case http_serve (services_of app) env w req (ea_disk app, database (ea_robots app)) of
        (resp, msgs, changed, disk, db) \<Rightarrow>
          (resp, msgs, on_active_map_changed reader changed
             (app\<lparr>ea_disk := disk, ea_robots := (ea_robots app)\<lparr>database := db\<rparr>\<rparr>)))"

text \<open>A turn of a timer's thread is a step of its loop; the callback runs in the step that counts a call.\<close>

definition list_turn :: "bool \<Rightarrow> edge_app \<Rightarrow> edge_app" where
  "list_turn elapsed app =
     (let t = loop_step elapsed False (ea_list_timer app); app1 = app\<lparr>ea_list_timer := t\<rparr> in
      if ti_calls t = ti_calls (ea_list_timer app) then app1
      else case publish_robot_list sendToWSClient (manager (ea_robots app)) (ea_topics app, ea_ws app) of
        (topics, ws) \<Rightarrow> app1\<lparr>ea_topics := topics, ea_ws := ws\<rparr>)"

definition heartbeat_turn :: "bool \<Rightarrow> (nat \<Rightarrow> environment) \<Rightarrow> int \<Rightarrow> edge_app \<Rightarrow> message list \<times> edge_app" where
  "heartbeat_turn elapsed envs now app =
     (let t = loop_step elapsed False (ea_heartbeat_timer app); app1 = app\<lparr>ea_heartbeat_timer := t\<rparr> in
      if ti_calls t = ti_calls (ea_heartbeat_timer app) then ([], app1)
      else case checkAmrHeartbeat envs (manager (ea_robots app)) now (database (ea_robots app)) of
        (msgs, db) \<Rightarrow> (msgs, app1\<lparr>ea_robots := (ea_robots app)\<lparr>database := db\<rparr>\<rparr>))"

text \<open>The message thread of the WebSocket server and its callback into the router.\<close>

definition ws_turn :: "edge_app \<Rightarrow> edge_app" where
  "ws_turn app =
     (case message_round (ea_ws app) of
        (None, srv) \<Rightarrow> app\<lparr>ea_ws := srv\<rparr>
      | (Some (clientId, msg), srv) \<Rightarrow> app\<lparr>ea_ws := srv, ea_topics := onMessage clientId msg (ea_topics app)\<rparr>)"

datatype app_event =
    Mqtt_Arrives string "json option"
  | Mqtt_Turn amr_environment
  | Http_Request environment upload_world api_request
  | List_Turn bool
  | Heartbeat_Turn bool "nat \<Rightarrow> environment" int
  | Ws_Connects int nat string
  | Ws_Receives int int "json option"
  | Ws_Closes int
  | Ws_Turn

definition app_react :: "package_reader \<Rightarrow> app_event \<Rightarrow> edge_app \<Rightarrow> edge_app" where
  "app_react reader ev app =
     (case ev of
        Mqtt_Arrives topic msg \<Rightarrow> app\<lparr>ea_amr := receive_message topic msg (ea_amr app)\<rparr>
      | Mqtt_Turn env \<Rightarrow> snd (mqtt_turn env app)
      | Http_Request env w req \<Rightarrow> snd (snd (http_turn reader env w req app))
      | List_Turn elapsed \<Rightarrow> list_turn elapsed app
      | Heartbeat_Turn elapsed envs now \<Rightarrow> snd (heartbeat_turn elapsed envs now app)
      | Ws_Connects now wsi ip \<Rightarrow> app\<lparr>ea_ws := snd (onConnected now wsi ip (ea_ws app))\<rparr>
      | Ws_Receives now clientId msg \<Rightarrow> app\<lparr>ea_ws := onReceive now clientId msg (ea_ws app)\<rparr>
      | Ws_Closes clientId \<Rightarrow> app\<lparr>ea_ws := onDisconnected clientId (ea_ws app)\<rparr>
      | Ws_Turn \<Rightarrow> ws_turn app)"

definition app_run :: "package_reader \<Rightarrow> app_event list \<Rightarrow> edge_app \<Rightarrow> edge_app" where
  "app_run reader evs app = fold (app_react reader) evs app"

end
