(* ===== verification/Db_Frames.thy ===== *)
theory Db_Frames
  imports Task_Workflow Map_Rules Robot_Rules
begin

text \<open>
  The operations of \<open>SQLiteDB\<close> share one database. Each writes the tables of its own part: tasks, maps
  or robots. What is proved of one part is therefore kept by the operations on the others.
\<close>

section \<open>The interface: an operation that leaves some tables alone\<close>

locale framed_operation = atomic_operation run
  for run :: "sqlite \<Rightarrow> bool \<times> sqlite" +
  fixes part :: "db_tables \<Rightarrow> 'p"
  assumes success_frame: "idle db \<Longrightarrow> run db = (True, db') \<Longrightarrow> part (tables db') = part (tables db)"
begin

lemma keeps_part:
  assumes "idle db" and "run db = (ok, db')"
  shows "part (tables db') = part (tables db)"
  using assms success_frame failure_unchanged by (cases ok) simp_all

end

text \<open>The tables with one part blanked: two databases with the same remainder differ in that part only.\<close>

definition but_tasks :: "db_tables \<Rightarrow> db_tables" where
  "but_tasks t = t\<lparr>tbl_task := [], tbl_task_goods := [], tbl_task_goods_status := [],
     tbl_task_goods_allocation := [], tbl_task_event := [], tbl_amr_task_status_event := []\<rparr>"

definition but_maps :: "db_tables \<Rightarrow> db_tables" where
  "but_maps t = t\<lparr>tbl_map_package := [], tbl_active_map := [], seq_map_package := 0\<rparr>"

definition but_robots :: "db_tables \<Rightarrow> db_tables" where
  "but_robots t = t\<lparr>tbl_robot := [], tbl_robot_instance := [], tbl_robot_status := [], seq_robot_instance := 0\<rparr>"

lemma but_tasksD:
  assumes "but_tasks t' = but_tasks t"
  shows "maps_ok t' = maps_ok t" "agrees t' ids = agrees t ids" "tbl_robot t' = tbl_robot t"
    "tbl_active_map t' = tbl_active_map t" "tbl_map_package t' = tbl_map_package t"
proof -
  have eq: "tbl_map_package t' = tbl_map_package t" "tbl_active_map t' = tbl_active_map t"
    "seq_map_package t' = seq_map_package t" "tbl_robot t' = tbl_robot t" "tbl_robot_instance t' = tbl_robot_instance t"
    using assms by (cases t; cases t'; simp add: but_tasks_def)+
  then show "maps_ok t' = maps_ok t" "agrees t' ids = agrees t ids" "tbl_robot t' = tbl_robot t"
    "tbl_active_map t' = tbl_active_map t" "tbl_map_package t' = tbl_map_package t"
    by (simp_all add: maps_ok_def agrees_def)
qed

lemma but_mapsD:
  assumes "but_maps t' = but_maps t"
  shows "ledger_ok t' = ledger_ok t" "agrees t' ids = agrees t ids" "tbl_robot t' = tbl_robot t"
proof -
  have eq: "tbl_task t' = tbl_task t" "tbl_task_goods t' = tbl_task_goods t"
    "tbl_task_goods_status t' = tbl_task_goods_status t" "tbl_task_goods_allocation t' = tbl_task_goods_allocation t"
    "tbl_robot t' = tbl_robot t" "tbl_robot_instance t' = tbl_robot_instance t"
    using assms by (cases t; cases t'; simp add: but_maps_def)+
  then show "ledger_ok t' = ledger_ok t" "agrees t' ids = agrees t ids" "tbl_robot t' = tbl_robot t"
    by (simp_all add: ledger_ok_def agrees_def)
qed

lemma but_robotsD:
  assumes "but_robots t' = but_robots t"
  shows "ledger_ok t' = ledger_ok t" "maps_ok t' = maps_ok t"
proof -
  have eq: "tbl_task t' = tbl_task t" "tbl_task_goods t' = tbl_task_goods t"
    "tbl_task_goods_status t' = tbl_task_goods_status t" "tbl_task_goods_allocation t' = tbl_task_goods_allocation t"
    "tbl_map_package t' = tbl_map_package t" "tbl_active_map t' = tbl_active_map t"
    "seq_map_package t' = seq_map_package t"
    using assms by (cases t; cases t'; simp add: but_robots_def)+
  then show "ledger_ok t' = ledger_ok t" "maps_ok t' = maps_ok t"
    by (simp_all add: ledger_ok_def maps_ok_def)
qed

section \<open>Framed statements\<close>

definition body_frame :: "(db_tables \<Rightarrow> 'p) \<Rightarrow> (sqlite \<Rightarrow> sqlite option) \<Rightarrow> bool" where
  "body_frame part body \<longleftrightarrow> (\<forall>db db'. body db = Some db' \<longrightarrow> part (tables db') = part (tables db))"

lemma body_frameD: "body_frame part body \<Longrightarrow> body db = Some db' \<Longrightarrow> part (tables db') = part (tables db)"
  by (simp add: body_frame_def)

lemma body_frame_exec:
  "(\<And>t t'. stmt t = Some t' \<Longrightarrow> part t' = part t) \<Longrightarrow> body_frame part (exec_stmt eng n stmt)"
  by (auto simp: body_frame_def dest!: exec_stmt_frame)

lemma body_frame_changing:
  "(\<And>t t' c. stmt t = Some (t', c) \<Longrightarrow> part t' = part t) \<Longrightarrow> body_frame part (exec_changing eng n stmt)"
  by (auto simp: body_frame_def dest!: exec_changing_frame)

lemma body_frame_bind:
  "body_frame part f \<Longrightarrow> body_frame part g \<Longrightarrow> body_frame part (\<lambda>db. Option.bind (f db) g)"
  by (fastforce simp: body_frame_def bind_eq_Some_conv)

lemma body_frame_Some: "body_frame part Some"
  by (simp add: body_frame_def)

lemma transaction_framed:
  assumes "frame body" and "body_frame part body"
  shows "framed_operation (transaction body) part"
proof (rule framed_operation.intro [OF transaction_atomic [OF assms(1)]], unfold_locales)
  fix db db'
  assume "idle db" and "transaction body db = (True, db')"
  from transaction_success [OF this] obtain db1
    where run: "body (db\<lparr>journal := Some (tables db)\<rparr>) = Some db1" and "tables db1 = tables db'" by blast
  with body_frameD [OF assms(2) run] show "part (tables db') = part (tables db)" by simp
qed

lemma guarded_framed:
  assumes "framed_operation run part"
  shows "framed_operation (guarded run) part"
proof (rule framed_operation.intro [OF guarded_atomic [OF framed_operation.axioms(1) [OF assms]]], unfold_locales)
  fix db db'
  assume "idle db" and "guarded run db = (True, db')"
  then show "part (tables db') = part (tables db)"
    using framed_operation.success_frame [OF assms] guarded_success by blast
qed

lemma single_statement_framed:
  assumes "\<And>t t'. stmt t = Some t' \<Longrightarrow> part t' = part t"
  shows "framed_operation (guarded (\<lambda>db.
     case exec_stmt eng n stmt db of None \<Rightarrow> (False, db) | Some db' \<Rightarrow> (True, db'))) part"
proof (rule framed_operation.intro [OF single_statement_atomic], unfold_locales)
  fix db db'
  assume "guarded (\<lambda>db. case exec_stmt eng n stmt db of None \<Rightarrow> (False, db) | Some db' \<Rightarrow> (True, db')) db = (True, db')"
  then have "exec_stmt eng n stmt db = Some db'" by (auto dest!: guarded_success split: option.splits)
  then show "part (tables db') = part (tables db)" using assms by (auto dest!: exec_stmt_frame)
qed

lemmas body_frames = body_frame_bind body_frame_exec body_frame_changing body_frame_Some

section \<open>The operations on robots and maps\<close>

lemma upsert_body: "body_frame but_robots (upsert_statements eng now robot status)"
  unfolding upsert_statements_def
  by (cases "rb_instance_id robot = []")
    (auto intro!: body_frames simp: upsert_robot_row_def upsert_robot_instance_def upsert_robot_status_def Let_def but_robots_def)

interpretation upsert_frame: framed_operation "UpsertRobot eng now robot status" but_robots for eng now robot status
  unfolding UpsertRobot_def by (intro guarded_framed transaction_framed frame_upsert upsert_body)

lemma map_statement_frames:
  "insert_map_package now package t = Some t' \<Longrightarrow> but_maps t' = but_maps t"
  "set_active_map now wid pid v t = Some t' \<Longrightarrow> but_maps t' = but_maps t"
  by (auto simp: insert_map_package_def set_active_map_def but_maps_def)

lemma upload_body: "body_frame but_maps (upload_statements eng now package)"
  unfolding body_frame_def
proof (intro allI impI)
  fix db db'
  assume run: "upload_statements eng now package db = Some db'"
  then obtain db1 where ins: "exec_stmt eng 0 (insert_map_package now package) db = Some db1"
    and rest: "db' = db1 \<or> exec_stmt eng 2 (set_active_map now (mp_warehouse_id package) (seq_map_package (tables db1))
      (mp_version package)) db1 = Some db'"
    by (auto simp: upload_statements_def InsertMapPackageInternal_def SetActiveMapInternal_def bind_eq_Some_conv split: if_splits)
  have "but_maps (tables db1) = but_maps (tables db)"
    using exec_stmt_frame [OF ins] map_statement_frames(1) by blast
  moreover have "but_maps (tables db') = but_maps (tables db1)"
    using rest exec_stmt_frame map_statement_frames(2) by blast
  ultimately show "but_maps (tables db') = but_maps (tables db)" by simp
qed

interpretation upload_frame: framed_operation "UploadMapPackage eng now package" but_maps for eng now package
  unfolding UploadMapPackage_def by (intro guarded_framed transaction_framed frame_upload upload_body)

interpretation set_active_frame: framed_operation "SetActiveMap eng now wid pid v" but_maps for eng now wid pid v
  unfolding SetActiveMap_def by (rule single_statement_framed) (rule map_statement_frames(2))

section \<open>The operations on tasks\<close>

lemma insert_goods_body: "body_frame but_tasks (insert_goods eng n task goods)"
proof (induction goods arbitrary: n)
  case (Cons g gs)
  show ?case
    unfolding insert_goods.simps
    by (intro body_frame_bind body_frame_exec Cons.IH)
      (auto simp: insert_task_goods_def insert_task_goods_status_def but_tasks_def)
qed (simp add: body_frame_def)

lemma create_body: "body_frame but_tasks (create_statements eng task)"
  unfolding create_statements_def
  by (intro body_frame_bind body_frame_exec insert_goods_body)
    (auto simp: insert_task_def insert_task_event_def but_tasks_def)

lemma update_state_frame: "update_task_state now tid st rs t = Some t' \<Longrightarrow> but_tasks t' = but_tasks t"
  by (auto simp: update_task_state_def but_tasks_def)

lemma state_event_body: "body_frame but_tasks (state_event_statements eng now tid st rs src)"
  unfolding state_event_statements_def
  by (intro body_frame_bind body_frame_exec) (erule update_state_frame, auto simp: insert_task_event_def but_tasks_def)

lemma approve_body: "body_frame but_tasks (approve_statements eng rid tid gid rob q tm)"
  unfolding approve_statements_def
  by (intro body_frame_bind body_frame_exec body_frame_changing)
    (auto simp: reserve_status_def insert_allocation_def but_tasks_def)

lemma settle_body: "body_frame but_tasks (settle_statements eng rid rob st tm tid gid q)"
  unfolding settle_statements_def
  by (intro body_frame_bind body_frame_changing) (auto simp: close_allocation_def settle_status_def but_tasks_def)

interpretation create_frame: framed_operation "CreateTask eng task" but_tasks for eng task
  unfolding CreateTask_def by (intro guarded_framed transaction_framed frame_create create_body)

interpretation update_state_frame: framed_operation "UpdateTaskState eng now tid st rs" but_tasks for eng now tid st rs
  unfolding UpdateTaskState_def by (rule single_statement_framed) (rule update_state_frame)

interpretation state_event_frame: framed_operation "UpdateTaskStateWithEvent eng now tid st rs src" but_tasks
  for eng now tid st rs src
  unfolding UpdateTaskStateWithEvent_def by (intro guarded_framed transaction_framed frame_state_event state_event_body)

interpretation amr_event_frame: framed_operation "InsertAmrTaskStatusEvent eng now ev" but_tasks for eng now ev
  unfolding InsertAmrTaskStatusEvent_def by (rule single_statement_framed) (auto simp: insert_amr_event_def but_tasks_def)

interpretation approve_frame: framed_operation "ApproveGoodsAllocation eng rid tid gid rob q tm" but_tasks
  for eng rid tid gid rob q tm
  unfolding ApproveGoodsAllocation_def by (intro guarded_framed transaction_framed frame_approve approve_body)

interpretation settle_frame: framed_operation "SettleGoodsAllocation eng rid rob st tm" but_tasks for eng rid rob st tm
proof (rule framed_operation.intro [OF settle.atomic_operation_axioms], unfold_locales)
  fix db db'
  assume idle: "idle db" and run: "SettleGoodsAllocation eng rid rob st tm db = (True, db')"
  then obtain a :: task_goods_allocation_row where "transaction (settle_statements eng rid rob st tm (al_task_id a) (al_goods_id a) (al_quantity a)) db = (True, db')"
    unfolding SettleGoodsAllocation_def by (auto dest!: guarded_success split: if_splits option.splits)
  from framed_operation.success_frame [OF transaction_framed [OF frame_settle settle_body] idle this]
  show "but_tasks (tables db') = but_tasks (tables db)" .
qed

section \<open>Handlers\<close>

lemmas task_frames =
  create_frame.keeps_part update_state_frame.keeps_part state_event_frame.keeps_part
  amr_event_frame.keeps_part approve_frame.keeps_part settle_frame.keeps_part

lemmas task_opened =
  create.keeps_opened update_state.keeps_opened state_event.keeps_opened amr_event.keeps_opened
  approve.keeps_opened settle.keeps_opened

lemma db_step_frame:
  assumes "db_step db db'" and "idle db"
  shows "but_tasks (tables db') = but_tasks (tables db) \<and> opened db' = opened db \<and> idle db'"
  using assms(1)
  by cases (auto dest: task_frames [OF assms(2)] task_opened [OF assms(2)] operation_idle [OF assms(2)])

lemma db_steps_frame:
  assumes "db_steps db db'" and "idle db"
  shows "but_tasks (tables db') = but_tasks (tables db) \<and> opened db' = opened db \<and> idle db'"
  using assms by (induction rule: rtranclp_induct) (auto dest: db_step_frame)

lemma map_step_frame:
  assumes "map_step svc db db'" and "idle db"
  shows "but_maps (tables db') = but_maps (tables db) \<and> opened db' = opened db"
  using assms(1)
proof cases
  case (upload_step env created copied req fs r cb fs')
  from uploadMap_db [OF this] show ?thesis
    using upload_frame.keeps_part [OF assms(2)] upload.keeps_opened [OF assms(2)] by blast
next
  case (activate_step env wid v r cb)
  then show ?thesis
    using set_active_frame.keeps_part [OF assms(2)] set_active.keeps_opened [OF assms(2)]
    by (auto simp: activateMap_def split: if_splits option.splits prod.splits)
qed

lemma handleRegister_frame:
  assumes "handleRegister maps env alloc req sys = (ok, resp, evs, sys')" and "idle (database sys)"
  shows "but_robots (tables (database sys')) = but_robots (tables (database sys)) \<and>
    opened (database sys') = opened (database sys)"
proof (rule handleRegister_parts [OF assms(1)])
  fix mgr s r b st
  assume "database sys' = database sys \<or>
      (ok \<and> (\<exists>e. map_of (m_robots mgr) (rq_robot_id req) = Some e \<and> b = m_info e \<and>
        database sys' = snd (UpsertRobot (upsert_engine env) (now_ms env) b st (database sys))))"
  then show ?thesis
    using upsert_frame.keeps_part [OF assms(2)] upsert.keeps_opened [OF assms(2)] by (metis prod.collapse)
qed

end
