(* ===== verification/Edge_App_Rules.thy ===== *)
theory Edge_App_Rules
  imports Edge_App Db_Frames
begin

text \<open>
  The edge server as a whole: over any turns of its threads, failures of the database and restarts, the
  stores of its components stay in order together, and a robot that the database knows keeps its identity.
\<close>

section \<open>The database under the handlers\<close>

definition system_ok :: "idle_allocator robot_system \<Rightarrow> bool" where
  "system_ok sys \<longleftrightarrow> robots_ok sys \<and> ledger_ok (tables (database sys)) \<and> maps_ok (tables (database sys)) \<and>
     aligned (allocator sys) \<and> opened (database sys)"

lemma system_okD:
  assumes "system_ok sys"
  shows "robots_ok sys" "idle (database sys)" "ledger_ok (tables (database sys))" "maps_ok (tables (database sys))"
    "aligned (allocator sys)" "opened (database sys)" "store_ok (database sys)" "map_store_ok (database sys)"
  using assms by (simp_all add: system_ok_def robots_ok_def store_ok_def map_store_ok_def)

text \<open>What a step of the system may do: keep it in order and keep the identities of the stored robots.\<close>

definition keeps_system :: "idle_allocator robot_system \<Rightarrow> idle_allocator robot_system \<Rightarrow> bool" where
  "keeps_system sys sys' \<longleftrightarrow> (system_ok sys \<longrightarrow> system_ok sys' \<and> same_identities sys sys')"

lemma keeps_system_refl [simp]: "keeps_system sys sys"
  by (simp add: keeps_system_def same_identities_def)

lemma tasks_keep_system:
  assumes "db_steps (database sys) db"
  shows "keeps_system sys (sys\<lparr>database := db\<rparr>)"
  unfolding keeps_system_def
proof
  assume ok: "system_ok sys"
  note d = system_okD [OF ok]
  have fr: "but_tasks (tables db) = but_tasks (tables (database sys))" "opened db" "idle db"
    using db_steps_frame [OF assms d(2)] d(6) by simp_all
  have "store_ok db" by (rule store.run_keeps [OF assms d(7)])
  with ok fr(2,3) but_tasksD [OF fr(1)] show "system_ok (sys\<lparr>database := db\<rparr>) \<and> same_identities sys (sys\<lparr>database := db\<rparr>)"
    by (simp add: system_ok_def robots_ok_def store_ok_def same_identities_def persisted_def)
qed

lemma maps_keep_system:
  assumes "map_step svc (database sys) db"
  shows "keeps_system sys (sys\<lparr>database := db\<rparr>)"
  unfolding keeps_system_def
proof
  assume ok: "system_ok sys"
  note d = system_okD [OF ok]
  have fr: "but_maps (tables db) = but_maps (tables (database sys))" "opened db"
    using map_step_frame [OF assms d(2)] d(6) by simp_all
  have "map_store_ok db" using maps.inv_step [OF d(8) assms] .
  with ok fr(2) but_mapsD [OF fr(1)] show "system_ok (sys\<lparr>database := db\<rparr>) \<and> same_identities sys (sys\<lparr>database := db\<rparr>)"
    by (simp add: system_ok_def robots_ok_def map_store_ok_def same_identities_def persisted_def)
qed

lemma registerRobot_aligned:
  assumes "aligned a" and "alloc = None \<or> alloc = Some allocate"
    and "registerRobot ctx alloc info (mgr, a) = (ok, evs, mgr', a')"
  shows "aligned a'"
proof -
  have "aligned (snd (allocate a))" using allocate_free [OF assms(1)] assms(1) by (auto split: list.splits)
  then show ?thesis
    using assms by (auto simp: registerRobot_def Let_def split: if_splits option.splits prod.splits)
qed

lemma register_keeps_system:
  assumes "alloc = None \<or> alloc = Some allocate" and run: "handleRegister maps env alloc req sys = (ok, resp, evs, sys')"
  shows "keeps_system sys sys'"
  unfolding keeps_system_def
proof
  assume sys: "system_ok sys"
  note d = system_okD [OF sys]
  have robots: "robots_ok sys' \<and> same_identities sys sys'" by (rule handleRegister_step [OF d(1) run])
  have fr: "but_robots (tables (database sys')) = but_robots (tables (database sys))"
      "opened (database sys') = opened (database sys)"
    using handleRegister_frame [OF run d(2)] by simp_all
  obtain ok1 r mgr s where reg: "registerRobot (reg_ctx env) alloc (requested_robot (pose0 env) req)
      (manager sys, allocator sys) = (ok1, r, mgr, s)" by (metis prod_cases4)
  have "allocator sys' = s"
    using run reg by (auto simp: handleRegister_def Let_def split: if_splits prod.splits option.splits)
  then have "aligned (allocator sys')" using registerRobot_aligned [OF d(5) assms(1) reg] by simp
  with robots fr(2) but_robotsD [OF fr(1)] d show "system_ok sys' \<and> same_identities sys sys'"
    by (simp add: system_ok_def)
qed

lemma status_keeps_system: "keeps_system sys (handleStatus status sys)"
  using robot_step_keeps [OF robot_step.status_step] by (auto simp: keeps_system_def system_ok_def handleStatus_def)

lemma will_keeps_system: "keeps_system sys (handleWill now rid sys)"
  using robot_step_keeps [OF robot_step.will_step] by (auto simp: keeps_system_def system_ok_def handleWill_def)

section \<open>The turns\<close>

lemma consume_keeps_system:
  assumes "alloc = None \<or> alloc = Some allocate" and run: "edge_consume maps handlers env alloc tm sys = (msgs, evs, sys')"
  shows "keeps_system sys sys'"
proof -
  obtain topic msg where tm: "tm = (topic, msg)" by (cases tm)
  have goods: "db_steps db db'" if "robotGoodsRequestHandler env msg db = (ms, db')" for db ms db'
    using that handleGoodsApply_steps by (auto simp: robotGoodsRequestHandler_def split: sum.splits prod.splits)
  have report: "db_steps db db'" if "robotTaskStatusHandler env msg db = (ms, db')" for db ms db'
    using that handleAmrTaskStatus_steps
    by (auto simp: robotTaskStatusHandler_def Let_def split: sum.splits) (metis prod.collapse)
  have reg: "keeps_system sys s" if "robotRegisterReqHandler maps env alloc msg sys = (ms, es, s)" for ms es s
    using that register_keeps_system [OF assms(1)]
    by (auto simp: robotRegisterReqHandler_def split: option.splits prod.splits)
  have stat: "keeps_system sys (robotStatusHandler msg sys)"
    by (simp add: robotStatusHandler_def status_keeps_system split: option.split)
  have will: "keeps_system sys (robotWillHandler env msg sys)"
    by (simp add: robotWillHandler_def will_keeps_system split: option.split)
  show ?thesis
    using run reg stat will goods report tasks_keep_system unfolding tm edge_consume_def
    by (auto split: option.splits amr_handler.splits prod.splits)
qed

lemma http_db:
  assumes "http_serve services env w req (fs, db) = (resp, msgs, changed, fs', db')"
  shows "db_steps db db' \<or> map_step (sv_maps services) db db'"
proof -
  have upload: "map_step svc db db1 \<or> db1 = db" if "upload_route svc env w req (fs, db) = (r, cb, fs1, db1)" for svc r cb fs1 db1
    using that upload_step by (auto simp: upload_route_def Let_def split: if_splits prod.splits bool.splits)
  have activate: "map_step svc db db1 \<or> db1 = db" if "activate_route svc env req db = (r, cb, db1)" for svc r cb db1
    using that activate_step by (auto simp: activate_route_def split: if_splits sum.splits prod.splits bool.splits)
  have create: "db_steps db db1" if "create_task_route svc env req db = (r, ms, db1)" for svc r ms db1
    using that createTask_steps by (auto simp: create_task_route_def split: if_splits sum.splits option.splits prod.splits)
  have cancel: "db_steps db db1" if "cancel_task_route svc env tid db = (r, ms, db1)" for svc r tid ms db1
    using that cancelTask_steps by (auto simp: cancel_task_route_def split: if_splits option.splits prod.splits)
  show ?thesis
    using assms unfolding http_serve_def Let_def
    by (auto split: if_splits option.splits prod.splits dest: upload activate create cancel)
qed

lemma check_tasks_steps: "db_steps db (snd (check_tasks envs k mgr now ts db))"
proof (induction ts arbitrary: k db)
  case (Cons t ts)
  have one: "db_steps db (snd (check_task envs k mgr now t db))"
    by (auto simp: check_task_def markTaskInterrupted_def split: prod.splits bool.splits intro: set_state_event)
  with Cons.IH [of "snd (check_task envs k mgr now t db)" "k + 2"] show ?case
    by (auto simp: split_beta intro: rtranclp_trans)
qed simp

lemma heartbeat_steps: "db_steps db (snd (checkAmrHeartbeat envs mgr now db))"
  by (simp add: checkAmrHeartbeat_def check_tasks_steps split: prod.splits bool.splits)

lemma on_robot_events_robots [simp]: "ea_robots (on_robot_events evs app) = ea_robots app"
  unfolding on_robot_events_def by (induction evs arbitrary: app) auto

lemma load_package_aligned: "aligned (load_package reader disk path a)"
  by (simp add: load_package_def load_aligned split: prod.splits)

lemma map_change_keeps_system: "keeps_system (ea_robots app) (ea_robots (on_active_map_changed reader changed app))"
  by (auto simp: on_active_map_changed_def keeps_system_def system_ok_def robots_ok_def same_identities_def
      persisted_def load_package_aligned split: option.split)

lemma keeps_system_trans: "keeps_system a b \<Longrightarrow> keeps_system b c \<Longrightarrow> keeps_system a c"
  unfolding keeps_system_def same_identities_def by (metis subset_iff)

lemma app_react_keeps_system: "keeps_system (ea_robots app) (ea_robots (app_react reader ev app))"
proof (cases ev)
  case (Mqtt_Turn env)
  have "pose_allocator_of app = None \<or> pose_allocator_of app = Some allocate" by (simp add: pose_allocator_of_def)
  with consume_keeps_system Mqtt_Turn show ?thesis
    by (auto simp: app_react_def mqtt_turn_def Let_def split: list.split prod.split)
next
  case (Http_Request env w req)
  obtain resp msgs changed disk db where run: "http_serve (services_of app) env w req (ea_disk app, database (ea_robots app))
      = (resp, msgs, changed, disk, db)" by (metis prod_cases5)
  let ?app1 = "app\<lparr>ea_disk := disk, ea_robots := (ea_robots app)\<lparr>database := db\<rparr>\<rparr>"
  have "keeps_system (ea_robots app) (ea_robots ?app1)"
    using http_db [OF run] tasks_keep_system maps_keep_system by auto
  from keeps_system_trans [OF this map_change_keeps_system] show ?thesis
    by (simp add: Http_Request app_react_def http_turn_def run)
next
  case (Heartbeat_Turn elapsed envs now)
  with tasks_keep_system [OF heartbeat_steps] show ?thesis
    by (simp add: app_react_def heartbeat_turn_def Let_def split_beta)
qed (auto simp: app_react_def list_turn_def ws_turn_def Let_def split: prod.split option.split)

section \<open>Lives of the server\<close>

text \<open>
  A life begins with a successful \<open>init\<close>: of a new installation, or after the end of the process before, on
  its database and on whatever the disk then holds. At a restart the robot table can be read; strings of a fresh
  structure are empty. A process may end between any two turns.
\<close>

lemma app_init_started:
  assumes "app_init lib reader cfg w (new_app defaults disk t) = (True, calls, app)"
  obtains s where "load_config lib disk cfg = Some s"
    and "ea_robots app = restore_robots (aw_load w) (aw_base0 w) (aw_status0 w)
      \<lparr>manager = no_robots, allocator = active_points reader (aw_maps w) (es_warehouse_id s) disk
         \<lparr>opened = True, tables = t, journal = None\<rparr>, database = \<lparr>opened = True, tables = t, journal = None\<rparr>\<rparr>"
    and "ea_pose_allocator app" and "ea_maps app = \<lparr>ms_warehouse_id = es_warehouse_id s, ms_callback = True\<rparr>"
    and "ea_tasks app = \<lparr>m_warehouse_id = es_warehouse_id s, m_publish_callback = True\<rparr>"
    and "ea_topics app = no_topics" and "ea_disk app = disk"
    and "ea_list_timer app = start_timer (es_list_period_ms s) False True new_timer"
    and "ea_heartbeat_timer app = start_timer 5000 False True new_timer"
  using assms
  by (auto simp: app_init_def OpenDb_def InitTables_def new_app_def create_components_def load_active_map_def
      restore_app_def start_communication_def no_robots_def Let_def split: option.splits if_splits prod.splits)

lemma app_init_mqtt:
  assumes "app_init lib reader cfg w (new_app defaults disk t) = (True, calls, app)" and "aw_mqtt_created w"
  shows "mt_callback (co_mqtt (ea_amr app)) \<and> m_msgHandlers (co_router (ea_amr app)) = amr_handlers \<and>
    m_msgQueue (co_router (ea_amr app)) = []"
  using assms
  by (auto simp: app_init_def new_app_def OpenDb_def create_components_def load_active_map_def restore_app_def
      start_communication_def amr_init_def mqtt_init_def new_communication_def mqtt_setMessageCallback_def
      Let_def split: option.splits if_splits prod.splits bool.splits)

lemma app_init_ws:
  assumes "app_init lib reader cfg w (new_app defaults disk t) = (True, calls, app)"
  shows "ea_ws app = (setMessageCallback fresh_ws_server)\<lparr>wv_context := True, wv_running := True, wv_last_check := aw_ws_now w\<rparr>"
  using assms
  by (auto simp: app_init_def new_app_def create_components_def load_active_map_def restore_app_def start_communication_def
      start_ws_def setMessageCallback_def fresh_ws_server_def Let_def split: option.splits if_splits prod.splits bool.splits)

lemma active_points_aligned: "aligned (active_points reader env wid disk db)"
  by (simp add: active_points_def load_package_aligned aligned_def [of no_points] split: option.split)
    (simp add: no_points_def)

lemma markOccupied_aligned [simp]: "aligned (markOccupied pose a) = aligned a"
  by (simp add: markOccupied_def aligned_def split: option.split)

lemma restore_one_aligned: "aligned (snd st) \<Longrightarrow> aligned (snd (restore_one rs st))"
  by (simp add: restore_one_def)

lemma restore_aligned: "aligned (snd st) \<Longrightarrow> aligned (snd (fold restore_one rs st))"
  by (induction rs arbitrary: st) (simp_all add: restore_one_aligned)

lemma restore_robots_database [simp]: "database (restore_robots eng b st sys) = database sys"
  by (simp add: restore_robots_def split: prod.split bool.split)

lemma restore_robots_aligned: "aligned (allocator sys) \<Longrightarrow> aligned (allocator (restore_robots eng b st sys))"
  using restore_aligned [of "(manager sys, allocator sys)"]
  by (auto simp: restore_robots_def split: prod.split bool.split) (metis snd_conv)

inductive edge_life ::
  "'n yaml_lib \<Rightarrow> package_reader \<Rightarrow> mqtt_options \<Rightarrow> edge_app \<Rightarrow> edge_app \<Rightarrow> bool" for lib reader defaults where
  turn: "edge_life lib reader defaults app (app_react reader ev app)"
| restart: "aw_load w = working \<Longrightarrow> rb_instance_id (aw_base0 w) = [] \<Longrightarrow>
    app_init lib reader cfg w (new_app defaults disk (tables (database (ea_robots app)))) = (True, calls, app') \<Longrightarrow>
    edge_life lib reader defaults app app'"

definition installed :: "'n yaml_lib \<Rightarrow> package_reader \<Rightarrow> mqtt_options \<Rightarrow> edge_app \<Rightarrow> bool" where
  "installed lib reader defaults app \<longleftrightarrow> (\<exists>cfg w disk calls. aw_load w = working \<and> rb_instance_id (aw_base0 w) = [] \<and>
     app_init lib reader cfg w (new_app defaults disk empty_tables) = (True, calls, app))"

lemma started_keeps_system:
  assumes "aw_load w = working" and "rb_instance_id (aw_base0 w) = []"
    and "app_init lib reader cfg w (new_app defaults disk (tables (database sys))) = (True, calls, app')"
  shows "keeps_system sys (ea_robots app')"
  unfolding keeps_system_def
proof
  assume ok: "system_ok sys"
  note d = system_okD [OF ok]
  have db: "\<lparr>opened = True, tables = tables (database sys), journal = None\<rparr> = database sys"
    using d(2,6) by (simp add: idle_def)
  obtain s :: edge_settings where robots: "ea_robots app' = restore_robots working (aw_base0 w) (aw_status0 w) \<lparr>manager = no_robots,
      allocator = active_points reader (aw_maps w) (es_warehouse_id s) disk (database sys), database = database sys\<rparr>"
    by (rule app_init_started [OF assms(3), unfolded db assms(1)]) (erule that)
  have "robots_ok (ea_robots app') \<and> same_identities sys (ea_robots app')"
    by (rule restart_system [OF d(1,6) assms(2) robots])
  with d show "system_ok (ea_robots app') \<and> same_identities sys (ea_robots app')"
    by (simp add: system_ok_def robots restore_robots_aligned active_points_aligned)
qed

lemma edge_life_keeps_system: "edge_life lib reader defaults app app' \<Longrightarrow> keeps_system (ea_robots app) (ea_robots app')"
  by (induction rule: edge_life.induct) (rule app_react_keeps_system, rule started_keeps_system)

lemma fresh_system_ok: "system_ok (fresh_system no_points)"
  by (simp add: system_ok_def fresh_system_def robots_ok_def aligned_def no_points_def)

interpretation lives: stepping "installed lib reader defaults" "edge_life lib reader defaults" "\<lambda>app. system_ok (ea_robots app)"
  for lib reader defaults
proof
  fix app assume "installed lib reader defaults app"
  then obtain cfg w disk calls where w: "aw_load w = working" "rb_instance_id (aw_base0 w) = []"
    and start: "app_init lib reader cfg w (new_app defaults disk empty_tables) = (True, calls, app)"
    by (auto simp: installed_def)
  have "tables (database (fresh_system no_points)) = empty_tables" by (simp add: fresh_system_def fresh_db_def)
  with start have "app_init lib reader cfg w (new_app defaults disk (tables (database (fresh_system no_points)))) = (True, calls, app)"
    by simp
  from started_keeps_system [OF w this] fresh_system_ok show "system_ok (ea_robots app)" by (simp add: keeps_system_def)
next
  fix app app' assume ok: "system_ok (ea_robots app)" and step: "edge_life lib reader defaults app app'"
  from edge_life_keeps_system [OF step] ok show "system_ok (ea_robots app')" by (simp add: keeps_system_def)
qed

lemma lives_keep_system:
  "(edge_life lib reader defaults)\<^sup>*\<^sup>* app app' \<Longrightarrow> keeps_system (ea_robots app) (ea_robots app')"
  by (induction rule: rtranclp_induct) (auto intro: keeps_system_trans edge_life_keeps_system)

end
