(* ===== verification/Edge_Lives.thy ===== *)
theory Edge_Lives
  imports Edge_App_Rules Bootstrap_Rules Robot_Edge
begin

text \<open>What the edge server promises as a whole, over its turns and restarts.\<close>

section \<open>A sample server\<close>

text \<open>The configuration of the samples, and a package with one charging point.\<close>

definition sample_point :: pose2d where
  "sample_point = \<lparr>pose_x = 1, pose_y = 2, pose_yaw = 0\<rparr>"

definition sample_reader :: package_reader where
  "sample_reader = (\<lambda>bytes. (None, Some (Yaml_Items [\<lparr>yaml_station_id = ''S1'', station_locations =
     Some [\<lparr>location_type = ''IDLE'', yaml_location_id = ''L1'', location_pose = Some sample_point\<rparr>]\<rparr>])))"

definition sample_start :: app_world where
  "sample_start = \<lparr>aw_open = True, aw_handle = True, aw_wal = True, aw_schema = working, aw_load = working, aw_maps = calm,
     aw_ws_context = True, aw_ws_now = 0, aw_mqtt_created = True, aw_mqtt_connect = Connect_Code 0,
     aw_base0 = \<lparr>rb_robot_id = [], rb_instance_id = [], rb_warehouse_id = [], rb_map_version = [], rb_register_timestamp = 0,
       rb_initial_pose = zero_pose\<rparr>,
     aw_status0 = \<lparr>rs_robot_id = [], rs_state = OFFLINE, rs_online = False, rs_timestamp = 0, rs_battery = 0, rs_pose = zero_pose,
       rs_task_id = []\<rparr>\<rparr>"

lemma sample_starts:
  "\<exists>calls app. app_init sample_config_lib sample_reader ''e.yaml'' sample_start
     (new_app no_mqtt_options (sample_config_files(''/m.zip'' \<mapsto> ''z'')) t) = (True, calls, app)"
proof -
  have "load_config sample_config_lib (sample_config_files(''/m.zip'' \<mapsto> ''z'')) ''e.yaml'' =
      load_config sample_config_lib sample_config_files ''e.yaml''"
    by (simp add: load_config_def load_file_def)
  then obtain s where s: "load_config sample_config_lib (sample_config_files(''/m.zip'' \<mapsto> ''z'')) ''e.yaml'' = Some s"
    using sample_config_loaded by auto
  show ?thesis
    using s by (auto simp: app_init_def OpenDb_def InitTables_def sample_start_def create_components_def new_app_def
        start_ws_def setMessageCallback_def fresh_ws_server_def Let_def split: prod.split)
qed

definition sample_server :: edge_app where
  "sample_server = snd (snd (app_init sample_config_lib sample_reader ''e.yaml'' sample_start
     (new_app no_mqtt_options (sample_config_files(''/m.zip'' \<mapsto> ''z'')) empty_tables)))"

lemma sample_server_started:
  "\<exists>calls. app_init sample_config_lib sample_reader ''e.yaml'' sample_start
     (new_app no_mqtt_options (sample_config_files(''/m.zip'' \<mapsto> ''z'')) empty_tables) = (True, calls, sample_server)"
  using sample_starts [of empty_tables] by (auto simp: sample_server_def)

lemma sample_installed: "installed sample_config_lib sample_reader no_mqtt_options sample_server"
proof -
  have "aw_load sample_start = working" "rb_instance_id (aw_base0 sample_start) = []" by (simp_all add: sample_start_def)
  with sample_server_started show ?thesis unfolding installed_def by blast
qed

text \<open>A server that a registration has reached: the message arrives and its thread handles it.\<close>

lemma sample_server_amr:
  "mt_callback (co_mqtt (ea_amr sample_server)) \<and> m_msgHandlers (co_router (ea_amr sample_server)) = amr_handlers \<and>
   m_msgQueue (co_router (ea_amr sample_server)) = []"
proof -
  have world: "aw_mqtt_created sample_start" by (simp add: sample_start_def)
  obtain calls where start: "app_init sample_config_lib sample_reader ''e.yaml'' sample_start
     (new_app no_mqtt_options (sample_config_files(''/m.zip'' \<mapsto> ''z'')) empty_tables) = (True, calls, sample_server)"
    using sample_server_started by blast
  show ?thesis by (rule app_init_mqtt [OF start world])
qed

lemma sample_server_robots: "ea_robots sample_server = fresh_system no_points"
proof -
  obtain calls where start: "app_init sample_config_lib sample_reader ''e.yaml'' sample_start
     (new_app no_mqtt_options (sample_config_files(''/m.zip'' \<mapsto> ''z'')) empty_tables) = (True, calls, sample_server)"
    using sample_server_started by blast
  have work: "aw_load sample_start = working" by (simp add: sample_start_def)
  show ?thesis
    by (rule app_init_started [OF start])
      (simp add: fresh_system_def fresh_db_def restore_robots_def LoadRobots_def active_points_def getActiveMap_def
        GetActiveMap_def empty_tables_def work)
qed

definition sample_registration :: json where
  "sample_registration = JObj [(''robot_id'', JStr ''amr-1''), (''timestamp'', JInt 5), (''warehouse_id'', JStr ''W1''),
     (''map_version'', JStr ''v1''), (''request_id'', JStr ''q1'')]"

lemma sample_registration_read: "decodeRegisterReq (Some sample_registration) = Some sample_register_request"
  by (simp add: decodeRegisterReq_def sample_registration_def sample_register_request_def decoded_def)

definition sample_waiting :: edge_app where
  "sample_waiting = app_react sample_reader (Mqtt_Arrives ROBOT_REGISTER_REQ (Some sample_registration)) sample_server"

definition sample_joined :: edge_app where
  "sample_joined = app_react sample_reader (Mqtt_Turn sample_amr_env) sample_waiting"

lemma sample_waiting_queue:
  "m_msgQueue (co_router (ea_amr sample_waiting)) = [(ROBOT_REGISTER_REQ, Some sample_registration)] \<and>
   m_msgHandlers (co_router (ea_amr sample_waiting)) = amr_handlers \<and> ea_robots sample_waiting = fresh_system no_points"
  using sample_server_amr
  by (simp add: sample_waiting_def app_react_def receive_message_def message_arrived_def onMessageProducer_def sample_server_robots)

lemma sample_waiting_life: "edge_life sample_config_lib sample_reader no_mqtt_options sample_server sample_waiting"
  unfolding sample_waiting_def by (rule edge_life.turn)

lemma sample_joined_life: "(edge_life sample_config_lib sample_reader no_mqtt_options)\<^sup>*\<^sup>* sample_server sample_joined"
  using sample_waiting_life edge_life.turn [of sample_config_lib sample_reader no_mqtt_options sample_waiting "Mqtt_Turn sample_amr_env"]
  by (simp add: sample_joined_def)

lemma sample_joined_stored: "''amr-1'' \<in> rr_robot_id ` set (tbl_robot (tables (database (ea_robots sample_joined))))"
proof -
  obtain ok resp evs sys where reg: "handleRegister (ea_maps sample_waiting) sample_register_env (pose_allocator_of sample_waiting)
      sample_register_request (fresh_system no_points) = (ok, resp, evs, sys)" by (metis prod_cases4)
  have "ea_robots sample_joined = sys"
    using sample_waiting_queue reg amr_routes(1) [OF refl]
    by (simp add: sample_joined_def app_react_def mqtt_turn_def edge_consume_def robotRegisterReqHandler_def
        sample_registration_read sample_amr_env_def)
  moreover have "''amr-1'' \<in> rr_robot_id ` set (tbl_robot (tables (database sys)))"
    using reg by (auto simp: handleRegister_def sample_register_env_def sample_register_request_def fresh_system_def
        requested_robot_def registerRobot_def no_robots_def getRobotBaseInfo_def getRobotStatus_def Let_def UpsertRobot_def
        transaction_idle upsert_statements_def upsert_robot_row_def upsert_robot_instance_def upsert_robot_status_def
        sql_upsert_def split: prod.splits option.splits)
  ultimately show ?thesis by simp
qed

section \<open>The stores stay in order together\<close>





section \<open>Start poses over restarts and changes of the map\<close>

definition all_free :: "idle_allocator \<Rightarrow> bool" where
  "all_free a \<longleftrightarrow> m_occupied a = replicate (length (m_points a)) False"

lemma add_locations_free: "all_free a \<Longrightarrow> all_free (snd (add_locations sid ls a))"
  by (induction sid ls a rule: add_locations.induct) (auto simp: all_free_def replicate_append_same split: option.split)

lemma add_stations_free: "all_free a \<Longrightarrow> all_free (snd (add_stations ss a))"
proof (induction ss a rule: add_stations.induct)
  case (2 s ss a)
  then show ?case
    by (auto split: option.splits prod.splits bool.splits
        dest: add_locations_free [of a "yaml_station_id s" "the (station_locations s)"])
qed simp

lemma load_points_free:
  "all_free (snd (load_points zones stations a))"
proof -
  have z: "m_occupied (snd (parseZones doc b)) = m_occupied b \<and> m_points (snd (parseZones doc b)) = m_points b" for doc b
    by (simp add: parseZones_def split: yaml_doc.split)
  have s: "all_free (snd (parseStations doc b))" if "m_points b = []" "m_occupied b = []" for doc b
    using that add_stations_free [of "b\<lparr>m_points := [], m_occupied := []\<rparr>"]
    by (simp add: parseStations_def all_free_def split: yaml_doc.split)
  show ?thesis
    unfolding load_points_def Let_def by (auto simp: z all_free_def [of "a\<lparr>m_points := [], m_occupied := [], m_idleZoneIds := []\<rparr>"] split: option.split intro!: s)
      (simp_all add: all_free_def z)
qed

lemma unoccupied_none: "unoccupied ps (replicate (length ps) False) = map point_pose ps"
  by (induction ps) auto

lemma load_package_free: "free_poses (load_package reader disk path a) = map point_pose (m_points (load_package reader disk path a))"
  using load_points_free by (simp add: load_package_def free_poses_def all_free_def unoccupied_none split: prod.split)

lemma unoccupied_member:
  "length bs = length ps \<Longrightarrow> p \<in> set (unoccupied ps bs) \<longleftrightarrow> (\<exists>i<length ps. \<not> bs ! i \<and> point_pose (ps ! i) = p)"
proof (induction ps bs rule: unoccupied.induct)
  case (1 p ps b bs)
  then show ?case by (auto simp: Ex_less_Suc2)
qed auto

text \<open>Points that lie apart: no two of them count as the same position.\<close>

definition apart :: "idle_allocator \<Rightarrow> bool" where
  "apart a \<longleftrightarrow> (\<forall>i<length (m_points a). \<forall>j<length (m_points a).
     near (point_pose (m_points a ! i)) (point_pose (m_points a ! j)) \<longrightarrow> i = j)"

definition reserved :: "pose2d \<Rightarrow> idle_allocator \<Rightarrow> bool" where
  "reserved p a \<longleftrightarrow> (\<forall>i<length (m_points a). point_pose (m_points a ! i) = p \<longrightarrow> m_occupied a ! i)"

lemma reserved_not_free: "aligned a \<Longrightarrow> reserved p a \<Longrightarrow> p \<notin> set (free_poses a)"
  by (auto simp: aligned_def free_poses_def unoccupied_member reserved_def)

lemma near_refl [simp]: "near p p"
  by (simp add: near_def)

lemma markOccupied_points [simp]: "m_points (markOccupied p a) = m_points a"
  by (simp add: markOccupied_def split: option.split)

lemma markOccupied_keeps: "aligned a \<Longrightarrow> reserved q a \<Longrightarrow> reserved q (markOccupied p a)"
  by (auto simp: markOccupied_def reserved_def aligned_def split: option.split) (metis nth_list_update_eq nth_list_update_neq)

lemma markOccupied_reserves:
  assumes "aligned a" and "apart a"
  shows "reserved p (markOccupied p a)"
proof (cases "find (\<lambda>i. near (point_pose (m_points a ! i)) p) [0..<length (m_points a)]")
  case None
  then have "\<not> near (point_pose (m_points a ! i)) p" if "i < length (m_points a)" for i
    using that by (auto simp: find_None_iff)
  then have "point_pose (m_points a ! i) \<noteq> p" if "i < length (m_points a)" for i using that by force
  then show ?thesis using None by (simp add: reserved_def markOccupied_def)
next
  case (Some i)
  then have i: "i < length (m_points a)" "near (point_pose (m_points a ! i)) p" by (auto dest!: find_Some_member)
  have "j = i" if "j < length (m_points a)" "point_pose (m_points a ! j) = p" for j
    using that i assms(2) unfolding apart_def by blast
  then have "(m_occupied a)[i := True] ! j" if "j < length (m_points a)" "point_pose (m_points a ! j) = p" for j
    using that i(1) assms(1) by (metis aligned_def nth_list_update_eq)
  with Some show ?thesis by (simp add: reserved_def markOccupied_def)
qed

lemma restore_points [simp]: "m_points (snd (fold restore_one rs st)) = m_points (snd st)"
  by (induction rs arbitrary: st) (simp_all add: restore_one_def)

lemma restore_keeps_reserved: "aligned (snd st) \<Longrightarrow> reserved q (snd st) \<Longrightarrow> reserved q (snd (fold restore_one rs st))"
  by (induction rs arbitrary: st) (simp_all add: restore_one_def markOccupied_keeps)

lemma restore_reserves:
  "aligned (snd st) \<Longrightarrow> apart (snd st) \<Longrightarrow> b \<in> fst ` set rs \<Longrightarrow> reserved (rb_initial_pose b) (snd (fold restore_one rs st))"
proof (induction rs arbitrary: st)
  case (Cons r rs)
  let ?st1 = "restore_one r st"
  have st1: "snd ?st1 = markOccupied (rb_initial_pose (fst r)) (snd st)" by (simp add: restore_one_def)
  have al: "aligned (snd ?st1)" "apart (snd ?st1)"
    using Cons.prems by (simp_all add: st1) (simp add: apart_def)
  show ?case
  proof (cases "b = fst r")
    case True
    then have "reserved (rb_initial_pose b) (snd ?st1)" using markOccupied_reserves Cons.prems(1,2) by (simp add: st1)
    with restore_keeps_reserved [OF al(1)] show ?thesis by simp
  next
    case False
    with Cons.IH [OF al] Cons.prems(3) show ?thesis by auto
  qed
qed simp

text \<open>
  C14: start poses are reserved over a restart, but not over a change of the active map. When the server starts
  and can read its robots, the charging point that is the stored start pose of a robot is not free, provided that
  no two points of the map count as the same position; so no new robot gets it. Yet as soon as an HTTP request
  makes the server load an active map again, also the same one, every point of that map is free, those at which
  robots were started included.
\<close>

theorem points_reserved_until_map_change:
  assumes "app_init lib reader cfg w (new_app defaults disk t) = (True, calls, app)" and "aw_load w = working"
    and "apart (allocator (ea_robots app))"
    and "r \<in> set (tbl_robot t)" and "rr_initial_pose r = Some p"
    and "http_serve (services_of app) env upload req (ea_disk app, database (ea_robots app)) = (resp, msgs, Some package, disk', db')"
  shows "p \<notin> set (free_poses (allocator (ea_robots app))) \<and>
    free_poses (allocator (ea_robots (app_react reader (Http_Request env upload req) app))) =
      map point_pose (m_points (load_package reader disk' (mp_package_path package) (allocator (ea_robots app))))"
proof
  let ?db = "\<lparr>opened = True, tables = t, journal = None\<rparr>"
  obtain s :: edge_settings where robots: "ea_robots app = restore_robots working (aw_base0 w) (aw_status0 w)
      \<lparr>manager = no_robots, allocator = active_points reader (aw_maps w) (es_warehouse_id s) disk ?db, database = ?db\<rparr>"
    by (rule app_init_started [OF assms(1), unfolded assms(2)]) (erule that)
  define a where "a = active_points reader (aw_maps w) (es_warehouse_id s) disk ?db"
  define rs where "rs = zip (map (loaded_base (aw_base0 w) t) (tbl_robot t)) (map (loaded_status (aw_status0 w) t) (tbl_robot t))"
  have alloc: "allocator (ea_robots app) = snd (fold restore_one rs (no_robots, a))"
    by (simp add: robots restore_robots_def LoadRobots_def rs_def a_def Let_def split_beta)
  have al: "aligned a" by (simp add: a_def active_points_aligned)
  have "apart a" using assms(3) by (simp add: alloc apart_def)
  moreover have "fst ` set rs = loaded_base (aw_base0 w) t ` set (tbl_robot t)"
    unfolding rs_def by (metis (no_types, lifting) length_map list.set_map map_fst_zip)
  then have "loaded_base (aw_base0 w) t r \<in> fst ` set rs" using assms(4) by simp
  moreover have "rb_initial_pose (loaded_base (aw_base0 w) t r) = p" using assms(5) by (simp add: loaded_base_def)
  ultimately have "reserved p (allocator (ea_robots app))"
    using restore_reserves [of "(no_robots, a)"] al by (simp add: alloc) blast
  moreover have "aligned (allocator (ea_robots app))" using restore_aligned [of "(no_robots, a)" rs] al by (simp add: alloc)
  ultimately show "p \<notin> set (free_poses (allocator (ea_robots app)))" by (rule reserved_not_free [rotated])
  show "free_poses (allocator (ea_robots (app_react reader (Http_Request env upload req) app))) =
      map point_pose (m_points (load_package reader disk' (mp_package_path package) (allocator (ea_robots app))))"
    by (simp add: app_react_def http_turn_def assms(6) on_active_map_changed_def load_package_free)
qed

text \<open>A server with one charging point, at which the robot amr-1 was started; its map is activated again.\<close>

definition sample_package :: map_package where
  "sample_package = \<lparr>mp_id = 1, mp_warehouse_id = ''W1'', mp_version = ''v1'', mp_package_name = ''m.zip'',
     mp_package_path = ''/m.zip'', mp_package_size = 1, mp_upload_time = [], mp_activate = False\<rparr>"

definition sample_tables :: db_tables where
  "sample_tables = empty_tables\<lparr>tbl_map_package := [sample_package],
     tbl_active_map := [\<lparr>am_warehouse_id = ''W1'', am_package_id = 1, am_version = ''v1'', am_update_time = []\<rparr>],
     tbl_robot := [\<lparr>rr_robot_id = ''amr-1'', rr_warehouse_id = ''W1'', rr_robot_name = [], rr_register_timestamp = 5,
       rr_updated_at = 0, rr_initial_pose = Some sample_point\<rparr>], seq_map_package := 1\<rparr>"

definition sample_activation :: api_request where
  "sample_activation = post_request ''/api/maps/activate'' (JObj [(''warehouse_id'', JStr ''W1''), (''version'', JStr ''v1'')])"

lemma sample_loaded:
  "m_points (load_package sample_reader (sample_config_files(''/m.zip'' \<mapsto> ''z'')) ''/m.zip'' a) =
     [\<lparr>station_id = ''S1'', location_id = ''L1'', point_pose = sample_point\<rparr>]"
  by (simp add: load_package_def package_entries_def sample_reader_def load_points_def parseStations_def)

lemma sample_active: "opened db \<Longrightarrow> tables db = sample_tables \<Longrightarrow>
    getActiveMap \<lparr>ms_warehouse_id = ''W1'', ms_callback = cb\<rparr> calm ''W1'' db = Some sample_package"
  by (simp add: getActiveMap_def GetActiveMap_def sample_tables_def sample_package_def calm_def)

lemma sample_activated:
  "\<exists>resp db'. http_serve \<lparr>sv_config = c, sv_maps = \<lparr>ms_warehouse_id = ''W1'', ms_callback = True\<rparr>, sv_tasks = ts\<rparr>
     calm upload sample_activation (disk, \<lparr>opened = True, tables = sample_tables, journal = None\<rparr>) =
     (resp, [], Some sample_package, disk, db')"
  by (simp add: http_serve_def sample_activation_def post_request_def activate_route_def activateMap_def GetMapPackage_def
      SetActiveMap_def calm_def sample_tables_def sample_package_def map_package_key_def set_active_map_def)

lemma points_reserved_until_map_change_witness:
  "\<exists>calls app. app_init sample_config_lib sample_reader ''e.yaml'' sample_start
      (new_app no_mqtt_options (sample_config_files(''/m.zip'' \<mapsto> ''z'')) sample_tables) = (True, calls, app) \<and>
     sample_point \<notin> set (free_poses (allocator (ea_robots app))) \<and>
     free_poses (allocator (ea_robots (app_react sample_reader
       (Http_Request calm sample_upload_world sample_activation) app))) = [sample_point]"
proof -
  let ?disk = "sample_config_files(''/m.zip'' \<mapsto> ''z'')" and ?db = "\<lparr>opened = True, tables = sample_tables, journal = None\<rparr>"
  obtain calls app where start: "app_init sample_config_lib sample_reader ''e.yaml'' sample_start
      (new_app no_mqtt_options ?disk sample_tables) = (True, calls, app)" using sample_starts by blast
  obtain s :: edge_settings where s: "load_config sample_config_lib ?disk ''e.yaml'' = Some s"
    and robots: "ea_robots app = restore_robots (aw_load sample_start) (aw_base0 sample_start) (aw_status0 sample_start)
      \<lparr>manager = no_robots, allocator = active_points sample_reader (aw_maps sample_start) (es_warehouse_id s) ?disk ?db,
       database = ?db\<rparr>"
    and maps: "ea_maps app = \<lparr>ms_warehouse_id = es_warehouse_id s, ms_callback = True\<rparr>" and disk: "ea_disk app = ?disk"
    by (rule app_init_started [OF start]) (rule that)
  have "load_config sample_config_lib ?disk ''e.yaml'' = load_config sample_config_lib sample_config_files ''e.yaml''"
    by (simp add: load_config_def load_file_def)
  then have wid: "es_warehouse_id s = ''W1''" using s sample_config_loaded by auto
  have work: "aw_load sample_start = working" by (simp add: sample_start_def)
  have "allocator (ea_robots app) = snd (fold restore_one (zip (map (loaded_base (aw_base0 sample_start) sample_tables) (tbl_robot sample_tables))
      (map (loaded_status (aw_status0 sample_start) sample_tables) (tbl_robot sample_tables)))
      (no_robots, active_points sample_reader calm ''W1'' ?disk ?db))"
    by (simp add: robots restore_robots_def LoadRobots_def work wid Let_def split_beta) (simp add: sample_start_def)
  then have points: "m_points (allocator (ea_robots app)) = [\<lparr>station_id = ''S1'', location_id = ''L1'', point_pose = sample_point\<rparr>]"
    using sample_active [of ?db False] by (simp add: active_points_def sample_package_def sample_loaded)
  then have "apart (allocator (ea_robots app))" by (simp add: apart_def)
  moreover have "\<exists>r\<in>set (tbl_robot sample_tables). rr_initial_pose r = Some sample_point" by (simp add: sample_tables_def)
  moreover obtain resp db' where "http_serve (services_of app) calm sample_upload_world sample_activation
      (ea_disk app, database (ea_robots app)) = (resp, [], Some sample_package, ?disk, db')"
    using sample_activated [of "ea_bootstrap app" "Some (ea_tasks app)" sample_upload_world ?disk] by (auto simp: services_of_def maps wid disk robots)
  ultimately show ?thesis
    using points_reserved_until_map_change [OF start work, of _ sample_point calm sample_upload_world sample_activation resp "[]" sample_package ?disk db'] start
    by (auto simp: sample_package_def sample_loaded)
qed

end
