(* ===== verification/Edge_Publishing.thy ===== *)
theory Edge_Publishing
  imports Edge_Lives
begin

text \<open>
  How the components of the edge server are joined while it runs, and that a registration reaches the clients of
  the robot list at once.
\<close>

section \<open>The joints\<close>

text \<open>
  The robot manager has its callbacks, a message in the queue of the MQTT router meets the full handler table, and the
  timer of the robot list runs, repeats and is not in a first call.
\<close>

definition list_timer_ok :: "timer \<Rightarrow> bool" where
  "list_timer_ok t \<longleftrightarrow> ti_running t \<and> ti_repeat t \<and> \<not> ti_immediate t \<and>
     (ti_phase t = At_Head \<or> ti_phase t = In_Wait \<or> ti_phase t = In_Call)"

definition router_ok :: "amr_handler communication \<Rightarrow> bool" where
  "router_ok co \<longleftrightarrow> (mt_callback (co_mqtt co) \<or> m_msgQueue (co_router co) \<noteq> [] \<longrightarrow> m_msgHandlers (co_router co) = amr_handlers)"

definition joined :: "edge_app \<Rightarrow> bool" where
  "joined app \<longleftrightarrow> ea_pose_allocator app \<and> m_event_callback (manager (ea_robots app)) \<and> router_ok (ea_amr app) \<and>
     list_timer_ok (ea_list_timer app) \<and> topics_ok (ea_topics app)"

lemma list_timer_step: "list_timer_ok t \<Longrightarrow> list_timer_ok (loop_step elapsed False t)"
  by (auto simp: list_timer_ok_def loop_step_def after_call_def)

lemma trigger_ok: "list_timer_ok t \<Longrightarrow> list_timer_ok (trigger t)"
  by (simp add: list_timer_ok_def trigger_def)

lemma events_joined:
  "joined app \<Longrightarrow> joined (on_robot_events evs app)"
  unfolding on_robot_events_def by (induction evs arbitrary: app) (auto simp: joined_def trigger_ok)

lemma receive_joined: "router_ok co \<Longrightarrow> router_ok (receive_message topic msg co)"
  by (auto simp: receive_message_def message_arrived_def onMessageProducer_def router_ok_def split: option.splits)

lemma callback_kept:
  "registerRobot ctx alloc info (mgr, s) = (ok, evs, mgr', s') \<Longrightarrow> m_event_callback mgr' = m_event_callback mgr"
  "m_event_callback (snd (updateRobotStatus rid st mgr)) = m_event_callback mgr"
  "m_event_callback (snd (markOffline now rid mgr)) = m_event_callback mgr"
  "m_event_callback (restoreRobot b st mgr) = m_event_callback mgr"
  by (auto simp: registerRobot_def updateRobotStatus_def markOffline_def restoreRobot_def Let_def
      split: if_splits option.splits prod.splits)

lemma handleRegister_callback:
  assumes "handleRegister maps env alloc req sys = (ok, resp, evs, sys')"
  shows "m_event_callback (manager sys') = m_event_callback (manager sys)"
  by (rule handleRegister_parts [OF assms]) (simp add: callback_kept(1))

lemma publish_list_ok: "topics_ok tm \<Longrightarrow> topics_ok (fst (publish_robot_list send mgr (tm, srv)))"
  by (simp add: publish_robot_list_def topic_publish_def publish_loop_ok)

lemma consume_callback:
  "edge_consume maps handlers env alloc tm sys = (msgs, evs, sys') \<Longrightarrow>
     m_event_callback (manager sys') = m_event_callback (manager sys)"
  by (cases tm)
    (auto simp: edge_consume_def robotRegisterReqHandler_def robotStatusHandler_def robotWillHandler_def handleStatus_def
      handleWill_def callback_kept handleRegister_callback split: option.splits amr_handler.splits prod.splits)

lemma restore_callback: "m_event_callback (fst (fold restore_one rs st)) = m_event_callback (fst st)"
  by (induction rs arbitrary: st) (simp_all add: restore_one_def callback_kept)

lemma app_react_joined: "joined app \<Longrightarrow> joined (app_react reader ev app)"
proof (cases ev)
  case (Mqtt_Turn env)
  assume j: "joined app"
  show ?thesis
  proof (cases "m_msgQueue (co_router (ea_amr app))")
    case (Cons tm rest)
    obtain msgs evs sys where run: "edge_consume (ea_maps app) (m_msgHandlers (co_router (ea_amr app))) env (pose_allocator_of app) tm
        (ea_robots app) = (msgs, evs, sys)" by (metis prod_cases3)
    have "joined (app\<lparr>ea_robots := sys, ea_amr := (ea_amr app)\<lparr>co_router := (co_router (ea_amr app))\<lparr>m_msgQueue := rest\<rparr>\<rparr>\<rparr>)"
      using j consume_callback [OF run] Cons by (auto simp: joined_def router_ok_def)
    with Cons run Mqtt_Turn show ?thesis by (simp add: app_react_def mqtt_turn_def events_joined)
  qed (use j Mqtt_Turn in \<open>simp add: app_react_def mqtt_turn_def\<close>)
next
  case (Http_Request env w req)
  assume "joined app"
  with Http_Request show ?thesis
    by (auto simp: app_react_def http_turn_def on_active_map_changed_def joined_def split: prod.split option.split)
next
  case (List_Turn elapsed)
  assume j: "joined app"
  obtain topics ws where pub: "publish_robot_list sendToWSClient (manager (ea_robots app)) (ea_topics app, ea_ws app) = (topics, ws)"
    by fastforce
  have "topics_ok (fst (publish_robot_list sendToWSClient (manager (ea_robots app)) (ea_topics app, ea_ws app)))"
    using j by (intro publish_list_ok) (simp add: joined_def)
  then have "topics_ok topics" by (simp add: pub)
  with j pub List_Turn show ?thesis by (auto simp: app_react_def list_turn_def joined_def list_timer_step Let_def)
qed (auto simp: app_react_def joined_def receive_joined heartbeat_turn_def ws_turn_def onMessage_ok Let_def
    split: prod.split option.split)

lemma started_joined:
  assumes "app_init lib reader cfg w (new_app defaults disk t) = (True, calls, app)"
  shows "joined app"
proof -
  obtain s :: edge_settings where robots: "ea_robots app = restore_robots (aw_load w) (aw_base0 w) (aw_status0 w)
      \<lparr>manager = no_robots, allocator = active_points reader (aw_maps w) (es_warehouse_id s) disk
         \<lparr>opened = True, tables = t, journal = None\<rparr>, database = \<lparr>opened = True, tables = t, journal = None\<rparr>\<rparr>"
    and rest: "ea_pose_allocator app" "ea_topics app = no_topics"
    "ea_list_timer app = start_timer (es_list_period_ms s) False True new_timer"
    by (rule app_init_started [OF assms]) (rule that)
  have "m_event_callback (manager (ea_robots app))"
    using restore_callback [of _ "(no_robots, active_points reader (aw_maps w) (es_warehouse_id s) disk
        \<lparr>opened = True, tables = t, journal = None\<rparr>)"]
    by (simp add: robots restore_robots_def split_beta split: bool.split) (simp add: no_robots_def)
  moreover have "router_ok (ea_amr app)"
    using assms by (auto simp: app_init_def new_app_def OpenDb_def create_components_def load_active_map_def restore_app_def
        start_communication_def amr_init_def mqtt_init_def new_communication_def new_mqtt_client_def router_ok_def Let_def
        split: option.splits if_splits prod.splits bool.splits)
  moreover have "topics_ok no_topics" by (simp add: topics_ok_def no_topics_def clients_of_def)
  ultimately show ?thesis using rest by (simp add: joined_def list_timer_ok_def start_timer_def)
qed

interpretation joints: stepping "installed lib reader defaults" "edge_life lib reader defaults" joined
  for lib reader defaults
proof
  fix app assume "installed lib reader defaults app"
  then show "joined app" unfolding installed_def using started_joined by blast
next
  fix app app' assume "joined app" and "edge_life lib reader defaults app app'"
  from this(2,1) show "joined app'"
    by (induction rule: edge_life.induct) (rule app_react_joined, assumption, rule started_joined)
qed

section \<open>A registration reaches the clients of the robot list\<close>

lemma registered_is_listed:
  assumes "handleRegister maps env alloc req sys = (ok, resp, evs, sys')" and "rq_robot_id req \<noteq> []"
    and "m_event_callback (manager sys)"
  shows "evs = [EVENT_REGISTER] \<and> rq_robot_id req \<in> ri_robot_id ` set (getRobotList (manager sys'))"
proof -
  obtain ok1 r mgr s where reg: "registerRobot (reg_ctx env) alloc (requested_robot (pose0 env) req)
      (manager sys, allocator sys) = (ok1, r, mgr, s)" by (metis prod_cases4)
  have rid: "rb_robot_id (requested_robot (pose0 env) req) = rq_robot_id req" by (simp add: requested_robot_def)
  note regs = registerRobot_identity(1,5) [OF reg, unfolded rid]
  have "r = [EVENT_REGISTER]"
    using reg assms(2,3) rid by (auto simp: registerRobot_def notify_def Let_def split: option.splits prod.splits)
  moreover have "evs = r \<and> manager sys' = mgr"
    using assms(1) reg by (auto simp: handleRegister_def Let_def split: if_splits option.splits prod.splits)
  moreover obtain e where "map_of (m_robots mgr) (rq_robot_id req) = Some e" "rb_robot_id (m_info e) = rq_robot_id req"
    using regs assms(2) by auto
  then have "rq_robot_id req \<in> ri_robot_id ` set (getRobotList mgr)"
    by (force simp: getRobotList_def getInstanceInfo_def dest!: map_of_SomeD)
  ultimately show ?thesis by simp
qed

text \<open>Three steps of a triggered timer hold exactly one call, though its interval is not over.\<close>

lemma timer_phases:
  assumes "list_timer_ok t"
  shows "ti_phase t = At_Head \<Longrightarrow> loop_step False False t = t\<lparr>ti_phase := In_Wait\<rparr>"
    and "ti_phase t = In_Wait \<Longrightarrow> ti_triggered t \<Longrightarrow>
      loop_step False False t = t\<lparr>ti_triggered := False, ti_phase := In_Call, ti_calls := Suc (ti_calls t)\<rparr>"
    and "ti_phase t = In_Wait \<Longrightarrow> \<not> ti_triggered t \<Longrightarrow> loop_step False False t = t"
    and "ti_phase t = In_Call \<Longrightarrow> loop_step False False t = t\<lparr>ti_phase := At_Head\<rparr>"
  using assms by (simp_all add: list_timer_ok_def loop_step_def after_call_def)

lemma triggered_calls:
  assumes "list_timer_ok t" and "ti_triggered t" and "t1 = loop_step False False t" and "t2 = loop_step False False t1"
    and "t3 = loop_step False False t2"
  shows "(ti_calls t1 = Suc (ti_calls t) \<and> ti_calls t2 = ti_calls t1 \<and> ti_calls t3 = ti_calls t2) \<or>
    (ti_calls t1 = ti_calls t \<and> ti_calls t2 = Suc (ti_calls t1) \<and> ti_calls t3 = ti_calls t2) \<or>
    (ti_calls t1 = ti_calls t \<and> ti_calls t2 = ti_calls t1 \<and> ti_calls t3 = Suc (ti_calls t2))"
proof -
  have ok: "list_timer_ok t1" "list_timer_ok t2" using assms by (simp_all add: list_timer_step)
  from assms(1) consider "ti_phase t = At_Head" | "ti_phase t = In_Wait" | "ti_phase t = In_Call"
    by (auto simp: list_timer_ok_def)
  then show ?thesis
  proof cases
    case 1
    then have t1: "t1 = t\<lparr>ti_phase := In_Wait\<rparr>" using timer_phases(1) [OF assms(1)] assms(3) by simp
    then have "t2 = t1\<lparr>ti_triggered := False, ti_phase := In_Call, ti_calls := Suc (ti_calls t1)\<rparr>"
      using timer_phases(2) [OF ok(1)] assms(2,4) by simp
    with t1 timer_phases(4) [OF ok(2)] assms(5) show ?thesis by simp
  next
    case 2
    then have t1: "t1 = t\<lparr>ti_triggered := False, ti_phase := In_Call, ti_calls := Suc (ti_calls t)\<rparr>"
      using timer_phases(2) [OF assms(1)] assms(2,3) by simp
    then have "t2 = t1\<lparr>ti_phase := At_Head\<rparr>" using timer_phases(4) [OF ok(1)] assms(4) by simp
    with t1 timer_phases(1) [OF ok(2)] assms(5) show ?thesis by simp
  next
    case 3
    then have t1: "t1 = t\<lparr>ti_phase := At_Head\<rparr>" using timer_phases(4) [OF assms(1)] assms(3) by simp
    then have "t2 = t1\<lparr>ti_phase := In_Wait\<rparr>" using timer_phases(1) [OF ok(1)] assms(4) by simp
    with t1 timer_phases(2) [OF ok(2)] assms(2,5) show ?thesis by simp
  qed
qed

definition publish_now :: "edge_app \<Rightarrow> topic_manager \<times> json option ws_server" where
  "publish_now app = publish_robot_list sendToWSClient (manager (ea_robots app)) (ea_topics app, ea_ws app)"

lemma list_turn_parts:
  "ea_list_timer (list_turn e app) = loop_step e False (ea_list_timer app)"
  "ea_robots (list_turn e app) = ea_robots app"
  "ti_calls (loop_step e False (ea_list_timer app)) = ti_calls (ea_list_timer app) \<Longrightarrow>
     (ea_topics (list_turn e app), ea_ws (list_turn e app)) = (ea_topics app, ea_ws app)"
  "ti_calls (loop_step e False (ea_list_timer app)) = Suc (ti_calls (ea_list_timer app)) \<Longrightarrow>
     (ea_topics (list_turn e app), ea_ws (list_turn e app)) = publish_now app"
  by (simp_all add: list_turn_def publish_now_def Let_def split: prod.split)

lemma three_turns:
  assumes "list_timer_ok (ea_list_timer app)" and "ti_triggered (ea_list_timer app)"
    and "app3 = list_turn False (list_turn False (list_turn False app))"
  shows "(ea_topics app3, ea_ws app3) = publish_now app"
proof -
  let ?a1 = "list_turn False app" and ?a2 = "list_turn False (list_turn False app)"
  have pub: "publish_now b = publish_now app" if "(ea_topics b, ea_ws b) = (ea_topics app, ea_ws app)" "ea_robots b = ea_robots app" for b
    using that by (simp add: publish_now_def)
  show ?thesis
    using triggered_calls [OF assms(1,2) refl refl refl]
  proof (elim disjE conjE)
  qed (use list_turn_parts(3,4) [of False app] list_turn_parts(3,4) [of False ?a1] list_turn_parts(3,4) [of False ?a2]
      pub [of ?a1] pub [of ?a2] assms(3) in \<open>simp_all add: list_turn_parts(1,2)\<close>)
qed

lemma publish_reaches:
  assumes "topics_ok tm" and "publish_robot_list sendToWSClient mgr (tm, srv) = (tm', srv')"
  shows "ws_waiting srv' c =
    (if c \<in> set (clients_of ''robot_list'' tm) \<and> ws_live srv c \<and> length (ws_waiting srv c) < max_send_queue
     then ws_waiting srv c @ [Some (robot_list_json (getRobotList mgr))] else ws_waiting srv c)"
proof (cases "hasSubscriber ''robot_list'' tm")
  case True
  with assms(2) have "topic_publish sendToWSClient ''robot_list'' (Some (robot_list_json (getRobotList mgr))) (tm, srv) = (tm', srv')"
    by (simp add: publish_robot_list_def)
  from ws.publish_effect(2) [OF assms(1) this] show ?thesis .
next
  case False
  with assms(2) show ?thesis by (auto simp: publish_robot_list_def hasSubscriber_def)
qed

lemma registration_turn:
  assumes "joined app" and "m_msgQueue (co_router (ea_amr app)) = (ROBOT_REGISTER_REQ, msg) # rest"
    and "decodeRegisterReq msg = Some req" and "rq_robot_id req \<noteq> []"
    and "app1 = snd (mqtt_turn env app)"
  shows "ti_triggered (ea_list_timer app1)" and "ea_topics app1 = ea_topics app" and "ea_ws app1 = ea_ws app"
    and "rq_robot_id req \<in> ri_robot_id ` set (getRobotList (manager (ea_robots app1)))"
proof -
  have handlers: "m_msgHandlers (co_router (ea_amr app)) = amr_handlers"
    using assms(1,2) by (simp add: joined_def router_ok_def)
  obtain ok resp evs sys where reg: "handleRegister (ea_maps app) (register_env env) (pose_allocator_of app) req (ea_robots app)
      = (ok, resp, evs, sys)" by (metis prod_cases4)
  have listed: "evs = [EVENT_REGISTER] \<and> rq_robot_id req \<in> ri_robot_id ` set (getRobotList (manager sys))"
    using assms(1) by (intro registered_is_listed [OF reg assms(4)]) (simp add: joined_def)
  have app1: "app1 = on_robot_events [EVENT_REGISTER]
      (app\<lparr>ea_robots := sys, ea_amr := (ea_amr app)\<lparr>co_router := (co_router (ea_amr app))\<lparr>m_msgQueue := rest\<rparr>\<rparr>\<rparr>)"
    using reg listed assms(2,3,5) amr_routes(1) [OF refl]
    by (simp add: mqtt_turn_def handlers edge_consume_def robotRegisterReqHandler_def)
  with assms(1) listed show "ti_triggered (ea_list_timer app1)" "ea_topics app1 = ea_topics app" "ea_ws app1 = ea_ws app"
    "rq_robot_id req \<in> ri_robot_id ` set (getRobotList (manager (ea_robots app1)))"
    by (simp_all add: on_robot_events_def trigger_def joined_def list_timer_ok_def)
qed

text \<open>
  A registration reaches the clients of the robot list at once. Let the server have lived in any way since its
  installation, and let the next message for its MQTT thread be the registration of a robot with an id. Once it is
  handled the robot is in the list, and three steps of the timer's thread later, though the period of the timer
  is not over, every subscriber of the robot list that is connected has been sent the list with this robot, unless 2000
  messages wait for it already; nobody else has been sent anything, and no one is sent the list twice.
\<close>

theorem registered_robot_is_published:
  assumes "installed lib reader defaults app0" and "(edge_life lib reader defaults)\<^sup>*\<^sup>* app0 app"
    and "m_msgQueue (co_router (ea_amr app)) = (ROBOT_REGISTER_REQ, msg) # rest"
    and "decodeRegisterReq msg = Some req" and "rq_robot_id req \<noteq> []"
    and "app1 = app_react reader (Mqtt_Turn env) app"
    and "app4 = app_run reader [List_Turn False, List_Turn False, List_Turn False] app1"
  shows "rq_robot_id req \<in> ri_robot_id ` set (getRobotList (manager (ea_robots app1))) \<and>
    (\<forall>c. ws_waiting (ea_ws app4) c =
      (if c \<in> set (clients_of ''robot_list'' (ea_topics app)) \<and> ws_live (ea_ws app) c \<and>
          length (ws_waiting (ea_ws app) c) < max_send_queue
       then ws_waiting (ea_ws app) c @ [Some (robot_list_json (getRobotList (manager (ea_robots app1))))]
       else ws_waiting (ea_ws app) c))"
proof -
  have j: "joined app" by (rule joints.reached [OF assms(1,2)])
  have app1: "app1 = snd (mqtt_turn env app)" using assms(6) by (simp add: app_react_def)
  note reg = registration_turn [OF j assms(3-5) app1]
  have j1: "joined app1" unfolding assms(6) by (rule app_react_joined [OF j])
  have "app4 = list_turn False (list_turn False (list_turn False app1))"
    using assms(7) by (simp add: app_run_def app_react_def)
  then have "publish_robot_list sendToWSClient (manager (ea_robots app1)) (ea_topics app, ea_ws app) = (ea_topics app4, ea_ws app4)"
    using three_turns [of app1 app4] j1 reg(1-3) by (simp add: joined_def publish_now_def)
  from publish_reaches [OF _ this] j reg(4) show ?thesis by (simp add: joined_def)
qed

text \<open>In the sample one client connects and subscribes before the registration is handled.\<close>

definition sample_watched :: edge_app where
  "sample_watched = app_run sample_reader
     [Ws_Connects 0 7 [], Ws_Receives 0 1 (Some subscribe_json), Ws_Turn] sample_waiting"

lemma sample_watched_life: "(edge_life sample_config_lib sample_reader no_mqtt_options)\<^sup>*\<^sup>* sample_server sample_watched"
proof -
  have run: "(edge_life lib reader defaults)\<^sup>*\<^sup>* app (app_run reader evs app)"
    for lib :: "'n yaml_lib" and reader defaults evs app
    unfolding app_run_def
    by (induction evs arbitrary: app) (auto intro: converse_rtranclp_into_rtranclp edge_life.turn)
  show ?thesis
    unfolding sample_watched_def by (rule converse_rtranclp_into_rtranclp [OF sample_waiting_life run])
qed

lemma sample_watched_ws:
  "clients_of ''robot_list'' (ea_topics sample_watched) = [1] \<and> ws_live (ea_ws sample_watched) 1 \<and>
   ws_waiting (ea_ws sample_watched) 1 = [] \<and> ea_amr sample_watched = ea_amr sample_waiting"
proof -
  obtain calls where start: "app_init sample_config_lib sample_reader ''e.yaml'' sample_start
     (new_app no_mqtt_options (sample_config_files(''/m.zip'' \<mapsto> ''z'')) empty_tables) = (True, calls, sample_server)"
    using sample_server_started by blast
  have "ea_topics sample_server = no_topics" by (rule app_init_started [OF start])
  then have parts: "ea_topics sample_waiting = no_topics" "ea_ws sample_waiting = (setMessageCallback fresh_ws_server)
      \<lparr>wv_context := True, wv_running := True, wv_last_check := aw_ws_now sample_start\<rparr>"
    using app_init_ws [OF start] by (simp_all add: sample_waiting_def app_react_def)
  show ?thesis
    by (simp add: sample_watched_def app_run_def app_react_def ws_turn_def parts onConnected_def addClientSession_def generate_def
        fresh_ws_server_def setMessageCallback_def getClientSession_def onReceive_def pushReceiveMessage_def on_session_def
        message_round_def updatePong_def new_session_def ws_live_def ws_waiting_def Let_def subscribe_json_def onMessage_def
        handleSubscribe_def loop_items_def clients_subscribe topic_subscribe_def no_topics_def clients_of_def)
qed

lemma registered_robot_is_published_witness:
  "\<exists>app1 app4. app1 = app_react sample_reader (Mqtt_Turn sample_amr_env) sample_watched \<and>
     app4 = app_run sample_reader [List_Turn False, List_Turn False, List_Turn False] app1 \<and>
     ''amr-1'' \<in> ri_robot_id ` set (getRobotList (manager (ea_robots app1))) \<and>
     ws_waiting (ea_ws app4) 1 = [Some (robot_list_json (getRobotList (manager (ea_robots app1))))]"
proof -
  have queue: "m_msgQueue (co_router (ea_amr sample_watched)) = (ROBOT_REGISTER_REQ, Some sample_registration) # []"
    using sample_watched_ws sample_waiting_queue by simp
  have rid: "rq_robot_id sample_register_request = ''amr-1''" by (simp add: sample_register_request_def)
  from registered_robot_is_published [OF sample_installed sample_watched_life queue sample_registration_read _ refl refl,
      unfolded rid, of sample_amr_env] sample_watched_ws
  show ?thesis by (simp add: max_send_queue_def)
qed

end
