(* ===== verification/Agent_App.thy ===== *)
theory Agent_App
  imports Robot_Map Agent_Bootstrap Mqtt_Delivery
begin

text \<open>
  \<open>amr_agent/src/amr_agent_node.cpp\<close>: the agent of a robot as a whole. \<open>init\<close> runs the bootstrap and joins
  communication, map manager and task bridge; afterwards the thread of the MQTT router and the callbacks of ROS take
  turns.
\<close>

section \<open>State\<close>

text \<open>
  The members of \<open>AmrAgentNode\<close> with the callbacks of its communication, the file of pending reports and the disk of
  the robot. \<open>aa_bridge\<close>: the bridge is subscribed to the events of the behaviour manager.
\<close>

record agent_app =
  aa_node :: agent_node
  aa_comm :: "agent_handler communication"
  aa_status_callback :: bool
  aa_register_callback :: bool
  aa_maps :: map_manager
  aa_bridge :: bool
  aa_pending :: pending_file
  aa_timers :: bool
  aa_disk :: file_system

definition default_cfg_path :: string where
  "default_cfg_path = ''/opt/amr/config/amr_config.yaml''"

text \<open>What a start meets: the MQTT library, the four subscriptions of the bridge, the file system, the clock.\<close>

record agent_world =
  aw_created :: bool
  aw_outcome :: connect_outcome
  aw_links :: "(bool \<times> bool) list"
  aw_map_world :: map_world
  aw_ms1 :: int
  aw_ms2 :: int

datatype agent_emission =
    Mqtt_Request mqtt_call
  | Ros_Map_Info map_info
  | Node_Output agent_output

section \<open>The start\<close>

definition start_bridge ::
  "agent_world \<Rightarrow> agent_app \<Rightarrow> (agent_emission list \<times> agent_app) option" where
  "start_bridge w app =
     (case task_bridge_init (aw_links w) (n_robot_id (aa_node app)) (n_warehouse_id (aa_node app)) (aa_comm app) of
        None \<Rightarrow> None
      | Some (calls, co) \<Rightarrow>
          Some (map Mqtt_Request calls @ [Node_Output (sendRegisterRequest (aw_ms1 w) (aw_ms2 w) (aa_node app))],
            app\<lparr>aa_comm := co, aa_bridge := True, aa_register_callback := True, aa_timers := True\<rparr>))"

text \<open>
  \<open>None\<close>: \<open>init\<close> does not return, because the chain of metadata files does not end or an exception leaves it. The map
  manager publishes the map that it finds.
\<close>

definition agent_app_init ::
  "'n yaml_lib \<Rightarrow> (string \<Rightarrow> json option) \<Rightarrow> (string \<Rightarrow> http_reply) \<Rightarrow> agent_world \<Rightarrow> string \<Rightarrow> bootstrap_info \<Rightarrow> agent_app
   \<Rightarrow> (bool \<times> agent_emission list \<times> agent_app) option" where
  "agent_app_init lib parse_body exchange w cfg_path info0 app =
     (case run_bootstrap lib parse_body exchange (aa_disk app) (if cfg_path = [] then default_cfg_path else cfg_path) info0 of
        None \<Rightarrow> None
      | Some None \<Rightarrow> Some (False, [], app)
      | Some (Some info) \<Rightarrow>
          let app1 = app\<lparr>aa_node := agent_of_bootstrap info\<rparr> in
          (case edge_comm_init (aw_created w) (aw_outcome w) info (aa_comm app1) of
             (False, calls, co) \<Rightarrow> Some (False, map Mqtt_Request calls, app1\<lparr>aa_comm := co\<rparr>)
           | (True, calls, co) \<Rightarrow>
               let app2 = app1\<lparr>aa_comm := co, aa_status_callback := True\<rparr> in
               (case init_map_manager (aw_map_world w) (mc_path (b_map info)) (aa_disk app2) of
                  (False, announced, m) \<Rightarrow> Some (False, map Mqtt_Request calls, app2\<lparr>aa_maps := m\<rparr>)
                | (True, announced, m) \<Rightarrow>
                    map_option (\<lambda>(emitted, app3).
                        (True, map Mqtt_Request calls @ (case announced of None \<Rightarrow> [] | Some i \<Rightarrow> [Ros_Map_Info i]) @ emitted, app3))
                      (start_bridge w (app2\<lparr>aa_maps := m\<rparr>)))))"

section \<open>Turns\<close>

record turn_world =
  tw_map_world :: map_world
  tw_ms1 :: int
  tw_ms2 :: int
  tw_disk :: disk

text \<open>A message of the queue; a callback that is not set yet loses it. A command goes to the behaviour manager.\<close>

definition agent_handle ::
  "turn_world \<Rightarrow> agent_handler \<Rightarrow> json option \<Rightarrow> agent_app \<Rightarrow> agent_emission list \<times> task_command option \<times> agent_app" where
  "agent_handle w h msg app =
     (case h of
        edgeSvrStatusHandler \<Rightarrow>
          (case decodeEdgeSvrStatus msg of
             None \<Rightarrow> ([], None, app)
           | Some online \<Rightarrow>
               if \<not> aa_status_callback app then ([], None, app)
               else case onEdgeStatusMessage (tw_ms1 w) (tw_ms2 w) online (aa_node app) of
                 (outs, a) \<Rightarrow> (map Node_Output outs, None, app\<lparr>aa_node := a\<rparr>))
      | robotRegisterRespHandler \<Rightarrow>
          (case decodeRobotRegisterResp msg of
             None \<Rightarrow> ([], None, app)
           | Some resp \<Rightarrow>
               if \<not> aa_register_callback app then ([], None, app)
               else case robot_register_answer (tw_map_world w) (tw_ms1 w) resp (aa_disk app, aa_maps app, aa_node app) of
                 (announced, outs, fs, m, a) \<Rightarrow>
                   ((case announced of None \<Rightarrow> [] | Some i \<Rightarrow> [Ros_Map_Info i]) @ map Node_Output outs, None,
                    app\<lparr>aa_disk := fs, aa_maps := m, aa_node := a\<rparr>))
      | amrTaskHandler \<Rightarrow> ([], onAmrTaskMessage (n_warehouse_id (aa_node app)) msg, app)
      | taskStateHandler \<Rightarrow> ([], onTaskStateMessage msg, app)
      | goodsResponseHandler \<Rightarrow> ([], onGoodsResponseMessage msg, app)
      | statusAckHandler \<Rightarrow> ([], None, app\<lparr>aa_pending := onStatusAckMessage (tw_disk w) msg (aa_pending app)\<rparr>))"

definition agent_turn :: "turn_world \<Rightarrow> agent_app \<Rightarrow> agent_emission list \<times> task_command option \<times> agent_app" where
  "agent_turn w app =
     (let r = co_router (aa_comm app) in
      case m_msgQueue r of
        [] \<Rightarrow> ([], None, app)
      | (topic, msg) # rest \<Rightarrow>
          let app1 = app\<lparr>aa_comm := (aa_comm app)\<lparr>co_router := r\<lparr>m_msgQueue := rest\<rparr>\<rparr>\<rparr> in
          (case agentRouter (m_msgHandlers r) topic of
             None \<Rightarrow> ([], None, app1)
           | Some h \<Rightarrow> agent_handle w h msg app1))"

datatype agent_event =
    Agent_Message string "json option"
  | Agent_Turn turn_world
  | Register_Timer int int
  | Heartbeat_Timer int
  | Flush_Timer bool "nat \<Rightarrow> bool"
  | Navigation_Status int
  | Behavior_Status int

text \<open>What a turn sends to the edge server as texts, what else it emits, and the command for the behaviour manager.\<close>

definition agent_react ::
  "agent_event \<Rightarrow> agent_app \<Rightarrow> (string \<times> string) list \<times> agent_emission list \<times> task_command option \<times> agent_app" where
  "agent_react ev app =
     (case ev of
        Agent_Message topic msg \<Rightarrow> ([], [], None, app\<lparr>aa_comm := receive_message topic msg (aa_comm app)\<rparr>)
      | Agent_Turn w \<Rightarrow> ([], agent_turn w app)
      | Register_Timer ms1 ms2 \<Rightarrow>
          ([], if aa_timers app then map Node_Output (register_timer ms1 ms2 (aa_node app)) else [], None, app)
      | Heartbeat_Timer ms \<Rightarrow>
          ([], if aa_timers app then map Node_Output (heartbeat_timer ms (aa_node app)) else [], None, app)
      | Flush_Timer is_connected ok \<Rightarrow>
          (if aa_bridge app then flushPendingReports is_connected ok (aa_pending app) else [], [], None, app)
      | Navigation_Status s \<Rightarrow> ([], [], None, app\<lparr>aa_node := on_navigation_status s (aa_node app)\<rparr>)
      | Behavior_Status s \<Rightarrow> ([], [], None, app\<lparr>aa_node := on_behavior_status s (aa_node app)\<rparr>))"

text \<open>
  The events of the behaviour manager, in order, each with what its publication meets; an exception ends the process.
\<close>

fun report_events ::
  "(nat \<Rightarrow> bridge_env) \<Rightarrow> nat \<Rightarrow> task_event list \<Rightarrow> pending_file \<Rightarrow> bridge_error + ((string \<times> string) list \<times> pending_file)" where
  "report_events envs k [] file = Inr ([], file)"
| "report_events envs k (e # es) file =
     (case publishTaskEventToMqtt (envs k) e file of
        Inl err \<Rightarrow> Inl err
      | Inr (sent, file1) \<Rightarrow>
          (case report_events envs (Suc k) es file1 of
             Inl err \<Rightarrow> Inl err
           | Inr (sent', file2) \<Rightarrow> Inr (sent @ sent', file2)))"

end
