(* ===== verification/Navigation_Client.thy ===== *)
theory Navigation_Client
  imports Behavior Navigation
begin

text \<open>
  \<open>amr_behavior_manager/src/navigation_client.cpp\<close>, the part of \<open>amr_navigation\<close> that tells where the
  robot is (\<open>tf_helper.cpp\<close>, \<open>publishPose\<close>, the pose service and the feedback), and the node of the behaviour
  manager together with its client. The action library names goals by numbers here.
\<close>

section \<open>Where the robot is\<close>

record quaternion =
  q_x :: real
  q_y :: real
  q_z :: real
  q_w :: real

text \<open>
  What the transform library knows: whether it can transform, the transform (\<open>None\<close> for an exception), the
  yaw of a quaternion and the quaternion of a yaw.
\<close>

record transforms =
  tf_can :: bool
  tf_lookup :: "(real \<times> real \<times> quaternion) option"
  tf_yaw :: "quaternion \<Rightarrow> real"
  tf_quaternion :: "real \<Rightarrow> quaternion"

definition getRobotPose :: "transforms \<Rightarrow> pose2d option" where
  "getRobotPose tf =
     (if \<not> tf_can tf then None
      else case tf_lookup tf of
        None \<Rightarrow> None
      | Some (x, y, rotation) \<Rightarrow> Some \<lparr>pose_x = x, pose_y = y, pose_yaw = tf_yaw tf rotation\<rparr>)"

text \<open>The message of the topic \<open>robot_pose\<close>; a fresh message has the unit quaternion.\<close>

record robot_pose_msg =
  pm_frame_id :: string
  pm_pose_valid :: bool
  pm_x :: real
  pm_y :: real
  pm_orientation :: quaternion

definition empty_pose_msg :: robot_pose_msg where
  "empty_pose_msg = \<lparr>pm_frame_id = [], pm_pose_valid = False, pm_x = 0, pm_y = 0,
     pm_orientation = \<lparr>q_x = 0, q_y = 0, q_z = 0, q_w = 1\<rparr>\<rparr>"

definition publishPose :: "transforms \<Rightarrow> robot_pose_msg" where
  "publishPose tf =
     (let msg = empty_pose_msg\<lparr>pm_frame_id := ''map''\<rparr> in
      case getRobotPose tf of
        None \<Rightarrow> msg
      | Some p \<Rightarrow> msg\<lparr>pm_pose_valid := True, pm_x := pose_x p, pm_y := pose_y p,
          pm_orientation := (tf_quaternion tf (pose_yaw p))\<lparr>q_w := 1\<rparr>\<rparr>)"

record pose_response =
  pr_success :: bool
  pr_x :: real
  pr_y :: real
  pr_yaw :: real
  pr_message :: string

text \<open>The frame of the request is not used.\<close>

definition handleGetRobotPose :: "transforms \<Rightarrow> string \<Rightarrow> pose_response" where
  "handleGetRobotPose tf frame_id =
     (case getRobotPose tf of
        Some p \<Rightarrow> \<lparr>pr_success = True, pr_x = pose_x p, pr_y = pose_y p, pr_yaw = pose_yaw p, pr_message = ''ok''\<rparr>
      | None \<Rightarrow> \<lparr>pr_success = False, pr_x = 0, pr_y = 0, pr_yaw = 0, pr_message = ''getRobotPose failed''\<rparr>)"

section \<open>Feedback\<close>

text \<open>A feedback of Nav2; durations as pairs of seconds and nanoseconds.\<close>

record 'p nav_feedback =
  fb_state :: nav_state
  fb_current_pose :: 'p
  fb_navigation_time :: "int \<times> int"
  fb_time_remaining :: "int \<times> int"
  fb_distance_remaining :: real
  fb_recoveries :: int

record 'p nav2_feedback =
  n2_current_pose :: 'p
  n2_navigation_time :: "int \<times> int"
  n2_time_remaining :: "int \<times> int"
  n2_distance_remaining :: real
  n2_recoveries :: int

definition feedbackCallback :: "'p nav2_feedback \<Rightarrow> 'p nav_feedback" where
  "feedbackCallback f =
     \<lparr>fb_state = NAV_NAVIGATING, fb_current_pose = n2_current_pose f, fb_navigation_time = n2_navigation_time f,
      fb_time_remaining = n2_time_remaining f, fb_distance_remaining = n2_distance_remaining f,
      fb_recoveries = n2_recoveries f mod 65536\<rparr>"

fun nav_state_number :: "nav_state \<Rightarrow> int" where
  "nav_state_number NAV_IDLE = 0"
| "nav_state_number NAV_ACCEPTING = 1"
| "nav_state_number NAV_NAVIGATING = 2"
| "nav_state_number NAV_CANCELING = 3"
| "nav_state_number NAV_SUCCEEDED = 4"
| "nav_state_number NAV_FAILED = 5"
| "nav_state_number NAV_CANCELED = 6"

text \<open>
  The feedback goes to the goal that is active, as number of the state and with the distance rounded to a
  \<open>float\<close>; without an active goal it is dropped.
\<close>

definition onNavigationFeedback ::
  "(real \<Rightarrow> real) \<Rightarrow> 'p nav_feedback \<Rightarrow> navigation \<Rightarrow> (nat \<times> int \<times> 'p nav_feedback) option" where
  "onNavigationFeedback to_float fb s =
     (case m_active_goal_handle s of
        None \<Rightarrow> None
      | Some gh \<Rightarrow> Some (gh, nav_state_number (fb_state fb),
          fb\<lparr>fb_distance_remaining := to_float (fb_distance_remaining fb)\<rparr>))"

section \<open>The client\<close>

datatype goal_status =
    STATUS_UNKNOWN | STATUS_ACCEPTED | STATUS_EXECUTING | STATUS_CANCELING
  | STATUS_SUCCEEDED | STATUS_CANCELED | STATUS_ABORTED

record nav_client =
  nc_goal_handle :: "nat option"
  nc_latest_pose :: "robot_pose_msg option"
  nc_feedback_cb :: bool
  nc_result_cb :: bool

definition new_nav_client :: nav_client where
  "new_nav_client = \<lparr>nc_goal_handle = None, nc_latest_pose = None, nc_feedback_cb = False, nc_result_cb = False\<rparr>"

datatype client_call =
    Async_Send_Goal nav_goal
  | Async_Cancel_Goal nat
  | Async_Pose_Request string

text \<open>The server is waited for three seconds; without it the goal is dropped and only a log entry tells.\<close>

definition client_navigateToPose :: "bool \<Rightarrow> nav_goal \<Rightarrow> client_call list" where
  "client_navigateToPose server_up goal = (if \<not> server_up then [] else [Async_Send_Goal goal])"

definition onGoalResponse :: "nat option \<Rightarrow> nav_client \<Rightarrow> nav_client" where
  "onGoalResponse goal_handle c = (case goal_handle of None \<Rightarrow> c | Some gh \<Rightarrow> c\<lparr>nc_goal_handle := Some gh\<rparr>)"

definition client_cancelNavigation :: "(nat \<Rightarrow> goal_status) \<Rightarrow> nav_client \<Rightarrow> client_call list" where
  "client_cancelNavigation get_status c =
     (case nc_goal_handle c of
        None \<Rightarrow> []
      | Some gh \<Rightarrow>
          if get_status gh = STATUS_ACCEPTED \<or> get_status gh = STATUS_EXECUTING then [Async_Cancel_Goal gh] else [])"

definition getLatestPose :: "nav_client \<Rightarrow> robot_pose_msg option" where
  "getLatestPose c = nc_latest_pose c"

definition queryPoseAsync :: "client_call list" where
  "queryPoseAsync = [Async_Pose_Request ''base_footprint'']"

text \<open>What the callback of a query is called with, if there is one.\<close>

definition onPoseResponse :: "bool \<Rightarrow> pose_response \<Rightarrow> (bool \<times> real \<times> real \<times> real) option" where
  "onPoseResponse has_callback r = (if has_callback then Some (pr_success r, pr_x r, pr_y r, pr_yaw r) else None)"

definition poseSubscriptionCallback :: "robot_pose_msg \<Rightarrow> nav_client \<Rightarrow> nav_client" where
  "poseSubscriptionCallback msg c = c\<lparr>nc_latest_pose := Some msg\<rparr>"

definition setFeedbackCallback :: "nav_client \<Rightarrow> nav_client" where
  "setFeedbackCallback c = c\<lparr>nc_feedback_cb := True\<rparr>"

definition setResultCallback :: "nav_client \<Rightarrow> nav_client" where
  "setResultCallback c = c\<lparr>nc_result_cb := True\<rparr>"

section \<open>The behaviour manager and its client\<close>

record carrier =
  ca_behavior :: behavior
  ca_client :: nav_client

definition init_carrier :: carrier where
  "init_carrier = \<lparr>ca_behavior = fresh_behavior, ca_client = setResultCallback (setFeedbackCallback new_nav_client)\<rparr>"

text \<open>What a callback meets of the action library, and what the node hands to it and to ROS.\<close>

record carrier_env =
  ce_behavior :: behavior_env
  ce_server_up :: bool
  ce_status :: "nat \<Rightarrow> goal_status"

datatype carrier_output = Task_Event task_event | Client_Call client_call

definition perform :: "carrier_env \<Rightarrow> nav_client \<Rightarrow> behavior_output \<Rightarrow> carrier_output list" where
  "perform env c out =
     (case out of
        Publish e \<Rightarrow> [Task_Event e]
      | Navigate goal \<Rightarrow> map Client_Call (client_navigateToPose (ce_server_up env) goal)
      | Cancel_Navigation \<Rightarrow> map Client_Call (client_cancelNavigation (ce_status env) c))"

datatype carrier_input =
    Behave behavior_input
  | Goal_Answer "nat option"
  | Goal_Result nat result_code
  | Goal_Feedback nat
  | Pose_Message robot_pose_msg

text \<open>
  The result callback of \<open>init\<close> hands every result to the node, of whatever goal it is; feedback is ignored. The
  results of the navigation come through the client only.
\<close>

definition carry_step :: "carrier_env \<Rightarrow> carrier_input \<Rightarrow> carrier \<Rightarrow> carrier_output list \<times> carrier" where
  "carry_step env input n =
     (let behave_node = \<lambda>binput. (case behave (ce_behavior env) binput (ca_behavior n) of
            (outs, b) \<Rightarrow> (concat (map (perform env (ca_client n)) outs), n\<lparr>ca_behavior := b\<rparr>)) in
      case input of
        Behave (Navigation_Result _) \<Rightarrow> ([], n)
      | Behave binput \<Rightarrow> behave_node binput
      | Goal_Answer gh \<Rightarrow> ([], n\<lparr>ca_client := onGoalResponse gh (ca_client n)\<rparr>)
      | Goal_Result gh rc \<Rightarrow>
          if nc_result_cb (ca_client n) then behave_node (Navigation_Result (rc = Code_Succeeded)) else ([], n)
      | Goal_Feedback gh \<Rightarrow> ([], n)
      | Pose_Message msg \<Rightarrow> ([], n\<lparr>ca_client := poseSubscriptionCallback msg (ca_client n)\<rparr>))"

fun carry_run :: "(carrier_env \<times> carrier_input) list \<Rightarrow> carrier \<Rightarrow> carrier_output list \<times> carrier" where
  "carry_run [] n = ([], n)"
| "carry_run ((env, input) # rest) n =
     (case carry_step env input n of (outs, n1) \<Rightarrow> (case carry_run rest n1 of (outs', n2) \<Rightarrow> (outs @ outs', n2)))"

text \<open>The timer of the robot status: the position is that of the latest pose, when it is valid.\<close>

definition carrier_publishRobotStatus :: "string \<Rightarrow> carrier \<Rightarrow> robot_status_msg \<times> component_state" where
  "carrier_publishRobotStatus robot_id n =
     (robotStatus robot_id
        (case getLatestPose (ca_client n) of
           Some pose \<Rightarrow> if pm_pose_valid pose then Some (pm_x pose, pm_y pose) else None
         | None \<Rightarrow> None) (ca_behavior n),
      componentStatus (ca_behavior n))"

end
