(* ===== verification/Robot_Machine.thy ===== *)
theory Robot_Machine
  imports Agent_App Navigation_Client
begin

text \<open>
  A robot: the agent and the behaviour manager with its navigation client, joined by the ROS topics
  \<open>task_command\<close>, \<open>task_event\<close>, \<open>edge_status\<close>, \<open>map_info\<close> and \<open>behavior_status\<close>. ROS delivers a message before the next
  turn: the queues hold ten messages, and a turn publishes fewer.
\<close>

section \<open>State\<close>

record robot_machine =
  rm_agent :: agent_app
  rm_carrier :: carrier

text \<open>
  What a turn meets: what the loader makes of the two files of an announced map, the callbacks of the behaviour
  manager with their surroundings, and the publications of the reports.
\<close>

record machine_world =
  mw_load :: "map_info \<Rightarrow> bool \<times> zone_info list \<times> station_info list"
  mw_carrier :: carrier_env
  mw_reports :: "nat \<Rightarrow> bridge_env"

section \<open>Turns\<close>

definition events_of :: "carrier_output list \<Rightarrow> task_event list" where
  "events_of outs = List.map_filter (\<lambda>out. case out of Task_Event e \<Rightarrow> Some e | Client_Call _ \<Rightarrow> None) outs"

definition calls_of :: "carrier_output list \<Rightarrow> client_call list" where
  "calls_of outs = List.map_filter (\<lambda>out. case out of Task_Event _ \<Rightarrow> None | Client_Call c \<Rightarrow> Some c) outs"

text \<open>What the behaviour manager hears of a turn of the agent.\<close>

definition heard :: "machine_world \<Rightarrow> agent_emission list \<Rightarrow> task_command option \<Rightarrow> carrier_input list" where
  "heard w emitted cmd =
     List.map_filter (\<lambda>em. case em of
         Ros_Map_Info i \<Rightarrow> Some (Behave (Map_Info (fo_ready i) (mw_load w i)))
       | Node_Output (Edge_Status online) \<Rightarrow> Some (Behave (Edge_Online online))
       | _ \<Rightarrow> None) emitted @
     (case cmd of None \<Rightarrow> [] | Some c \<Rightarrow> [Behave (Command c)])"

text \<open>The behaviour manager handles its inputs; the agent sends the reports, which it may have to keep.\<close>

definition machine_carries ::
  "machine_world \<Rightarrow> carrier_input list \<Rightarrow> robot_machine
   \<Rightarrow> bridge_error + ((string \<times> string) list \<times> client_call list \<times> robot_machine)" where
  "machine_carries w inputs m =
     (case carry_run (map (Pair (mw_carrier w)) inputs) (rm_carrier m) of
        (outs, n) \<Rightarrow>
          if \<not> aa_bridge (rm_agent m) then Inr ([], calls_of outs, m\<lparr>rm_carrier := n\<rparr>)
          else case report_events (mw_reports w) 0 (events_of outs) (aa_pending (rm_agent m)) of
            Inl err \<Rightarrow> Inl err
          | Inr (sent, file) \<Rightarrow>
              Inr (sent, calls_of outs, \<lparr>rm_agent = (rm_agent m)\<lparr>aa_pending := file\<rparr>, rm_carrier = n\<rparr>))"

text \<open>A turn of the agent, or an input of the behaviour manager that does not come from the agent.\<close>

datatype machine_event =
    From_Agent agent_event
  | To_Carrier carrier_input

definition machine_step ::
  "machine_world \<Rightarrow> machine_event \<Rightarrow> robot_machine \<Rightarrow> bridge_error + ((string \<times> string) list \<times> client_call list \<times> robot_machine)" where
  "machine_step w ev m =
     (case ev of
        From_Agent a \<Rightarrow>
          (case agent_react a (rm_agent m) of
             (flushed, emitted, cmd, app) \<Rightarrow>
               (case machine_carries w (heard w emitted cmd) (m\<lparr>rm_agent := app\<rparr>) of
                  Inl err \<Rightarrow> Inl err
                | Inr (sent, calls, m') \<Rightarrow> Inr (flushed @ sent, calls, m')))
      | To_Carrier input \<Rightarrow> machine_carries w [input] m)"

fun machine_run ::
  "(machine_world \<times> machine_event) list \<Rightarrow> robot_machine
   \<Rightarrow> bridge_error + ((string \<times> string) list \<times> client_call list \<times> robot_machine)" where
  "machine_run [] m = Inr ([], [], m)"
| "machine_run ((w, ev) # rest) m =
     (case machine_step w ev m of
        Inl err \<Rightarrow> Inl err
      | Inr (sent, calls, m1) \<Rightarrow>
          (case machine_run rest m1 of
             Inl err \<Rightarrow> Inl err
           | Inr (sent', calls', m2) \<Rightarrow> Inr (sent @ sent', calls @ calls', m2)))"

text \<open>The component states that the two nodes publish; the agent takes up the ones of the behaviour manager.\<close>

definition machine_status :: "robot_machine \<Rightarrow> robot_machine" where
  "machine_status m = m\<lparr>rm_agent := (rm_agent m)\<lparr>aa_node :=
     on_behavior_status (state_value (componentStatus (ca_behavior (rm_carrier m)))) (aa_node (rm_agent m))\<rparr>\<rparr>"

end
