(* ===== verification/Carry_Navigation.thy ===== *)
theory Carry_Navigation
  imports Navigation_Client Behavior_Rules
begin

text \<open>
  The behaviour manager with its navigation client and the navigation server: what the cancellation of a task reaches,
  what a second goal does to the first, and where the position in the robot status comes from.
\<close>

section \<open>The goal that a cancellation reaches\<close>

definition accepted_goals :: "(carrier_env \<times> carrier_input) list \<Rightarrow> nat list" where
  "accepted_goals evs = concat (map (\<lambda>(_, input). case input of Goal_Answer (Some gh) \<Rightarrow> [gh] | _ \<Rightarrow> []) evs)"

lemma carry_step_client:
  "carry_step env input n = (outs, n') \<Longrightarrow>
     nc_goal_handle (ca_client n') = (case input of Goal_Answer (Some gh) \<Rightarrow> Some gh | _ \<Rightarrow> nc_goal_handle (ca_client n)) \<and>
     nc_result_cb (ca_client n') = nc_result_cb (ca_client n)"
  by (auto simp: carry_step_def Let_def onGoalResponse_def poseSubscriptionCallback_def
      split: carrier_input.splits behavior_input.splits option.splits prod.splits if_splits)

lemma accepted_goals_Cons [simp]:
  "accepted_goals ((env, input) # evs) = (case input of Goal_Answer (Some gh) \<Rightarrow> [gh] | _ \<Rightarrow> []) @ accepted_goals evs"
  by (simp add: accepted_goals_def)

lemma carry_run_client:
  "carry_run evs n = (outs, n') \<Longrightarrow>
     nc_goal_handle (ca_client n') =
       (if accepted_goals evs = [] then nc_goal_handle (ca_client n) else Some (last (accepted_goals evs))) \<and>
     nc_result_cb (ca_client n') = nc_result_cb (ca_client n)"
proof (induction evs arbitrary: n outs)
  case (Cons ev rest)
  obtain env input where ev: "ev = (env, input)" by fastforce
  obtain outs1 n1 where step: "carry_step env input n = (outs1, n1)" by fastforce
  obtain outs2 where run: "carry_run rest n1 = (outs2, n')" using Cons.prems ev step by (auto split: prod.splits)
  from Cons.IH [OF run] carry_step_client [OF step] show ?case
    by (cases input) (auto simp: ev split: option.splits)
qed (simp add: accepted_goals_def)

lemma behave_in_node:
  assumes "behave (ce_behavior env) input (ca_behavior n) = (outs, b)" and "\<forall>ok. input \<noteq> Navigation_Result ok"
  shows "carry_step env (Behave input) n = (concat (map (perform env (ca_client n)) outs), n\<lparr>ca_behavior := b\<rparr>)"
  using assms by (cases input) (auto simp: carry_step_def)

text \<open>What a cancelled robot does at the next tick of a timer that a grant has left behind.\<close>

lemma tick_after_reset:
  assumes "Grasp_Timer \<in> set (m_one_shot_timers b)" and "m_current_goods b = []" and "m_current_task_id b = []"
  shows "\<exists>e. behave env (Timer Grasp_Timer) b = ([Publish e, Navigate \<lparr>goal_x = 0, goal_y = 0, goal_z = 0, goal_w = 1\<rparr>],
      b\<lparr>m_task_state := ''TRANSPORTING''\<rparr>) \<and> te_event_type e = ''STATUS'' \<and> te_task_id e = []"
  using assms by (simp add: behave_def behavior_defs goal_of_def)

text \<open>
  C23: the cancellation of its task reaches a robot's navigation only between the answer of the navigation server and
  the end of the goal, and does not keep the robot from driving. Let the behaviour manager have run in any way. When
  its current task is cancelled it asks to cancel exactly the goal that was accepted last, and this only while that
  goal is accepted or executing: a goal that has been sent and not yet answered is not cancelled. The task is given
  up. But if goods had ever been granted to the robot, its timer is still set, and at the next tick the
  robot, which has no task any more, sends the origin of the map as its next goal.
\<close>

theorem cancelled_robot_drives_on:
  assumes "carry_run evs init_carrier = (outs, n)" and "c_command_type cmd = ''TASK_CANCEL''"
    and "c_task_id cmd = m_current_task_id (ca_behavior n)"
    and "carry_step env (Behave (Command cmd)) n = (outs1, n1)"
    and "Grasp_Timer \<in> set (m_one_shot_timers (ca_behavior n))" and "ce_server_up env2"
    and "carry_step env2 (Behave (Timer Grasp_Timer)) n1 = (outs2, n2)"
  shows "(\<exists>e. outs1 = (if accepted_goals evs \<noteq> [] \<and> (ce_status env (last (accepted_goals evs)) = STATUS_ACCEPTED \<or>
            ce_status env (last (accepted_goals evs)) = STATUS_EXECUTING)
          then [Client_Call (Async_Cancel_Goal (last (accepted_goals evs)))] else []) @ [Task_Event e] \<and>
        te_event_type e = ''CARRY_ABORTED'' \<and> te_task_id e = c_task_id cmd) \<and>
    m_current_task_id (ca_behavior n1) = [] \<and> m_task_state (ca_behavior n1) = ''IDLE'' \<and>
    last outs2 = Client_Call (Async_Send_Goal \<lparr>goal_x = 0, goal_y = 0, goal_z = 0, goal_w = 1\<rparr>) \<and>
    m_task_state (ca_behavior n2) = ''TRANSPORTING''"
proof -
  let ?b = "(ca_behavior n)\<lparr>m_task_state := ''CANCELLED''\<rparr>"
  have handle: "nc_goal_handle (ca_client n) = (if accepted_goals evs = [] then None else Some (last (accepted_goals evs)))"
    using carry_run_client [OF assms(1)] by (simp add: init_carrier_def new_nav_client_def setFeedbackCallback_def setResultCallback_def)
  have cancel: "behave (ce_behavior env) (Command cmd) (ca_behavior n) =
      ([Cancel_Navigation, Publish (task_event_of ''CARRY_ABORTED'' ''INTERRUPTED'' (m_current_goods ?b) [] ''TASK_CANCELLED'' ?b)],
       resetTask ?b)"
    using assms(2,3) by (simp add: behave_def handleTaskCommand_def handleTaskCancel_def publishTaskEvent_def Let_def)
  have step1: "outs1 = concat (map (perform env (ca_client n)) [Cancel_Navigation,
        Publish (task_event_of ''CARRY_ABORTED'' ''INTERRUPTED'' (m_current_goods ?b) [] ''TASK_CANCELLED'' ?b)])"
    "n1 = n\<lparr>ca_behavior := resetTask ?b\<rparr>"
    using behave_in_node [OF cancel] assms(4) by simp_all
  have "Grasp_Timer \<in> set (m_one_shot_timers (resetTask ?b))" "m_current_goods (resetTask ?b) = []"
      "m_current_task_id (resetTask ?b) = []" using assms(5) by (simp_all add: resetTask_def)
  from tick_after_reset [OF this, of "ce_behavior env2"] obtain e where
    tick: "behave (ce_behavior env2) (Timer Grasp_Timer) (ca_behavior n1) =
      ([Publish e, Navigate \<lparr>goal_x = 0, goal_y = 0, goal_z = 0, goal_w = 1\<rparr>],
       (ca_behavior n1)\<lparr>m_task_state := ''TRANSPORTING''\<rparr>)" by (auto simp: step1(2))
  have "last outs2 = Client_Call (Async_Send_Goal \<lparr>goal_x = 0, goal_y = 0, goal_z = 0, goal_w = 1\<rparr>) \<and>
      m_task_state (ca_behavior n2) = ''TRANSPORTING''"
    using behave_in_node [OF tick] assms(6,7) by (auto simp: perform_def client_navigateToPose_def)
  then show ?thesis
    using handle assms(3) by (simp add: step1 perform_def client_cancelNavigation_def resetTask_def task_event_of_def)
qed

text \<open>A robot is granted goods, its timer ticks and the server accepts goal 4; then the task is cancelled.\<close>

definition sample_carrier_env :: carrier_env where
  "sample_carrier_env = \<lparr>ce_behavior = sample_behavior_env, ce_server_up = True, ce_status = (\<lambda>_. STATUS_EXECUTING)\<rparr>"

definition sample_carrying :: "(carrier_env \<times> carrier_input) list" where
  "sample_carrying = map (Pair sample_carrier_env)
     [Behave (Map_Info True (True, [], [])), Behave (Command sample_assign), Behave (Command sample_update),
      Behave (Command sample_grant), Behave (Timer Grasp_Timer), Goal_Answer (Some 4)]"

lemma sample_carrying_run:
  "\<exists>outs n. carry_run sample_carrying init_carrier = (outs, n) \<and> m_current_task_id (ca_behavior n) = ''T1'' \<and>
     m_one_shot_timers (ca_behavior n) = [Grasp_Timer]"
  by (simp add: sample_carrying_def init_carrier_def carry_step_def sample_carrier_env_def behave_def behavior_defs
      sample_assign_def sample_update_def sample_grant_def fresh_behavior_def empty_command_def final_state_def
      maybeRequestNextGoods_def request_goods_def sample_goods_status_def sample_behavior_env_def goal_of_def)

lemma cancelled_robot_drives_on_witness:
  "\<exists>outs (n :: carrier) outs1 e n1 outs2 n2. carry_run sample_carrying init_carrier = (outs, n) \<and>
     carry_step sample_carrier_env (Behave (Command (empty_command\<lparr>c_command_type := ''TASK_CANCEL'', c_task_id := ''T1''\<rparr>))) n =
       (outs1, n1) \<and>
     outs1 = [Client_Call (Async_Cancel_Goal 4), Task_Event e] \<and>
     carry_step sample_carrier_env (Behave (Timer Grasp_Timer)) n1 = (outs2, n2) \<and>
     last outs2 = Client_Call (Async_Send_Goal \<lparr>goal_x = 0, goal_y = 0, goal_z = 0, goal_w = 1\<rparr>)"
proof -
  let ?cancel = "empty_command\<lparr>c_command_type := ''TASK_CANCEL'', c_task_id := ''T1''\<rparr>"
  obtain outs n where run: "carry_run sample_carrying init_carrier = (outs, n)"
    and n: "m_current_task_id (ca_behavior n) = ''T1''" "m_one_shot_timers (ca_behavior n) = [Grasp_Timer]"
    using sample_carrying_run by blast
  obtain outs1 n1 where step1: "carry_step sample_carrier_env (Behave (Command ?cancel)) n = (outs1, n1)" by fastforce
  obtain outs2 n2 where step2: "carry_step sample_carrier_env (Behave (Timer Grasp_Timer)) n1 = (outs2, n2)" by fastforce
  have goals: "accepted_goals sample_carrying = [4]" by (simp add: sample_carrying_def) (simp add: accepted_goals_def)
  from cancelled_robot_drives_on [OF run _ _ step1 _ _ step2, unfolded goals] n
  have "(\<exists>e. outs1 = [Client_Call (Async_Cancel_Goal 4), Task_Event e]) \<and>
      last outs2 = Client_Call (Async_Send_Goal \<lparr>goal_x = 0, goal_y = 0, goal_z = 0, goal_w = 1\<rparr>)"
    by (auto simp: empty_command_def sample_carrier_env_def)
  with run step1 step2 show ?thesis by blast
qed

section \<open>A second goal\<close>

text \<open>
  The thread of a goal ends it by one of three calls of its handle. The library moves the goal to the state that the
  call names, or throws: then the thread, which catches nothing, ends the process.
\<close>

datatype goal_end = End_Succeed | End_Canceled | End_Abort

fun goal_end_of :: "goal_outcome \<Rightarrow> goal_end" where
  "goal_end_of (Goal_Succeeded _) = End_Succeed"
| "goal_end_of (Goal_Canceled _) = End_Canceled"
| "goal_end_of (Goal_Aborted _) = End_Abort"

text \<open>
  As the action library documents the states of a goal: a goal that is executed succeeds or is aborted, and it is
  canceled only after a client has asked for that.
\<close>

definition action_states :: "(goal_status \<Rightarrow> goal_end \<Rightarrow> goal_status option) \<Rightarrow> bool" where
  "action_states update \<longleftrightarrow>
     update STATUS_EXECUTING End_Succeed = Some STATUS_SUCCEEDED \<and> update STATUS_EXECUTING End_Abort = Some STATUS_ABORTED \<and>
     update STATUS_EXECUTING End_Canceled = None \<and>
     update STATUS_CANCELING End_Succeed = Some STATUS_SUCCEEDED \<and> update STATUS_CANCELING End_Abort = Some STATUS_ABORTED \<and>
     update STATUS_CANCELING End_Canceled = Some STATUS_CANCELED"

text \<open>
  The goal of a running navigation when another goal comes: its thread waits. It may see the result of
  its navigation, or wake up only after the new goal has been registered, and then it goes on waiting.
\<close>

definition running :: "navigation \<Rightarrow> bool" where
  "running s \<longleftrightarrow> m_state s = NAV_NAVIGATING \<and> m_goal_handle s \<and> \<not> m_navigation_result_ready s"

definition old_goal_in_time :: "execute_env \<Rightarrow> navigation \<Rightarrow> goal_outcome" where
  "old_goal_in_time env s =
     end_of_wait (fst (waitForNavigationResult [] (snd (waitForNavigationResult (while_old env) (cancelNavigation s)))))"

definition old_goal_late :: "execute_env \<Rightarrow> nat \<Rightarrow> navigation \<Rightarrow> goal_outcome" where
  "old_goal_late env goal s =
     end_of_wait (fst (waitForNavigationResult (while_navigating env)
       (register_goal goal (fold nav_react (before_registration env) (snd (request_navigation env s))))))"

lemma wait_until_result:
  assumes "\<not> m_navigation_result_ready s" and "find is_result cbs = Some cb"
    and "waitForNavigationResult cbs s = (r, s')"
  shows "m_navigation_result_ready s' \<and> m_navigation_result s' = result_of cb \<and> m_state s' = NAV_IDLE"
  using assms
proof (induction cbs arbitrary: s)
  case (Cons c cbs)
  show ?case
  proof (cases "is_result c")
    case True
    with Cons.prems(2) have cb: "cb = c" by simp
    from Cons.prems(1,3) True show ?thesis
      unfolding cb by (auto simp: waitForNavigationResult.simps [of "c # cbs"] nav_react_result)
  next
    case False
    with Cons.prems nav_react_other [OF False, of s] Cons.IH [of "nav_react c s"] show ?thesis
      by (simp add: waitForNavigationResult.simps [of "c # cbs"])
  qed
qed simp


definition sample_update_goal :: "goal_status \<Rightarrow> goal_end \<Rightarrow> goal_status option" where
  "sample_update_goal st e = (case e of
     End_Succeed \<Rightarrow> (if st = STATUS_EXECUTING \<or> st = STATUS_CANCELING then Some STATUS_SUCCEEDED else None)
   | End_Abort \<Rightarrow> (if st = STATUS_EXECUTING \<or> st = STATUS_CANCELING then Some STATUS_ABORTED else None)
   | End_Canceled \<Rightarrow> (if st = STATUS_CANCELING then Some STATUS_CANCELED else None))"

definition sample_second_goal :: execute_env where
  "sample_second_goal = \<lparr>is_canceling = False, nav2_up1 = True, nav2_up2 = True, while_old = [Nav_Result Code_Canceled],
     before_registration = [Goal_Response True], while_navigating = [Nav_Result Code_Succeeded]\<rparr>"


section \<open>The position in the robot status\<close>

text \<open>
  The status carries the position that the transforms gave at the last publication of the pose, none if they gave none;
  the pose of the service is the same one, with its yaw, which the status does not have.
\<close>

lemma pose_reaches_status:
  assumes "carry_step env (Pose_Message (publishPose tf)) n = (outs, n')"
  shows "rsm_position (fst (carrier_publishRobotStatus robot_id n')) = map_option (\<lambda>p. (pose_x p, pose_y p)) (getRobotPose tf)"
  using assms by (auto simp: carry_step_def carrier_publishRobotStatus_def poseSubscriptionCallback_def getLatestPose_def publishPose_def
      robotStatus_def empty_pose_msg_def Let_def split: option.splits)

lemma pose_query_agrees:
  "onPoseResponse True (handleGetRobotPose tf frame_id) =
     Some (case getRobotPose tf of None \<Rightarrow> (False, 0, 0, 0) | Some p \<Rightarrow> (True, pose_x p, pose_y p, pose_yaw p))"
  by (simp add: onPoseResponse_def handleGetRobotPose_def split: option.split)

text \<open>The orientation in the message is not that of the yaw as soon as the robot is turned.\<close>

lemma published_orientation:
  "getRobotPose tf = Some p \<Longrightarrow> q_w (tf_quaternion tf (pose_yaw p)) \<noteq> 1 \<Longrightarrow>
     pm_orientation (publishPose tf) \<noteq> tf_quaternion tf (pose_yaw p)"
  by (auto simp: publishPose_def dest: arg_cong [where f = q_w])

text \<open>A feedback of Nav2 goes to the goal that is registered, whichever it belongs to; before the registration nobody gets it.\<close>

lemma feedback_goes_to_active_goal:
  "onNavigationFeedback to_float (feedbackCallback f) s =
     map_option (\<lambda>gh. (gh, 2, (feedbackCallback f)\<lparr>fb_distance_remaining := to_float (n2_distance_remaining f)\<rparr>))
       (m_active_goal_handle s)"
  by (simp add: onNavigationFeedback_def feedbackCallback_def split: option.split)

end
