(* ===== verification/Warehouse.thy ===== *)
theory Warehouse
  imports Robot_Machine Edge_Publishing Carry_Navigation
begin

text \<open>The edge server and a robot together, from a task that is posted to the report that the robot has accepted it.\<close>

section \<open>The joints of a robot\<close>

text \<open>
  The handler table of the agent is complete, its callbacks are set and the bridge hears the behaviour manager. Nothing
  that happens afterwards changes this, nor the name of the robot.
\<close>

definition agent_joined :: "string \<Rightarrow> agent_app \<Rightarrow> bool" where
  "agent_joined robot_id app \<longleftrightarrow> n_robot_id (aa_node app) = robot_id \<and>
     m_msgHandlers (co_router (aa_comm app)) = agent_handlers robot_id (n_warehouse_id (aa_node app)) \<and>
     mt_callback (co_mqtt (aa_comm app)) \<and> aa_status_callback app \<and> aa_register_callback app \<and> aa_bridge app"

definition new_agent_app :: "mqtt_options \<Rightarrow> agent_node \<Rightarrow> map_manager \<Rightarrow> pending_file \<Rightarrow> file_system \<Rightarrow> agent_app" where
  "new_agent_app defaults a m file disk =
     \<lparr>aa_node = a, aa_comm = new_communication defaults, aa_status_callback = False, aa_register_callback = False,
      aa_maps = m, aa_bridge = False, aa_pending = file, aa_timers = False, aa_disk = disk\<rparr>"

lemma edge_comm_callback:
  "edge_comm_init created outcome info co = (True, calls, co') \<Longrightarrow> mt_callback (co_mqtt co')"
  by (auto simp: edge_comm_init_def mqtt_setMessageCallback_def Let_def split: prod.splits bool.splits)

lemma subscribe_callback:
  "bridge_subscribe tls c = Some (calls, c') \<Longrightarrow> mt_callback c' = mt_callback c"
proof (induction tls c arbitrary: calls rule: bridge_subscribe.induct)
  case (2 topic link rest c)
  obtain calls1 c1 where one: "setExternalSubscribe link topic 1 c = Some (calls1, c1)"
    and more: "map_option (\<lambda>(calls', c2). (calls1 @ calls', c2)) (bridge_subscribe rest c1) = Some (calls, c')"
    using 2(2) by (auto split: option.splits)
  from more obtain calls2 where "bridge_subscribe rest c1 = Some (calls2, c')" by auto
  with 2(1) [OF one] have "mt_callback c' = mt_callback c1" by blast
  moreover have "mt_callback c1 = mt_callback c"
    using one by (auto simp: setExternalSubscribe_def mqtt_subscribe_def mqtt_setSubscribe_def split: if_splits option.splits bool.splits)
  ultimately show ?case by simp
qed simp

lemma comm_handlers:
  assumes "edge_comm_init created outcome info (new_communication defaults) = (True, calls, co)"
    and "task_bridge_init links (b_robot_id info) wid co = Some (calls', co')"
  shows "m_msgHandlers (co_router co') = agent_handlers (b_robot_id info) wid" and "mt_callback (co_mqtt co')"
    and "m_msgQueue (co_router co') = []"
  using assms edge_comm_callback [OF assms(1)] subscribe_callback
  by (auto simp: edge_comm_init_def task_bridge_init_def new_communication_def bridge_handlers_def agent_handlers_def Let_def
      split: prod.splits bool.splits)

lemma agent_started:
  assumes "agent_app_init lib parse_body exchange w cfg info0 (new_agent_app defaults a0 m0 file disk) = Some (True, emitted, app)"
  shows "agent_joined (n_robot_id (aa_node app)) app" and "m_msgQueue (co_router (aa_comm app)) = []"
  using assms comm_handlers
  by (auto simp: agent_app_init_def start_bridge_def new_agent_app_def agent_joined_def agent_of_bootstrap_def Let_def
      split: option.splits prod.splits bool.splits)

lemma onRegisterResponse_identity:
  "onRegisterResponse r ms resp a = (outs, a') \<Longrightarrow> n_robot_id a' = n_robot_id a \<and> n_warehouse_id a' = n_warehouse_id a"
  by (auto simp: onRegisterResponse_def publishInitialPoseIfReady_def Let_def split: if_splits prod.splits)

lemma onEdgeStatus_identity:
  "onEdgeStatusMessage ms1 ms2 online a = (outs, a') \<Longrightarrow> n_robot_id a' = n_robot_id a \<and> n_warehouse_id a' = n_warehouse_id a"
  by (auto simp: onEdgeStatusMessage_def Let_def split: if_splits)

lemma handle_joined: "agent_joined rid app \<Longrightarrow> agent_joined rid (snd (snd (agent_handle w h msg app)))"
  by (cases h)
    (auto simp: agent_handle_def agent_joined_def robot_register_answer_def Let_def dest: onRegisterResponse_identity onEdgeStatus_identity
      split: option.splits prod.splits if_splits)

lemma agent_react_joined:
  assumes "agent_joined rid app"
  shows "agent_joined rid (snd (snd (snd (agent_react ev app))))"
proof (cases ev)
  case (Agent_Message topic msg)
  with assms show ?thesis
    by (auto simp: agent_react_def agent_joined_def receive_message_def message_arrived_def onMessageProducer_def split: option.splits)
next
  case (Agent_Turn w)
  have "agent_joined rid (app\<lparr>aa_comm := (aa_comm app)\<lparr>co_router := (co_router (aa_comm app))\<lparr>m_msgQueue := q\<rparr>\<rparr>\<rparr>)" for q
    using assms by (simp add: agent_joined_def)
  with handle_joined Agent_Turn assms show ?thesis
    by (simp add: agent_react_def agent_turn_def Let_def split: list.split prod.split option.split)
qed (use assms in \<open>auto simp: agent_react_def agent_joined_def on_navigation_status_def on_behavior_status_def\<close>)

lemma machine_carries_agent:
  "machine_carries w inputs m = Inr (sent, calls, m') \<Longrightarrow> \<exists>file. rm_agent m' = (rm_agent m)\<lparr>aa_pending := file\<rparr>"
  by (cases "rm_agent m") (auto simp: machine_carries_def split: prod.splits if_splits sum.splits)

inductive machine_life :: "robot_machine \<Rightarrow> robot_machine \<Rightarrow> bool" where
  turn: "machine_step w ev m = Inr (sent, calls, m') \<Longrightarrow> machine_life m m'"

definition machine_started :: "string \<Rightarrow> robot_machine \<Rightarrow> bool" where
  "machine_started rid m \<longleftrightarrow> agent_joined rid (rm_agent m) \<and> rm_carrier m = init_carrier"

interpretation machines: stepping "machine_started rid" machine_life "\<lambda>m. agent_joined rid (rm_agent m)" for rid
proof
  fix m m' assume j: "agent_joined rid (rm_agent m)" and "machine_life m m'"
  from this(2) obtain w ev sent calls where step: "machine_step w ev m = Inr (sent, calls, m')" by (cases rule: machine_life.cases)
  have keep: "agent_joined rid (rm_agent m2)" if "machine_carries w inputs m1 = Inr (s, c, m2)" "agent_joined rid (rm_agent m1)" for inputs m1 s c m2
    using machine_carries_agent [OF that(1)] that(2) by (auto simp: agent_joined_def)
  show "agent_joined rid (rm_agent m')"
  proof (cases ev)
    case (From_Agent a)
    obtain flushed emitted cmd app where r: "agent_react a (rm_agent m) = (flushed, emitted, cmd, app)" by (metis prod_cases4)
    have "agent_joined rid app" using agent_react_joined [OF j, of a] by (simp add: r)
    with keep [of "heard w emitted cmd" "m\<lparr>rm_agent := app\<rparr>"] step From_Agent r show ?thesis
      by (auto simp: machine_step_def split: sum.splits)
  next
    case (To_Carrier input)
    with keep step j show ?thesis by (auto simp: machine_step_def)
  qed
qed (simp add: machine_started_def)

end
