(* ===== verification/Task_Uptake.thy ===== *)
theory Task_Uptake
  imports Warehouse
begin

text \<open>A task on its way: from the HTTP interface of the edge server to a robot and back into the database.\<close>

section \<open>At the edge server\<close>

lemma to_int32_idem [simp]: "to_int32 (to_int32 n) = to_int32 n"
  by (simp add: to_int32_def)

lemma posted_goods_fit: "posted_goods j = Inr g \<Longrightarrow> to_int32 (g_total_quantity g) = g_total_quantity g"
  by (auto simp: posted_goods_def bind_result_Inr_iff value_of_def get_int_def split: option.splits json.splits)

lemma map_result_member: "map_result f xs = Inr ys \<Longrightarrow> y \<in> set ys \<Longrightarrow> \<exists>x\<in>set xs. f x = Inr y"
  by (induction xs arbitrary: ys) (auto simp: bind_result_Inr_iff split: sum.splits)

lemma posted_task_fits: "posted_task text = Inr task \<Longrightarrow> g \<in> set (t_goods task) \<Longrightarrow> to_int32 (g_total_quantity g) = g_total_quantity g"
  by (auto simp: posted_task_def bind_result_Inr_iff dest!: map_result_member posted_goods_fit)

text \<open>A creation that is answered with 200: what it leaves in the server and what it sends.\<close>

lemma posted_at_edge:
  assumes "http_turn reader env w (post_request ''/api/tasks'' doc) app = (resp, msgs, app1)" and "ap_status resp = 200"
    and "system_ok (ea_robots app)"
  shows "\<exists>task stored db. posted_task (Some doc) = Inr task \<and> t_task_id task \<noteq> [] \<and>
    stored = prepared_task (ea_tasks app) (nowIso8601 env 0) task \<and>
    app1 = app\<lparr>ea_robots := (ea_robots app)\<lparr>database := db\<rparr>\<rparr> \<and> system_ok (ea_robots app1) \<and>
    GetTask working (t_task_id task) db = Some stored \<and>
    set msgs \<subseteq> (\<lambda>rid. (makeAmrTaskTopic rid, task_assign_message stored)) ` set (t_robot_ids task)"
proof -
  note ok = system_okD [OF assms(3)]
  obtain changed disk db where run: "http_serve (services_of app) env w (post_request ''/api/tasks'' doc) (ea_disk app, database (ea_robots app))
      = (resp, msgs, changed, disk, db)" and app1': "app1 = on_active_map_changed reader changed
      (app\<lparr>ea_disk := disk, ea_robots := (ea_robots app)\<lparr>database := db\<rparr>\<rparr>)"
    using assms(1) by (auto simp: http_turn_def split: prod.splits)
  have route: "create_task_route (Some (ea_tasks app)) env (post_request ''/api/tasks'' doc) (database (ea_robots app)) = (resp, msgs, db)"
    and same: "changed = None" "disk = ea_disk app"
    using run by (auto simp: http_serve_def post_request_def services_of_def Let_def split: prod.splits)
  then obtain task r where task: "posted_task (Some doc) = Inr task"
    and created: "createTask (ea_tasks app) env task (database (ea_robots app)) = (r, msgs, db)" "success r"
    using assms(2) by (auto simp: create_task_route_def post_request_def reply_msg_def reply_doc_def split: sum.splits prod.splits if_splits)
  let ?stored = "prepared_task (ea_tasks app) (nowIso8601 env 0) task"
  have sqlite: "CreateTask (faults env 1) ?stored (database (ea_robots app)) = (True, db)" "t_task_id task \<noteq> []"
    "set msgs \<subseteq> (\<lambda>rid. (makeAmrTaskTopic rid, task_assign_message ?stored)) ` set (t_robot_ids task)"
    using created by (auto simp: createTask_def reply_failure_def prepared_task_def Let_def split: if_splits prod.splits bool.splits)
  have "GetTask working (t_task_id task) db = Some ?stored"
    using create_then_get [OF ok(2,3) sqlite(1), of "t_task_id task"] by (simp add: prepared_task_def)
  moreover have "app1 = app\<lparr>ea_robots := (ea_robots app)\<lparr>database := db\<rparr>\<rparr>"
    by (simp add: app1' same on_active_map_changed_def)
  moreover have "system_ok (ea_robots app1)"
    using app_react_keeps_system [of app reader "Http_Request env w (post_request ''/api/tasks'' doc)"] assms(1,3)
    by (simp add: app_react_def keeps_system_def)
  ultimately show ?thesis using task sqlite(2,3) by blast
qed

text \<open>A report that the edge server consumes, and what it does to a task.\<close>

lemma report_turn:
  assumes "m_msgQueue (co_router (ea_amr app)) = (makeAmrTaskStatusTopic rid, msg) # rest" and "CHR ''/'' \<notin> set rid"
    and "m_msgHandlers (co_router (ea_amr app)) = amr_handlers"
  shows "app_react reader (Mqtt_Turn env) app =
    app\<lparr>ea_robots := (ea_robots app)\<lparr>database := snd (robotTaskStatusHandler env msg (database (ea_robots app)))\<rparr>,
      ea_amr := (ea_amr app)\<lparr>co_router := (co_router (ea_amr app))\<lparr>m_msgQueue := rest\<rparr>\<rparr>\<rparr>"
  using assms amr_routes(5) [OF refl assms(2)]
  by (simp add: app_react_def mqtt_turn_def edge_consume_def on_robot_events_def split: prod.split)

lemma GetTask_amr_events [simp]:
  "GetTask working tid (db\<lparr>tables := (tables db)\<lparr>tbl_amr_task_status_event := rows\<rparr>\<rparr>) = GetTask working tid db"
  by (cases "opened db") (simp_all add: GetTask_working, simp_all add: GetTask_def)

lemma find_map_key:
  assumes "\<And>r. key (f r) = key r" and "find (\<lambda>r. key r = k) rs = Some row"
  shows "find (\<lambda>r. key r = k) (map f rs) = Some (f row)"
  using assms(2) by (induction rs) (auto simp: assms(1) split: if_splits)

lemma status_report_effect:
  assumes "healthy env" and "opened db" and "idle db" and "\<not> is_carry (e_event_type ev)"
    and "GetTask working (e_task_id ev) db = Some task"
  shows "\<exists>db'. handleAmrTaskStatus env ev db = (True, db') \<and> opened db' \<and> idle db' \<and>
    (if e_event_type ev = ''STATUS'' \<and> e_task_state ev = ''ACCEPTED'' \<and> t_state task = ''PENDING''
     then \<exists>task'. GetTask working (e_task_id ev) db' = Some task' \<and> t_state task' = ''ACCEPTED'' \<and> t_goods task' = t_goods task \<and>
       t_robot_ids task' = t_robot_ids task
     else GetTask working (e_task_id ev) db' = Some task)"
proof -
  let ?rows = "sql_insert_or_ignore amr_event_check amr_event_key (amr_event_row_of (current_timestamp env 0) ev)
      (tbl_amr_task_status_event (tables db))"
  let ?db1 = "db\<lparr>tables := (tables db)\<lparr>tbl_amr_task_status_event := ?rows\<rparr>\<rparr>"
  have one: "handleAmrTaskStatus env ev db = (True, advance_task env ev ?db1)"
    using assms(1,2,4) InsertAmrTaskStatusEvent_working [of db] by (simp add: handleAmrTaskStatus_def)
  have carry: "e_event_type ev \<noteq> ''CARRY_COMPLETED''" using assms(4) by (auto simp: is_carry_def)
  have op: "opened ?db1" "idle ?db1" using assms(2,3) by (simp_all add: idle_def)
  show ?thesis
  proof (cases "e_event_type ev = ''STATUS'' \<and> e_task_state ev = ''ACCEPTED'' \<and> t_state task = ''PENDING''")
    case True
    let ?db2 = "?db1\<lparr>tables := event_tables (current_timestamp env 3) (e_task_id ev) ''ACCEPTED'' ''first AMR accepted'' ''AMR'' (tables ?db1)\<rparr>"
    have adv: "advance_task env ev ?db1 = ?db2"
      using True assms(1,5) carry UpdateTaskStateWithEvent_working [OF op(2,1)] by (simp add: advance_task_def)
    obtain row where row: "find (\<lambda>r. tk_task_id r = e_task_id ev) (tbl_task (tables db)) = Some row"
      and task: "t_goods task = map goods_of_row (filter (\<lambda>g. tg_task_id g = e_task_id ev) (tbl_task_goods (tables db)))"
        "t_robot_ids task = tk_robot_ids row"
      using assms(2,5) by (auto simp: GetTask_working)
    let ?f = "\<lambda>r. if tk_task_id r = e_task_id ev then r\<lparr>tk_state := ''ACCEPTED'', tk_reason := ''first AMR accepted'',
        tk_updated_at := current_timestamp env 3\<rparr> else r"
    have "tk_task_id (?f r) = tk_task_id r" for r by simp
    from find_map_key [of tk_task_id, OF this row]
    have "find (\<lambda>r. tk_task_id r = e_task_id ev) (tbl_task (tables ?db2)) = Some (?f row)"
      unfolding event_tables_def by simp
    moreover have "tk_task_id row = e_task_id ev" using find_Some_member [OF row] by simp
    ultimately show ?thesis
      using True one adv op task assms(2) by (simp add: GetTask_working event_tables_def idle_def)
  next
    case False
    then have "advance_task env ev ?db1 = ?db1"
      using assms(1,5) carry by (auto simp: advance_task_def Let_def)
    with False one op assms(5) show ?thesis by auto
  qed
qed

section \<open>At the robot\<close>

text \<open>The connection holds and the library takes what is published; reading a text gives the document it was made of.\<close>

definition reports_go_out :: "string \<Rightarrow> text_codec \<Rightarrow> machine_world \<Rightarrow> bool" where
  "reports_go_out rid text w \<longleftrightarrow> (\<forall>k. robot (mw_reports w k) = rid \<and> codec (mw_reports w k) = text \<and>
     connected (mw_reports w k) \<and> publish_succeeds (mw_reports w k))"

lemma status_topic_nonempty [simp]: "makeAmrTaskStatusTopic rid \<noteq> []"
  by (simp add: topic_defs)

lemma one_report:
  assumes "reports_go_out rid text w" and "te_event_type e \<noteq> ''GOODS_REQUEST''"
  shows "\<exists>d. report_events (mw_reports w) 0 [e] file = Inr ([(makeAmrTaskStatusTopic rid, dump text d)], file) \<and>
    (\<exists>ev. task_status_event_of d = Inr ev \<and> e_event_type ev = te_event_type e \<and> e_task_id ev = te_task_id e \<and>
      e_task_state ev = te_task_state e)"
proof (intro exI [of _ "snd (buildMqttMessage rid (warehouse (mw_reports w 0)) (clock_ms (mw_reports w 0))
      (clock_iso (mw_reports w 0)) e)"] conjI)
qed (use assms in \<open>simp_all add: publishTaskEventToMqtt_def buildMqttMessage_def task_status_event_of_def reports_go_out_def Let_def\<close>)

lemma carries_one_event:
  assumes "carry_step (mw_carrier w) input (rm_carrier m) = ([Task_Event e], n)" and "aa_bridge (rm_agent m)"
    and "reports_go_out rid text w" and "te_event_type e \<noteq> ''GOODS_REQUEST''"
  shows "\<exists>d. machine_carries w [input] m = Inr ([(makeAmrTaskStatusTopic rid, dump text d)], [], m\<lparr>rm_carrier := n\<rparr>) \<and>
    (\<exists>ev. task_status_event_of d = Inr ev \<and> e_event_type ev = te_event_type e \<and> e_task_id ev = te_task_id e \<and>
      e_task_state ev = te_task_state e)"
proof -
  have outs: "events_of [Task_Event e] = [e]" "calls_of [Task_Event e] = []"
    by (simp_all add: events_of_def calls_of_def List.map_filter_def)
  have run: "carry_run (map (Pair (mw_carrier w)) [input]) (rm_carrier m) = ([Task_Event e], n)"
    using assms(1) by simp
  obtain d where rep: "report_events (mw_reports w) 0 [e] (aa_pending (rm_agent m)) =
      Inr ([(makeAmrTaskStatusTopic rid, dump text d)], aa_pending (rm_agent m))"
    and ev: "\<exists>ev. task_status_event_of d = Inr ev \<and> e_event_type ev = te_event_type e \<and> e_task_id ev = te_task_id e \<and>
      e_task_state ev = te_task_state e"
    using one_report [OF assms(3,4)] by blast
  have same: "(rm_agent m)\<lparr>aa_pending := aa_pending (rm_agent m)\<rparr> = rm_agent m" by simp
  have "m\<lparr>rm_carrier := n\<rparr> = \<lparr>rm_agent = rm_agent m, rm_carrier = n\<rparr>" by (cases m) simp
  then have "machine_carries w [input] m = Inr ([(makeAmrTaskStatusTopic rid, dump text d)], [], m\<lparr>rm_carrier := n\<rparr>)"
    unfolding machine_carries_def run by (simp only: prod.case outs rep sum.case assms(2) same if_False not_True_eq_False)
  with ev show ?thesis by blast
qed

text \<open>The robot takes the task up: it accepts it at once, and reports ACCEPTED at the next tick of the status timer.\<close>

lemma assignment_accepted:
  assumes "m_map_ready (ca_behavior n)" and "m_current_task_id (ca_behavior n) \<noteq> c_task_id cmd"
    and "c_command_type cmd = ''TASK_ASSIGN''" and "c_task_id cmd \<noteq> []"
  shows "\<exists>e1 n1 e2. carry_step env1 (Behave (Command cmd)) n = ([Task_Event e1], n1) \<and>
    te_event_type e1 = ''TASK_ACCEPTED'' \<and> te_task_id e1 = c_task_id cmd \<and>
    m_current_task_id (ca_behavior n1) = c_task_id cmd \<and> m_task_state (ca_behavior n1) = ''ACCEPTED'' \<and>
    carry_step env2 (Behave Periodic) n1 = ([Task_Event e2], n1) \<and>
    te_event_type e2 = ''STATUS'' \<and> te_task_id e2 = c_task_id cmd \<and> te_task_state e2 = ''ACCEPTED''"
  using assms by (simp add: carry_step_def behave_def behavior_defs perform_def)

lemma task_reaches_robot:
  assumes "agent_joined rid (rm_agent m)" and "m_msgQueue (co_router (aa_comm (rm_agent m))) = []"
    and "m_map_ready (ca_behavior (rm_carrier m))" and "m_current_task_id (ca_behavior (rm_carrier m)) \<noteq> t_task_id task"
    and "t_task_id task \<noteq> []" and "\<forall>g\<in>set (t_goods task). to_int32 (g_total_quantity g) = g_total_quantity g"
    and "reports_go_out rid text w2" and "reports_go_out rid text w3"
  shows "\<exists>d1 d2 m' ev1 ev2.
    machine_run [(w1, From_Agent (Agent_Message (makeAmrTaskTopic rid) (Some (task_assign_message task)))),
        (w2, From_Agent (Agent_Turn tw)), (w3, To_Carrier (Behave Periodic))] m =
      Inr ([(makeAmrTaskStatusTopic rid, dump text d1), (makeAmrTaskStatusTopic rid, dump text d2)], [], m') \<and>
    m_current_task_id (ca_behavior (rm_carrier m')) = t_task_id task \<and> m_task_state (ca_behavior (rm_carrier m')) = ''ACCEPTED'' \<and>
    task_status_event_of d1 = Inr ev1 \<and> e_event_type ev1 = ''TASK_ACCEPTED'' \<and> e_task_id ev1 = t_task_id task \<and>
    task_status_event_of d2 = Inr ev2 \<and> e_event_type ev2 = ''STATUS'' \<and> e_task_id ev2 = t_task_id task \<and> e_task_state ev2 = ''ACCEPTED''"
proof -
  let ?payload = "Some (task_assign_message task)" and ?app = "rm_agent m" and ?n = "rm_carrier m"
  let ?cmd = "empty_command\<lparr>c_command_type := ''TASK_ASSIGN'', c_task_id := t_task_id task,
        c_warehouse_id := t_warehouse_id task, c_task_type := t_task_type task, c_state := t_state task,
        c_reason := t_reason task, c_robot_ids := t_robot_ids task, c_goods := t_goods task\<rparr>"
  have goods: "map_result goods_of_json (map goods_json (t_goods task)) = Inr (t_goods task)"
    by (rule map_result_id, rule assign_goods_read) (simp add: assms(6))
  have cmd: "onAmrTaskMessage wid ?payload = Some ?cmd" for wid
    using goods by (simp add: onAmrTaskMessage_def task_assign_message_def array_items_def)
  have router: "agentRouter (m_msgHandlers (co_router (aa_comm ?app))) (makeAmrTaskTopic rid) = Some amrTaskHandler"
    using assms(1) by (simp add: agent_joined_def agentRouter_def agent_handlers_def registerHandler_def update_conv' topic_defs)
  let ?app1 = "?app\<lparr>aa_comm := (aa_comm ?app)\<lparr>co_router := (co_router (aa_comm ?app))\<lparr>m_msgQueue := [(makeAmrTaskTopic rid, ?payload)]\<rparr>\<rparr>\<rparr>"
  have arrive: "machine_step w1 (From_Agent (Agent_Message (makeAmrTaskTopic rid) ?payload)) m = Inr ([], [], m\<lparr>rm_agent := ?app1\<rparr>)"
    using assms(1,2)
    by (cases m) (simp add: machine_step_def agent_react_def receive_message_def message_arrived_def onMessageProducer_def
        agent_joined_def heard_def machine_carries_def events_of_def calls_of_def)
  let ?app2 = "?app\<lparr>aa_comm := (aa_comm ?app)\<lparr>co_router := (co_router (aa_comm ?app))\<lparr>m_msgQueue := []\<rparr>\<rparr>\<rparr>"
  have turn: "agent_react (Agent_Turn tw) ?app1 = ([], [], Some ?cmd, ?app2)"
    using router cmd by (simp add: agent_react_def agent_turn_def agent_handle_def)
  have new_task: "m_current_task_id (ca_behavior ?n) \<noteq> c_task_id ?cmd" "c_command_type ?cmd = ''TASK_ASSIGN''" "c_task_id ?cmd \<noteq> []"
    using assms(4,5) by simp_all
  obtain e1 n1 e2 where step1: "carry_step (mw_carrier w2) (Behave (Command ?cmd)) ?n = ([Task_Event e1], n1)"
    and e1: "te_event_type e1 = ''TASK_ACCEPTED''" "te_task_id e1 = c_task_id ?cmd"
    and n1: "m_current_task_id (ca_behavior n1) = c_task_id ?cmd" "m_task_state (ca_behavior n1) = ''ACCEPTED''"
    and step2: "carry_step (mw_carrier w3) (Behave Periodic) n1 = ([Task_Event e2], n1)"
    and e2: "te_event_type e2 = ''STATUS''" "te_task_id e2 = c_task_id ?cmd" "te_task_state e2 = ''ACCEPTED''"
    using assignment_accepted [OF assms(3) new_task, of "mw_carrier w2" "mw_carrier w3"] by blast
  have heard: "heard w2 [] (Some ?cmd) = [Behave (Command ?cmd)]" by (simp add: heard_def List.map_filter_def)
  have bridge: "aa_bridge ?app" using assms(1) by (simp add: agent_joined_def)
  let ?m1 = "m\<lparr>rm_agent := ?app2\<rparr>"
  obtain d1 ev1 where c1: "machine_carries w2 [Behave (Command ?cmd)] ?m1 =
      Inr ([(makeAmrTaskStatusTopic rid, dump text d1)], [], ?m1\<lparr>rm_carrier := n1\<rparr>)"
    and ev1: "task_status_event_of d1 = Inr ev1" "e_event_type ev1 = te_event_type e1" "e_task_id ev1 = te_task_id e1"
    using carries_one_event [of w2 "Behave (Command ?cmd)" ?m1 e1 n1, OF _ _ assms(7)] step1 bridge e1 by auto
  let ?m2 = "?m1\<lparr>rm_carrier := n1\<rparr>"
  obtain d2 ev2 where c2: "machine_carries w3 [Behave Periodic] ?m2 =
      Inr ([(makeAmrTaskStatusTopic rid, dump text d2)], [], ?m2\<lparr>rm_carrier := n1\<rparr>)"
    and ev2: "task_status_event_of d2 = Inr ev2" "e_event_type ev2 = te_event_type e2" "e_task_id ev2 = te_task_id e2"
      "e_task_state ev2 = te_task_state e2"
    using carries_one_event [of w3 "Behave Periodic" ?m2 e2 n1, OF _ _ assms(8)] step2 bridge e2 by auto
  have "machine_step w2 (From_Agent (Agent_Turn tw)) (m\<lparr>rm_agent := ?app1\<rparr>) =
      Inr ([(makeAmrTaskStatusTopic rid, dump text d1)], [], ?m2)"
    using c1 by (simp add: machine_step_def turn heard)
  moreover have "machine_step w3 (To_Carrier (Behave Periodic)) ?m2 = Inr ([(makeAmrTaskStatusTopic rid, dump text d2)], [], ?m2)"
    using c2 by (simp add: machine_step_def)
  ultimately have "machine_run [(w1, From_Agent (Agent_Message (makeAmrTaskTopic rid) ?payload)),
        (w2, From_Agent (Agent_Turn tw)), (w3, To_Carrier (Behave Periodic))] m =
      Inr ([(makeAmrTaskStatusTopic rid, dump text d1), (makeAmrTaskStatusTopic rid, dump text d2)], [], ?m2)"
    using arrive by simp
  moreover have "m_current_task_id (ca_behavior (rm_carrier ?m2)) = t_task_id task \<and> m_task_state (ca_behavior (rm_carrier ?m2)) = ''ACCEPTED''"
    using n1 by simp
  ultimately show ?thesis using ev1 ev2 e1 e2 by (intro exI conjI) (assumption | simp)+
qed

section \<open>From the request to the acceptance\<close>

lemma arrival:
  "mt_callback (co_mqtt (ea_amr app)) \<Longrightarrow> app_react reader (Mqtt_Arrives topic msg) app =
     app\<lparr>ea_amr := (ea_amr app)\<lparr>co_router := (co_router (ea_amr app))\<lparr>m_msgQueue := m_msgQueue (co_router (ea_amr app)) @ [(topic, msg)]\<rparr>\<rparr>\<rparr>"
  by (simp add: app_react_def receive_message_def message_arrived_def onMessageProducer_def)

lemma report_handled:
  "task_status_event_of d = Inr ev \<Longrightarrow>
     snd (robotTaskStatusHandler env (Some d) db) = snd (handleAmrTaskStatus (task_env env) ev db)"
  by (simp add: robotTaskStatusHandler_def Let_def)

lemma two_reports:
  assumes "joined app" and "mt_callback (co_mqtt (ea_amr app))" and "m_msgQueue (co_router (ea_amr app)) = []"
    and "CHR ''/'' \<notin> set rid" and "task_status_event_of d1 = Inr ev1" and "task_status_event_of d2 = Inr ev2"
  shows "database (ea_robots (app_run reader [Mqtt_Arrives (makeAmrTaskStatusTopic rid) (Some d1),
      Mqtt_Arrives (makeAmrTaskStatusTopic rid) (Some d2), Mqtt_Turn a1, Mqtt_Turn a2] app)) =
    snd (handleAmrTaskStatus (task_env a2) ev2 (snd (handleAmrTaskStatus (task_env a1) ev1 (database (ea_robots app)))))"
proof -
  let ?t = "makeAmrTaskStatusTopic rid"
  define app1 where "app1 = app_react reader (Mqtt_Arrives ?t (Some d2)) (app_react reader (Mqtt_Arrives ?t (Some d1)) app)"
  have h: "m_msgHandlers (co_router (ea_amr app)) = amr_handlers" using assms(1,2) by (simp add: joined_def router_ok_def)
  have app1: "m_msgQueue (co_router (ea_amr app1)) = [(?t, Some d1), (?t, Some d2)]"
    "m_msgHandlers (co_router (ea_amr app1)) = amr_handlers" "ea_robots app1 = ea_robots app"
    using assms(2,3) h by (simp_all add: app1_def arrival)
  define app2 where "app2 = app_react reader (Mqtt_Turn a1) app1"
  note turn1 = report_turn [OF app1(1) assms(4) app1(2), of reader a1, folded app2_def]
  have app2: "m_msgQueue (co_router (ea_amr app2)) = [(?t, Some d2)]" "m_msgHandlers (co_router (ea_amr app2)) = amr_handlers"
    "database (ea_robots app2) = snd (handleAmrTaskStatus (task_env a1) ev1 (database (ea_robots app)))"
    using turn1 app1 report_handled [OF assms(5)] by simp_all
  have "app_run reader [Mqtt_Arrives ?t (Some d1), Mqtt_Arrives ?t (Some d2), Mqtt_Turn a1, Mqtt_Turn a2] app =
      app_react reader (Mqtt_Turn a2) app2"
    by (simp add: app_run_def app1_def app2_def)
  with report_turn [OF app2(1) assms(4) app2(2), of reader a2] app2(3) report_handled [OF assms(6)] show ?thesis by simp
qed


text \<open>Task T-1 is posted to the server of the samples for robot amr-1, which has loaded a map.\<close>

definition sample_agent_app :: agent_app where
  "sample_agent_app = \<lparr>aa_node = sample_agent,
     aa_comm = \<lparr>co_mqtt = (new_mqtt_client no_mqtt_options)\<lparr>mt_callback := True\<rparr>,
       co_router = \<lparr>m_msgHandlers = agent_handlers ''amr-1'' ''W1'', m_msgQueue = []\<rparr>\<rparr>,
     aa_status_callback = True, aa_register_callback = True, aa_maps = sample_manager, aa_bridge = True, aa_pending = Absent,
     aa_timers = True, aa_disk = (\<lambda>_. None)\<rparr>"

definition sample_machine_world :: machine_world where
  "sample_machine_world = \<lparr>mw_load = (\<lambda>_. (True, [], [])), mw_carrier = sample_carrier_env,
     mw_reports = (\<lambda>_. sample_bridge_env\<lparr>robot := ''amr-1'', connected := True, publish_succeeds := True\<rparr>)\<rparr>"

definition sample_machine :: robot_machine where
  "sample_machine = \<lparr>rm_agent = sample_agent_app,
     rm_carrier = init_carrier\<lparr>ca_behavior := onMapInfo True (True, [], []) fresh_behavior\<rparr>\<rparr>"

lemma sample_machine_life:
  "machine_started ''amr-1'' \<lparr>rm_agent = sample_agent_app, rm_carrier = init_carrier\<rparr> \<and>
   machine_life \<lparr>rm_agent = sample_agent_app, rm_carrier = init_carrier\<rparr> sample_machine"
proof
  show "machine_started ''amr-1'' \<lparr>rm_agent = sample_agent_app, rm_carrier = init_carrier\<rparr>"
    by (simp add: machine_started_def agent_joined_def sample_agent_app_def sample_agent_def)
  have "machine_step sample_machine_world (To_Carrier (Behave (Map_Info True (True, [], []))))
      \<lparr>rm_agent = sample_agent_app, rm_carrier = init_carrier\<rparr> = Inr ([], [], sample_machine)"
    by (simp add: machine_step_def machine_carries_def carry_step_def behave_def init_carrier_def events_of_def calls_of_def
        List.map_filter_def sample_machine_def sample_agent_app_def)
  then show "machine_life \<lparr>rm_agent = sample_agent_app, rm_carrier = init_carrier\<rparr> sample_machine" by (rule machine_life.turn)
qed

lemma sample_posted:
  "\<exists>resp msgs app1 task payload. http_turn sample_reader calm sample_upload_world (post_request ''/api/tasks'' sample_post) sample_server =
     (resp, msgs, app1) \<and> ap_status resp = 200 \<and> posted_task (Some sample_post) = Inr task \<and> t_task_id task = ''T-1'' \<and>
     (makeAmrTaskTopic ''amr-1'', payload) \<in> set msgs"
proof -
  obtain calls where start: "app_init sample_config_lib sample_reader ''e.yaml'' sample_start
     (new_app no_mqtt_options (sample_config_files(''/m.zip'' \<mapsto> ''z'')) empty_tables) = (True, calls, sample_server)"
    using sample_server_started by blast
  obtain s :: edge_settings where svc: "ea_tasks sample_server = \<lparr>m_warehouse_id = es_warehouse_id s, m_publish_callback = True\<rparr>"
    by (rule app_init_started [OF start]) (rule that)
  obtain task where task: "posted_task (Some sample_post) = Inr task" "t_task_id task = ''T-1''" "t_task_type task = ''LOAD''"
      "t_robot_ids task = [''amr-1'']" "t_goods task = [\<lparr>g_goods_id = ''G1'', g_goods_name = ''box'', g_total_quantity = 5\<rparr>]"
    by (simp add: sample_post_def posted_task_def array_items_def posted_goods_def)
  have db: "database (ea_robots sample_server) = fresh_db" by (simp add: sample_server_robots fresh_system_def)
  let ?stored = "prepared_task (ea_tasks sample_server) (nowIso8601 calm 0) task"
  have created: "\<exists>r db. createTask (ea_tasks sample_server) calm task fresh_db =
      (r, [(makeAmrTaskTopic ''amr-1'', task_assign_message ?stored)], db) \<and> success r"
    by (simp add: createTask_def task(2-5) invalid_goods_def TaskExists_def calm_def CreateTask_working prepared_task_def svc Let_def)
  then obtain r db where run: "createTask (ea_tasks sample_server) calm task fresh_db =
      (r, [(makeAmrTaskTopic ''amr-1'', task_assign_message ?stored)], db)" "success r" by blast
  show ?thesis
    using task(1,2) run
    by (simp add: http_turn_def http_serve_def post_request_def services_of_def create_task_route_def db on_active_map_changed_def
        reply_doc_def Let_def)
qed

definition sample_turn_world :: turn_world where
  "sample_turn_world = \<lparr>tw_map_world = sample_world sample_zip, tw_ms1 = 1, tw_ms2 = 2, tw_disk = Disk_Works\<rparr>"


end
