(* ===== verification/Simulation_Node.thy ===== *)
theory Simulation_Node
  imports Robot_List
begin

text \<open>
  \<open>simulation_manager/src/simulation_manager_node.cpp\<close> and the part of \<open>edge_client.cpp\<close> that connects: the node of the
  simulation with its client of the edge server, the lifecycle of the robots and the threads of both.
\<close>

section \<open>State\<close>

text \<open>
  The members of \<open>SimulationManagerNode\<close> and of its \<open>EdgeClient\<close>; \<open>sn_notify_thread\<close>: the thread of the notifications has been
  started; \<open>sn_timer\<close>: the period of the timer that asks Gazebo for its models, in seconds.
\<close>

record simulation_node =
  sn_url :: string
  sn_edge :: edge_client
  sn_ws :: "json option ws_client"
  sn_sim :: simulation
  sn_notify_thread :: bool
  sn_event_callback :: bool
  sn_notify_callback :: bool
  sn_timer :: "int option"

definition new_simulation_node :: simulation_node where
  "new_simulation_node = \<lparr>sn_url = [], sn_edge = fresh_edge_client, sn_ws = fresh_ws_client, sn_sim = fresh_simulation,
     sn_notify_thread = False, sn_event_callback = False, sn_notify_callback = False, sn_timer = None\<rparr>"

section \<open>The start\<close>

text \<open>\<open>EdgeClient::connect\<close>; \<open>None\<close> is the exception of a port that is no number.\<close>

definition edge_connect :: "simulation_node \<Rightarrow> bool option \<times> simulation_node" where
  "edge_connect n =
     (case client_connect (sn_url n) default_client_options (sn_ws n) of
        (res, ws) \<Rightarrow> (res, n\<lparr>sn_notify_thread := True, sn_event_callback := True, sn_ws := ws\<rparr>))"

text \<open>
  \<open>init\<close> with the two parameters of ROS that it uses. It only logs that the connection failed; an exception leaves it
  and ends the process.
\<close>

definition simulation_init :: "string \<Rightarrow> int \<Rightarrow> simulation_node \<Rightarrow> bool option \<times> simulation_node" where
  "simulation_init websocket_url interval n =
     (let period = (if interval \<le> 0 then 1 else interval) in
      edge_connect (n\<lparr>sn_url := websocket_url, sn_edge := fresh_edge_client, sn_ws := fresh_ws_client,
        sn_sim := fresh_simulation, sn_timer := Some period, sn_notify_callback := True\<rparr>))"

definition edge_isConnected :: "simulation_node \<Rightarrow> bool" where
  "edge_isConnected n = wc_connected (sn_ws n)"

section \<open>Turns\<close>

text \<open>A round of the message thread of the WebSocket client.\<close>

definition event_turn :: "simulation_node \<Rightarrow> simulation_node" where
  "event_turn n =
     (case client_message_round (sn_ws n) of
        (None, ws) \<Rightarrow> n\<lparr>sn_ws := ws\<rparr>
      | (Some ev, ws) \<Rightarrow>
          if \<not> sn_event_callback n then n\<lparr>sn_ws := ws\<rparr>
          else case onEventCallback ev (sn_edge n, ws) of (edge, ws') \<Rightarrow> n\<lparr>sn_edge := edge, sn_ws := ws'\<rparr>)"

definition notify_turn :: "simulation_node \<Rightarrow> simulation_node" where
  "notify_turn n =
     (if \<not> sn_notify_thread n then n
      else if \<not> sn_notify_callback n then n\<lparr>sn_edge := (sn_edge n)\<lparr>ec_updated := False\<rparr>\<rparr>
      else case notify_round (sn_edge n, sn_sim n) of (edge, sim) \<Rightarrow> n\<lparr>sn_edge := edge, sn_sim := sim\<rparr>)"

text \<open>The calls of the library and of the service loop; the others come from the code itself.\<close>

fun from_library :: "'m client_input \<Rightarrow> bool" where
  "from_library (Do_Connect url options) = False"
| "from_library Do_Close = False"
| "from_library (Do_Send m) = False"
| "from_library Take_Event = False"
| "from_library _ = True"

datatype simulation_event =
    Ws_Library int "json option client_input"
  | Event_Turn
  | Notify_Turn
  | Worker_Turn worker_env
  | Deletion_Answer bool
  | Models_Timer bool "string list option"

definition node_react :: "(json option \<Rightarrow> bool) \<Rightarrow> simulation_event \<Rightarrow> simulation_node \<Rightarrow> simulation_node" where
  "node_react blank ev n =
     (case ev of
        Ws_Library now input \<Rightarrow>
          if from_library input then n\<lparr>sn_ws := snd (client_handle blank now input (sn_ws n))\<rparr> else n
      | Event_Turn \<Rightarrow> event_turn n
      | Notify_Turn \<Rightarrow> notify_turn n
      | Worker_Turn env \<Rightarrow> n\<lparr>sn_sim := worker env (sn_sim n)\<rparr>
      | Deletion_Answer success \<Rightarrow> n\<lparr>sn_sim := deletion_answered success (sn_sim n)\<rparr>
      | Models_Timer service_ready answer \<Rightarrow>
          if sn_timer n = None then n else n\<lparr>sn_sim := models_answered service_ready answer (sn_sim n)\<rparr>)"

definition node_run :: "(json option \<Rightarrow> bool) \<Rightarrow> simulation_event list \<Rightarrow> simulation_node \<Rightarrow> simulation_node" where
  "node_run blank evs n = fold (node_react blank) evs n"

section \<open>The asynchronous check of the controllers\<close>

text \<open>
  \<open>ControllerChecker::checkAsync\<close>: what the callback is called with. The answer of the service: none ever, an exception, or the
  list of controllers.
\<close>

definition checkAsync :: "bool \<Rightarrow> bool \<Rightarrow> controller list option option \<Rightarrow> bool list" where
  "checkAsync node_alive service_up answer =
     (if \<not> node_alive then []
      else if \<not> service_up then [False]
      else case answer of
        None \<Rightarrow> []
      | Some None \<Rightarrow> [False]
      | Some (Some response) \<Rightarrow> [isControllerReady response])"

text \<open>
  It says yes only if a single poll of \<open>check\<close> would have said so, and it stays silent where \<open>check\<close> says no: when the node is
  gone, and when no answer comes.
\<close>

lemma async_agrees:
  "checkAsync alive up answer = [True] \<longleftrightarrow>
     alive \<and> up \<and> (\<exists>response. answer = Some (Some response) \<and> check_controller 1 [(True, 0)] [(0, Some response)])"
  by (auto simp: checkAsync_def check_controller_def split: option.split)

lemma async_silent: "checkAsync alive up answer = [] \<longleftrightarrow> \<not> alive \<or> (up \<and> answer = None)"
  by (simp add: checkAsync_def split: option.split)

section \<open>What a running node keeps\<close>

text \<open>
  Its threads and callbacks are joined, the timer has a positive period, the delays of the reconnection lie between their bounds,
  and every managed robot is at rest or waits for a creation that is queued.
\<close>

definition node_ok :: "simulation_node \<Rightarrow> bool" where
  "node_ok n \<longleftrightarrow> sn_notify_thread n \<and> sn_event_callback n \<and> sn_notify_callback n \<and>
     (\<exists>p. sn_timer n = Some p \<and> 0 < p) \<and> delays_ok (sn_ws n) \<and> simulation_ok (sn_sim n)"

inductive node_step :: "(json option \<Rightarrow> bool) \<Rightarrow> simulation_node \<Rightarrow> simulation_node \<Rightarrow> bool" for blank where
  "node_step blank n (node_react blank ev n)"

inductive_cases node_stepE: "node_step blank n n'"

definition node_started :: "simulation_node \<Rightarrow> bool" where
  "node_started n \<longleftrightarrow> (\<exists>url interval ok. simulation_init url interval new_simulation_node = (Some ok, n))"

lemma fresh_client_delays: "delays_ok (fresh_ws_client :: 'm ws_client)"
  by (simp add: delays_ok_def fresh_ws_client_def initial_delay_def max_delay_def default_client_options_def)

lemma event_turn_ok: "node_ok n \<Longrightarrow> node_ok (event_turn n)"
  by (auto simp: node_ok_def event_turn_def client_message_round_def onEventCallback_def client_send_def
      delays_ok_def initial_delay_def max_delay_def split: client_event.split list.split)

lemma notify_turn_ok: "node_ok n \<Longrightarrow> node_ok (notify_turn n)"
  by (auto simp: node_ok_def notify_turn_def notify_round_def sync_ok)

lemma simulation_turn_ok:
  "simulation_ok s \<Longrightarrow> simulation_ok (worker env s)"
  "simulation_ok s \<Longrightarrow> simulation_ok (deletion_answered success s)"
  "simulation_ok s \<Longrightarrow> simulation_ok (models_answered ready answer s)"
  using simulations.inv_step [OF _ worked] simulations.inv_step [OF _ deleted] simulations.inv_step [OF _ listed] by blast+

interpretation sim_nodes: stepping node_started "node_step blank" node_ok for blank
proof
  fix n
  assume "node_started n"
  then obtain url interval ok where init: "simulation_init url interval new_simulation_node = (Some ok, n)"
    by (auto simp: node_started_def)
  obtain res ws where conn: "client_connect url default_client_options (fresh_ws_client :: json option ws_client) = (res, ws)"
    by fastforce
  have "delays_ok ws" using client_connect_ok [OF fresh_client_delays] conn by (metis snd_conv)
  with init conn show "node_ok n"
    by (auto simp: simulation_init_def edge_connect_def node_ok_def Let_def simulations.inv_init)
next
  fix n n' blank
  assume "node_ok n" and "node_step blank n n'"
  then show "node_ok n'"
  proof (elim node_stepE)
    fix ev
    assume ok: "node_ok n" and n': "n' = node_react blank ev n"
    show "node_ok n'"
      using ok event_turn_ok [OF ok] notify_turn_ok [OF ok] simulation_turn_ok client_handle_ok
      by (cases ev) (auto simp: n' node_react_def node_ok_def)
  qed
qed

end
