(* ===== verification/Simulated_Warehouse.thy ===== *)
theory Simulated_Warehouse
  imports Edge_Publishing Simulation_Node
begin

text \<open>The edge server and the simulation together: from the registration of a robot to its model in Gazebo.\<close>

section \<open>What the WebSocket server writes\<close>

lemma written_text:
  assumes "onWriteable blank t1 t2 ping c srv = (outs, srv')" and "Write_Text wsi msg \<in> set outs"
  shows "\<exists>rest. ws_waiting srv c = msg # rest"
  using assms
  by (auto simp: onWriteable_def popSendMsg_def popMessage_def more_to_send_def ws_waiting_def Let_def
      split: option.splits if_splits prod.splits list.splits)

section \<open>What the simulation makes of a list\<close>

lemma list_turns:
  assumes "node_ok n" and "wc_running (sn_ws n)" and "wc_receive_queue (sn_ws n) = []"
  shows "sn_sim (node_run blank [Ws_Library now (Lib_Receive (Some (robot_list_json rs))), Event_Turn, Notify_Turn] n) =
    sync (map simulated rs) (sn_sim n)"
  using assms
  by (simp add: node_run_def node_react_def client_onReceive_def pushEventMessage_def event_turn_def client_message_round_def
      onEventCallback_def robot_list_read notify_turn_def notify_round_def node_ok_def)

text \<open>
  Everything but robot \<open>rid\<close> is as the list says: the other robots have a model of their instance, there is no other model,
  nothing is requested, and \<open>rid\<close> is not managed or has failed.
\<close>

definition simulated_but :: "string \<Rightarrow> robot_instance_info list \<Rightarrow> simulation \<Rightarrow> bool" where
  "simulated_but rid rs s \<longleftrightarrow> sm_queue s = [] \<and>
     (\<forall>r\<in>set rs. ri_robot_id r \<noteq> rid \<longrightarrow> (case find (\<lambda>m. gm_robot_id m = ri_robot_id r) (sm_models s) of
        None \<Rightarrow> False | Some m \<Rightarrow> gm_instance_id m = ri_instance_id r)) \<and>
     (\<forall>m\<in>set (sm_models s). gm_robot_id m \<noteq> rid \<and> gm_robot_id m \<in> ri_robot_id ` set rs) \<and>
     (case sm_robots s rid of None \<Rightarrow> True | Some m \<Rightarrow> mr_state m = SIM_FAILED)"

lemma sync_one_robot:
  assumes "simulated_but rid rs s" and "r \<in> set rs" and "ri_robot_id r = rid" and "distinct (map ri_robot_id rs)"
  shows "sync (map simulated rs) s = s\<lparr>sm_robots := (sm_robots s)(rid \<mapsto> \<lparr>mr_info = simulated r, mr_state = WAITING_CREATE\<rparr>),
    sm_queue := [CREATE (simulated r)]\<rparr>"
proof -
  let ?s1 = "s\<lparr>sm_robots := (sm_robots s)(rid \<mapsto> \<lparr>mr_info = simulated r, mr_state = WAITING_CREATE\<rparr>),
    sm_queue := [CREATE (simulated r)]\<rparr>"
  obtain xs ys where rs: "rs = xs @ r # ys" using assms(2) by (meson split_list)
  have others: "ri_robot_id q \<noteq> rid" if "q \<in> set xs \<union> set ys" for q
    using that assms(3,4) by (auto simp: rs) (metis imageI)+
  have quiet: "sync_robot (sm_models s) (simulated q) t = t" if "q \<in> set xs \<union> set ys" for q t
  proof -
    have q: "q \<in> set rs" "ri_robot_id q \<noteq> rid" using that others [OF that] by (auto simp: rs)
    with assms(1) have "case find (\<lambda>m. gm_robot_id m = ri_robot_id q) (sm_models s) of
        None \<Rightarrow> False | Some m \<Rightarrow> gm_instance_id m = ri_instance_id q"
      unfolding simulated_but_def by blast
    then show ?thesis by (simp add: sync_robot_def simulated_def split: option.splits)
  qed
  have none: "find (\<lambda>m. gm_robot_id m = rid) (sm_models s) = None"
    using assms(1) by (auto simp: simulated_but_def find_None_iff)
  have "sync_robot (sm_models s) (simulated r) s = requestCreate (simulated r) s"
    by (simp add: sync_robot_def assms(3) none)
  also have "\<dots> = ?s1"
    using assms(1) by (auto simp: requestCreate_def assms(3) simulated_but_def split: option.splits)
  finally have one: "sync_robot (sm_models s) (simulated r) s = ?s1" .
  have same: "fold (sync_robot (sm_models s)) (map simulated zs) t = t" if "set zs \<subseteq> set xs \<union> set ys" for zs t
    using that quiet by (intro fold_same) auto
  have robots: "fold (sync_robot (sm_models s)) (map simulated rs) s = ?s1"
    using one same [of xs s] same [of ys ?s1] by (simp add: rs)
  have "sync_model (map simulated rs) m ?s1 = ?s1" if "m \<in> set (sm_models s)" for m
    using that assms(1) by (force simp: simulated_but_def sync_model_def find_None_iff image_iff)
  then have "fold (sync_model (map simulated rs)) (sm_models s) ?s1 = ?s1" by (rule fold_same)
  with robots show ?thesis by (simp add: sync_def Let_def)
qed

text \<open>What the creation of a robot has to meet: a new process, its model in time, and an active controller.\<close>

definition creation_works :: "worker_env \<Rightarrow> robot_info \<Rightarrow> simulation \<Rightarrow> bool" where
  "creation_works env rob s \<longleftrightarrow>
     (let name = makeModelName (si_robot_id rob) (si_instance_id rob) in
      sm_processes s name = None \<and> 0 \<le> forked env \<and> fst (waitGazeboModel name 30000 (model_rounds env) (sm_models s)) \<and>
      check_controller 6000 (service_rounds env) (controller_rounds env))"

lemma creation_succeeds:
  assumes "creation_works env rob s" and "create_or_fail env rob s = (ok, s')"
  shows "ok \<and> sm_processes s' (makeModelName (si_robot_id rob) (si_instance_id rob)) = Some (forked env)"
  using assms
  by (auto simp: creation_works_def create_or_fail_def createRobot_def spawn_def Let_def split: prod.splits bool.splits if_splits)

lemma worker_creates:
  assumes "sm_queue s = [CREATE rob]" and "sm_robots s (si_robot_id rob) = Some m" and "creation_works env rob s"
  shows "sm_robots (worker env s) (si_robot_id rob) = Some (m\<lparr>mr_state := SIM_ACTIVE\<rparr>) \<and>
    sm_processes (worker env s) (makeModelName (si_robot_id rob) (si_instance_id rob)) = Some (forked env) \<and>
    sm_queue (worker env s) = []"
proof -
  obtain ok s' where run: "create_or_fail env rob (s\<lparr>sm_queue := []\<rparr>) = (ok, s')" by fastforce
  have "creation_works env rob (s\<lparr>sm_queue := []\<rparr>)" using assms(3) by (simp add: creation_works_def)
  from creation_succeeds [OF this run] create_or_fail_effect [OF run] assms(2) run show ?thesis
    by (simp add: worker_def assms(1) processRequest_def put_state_same)
qed

section \<open>From the registration to the model\<close>

text \<open>
  C39: a robot that registers with the edge server gets its model in the simulation. Let the server have lived in any
  way, let the simulation be one of its connected subscribers to which nothing is waiting to be sent, and let the
  next message of the MQTT thread be the registration of a robot with an id. The timer's thread makes its three steps, and the text
  that the server writes at a writable callback arrives at the simulation. Let the simulation have run in any way, with a running client that has no
  event to deal with, and let everything else be as the list says: the other robots have a model of their instance, no model
  belongs to another robot, nothing is requested, and the new robot is not managed or has failed. Then the simulation requests exactly one
  thing, the creation of this robot with the instance and the start pose that the server gave it; and if the creation meets a new
  process, the model in time and an active controller, one round of the worker leaves the robot active and nothing requested.
\<close>

theorem registered_robot_is_simulated:
  assumes "installed lib reader defaults app0" and "(edge_life lib reader defaults)\<^sup>*\<^sup>* app0 app"
    and "m_msgQueue (co_router (ea_amr app)) = (ROBOT_REGISTER_REQ, register_msg) # rest"
    and "decodeRegisterReq register_msg = Some req" and "rq_robot_id req \<noteq> []"
    and "app1 = app_react reader (Mqtt_Turn env) app"
    and "app4 = app_run reader [List_Turn False, List_Turn False, List_Turn False] app1"
    and "c \<in> set (clients_of ''robot_list'' (ea_topics app))" and "ws_live (ea_ws app) c" and "ws_waiting (ea_ws app) c = []"
    and "onWriteable blank t1 t2 ping c (ea_ws app4) = (outs, srv)" and "Write_Text wsi msg \<in> set outs"
    and "node_started n0" and "(node_step blank)\<^sup>*\<^sup>* n0 n" and "wc_running (sn_ws n)" and "wc_receive_queue (sn_ws n) = []"
    and "simulated_but (rq_robot_id req) (getRobotList (manager (ea_robots app1))) (sn_sim n)"
    and "n1 = node_run blank [Ws_Library t3 (Lib_Receive msg), Event_Turn, Notify_Turn] n"
  shows "\<exists>r\<in>set (getRobotList (manager (ea_robots app1))). ri_robot_id r = rq_robot_id req \<and>
    sm_queue (sn_sim n1) = [CREATE (simulated r)] \<and>
    (\<forall>wenv. creation_works wenv (simulated r) (sn_sim n) \<longrightarrow>
      (let s2 = sn_sim (node_react blank (Worker_Turn wenv) n1) in
       sm_robots s2 (rq_robot_id req) = Some \<lparr>mr_info = simulated r, mr_state = SIM_ACTIVE\<rparr> \<and>
       sm_processes s2 (makeModelName (rq_robot_id req) (ri_instance_id r)) = Some (forked wenv) \<and> sm_queue s2 = []))"
proof -
  let ?list = "getRobotList (manager (ea_robots app1))" and ?s = "sn_sim n"
  note published = registered_robot_is_published [OF assms(1-7)]
  then have "ws_waiting (ea_ws app4) c = [Some (robot_list_json ?list)]"
    using assms(8-10) by (simp add: max_send_queue_def)
  with written_text [OF assms(11,12)] have msg: "msg = Some (robot_list_json ?list)" by auto
  have "(edge_life lib reader defaults)\<^sup>*\<^sup>* app0 app1"
    unfolding assms(6) by (rule rtranclp.rtrancl_into_rtrancl [OF assms(2) edge_life.turn])
  then have "keyed (manager (ea_robots app1))" using system_okD(1) [OF lives.reached [OF assms(1)]] by (simp add: robots_ok_def)
  then have ids: "distinct (map ri_robot_id ?list)" by (rule keyed_list_distinct)
  obtain r where r: "r \<in> set ?list" "ri_robot_id r = rq_robot_id req" using published by force
  have "node_ok n" by (rule sim_nodes.reached [OF assms(13,14)])
  from list_turns [OF this assms(15,16)] have "sn_sim n1 = sync (map simulated ?list) ?s" by (simp add: assms(18) msg)
  then have s1: "sn_sim n1 = ?s\<lparr>sm_robots := (sm_robots ?s)(rq_robot_id req \<mapsto> \<lparr>mr_info = simulated r, mr_state = WAITING_CREATE\<rparr>),
      sm_queue := [CREATE (simulated r)]\<rparr>"
    by (simp add: sync_one_robot [OF assms(17) r ids])
  have rid: "si_robot_id (simulated r) = rq_robot_id req" "si_instance_id (simulated r) = ri_instance_id r"
    using r(2) by (simp_all add: simulated_def)
  have "creation_works wenv (simulated r) (sn_sim n1) = creation_works wenv (simulated r) ?s" for wenv
    by (simp add: s1 creation_works_def)
  with worker_creates [of "sn_sim n1" "simulated r" "\<lparr>mr_info = simulated r, mr_state = WAITING_CREATE\<rparr>"] r rid show ?thesis
    by (intro bexI [of _ r]) (simp_all add: s1 node_react_def Let_def)
qed

text \<open>In the sample the simulation has just started, and no robot is known before the registration.\<close>

lemma waiting_is_written:
  assumes "ws_waiting srv c = msg # rest"
  shows "\<exists>t1 outs srv' wsi. onWriteable (\<lambda>_. False) t1 t2 ping c srv = (outs, srv') \<and> Write_Text wsi msg \<in> set outs"
proof -
  obtain s where s: "getClientSession c srv = Some s" "ws_send_queue s = msg # rest"
    using assms by (auto simp: ws_waiting_def split: option.splits)
  let ?t1 = "ws_last_pong s + seconds (heartbeatInterval (wv_options srv)) - 1"
  obtain outs srv' where run: "onWriteable (\<lambda>_. False) ?t1 t2 ping c srv = (outs, srv')" by fastforce
  with s have "Write_Text (ws_wsi s) msg \<in> set outs"
    by (auto simp: onWriteable_def popSendMsg_def popMessage_def split: if_splits)
  with run show ?thesis by blast
qed

definition sample_node :: simulation_node where
  "sample_node = snd (simulation_init ''ws://edge'' 1 new_simulation_node)"

lemma sample_node_ready:
  "node_started sample_node \<and> wc_running (sn_ws sample_node) \<and> wc_receive_queue (sn_ws sample_node) = [] \<and>
   sn_sim sample_node = fresh_simulation"
proof -
  have "parseUrl ''ws://edge'' fresh_ws_client =
      (Some True, (fresh_ws_client :: json option ws_client)\<lparr>wc_host := ''edge'', wc_port := 80, wc_path := ''/''\<rparr>)"
      "wc_receive_queue (fresh_ws_client :: json option ws_client) = []" "\<not> wc_running (fresh_ws_client :: json option ws_client)"
    using conjunct2 [OF url_roundtrip [of "''ws''" "''edge''" 0 "[]" "fresh_ws_client :: json option ws_client"]]
    by simp (simp_all add: fresh_ws_client_def)
  then have parts: "fst (simulation_init ''ws://edge'' 1 new_simulation_node) = Some True"
      "wc_running (sn_ws sample_node)" "wc_receive_queue (sn_ws sample_node) = []" "sn_sim sample_node = fresh_simulation"
    by (simp_all add: sample_node_def simulation_init_def edge_connect_def client_connect_def Let_def)
  then have "simulation_init ''ws://edge'' 1 new_simulation_node = (Some True, sample_node)"
    by (simp add: sample_node_def prod_eq_iff)
  then have "node_started sample_node" unfolding node_started_def by blast
  with parts show ?thesis by simp
qed

lemma registered_keys:
  assumes "handleRegister maps env alloc req sys = (ok, resp, evs, sys')"
  shows "fst ` set (m_robots (manager sys')) \<subseteq> insert (rq_robot_id req) (fst ` set (m_robots (manager sys)))"
proof -
  obtain ok1 r mgr s where reg: "registerRobot (reg_ctx env) alloc (requested_robot (pose0 env) req)
      (manager sys, allocator sys) = (ok1, r, mgr, s)" by (metis prod_cases4)
  have same: "manager sys' = mgr"
    using assms reg by (auto simp: handleRegister_def Let_def split: if_splits option.splits prod.splits)
  have keys: "fst ` set (AList.update k v al) = insert k (fst ` set al)" for k v and al :: "(string \<times> robot_entity) list"
    by (induction al) auto
  have "mgr = manager sys \<or>
      (\<exists>e. mgr = (manager sys)\<lparr>m_robots := AList.update (rq_robot_id req) e (m_robots (manager sys))\<rparr>)"
    using reg by (auto simp: registerRobot_def requested_robot_def Let_def split: if_splits option.splits prod.splits)
  with same show ?thesis by (elim disjE exE) (simp_all add: keys subset_insertI)
qed

lemma sample_watched_listed:
  assumes "app1 = app_react sample_reader (Mqtt_Turn sample_amr_env) sample_watched"
  shows "ri_robot_id ` set (getRobotList (manager (ea_robots app1))) \<subseteq> {''amr-1''}"
proof -
  have robots: "ea_robots sample_watched = fresh_system no_points"
    using sample_waiting_queue by (simp add: sample_watched_def app_run_def app_react_def ws_turn_def split: prod.split option.split)
  obtain ok resp evs sys where reg: "handleRegister (ea_maps sample_watched) sample_register_env (pose_allocator_of sample_watched)
      sample_register_request (fresh_system no_points) = (ok, resp, evs, sys)" by (metis prod_cases4)
  have app1: "ea_robots app1 = sys"
    using sample_watched_ws sample_waiting_queue reg robots amr_routes(1) [OF refl]
    by (simp add: assms app_react_def mqtt_turn_def edge_consume_def robotRegisterReqHandler_def sample_registration_read sample_amr_env_def)
  have "(edge_life sample_config_lib sample_reader no_mqtt_options)\<^sup>*\<^sup>* sample_server app1"
    unfolding assms by (rule rtranclp.rtrancl_into_rtrancl [OF sample_watched_life edge_life.turn])
  from system_okD(1) [OF lives.reached [OF sample_installed this]] have "keyed (manager sys)" by (simp add: robots_ok_def app1)
  then have "map ri_robot_id (getRobotList (manager sys)) = map fst (m_robots (manager sys))"
    by (auto simp: getRobotList_def getInstanceInfo_def keyed_def)
  then have "ri_robot_id ` set (getRobotList (manager sys)) = fst ` set (m_robots (manager sys))" by (metis set_map)
  with registered_keys [OF reg] show ?thesis
    by (simp add: app1 fresh_system_def no_robots_def sample_register_request_def)
qed

lemma registered_robot_is_simulated_witness:
  "\<exists>app1 app4 outs srv wsi msg n1 r t1 (wenv :: worker_env). app1 = app_react sample_reader (Mqtt_Turn sample_amr_env) sample_watched \<and>
     app4 = app_run sample_reader [List_Turn False, List_Turn False, List_Turn False] app1 \<and>
     onWriteable (\<lambda>_. False) t1 0 True 1 (ea_ws app4) = (outs, srv) \<and> Write_Text wsi msg \<in> set outs \<and>
     n1 = node_run (\<lambda>_. False) [Ws_Library 0 (Lib_Receive msg), Event_Turn, Notify_Turn] sample_node \<and>
     ri_robot_id r = ''amr-1'' \<and> sm_queue (sn_sim n1) = [CREATE (simulated r)] \<and>
     sm_robots (sn_sim (node_react (\<lambda>_. False) (Worker_Turn wenv) n1)) ''amr-1'' =
       Some \<lparr>mr_info = simulated r, mr_state = SIM_ACTIVE\<rparr>"
proof -
  define app1 where "app1 = app_react sample_reader (Mqtt_Turn sample_amr_env) sample_watched"
  define app4 where "app4 = app_run sample_reader [List_Turn False, List_Turn False, List_Turn False] app1"
  have queue: "m_msgQueue (co_router (ea_amr sample_watched)) = (ROBOT_REGISTER_REQ, Some sample_registration) # []"
    using sample_watched_ws sample_waiting_queue by simp
  have rid: "rq_robot_id sample_register_request = ''amr-1''" by (simp add: sample_register_request_def)
  note life = sample_installed sample_watched_life queue sample_registration_read
  have "ws_waiting (ea_ws app4) 1 = [Some (robot_list_json (getRobotList (manager (ea_robots app1))))]"
    using registered_robot_is_published [OF life _ app1_def app4_def] sample_watched_ws rid by (simp add: max_send_queue_def)
  then obtain msg rest where "ws_waiting (ea_ws app4) 1 = msg # rest" by blast
  from waiting_is_written [OF this] obtain t1 outs srv wsi
    where sent: "onWriteable (\<lambda>_. False) t1 0 True 1 (ea_ws app4) = (outs, srv)" "Write_Text wsi msg \<in> set outs" by blast
  define n1 where "n1 = node_run (\<lambda>_. False) [Ws_Library 0 (Lib_Receive msg), Event_Turn, Notify_Turn] sample_node"
  have quiet: "simulated_but ''amr-1'' (getRobotList (manager (ea_robots app1))) (sn_sim sample_node)"
    using sample_watched_listed [OF app1_def] sample_node_ready by (auto simp: simulated_but_def fresh_simulation_def)
  from registered_robot_is_simulated [OF life _ app1_def app4_def _ _ _ sent _ rtranclp.rtrancl_refl _ _ _ n1_def,
      unfolded rid, OF _ _ _ _ _ _ _ quiet] sample_watched_ws sample_node_ready
  obtain r where r: "ri_robot_id r = ''amr-1''" "sm_queue (sn_sim n1) = [CREATE (simulated r)]"
    and created: "\<And>wenv. creation_works wenv (simulated r) (sn_sim sample_node) \<Longrightarrow>
      sm_robots (sn_sim (node_react (\<lambda>_. False) (Worker_Turn wenv) n1)) ''amr-1'' = Some \<lparr>mr_info = simulated r, mr_state = SIM_ACTIVE\<rparr>"
    by (auto simp: Let_def)
  let ?name = "makeModelName (si_robot_id (simulated r)) (si_instance_id (simulated r))"
  let ?env = "sample_worker_env\<lparr>model_rounds := [([\<lparr>gm_model_name = ?name, gm_robot_id = [], gm_instance_id = []\<rparr>], 0)]\<rparr>"
  have "creation_works ?env (simulated r) (sn_sim sample_node)"
    using sample_node_ready
    by (simp add: creation_works_def sample_worker_env_def fresh_simulation_def hasModel_def check_controller_def isControllerReady_def)
  from created [OF this] r sent show ?thesis
    unfolding app1_def [symmetric] app4_def [symmetric] n1_def [symmetric] using app1_def app4_def n1_def by blast
qed

end
