(* ===== verification/Spec2Isabelle.thy ===== *)
theory Spec2Isabelle
  imports Task_Workflow Heartbeat Map_Rules Robot_Rules Edge_Rules Agent_Codec Task_Bridge
    Behavior_Rules Robot_Edge Agent_Rules Nav2_Lifecycle Robot_Map Simulation_Rules Robot_List Http_Rules Map_Distribution Timer Editor_Rules Bootstrap_Rules Edge_Publishing Task_Uptake
    Simulated_Warehouse
begin

text \<open>
  A warehouse with mobile robots (AMRs). One edge server keeps the tasks, the robots and the maps of a warehouse in an
  SQLite database and serves an HTTP interface, a WebSocket interface and MQTT topics. Every robot runs three ROS
  nodes: the agent, which talks to the edge server; the behaviour manager, which carries a task out; and the
  navigation server, which starts Nav2 and sends goals to it. A simulation manager creates and deletes the robot
  models of Gazebo after the robot list of the edge server, and a map editor draws zones, stations and walls.

  \<^bold>\<open>How the parts act together.\<close> A task posted over HTTP is stored (\<open>http_server.cpp\<close>, \<open>task_service.cpp\<close>,
  \<open>sqlite_db.cpp\<close>) and published on the task topic of every robot that is registered. The agent (\<open>task_bridge.cpp\<close>) turns it into
  a ROS command; the behaviour manager takes it up and reports its state, and the first report moves the task
  from PENDING to ACCEPTED in the database. A robot then asks for goods, the edge server allocates them in the ledger of the
  task, the robot drives to the station that the map names, and its report settles the allocation; when nothing
  is pending, carried or allocated any more the task is complete. Robots register over MQTT, get an instance id, a start pose and the
  version of the active map, and download that map over HTTP; their will message and the heartbeat check tell the
  server that they are gone.

  \<^bold>\<open>The theories\<close>, in the order of the code. A struct or class is a record whose fields carry a prefix, an operation of the
  class is a definition of the same name that takes and returns the state, and a name that clashes has a suffix.

  \<^item> Shared: \<open>Prelude\<close> (C++ integer conversions, list facts, the locale \<open>stepping\<close> of a component given by
    steps and an invariant), \<open>Json\<close>, \<open>Yaml\<close>, \<open>File_Paths\<close> (documents and files as the sources see them), \<open>Topics\<close>
    (\<open>common/mqtt/mqtt_topic.h\<close>).
  \<^item> Edge server, store (\<open>src/edge_server/src/types.h\<close>, \<open>database/sqlite_db.cpp\<close>): \<open>Edge_Types\<close>, \<open>Db_Core\<close> (tables, constraints,
    transactions, and the locale \<open>atomic_operation\<close>), \<open>Db_Tasks\<close>, \<open>Db_Robots\<close>; what their operations keep and
    promise: \<open>Task_Ledger\<close>, \<open>Task_Ops\<close>, \<open>Db_Frames\<close>.
  \<^item> Edge server, services (\<open>service/\<close>, \<open>robot/\<close>): \<open>Task_Service\<close> with \<open>Task_Workflow\<close>, \<open>Task_States\<close>, \<open>Task_Rules\<close>;
    \<open>Idle_Points\<close>, \<open>Robot_Manager\<close>, \<open>Robot_Service\<close> with \<open>Robot_Rules\<close>; \<open>Map_Service\<close> with \<open>Map_Rules\<close>; \<open>Heartbeat\<close>.
  \<^item> Edge server, interfaces: \<open>Http_Server\<close> with \<open>Http_Rules\<close> and \<open>Map_Distribution\<close>; \<open>Message_Codec\<close>, \<open>Mqtt_Router\<close>,
    \<open>Edge_Communication\<close>, \<open>Mqtt_Client\<close>, \<open>Mqtt_Delivery\<close> with \<open>Edge_Rules\<close> and \<open>Mqtt_Rules\<close>; \<open>Websocket_Server\<close> with \<open>Websocket_Rules\<close>,
    \<open>Topic_Manager\<close>, \<open>Timer\<close>; \<open>Edge_Config\<close>.
  \<^item> Edge server as a whole (\<open>edge_server_app.cpp\<close>): \<open>Edge_App\<close> joins the components, \<open>Edge_App_Rules\<close>, \<open>Edge_Lives\<close> and
    \<open>Edge_Publishing\<close> say what holds over the turns of all its threads, failures of the database and restarts.
  \<^item> Robot, agent (\<open>src/robot_ws/src/amr_agent\<close>): \<open>Agent_Bootstrap\<close>, \<open>Agent_Codec\<close>, \<open>Task_Bridge\<close>, \<open>Pending_Reports\<close>,
    \<open>Agent_Node\<close>, \<open>Map_Manager\<close>, joined by \<open>Agent_App\<close>; \<open>Agent_Rules\<close>, \<open>Bootstrap_Rules\<close>, \<open>Map_Manager_Rules\<close>, \<open>Robot_Map\<close>.
  \<^item> Robot, behaviour and navigation (\<open>amr_behavior_manager\<close>, \<open>amr_navigation\<close>, \<open>amr_interfaces\<close>): \<open>Ros_Messages\<close>,
    \<open>Zone_Stations\<close>, \<open>Behavior\<close>, \<open>Navigation_Client\<close>, \<open>Navigation\<close>, \<open>Nav2_Lifecycle\<close>; \<open>Behavior_Rules\<close>,
    \<open>Carry_Navigation\<close>.
  \<^item> Robot and edge server together: \<open>Robot_Edge\<close> (messages between the handlers of both), \<open>Robot_Machine\<close> (agent and behaviour
    manager as one machine), \<open>Warehouse\<close> and \<open>Task_Uptake\<close> (a task from the HTTP interface to a robot and back).
  \<^item> Simulation (\<open>src/simulation_ws/src/simulation_manager\<close>): \<open>Simulation_Models\<close>, \<open>Simulation_Lifecycle\<close>, \<open>Simulation_Rules\<close>,
    \<open>Websocket_Client\<close>, \<open>Websocket_Client_Rules\<close>, \<open>Robot_List\<close>, joined by \<open>Simulation_Node\<close>; with the edge server:
    \<open>Simulated_Warehouse\<close> (from a registration to the model in Gazebo).
  \<^item> Map editor (\<open>src/tool/tool_ws/src/warehouse_tool\<close>): \<open>Tool_Managers\<close>, \<open>Map_Files\<close>, \<open>Map_File_Rules\<close>, \<open>Markers\<close>,
    \<open>Tool_Editors\<close>, \<open>Editor_Rules\<close>.

  \<^bold>\<open>What the lemmas show.\<close>

  \<^item> The store: every operation of the database is atomic, keeps the constraints of its tables and writes only the tables of
    its part; in every reachable state the quantities of a task balance its allocations; approval and settlement succeed exactly
    under stated conditions; the states of a task follow a fixed order. One flaw of the rules is proved too: a request
    for several goods never succeeds as one.
  \<^item> The edge server: over any interleaving of turns, failures and restarts its stores stay in order together, a robot keeps its
    identity, two robots never get the same free start pose before the next activation of a map, and a registration
    reaches the clients of the robot list at once.
  \<^item> Interfaces: the topic filter is that of MQTT; what one side writes the other side reads back; refused requests change
    nothing; the queue of a WebSocket session refines a bounded first-in first-out queue; subscriptions after a connection
    deliver what the handlers expect.
  \<^item> The robot: types and transitions of the behaviour, guards of its requests, keeping of reports until they are acknowledged,
    containment of a map update in its directories, the outcome of a goal; and what does not work as meant: no message of the edge server
    makes the robot ask for goods, its reports of a carry are refused, a cancelled robot drives on, a replaced goal ends wrongly.
  \<^item> The simulation settles on the robots of the last list, and a robot that registers gets its model there; the map that the editor writes is the map the other programs read.

  \<^bold>\<open>Conventions, bounds and fuel.\<close> Every exception, early return and error code is a branch: \<open>option\<close> or a sum where the code
  may throw or refuse. The C++ integer types are \<open>int\<close> with the conversions of the prelude written out where a value may wrap,
  \<open>double\<close> is \<open>real\<close> (rounding is not modelled, the narrowing to \<open>float\<close> is a parameter where it occurs). A loop that
  waits is a function of the list of the rounds or callbacks that it meets, so that it ends with the list; the only
  recursion of the code that need not end, \<open>loadMapMetadata\<close>, is a \<open>partial_function\<close>, and it is proved
  when it returns. The loop that fills in the parameter file of Nav2 ends because every round moves the position in the text
  forward; its reference \<open>substitute\<close> runs with the length of the text as fuel, which one step per character cannot exhaust.
  Threads are sequences of turns: a turn of a thread (a handler, a callback, a statement sequence under one mutex) is one
  step, and the steps of different threads interleave in any order; operations of the database are steps of their own,
  so handlers interleave between them. ROS delivers a message of a robot to its
  other nodes before the next turn.

  \<^bold>\<open>Parameters.\<close> Code that is not in the repository is an argument: the engine of SQLite (which statements fail), the YAML
  library (a record of accessors), JSON text (a payload is the document it holds, or \<open>None\<close> when it does not parse), paho and the broker (outcomes
  of its calls), libwebsockets and httplib (the events they deliver), libzip (the entries of an archive), the transforms and the action library
  of ROS (with the documented states of a goal as the hypothesis \<open>action_states\<close>), the file system (a map from paths to contents, and
  which operations fail), the clock and the random numbers.

  \<^bold>\<open>Not modelled.\<close> Logging (\<open>LogDefine.h\<close>, \<open>ros_logger.h\<close>) has no effect on the state. The \<open>main\<close> functions and
  \<open>context/service_context\<close> create objects and pass pointers on. Destruction of objects at the end of a process, time stamps inside ROS
  messages and the formatting of log texts are left out. \<open>edge_server/src/http/http_client.cpp\<close> is the text of the robot's HTTP client, which is modelled, and is
  not called. The vendored libraries (\<open>third_party\<close>, \<open>json.hpp\<close>) are parameters as said above; launch
  files, robot descriptions and the directory \<open>cloud_platform\<close> hold no C++ of the system.
\<close>

end
